(* ===== verification/Py_Prelude.thy ===== *)
theory Py_Prelude
  imports Main
begin

section \<open>Shared vocabulary: Python strings, lists and results\<close>

text \<open>
  A Python \<^verbatim>\<open>str\<close> is a sequence of Unicode code points, here a list of natural numbers
  (\<open>ustr\<close>); ASCII literals of the source are written \<open>u ''abc''\<close>. This theory holds the
  string methods the components call (\<^verbatim>\<open>split\<close>, \<^verbatim>\<open>join\<close>, \<^verbatim>\<open>strip\<close>, \<^verbatim>\<open>startswith\<close>,
  \<^verbatim>\<open>replace\<close>, substring tests), the result bind used for exceptions, and the generic facts
  about them.
\<close>

subsection \<open>Collections of facts\<close>

named_theorems ustr_simps \<open>evaluation of string literals and string methods\<close>

named_theorems result_splits \<open>case rules for exceptions as values\<close>

subsection \<open>Strings as code point lists\<close>

type_synonym ustr = "nat list"

definition u :: "string \<Rightarrow> ustr" where
  "u s = map of_char s"

lemma u_Nil [simp]: "u [] = []"
  by (simp add: u_def)

lemma u_Cons [ustr_simps]: "u (c # s) = of_char c # u s"
  by (simp add: u_def)

lemma u_eq_iff [simp]: "u s = u t \<longleftrightarrow> s = t"
  by (simp add: u_def inj_map_eq_map inj_on_def)

lemma u_eq_Nil_iff [simp]: "u s = [] \<longleftrightarrow> s = []" "[] = u s \<longleftrightarrow> s = []"
  by (auto simp: u_def)

lemma length_u [simp]: "length (u s) = length s"
  by (simp add: u_def)

lemma u_append: "u (s @ t) = u s @ u t"
  by (simp add: u_def)

subsection \<open>White space and trimming\<close>

text \<open>
  \<^verbatim>\<open>str.isspace\<close>, which is also what \<^verbatim>\<open>str.strip()\<close> trims and what \<^verbatim>\<open>\s\<close> matches in a
  \<^verbatim>\<open>str\<close> pattern: the Unicode white space code points.
\<close>

definition is_space :: "nat \<Rightarrow> bool" where
  "is_space c \<longleftrightarrow> (9 \<le> c \<and> c \<le> 13) \<or> (28 \<le> c \<and> c \<le> 32) \<or> c = 133 \<or> c = 160 \<or> c = 5760
     \<or> (8192 \<le> c \<and> c \<le> 8202) \<or> c = 8232 \<or> c = 8233 \<or> c = 8239 \<or> c = 8287 \<or> c = 12288"

definition lstrip :: "ustr \<Rightarrow> ustr" where
  "lstrip s = dropWhile is_space s"

definition rstrip :: "ustr \<Rightarrow> ustr" where
  "rstrip s = rev (dropWhile is_space (rev s))"

definition strip :: "ustr \<Rightarrow> ustr" where
  "strip s = rstrip (lstrip s)"

subsection \<open>Prefixes, substrings, replacement\<close>

definition startswith :: "ustr \<Rightarrow> ustr \<Rightarrow> bool" where
  "startswith s p \<longleftrightarrow> take (length p) s = p"

fun contains :: "ustr \<Rightarrow> ustr \<Rightarrow> bool" where
  "contains p [] = (p = [])"
| "contains p (c # s) = (startswith (c # s) p \<or> contains p s)"

text \<open>
  \<^verbatim>\<open>s.replace(old, new)\<close> for a non-empty \<^verbatim>\<open>old\<close>: non-overlapping occurrences, left to right.
  Every call of the source passes a non-empty literal.
\<close>

function replace_all :: "ustr \<Rightarrow> ustr \<Rightarrow> ustr \<Rightarrow> ustr" where
  "replace_all old new [] = []"
| "replace_all old new (c # s) =
     (if old \<noteq> [] \<and> startswith (c # s) old
      then new @ replace_all old new (drop (length old) (c # s))
      else c # replace_all old new s)"
  by pat_completeness auto
termination
  by (relation "measure (\<lambda>(old, new, s). length s)") auto

subsection \<open>Splitting on a separator character and joining\<close>

fun split_on :: "nat \<Rightarrow> ustr \<Rightarrow> ustr list" where
  "split_on d [] = [[]]"
| "split_on d (c # s) =
     (if c = d then [] # split_on d s
      else (case split_on d s of [] \<Rightarrow> [[c]] | x # xs \<Rightarrow> (c # x) # xs))"

fun join :: "ustr \<Rightarrow> ustr list \<Rightarrow> ustr" where
  "join sep [] = []"
| "join sep [x] = x"
| "join sep (x # y # xs) = x @ sep @ join sep (y # xs)"

abbreviation nl :: nat where "nl \<equiv> 10"

abbreviation split_lines :: "ustr \<Rightarrow> ustr list" where
  "split_lines s \<equiv> split_on nl s"

abbreviation join_lines :: "ustr list \<Rightarrow> ustr" where
  "join_lines xs \<equiv> join [nl] xs"

lemma split_on_not_Nil [simp]: "split_on d s \<noteq> []"
  by (induction s) (auto split: list.split)

lemma join_Cons: "xs \<noteq> [] \<Longrightarrow> join sep (x # xs) = x @ sep @ join sep xs"
  by (cases xs) auto

text \<open>Splitting and joining on the same separator are inverse, in both directions.\<close>

lemma join_split_on [simp]: "join [d] (split_on d s) = s"
proof (induction s)
  case (Cons c s)
  then show ?case
    by (cases "split_on d s") (auto simp: join_Cons, metis append_Cons join.simps(2,3) list.exhaust)
qed simp

lemma split_on_append_sep:
  "d \<notin> set x \<Longrightarrow> split_on d (x @ d # s) = x # split_on d s"
  by (induction x) auto

lemma split_on_no_sep: "d \<notin> set x \<Longrightarrow> split_on d x = [x]"
  by (induction x) auto

lemma split_on_join:
  "xs \<noteq> [] \<Longrightarrow> \<forall>x\<in>set xs. d \<notin> set x \<Longrightarrow> split_on d (join [d] xs) = xs"
  by (induction "[d]" xs rule: join.induct) (auto simp: split_on_no_sep split_on_append_sep)

lemma split_on_parts: "x \<in> set (split_on d s) \<Longrightarrow> d \<notin> set x"
  by (induction s arbitrary: x) (auto split: if_splits list.splits)

subsection \<open>Exceptions as values\<close>

definition bind_res :: "'e + 'a \<Rightarrow> ('a \<Rightarrow> 'e + 'b) \<Rightarrow> 'e + 'b" where
  "bind_res r f = (case r of Inl e \<Rightarrow> Inl e | Inr x \<Rightarrow> f x)"

lemma bind_res_simps [simp]: "bind_res (Inl e) f = Inl e" "bind_res (Inr x) f = f x"
  by (simp_all add: bind_res_def)

lemma bind_res_eq_Inr [simp]: "bind_res r f = Inr y \<longleftrightarrow> (\<exists>x. r = Inr x \<and> f x = Inr y)"
  by (cases r) auto

lemma bind_res_eq_Inl:
  "bind_res r f = Inl e \<longleftrightarrow> r = Inl e \<or> (\<exists>x. r = Inr x \<and> f x = Inl e)"
  by (cases r) auto

text \<open>\<^verbatim>\<open>if not b: raise e\<close>.\<close>

definition require :: "bool \<Rightarrow> 'e \<Rightarrow> 'e + unit" where
  "require b e = (if b then Inr () else Inl e)"

lemma require_eq_Inr [simp]: "require b e = Inr x \<longleftrightarrow> b"
  by (simp add: require_def)

lemma require_True [simp]: "require True e = Inr ()"
  by (simp add: require_def)

text \<open>A loop that evaluates a fallible call for every element and stops at the first raise.\<close>

fun map_res :: "('a \<Rightarrow> 'e + 'b) \<Rightarrow> 'a list \<Rightarrow> 'e + 'b list" where
  "map_res f [] = Inr []"
| "map_res f (x # xs) = bind_res (f x) (\<lambda>y. bind_res (map_res f xs) (\<lambda>ys. Inr (y # ys)))"

lemma map_res_eq_Inr:
  "map_res f xs = Inr ys \<longleftrightarrow> list_all2 (\<lambda>x y. f x = Inr y) xs ys"
  by (induction xs arbitrary: ys) (auto simp: list_all2_Cons1)

subsection \<open>Dictionaries in insertion order\<close>

text \<open>\<^verbatim>\<open>d[k] = v\<close>: an existing key keeps its position, a new key goes to the end.\<close>

fun al_set :: "'k \<Rightarrow> 'v \<Rightarrow> ('k \<times> 'v) list \<Rightarrow> ('k \<times> 'v) list" where
  "al_set k v [] = [(k, v)]"
| "al_set k v ((k', v') # d) = (if k = k' then (k, v) # d else (k', v') # al_set k v d)"

definition al_del :: "'k \<Rightarrow> ('k \<times> 'v) list \<Rightarrow> ('k \<times> 'v) list" where
  "al_del k d = filter (\<lambda>e. fst e \<noteq> k) d"

lemma map_of_al_set [simp]: "map_of (al_set k v d) = (map_of d)(k \<mapsto> v)"
  by (induction d) (auto simp: fun_eq_iff)

lemma keys_al_set: "map fst (al_set k v d) = (if k \<in> fst ` set d then map fst d else map fst d @ [k])"
  by (induction k v d rule: al_set.induct) simp_all

lemma set_keys_al_set [simp]: "fst ` set (al_set k v d) = insert k (fst ` set d)"
  by (induction k v d rule: al_set.induct) (simp_all add: insert_commute)

lemma distinct_al_set [simp]: "distinct (map fst d) \<Longrightarrow> distinct (map fst (al_set k v d))"
  by (auto simp: keys_al_set)

lemma al_set_new: "k \<notin> fst ` set d \<Longrightarrow> al_set k v d = d @ [(k, v)]"
  by (induction d) auto

lemma al_set_not_Nil [simp]: "al_set k v d \<noteq> []"
  by (cases d) (auto split: if_splits)

lemma map_of_al_del [simp]: "map_of (al_del k d) = (map_of d)(k := None)"
  by (induction d) (auto simp: al_del_def fun_eq_iff)

lemma set_keys_al_del [simp]: "fst ` set (al_del k d) = fst ` set d - {k}"
  by (auto simp: al_del_def)

lemma distinct_al_del [simp]: "distinct (map fst d) \<Longrightarrow> distinct (map fst (al_del k d))"
  by (simp add: al_del_def distinct_map_filter)

subsection \<open>Slices\<close>

text \<open>\<^verbatim>\<open>xs[i:j]\<close> for non-negative bounds.\<close>

definition slice :: "nat \<Rightarrow> nat \<Rightarrow> 'a list \<Rightarrow> 'a list" where
  "slice i j xs = take (j - i) (drop i xs)"

lemma slice_append_drop:
  "i \<le> j \<Longrightarrow> slice i j xs @ drop j xs = drop i xs"
  by (metis append_take_drop_id drop_drop le_add_diff_inverse2 slice_def)

lemma length_slice: "j \<le> length xs \<Longrightarrow> length (slice i j xs) = j - i"
  by (simp add: slice_def)

subsection \<open>Interface: searching for the first hit\<close>

text \<open>
  Several loops of the program scan the indices from \<^verbatim>\<open>start\<close> upwards and return the first one
  that satisfies a test. The contract is that characterisation; what follows from it is proved once.
\<close>

locale first_hit =
  fixes search :: "nat \<Rightarrow> nat option" and hit :: "nat \<Rightarrow> bool"
  assumes search_Some: "search start = Some i \<longleftrightarrow>
    start \<le> i \<and> hit i \<and> (\<forall>j. start \<le> j \<and> j < i \<longrightarrow> \<not> hit j)"
begin

lemma search_complete:
  assumes "start \<le> i" and "hit i"
  shows "\<exists>k. search start = Some k \<and> k \<le> i"
proof -
  from assms obtain k where k: "start \<le> k \<and> hit k" "\<forall>j<k. \<not> (start \<le> j \<and> hit j)"
    using exists_least_iff [of "\<lambda>i. start \<le> i \<and> hit i"] by blast
  with assms have "k \<le> i" using not_le by blast
  moreover from k have "search start = Some k" by (simp add: search_Some)
  ultimately show ?thesis by blast
qed

lemma search_None: "search start = None \<longleftrightarrow> (\<forall>i. start \<le> i \<longrightarrow> \<not> hit i)"
proof
  assume "search start = None"
  then show "\<forall>i. start \<le> i \<longrightarrow> \<not> hit i"
    using search_complete by fastforce
next
  assume "\<forall>i. start \<le> i \<longrightarrow> \<not> hit i"
  then show "search start = None"
    by (cases "search start") (auto simp: search_Some)
qed

lemma search_sound: "search start = Some i \<Longrightarrow> start \<le> i \<and> hit i"
  by (simp add: search_Some)

end

subsection \<open>Interface: tables that only grow\<close>

text \<open>
  The contract of a table indexed by identifiers whose steps may only append fresh identifiers. Over any
  number of steps the old identifiers keep their positions and no identifier occurs twice.
\<close>

locale append_only =
  fixes idents :: "'s \<Rightarrow> 'i list" and step :: "'s \<Rightarrow> 's \<Rightarrow> bool"
  assumes step_appends: "step s s' \<Longrightarrow>
    \<exists>new. idents s' = idents s @ new \<and> distinct new \<and> set new \<inter> set (idents s) = {}"
begin

lemma reachable_ids:
  "step\<^sup>*\<^sup>* s s' \<Longrightarrow> distinct (idents s) \<Longrightarrow> \<exists>new. idents s' = idents s @ new \<and> distinct (idents s')"
proof (induction rule: rtranclp_induct)
  case (step s' s'')
  then obtain new where "idents s' = idents s @ new" "distinct (idents s')" by blast
  with step_appends [OF step.hyps(2)] show ?case by fastforce
qed simp

lemma reachable_mem: "step\<^sup>*\<^sup>* s s' \<Longrightarrow> i \<in> set (idents s) \<Longrightarrow> i \<in> set (idents s')"
  by (induction rule: rtranclp_induct) (fastforce dest: step_appends)+

end

end
