(* ===== verification/Utf8_Quote.thy ===== *)
theory Utf8_Quote
  imports Py_Prelude
begin

section \<open>UTF-8 and percent encoding\<close>

text \<open>
  The strict UTF-8 codec and \<^verbatim>\<open>urllib.parse.quote\<close> / \<^verbatim>\<open>unquote\<close> as the resource URIs use them
  (\<^verbatim>\<open>safe=""\<close>, \<^verbatim>\<open>errors="strict"\<close>). A byte is a natural number below 256; an encoding or decoding
  error is \<open>None\<close>.
\<close>

subsection \<open>UTF-8\<close>

definition utf8_encode_char :: "nat \<Rightarrow> nat list option" where
  "utf8_encode_char c =
     (if c < 0x80 then Some [c]
      else if c < 0x800 then Some [0xC0 + c div 64, 0x80 + c mod 64]
      else if 0xD800 \<le> c \<and> c \<le> 0xDFFF then None
      else if c < 0x10000 then Some [0xE0 + c div 4096, 0x80 + c div 64 mod 64, 0x80 + c mod 64]
      else if c < 0x110000
      then Some [0xF0 + c div 262144, 0x80 + c div 4096 mod 64, 0x80 + c div 64 mod 64, 0x80 + c mod 64]
      else None)"

fun utf8_encode :: "ustr \<Rightarrow> nat list option" where
  "utf8_encode [] = Some []"
| "utf8_encode (c # s) =
     (case (utf8_encode_char c, utf8_encode s) of (Some a, Some b) \<Rightarrow> Some (a @ b) | _ \<Rightarrow> None)"

definition continuation :: "nat \<Rightarrow> bool" where
  "continuation b \<longleftrightarrow> 0x80 \<le> b \<and> b < 0xC0"

text \<open>One character of the input and the rest of it; overlong forms, surrogates and values past
  U+10FFFF are errors.\<close>

definition utf8_step :: "nat list \<Rightarrow> (nat \<times> nat list) option" where
  "utf8_step bs = (case bs of
     [] \<Rightarrow> None
   | b0 # r0 \<Rightarrow>
     if b0 < 0x80 then Some (b0, r0)
     else if b0 < 0xC0 then None
     else case r0 of [] \<Rightarrow> None | b1 # r1 \<Rightarrow>
     if \<not> continuation b1 then None
     else if b0 < 0xE0 then
       (let c = (b0 - 0xC0) * 64 + (b1 - 0x80) in if c < 0x80 then None else Some (c, r1))
     else case r1 of [] \<Rightarrow> None | b2 # r2 \<Rightarrow>
     if \<not> continuation b2 then None
     else if b0 < 0xF0 then
       (let c = (b0 - 0xE0) * 4096 + (b1 - 0x80) * 64 + (b2 - 0x80)
        in if c < 0x800 \<or> (0xD800 \<le> c \<and> c \<le> 0xDFFF) then None else Some (c, r2))
     else case r2 of [] \<Rightarrow> None | b3 # r3 \<Rightarrow>
     if \<not> continuation b3 then None
     else
       (let c = (b0 - 0xF0) * 262144 + (b1 - 0x80) * 4096 + (b2 - 0x80) * 64 + (b3 - 0x80)
        in if c < 0x10000 \<or> 0x110000 \<le> c then None else Some (c, r3)))"

lemma utf8_step_shorter: "utf8_step bs = Some (c, rest) \<Longrightarrow> length rest < length bs"
  by (auto simp: utf8_step_def Let_def split: list.split_asm if_split_asm)

function utf8_decode :: "nat list \<Rightarrow> ustr option" where
  "utf8_decode bs =
     (if bs = [] then Some []
      else case utf8_step bs of
             None \<Rightarrow> None
           | Some (c, rest) \<Rightarrow> map_option (\<lambda>s. c # s) (utf8_decode rest))"
  by pat_completeness auto
termination
  by (relation "measure length") (auto dest: utf8_step_shorter)

declare utf8_decode.simps [simp del]

lemma utf8_decode_Nil [simp]: "utf8_decode [] = Some []"
  by (simp add: utf8_decode.simps)

lemma utf8_encode_char_not_Nil: "utf8_encode_char c = Some e \<Longrightarrow> e \<noteq> []"
  by (auto simp: utf8_encode_char_def split: if_split_asm)

lemma utf8_encode_char_byte: "utf8_encode_char c = Some e \<Longrightarrow> b \<in> set e \<Longrightarrow> b < 256"
  by (auto simp: utf8_encode_char_def split: if_split_asm)

lemma utf8_encode_byte: "utf8_encode s = Some bs \<Longrightarrow> b \<in> set bs \<Longrightarrow> b < 256"
  by (induction s arbitrary: bs) (auto split: option.split_asm dest: utf8_encode_char_byte)

lemma base64_digits:
  "c div 64 * 64 + c mod 64 = (c :: nat)"
  "c div 4096 * 4096 + c div 64 mod 64 * 64 + c mod 64 = c"
  "c div 262144 * 262144 + c div 4096 mod 64 * 4096 + c div 64 mod 64 * 64 + c mod 64 = c"
proof -
  have q: "c div 4096 = c div 64 div 64" "c div 262144 = c div 64 div 64 div 64"
    by (simp_all add: div_mult2_eq [symmetric])
  have "x div 64 * 64 + x mod 64 = x" for x :: nat by (rule div_mult_mod_eq)
  from this [of c] this [of "c div 64"] this [of "c div 64 div 64"] show
    "c div 64 * 64 + c mod 64 = c"
    "c div 4096 * 4096 + c div 64 mod 64 * 64 + c mod 64 = c"
    "c div 262144 * 262144 + c div 4096 mod 64 * 4096 + c div 64 mod 64 * 64 + c mod 64 = c"
    unfolding q by linarith+
qed

lemma utf8_step_encode: "utf8_encode_char c = Some e \<Longrightarrow> utf8_step (e @ rest) = Some (c, rest)"
proof -
  have less: "c div 64 < 32" if "c < 0x800" using that by simp
  have less2: "c div 4096 < 16" if "c < 0x10000" using that by simp
  assume "utf8_encode_char c = Some e"
  with base64_digits [of c] less less2 show ?thesis
    by (auto simp: utf8_encode_char_def utf8_step_def continuation_def Let_def split: if_split_asm)
qed

lemma utf8_round_trip_lemma: "utf8_encode s = Some bs \<Longrightarrow> utf8_decode bs = Some s"
proof (induction s arbitrary: bs)
  case (Cons c s)
  then obtain a b where ab: "utf8_encode_char c = Some a" "utf8_encode s = Some b" "bs = a @ b"
    by (auto split: option.split_asm)
  with Cons.IH [OF ab(2)] utf8_step_encode [OF ab(1), of b] utf8_encode_char_not_Nil [OF ab(1)] show ?case
    by (subst utf8_decode.simps) auto
qed simp

subsection \<open>Decoding and encoding again\<close>

lemma digits2: "y < 64 \<Longrightarrow> (x * 64 + y) div 64 = x \<and> (x * 64 + y) mod 64 = (y::nat)"
  by simp

lemma digits3:
  assumes "y < 64" and "z < (64::nat)"
  shows "(x * 4096 + y * 64 + z) div 4096 = x" "(x * 4096 + y * 64 + z) div 64 mod 64 = y"
    "(x * 4096 + y * 64 + z) mod 64 = z"
proof -
  have e: "x * 4096 + y * 64 + z = (x * 64 + y) * 64 + z" by simp
  have d: "(x * 4096 + y * 64 + z) div 64 = x * 64 + y" unfolding e using assms by simp
  show "(x * 4096 + y * 64 + z) div 64 mod 64 = y" unfolding d using assms by simp
  have "(x * 4096 + y * 64 + z) div 4096 = (x * 4096 + y * 64 + z) div 64 div 64" by (simp add: div_mult2_eq [symmetric])
  then show "(x * 4096 + y * 64 + z) div 4096 = x" unfolding d using assms by simp
  show "(x * 4096 + y * 64 + z) mod 64 = z" unfolding e using assms by (simp only: mod_mult_self3 mod_less)
qed

lemma digits4:
  assumes "y < 64" and "z < 64" and "t < (64::nat)"
  shows "(x * 262144 + y * 4096 + z * 64 + t) div 262144 = x" "(x * 262144 + y * 4096 + z * 64 + t) div 4096 mod 64 = y"
    "(x * 262144 + y * 4096 + z * 64 + t) div 64 mod 64 = z" "(x * 262144 + y * 4096 + z * 64 + t) mod 64 = t"
proof -
  let ?n = "x * 262144 + y * 4096 + z * 64 + t"
  have e: "?n = (x * 4096 + y * 64 + z) * 64 + t" by simp
  have d: "?n div 64 = x * 4096 + y * 64 + z" unfolding e using assms by simp
  have q: "?n div 4096 = ?n div 64 div 64" "?n div 262144 = ?n div 64 div 4096"
    by (simp_all add: div_mult2_eq [symmetric])
  show "?n div 262144 = x" unfolding q d by (rule digits3(1) [OF assms(1,2)])
  show "?n div 4096 mod 64 = y" unfolding q d by (rule digits3(2) [OF assms(1,2)])
  show "?n div 64 mod 64 = z" unfolding d by (rule digits3(3) [OF assms(1,2)])
  show "?n mod 64 = t" unfolding e using assms by (simp only: mod_mult_self3 mod_less)
qed

lemma continuation_digit: "continuation b \<Longrightarrow> \<exists>d<64. b = 0x80 + d"
  by (rule exI [of _ "b - 0x80"]) (auto simp: continuation_def)

lemma utf8_step_inverse:
  assumes "utf8_step bs = Some (c, rest)"
  shows "\<exists>e. utf8_encode_char c = Some e \<and> bs = e @ rest"
proof -
  consider (one) "c < 0x80" "bs = c # rest"
    | (two) b y where "bs = b # (0x80 + y) # rest" "0xC0 \<le> b" "b < 0xE0" "y < 64"
        "c = (b - 0xC0) * 64 + y" "0x80 \<le> c"
    | (three) b y z where "bs = b # (0x80 + y) # (0x80 + z) # rest" "0xE0 \<le> b" "b < 0xF0" "y < 64" "z < 64"
        "c = (b - 0xE0) * 4096 + y * 64 + z" "0x800 \<le> c" "c < 0xD800 \<or> 0xDFFF < c"
    | (four) b y z t where "bs = b # (0x80 + y) # (0x80 + z) # (0x80 + t) # rest" "0xF0 \<le> b" "y < 64" "z < 64" "t < 64"
        "c = (b - 0xF0) * 262144 + y * 4096 + z * 64 + t" "0x10000 \<le> c" "c < 0x110000"
    using assms by (auto simp: utf8_step_def Let_def not_less not_le split: list.split_asm if_split_asm dest!: continuation_digit)
  then show ?thesis
  proof cases
    case two
    then have "c < 0x800" by simp
    with two digits2 [of y "b - 0xC0"] show ?thesis by (simp add: utf8_encode_char_def)
  next
    case three
    then have "c < 0x10000" by simp
    with three digits3 [of y z "b - 0xE0"] show ?thesis by (auto simp: utf8_encode_char_def)
  next
    case four
    with digits4 [of y z t "b - 0xF0"] show ?thesis by (simp add: utf8_encode_char_def)
  qed (simp add: utf8_encode_char_def)
qed

lemma utf8_decode_encode: "utf8_decode bs = Some s \<Longrightarrow> utf8_encode s = Some bs"
proof (induction bs arbitrary: s rule: utf8_decode.induct)
  case (1 bs)
  show ?case
  proof (cases "bs = []")
    case False
    with "1.prems" obtain c rest s' where step: "utf8_step bs = Some (c, rest)" and rest: "utf8_decode rest = Some s'"
      and s: "s = c # s'" by (subst (asm) utf8_decode.simps) (auto split: option.splits)
    have "utf8_encode s' = Some rest" by (rule "1.IH" [OF False step refl rest])
    with utf8_step_inverse [OF step] s show ?thesis by auto
  qed (use "1.prems" in simp)
qed


subsection \<open>Percent encoding\<close>

text \<open>The bytes \<^verbatim>\<open>quote\<close> leaves as they are: letters, digits and \<^verbatim>\<open>_.-~\<close>.\<close>

definition unreserved :: "nat \<Rightarrow> bool" where
  "unreserved b \<longleftrightarrow> (65 \<le> b \<and> b \<le> 90) \<or> (97 \<le> b \<and> b \<le> 122) \<or> (48 \<le> b \<and> b \<le> 57)
     \<or> b = 95 \<or> b = 46 \<or> b = 45 \<or> b = 126"

definition hex_upper :: "nat \<Rightarrow> nat" where
  "hex_upper d = (if d < 10 then 48 + d else 55 + d)"

definition quote_byte :: "nat \<Rightarrow> ustr" where
  "quote_byte b = (if unreserved b then [b] else [37, hex_upper (b div 16), hex_upper (b mod 16)])"

definition quote :: "ustr \<Rightarrow> ustr option" where
  "quote s = map_option (\<lambda>bs. concat (map quote_byte bs)) (utf8_encode s)"

definition hex_value :: "nat \<Rightarrow> nat option" where
  "hex_value c =
     (if 48 \<le> c \<and> c \<le> 57 then Some (c - 48)
      else if 65 \<le> c \<and> c \<le> 70 then Some (c - 55)
      else if 97 \<le> c \<and> c \<le> 102 then Some (c - 87)
      else None)"

fun unquote_bytes :: "ustr \<Rightarrow> nat list" where
  "unquote_bytes (c # a # b # s) =
     (case (if c = 37 then (hex_value a, hex_value b) else (None, None)) of
        (Some x, Some y) \<Rightarrow> (16 * x + y) # unquote_bytes s
      | _ \<Rightarrow> c # unquote_bytes (a # b # s))"
| "unquote_bytes s = s"

definition unquote :: "ustr \<Rightarrow> ustr option" where
  "unquote s = utf8_decode (unquote_bytes s)"

text \<open>\<^verbatim>\<open>%(?![0-9A-Fa-f]{2})\<close> is found somewhere.\<close>

fun invalid_percent_escape :: "ustr \<Rightarrow> bool" where
  "invalid_percent_escape [] = False"
| "invalid_percent_escape (c # s) =
     ((c = 37 \<and> (case s of a # b # _ \<Rightarrow> hex_value a = None \<or> hex_value b = None | _ \<Rightarrow> True))
      \<or> invalid_percent_escape s)"

lemma hex_value_upper: "d < 16 \<Longrightarrow> hex_value (hex_upper d) = Some d"
  by (auto simp: hex_value_def hex_upper_def)

lemma unquote_plain: "c \<noteq> 37 \<Longrightarrow> unquote_bytes (c # s) = c # unquote_bytes s"
  by (cases s rule: unquote_bytes.cases) auto

lemma unquote_quote_byte: "b < 256 \<Longrightarrow> unquote_bytes (quote_byte b @ s) = b # unquote_bytes s"
  by (auto simp: quote_byte_def unreserved_def unquote_plain hex_value_upper)

lemma unquote_quote_bytes:
  "\<forall>b\<in>set bs. b < 256 \<Longrightarrow> unquote_bytes (concat (map quote_byte bs)) = bs"
  by (induction bs) (auto simp: unquote_quote_byte)

lemma invalid_quote_byte:
  assumes "b < 256"
  shows "invalid_percent_escape (quote_byte b @ s) = invalid_percent_escape s"
proof (cases "unreserved b")
  case True
  then have "b \<noteq> 37" by (auto simp: unreserved_def)
  with True show ?thesis by (simp add: quote_byte_def)
next
  case False
  have "hex_upper d \<noteq> 37" for d by (simp add: hex_upper_def)
  moreover have "b div 16 < 16" "b mod 16 < 16" using assms by simp_all
  ultimately show ?thesis using False by (simp add: quote_byte_def hex_value_upper)
qed

lemma quote_valid: "\<forall>b\<in>set bs. b < 256 \<Longrightarrow> \<not> invalid_percent_escape (concat (map quote_byte bs))"
  by (induction bs) (simp_all add: invalid_quote_byte)

text \<open>The characters of a quoted string.\<close>

definition quoted_char :: "nat \<Rightarrow> bool" where
  "quoted_char c \<longleftrightarrow> unreserved c \<or> c = 37"

lemma unreserved_hex: "d < 16 \<Longrightarrow> unreserved (hex_upper d)"
  unfolding unreserved_def hex_upper_def by (cases "d < 10") simp_all

lemma quote_byte_chars:
  assumes "b < 256" and "c \<in> set (quote_byte b)"
  shows "quoted_char c"
proof -
  have "b div 16 < 16" "b mod 16 < 16" using assms(1) by simp_all
  with assms(2) show ?thesis
    by (auto simp: quote_byte_def quoted_char_def unreserved_hex split: if_split_asm)
qed

lemma quote_chars: "quote s = Some q \<Longrightarrow> c \<in> set q \<Longrightarrow> quoted_char c"
  by (auto simp: quote_def intro: quote_byte_chars [OF utf8_encode_byte])

lemma unquote_quote: "quote s = Some q \<Longrightarrow> unquote q = Some s \<and> \<not> invalid_percent_escape q"
  by (auto simp: quote_def unquote_def unquote_quote_bytes utf8_encode_byte utf8_round_trip_lemma quote_valid)

lemma quote_not_Nil:
  assumes "quote s = Some q" and "s \<noteq> []"
  shows "q \<noteq> []"
proof
  assume "q = []"
  with unquote_quote [OF assms(1)] assms(2) show False by (simp add: unquote_def)
qed

end
