(* ===== verification/Text_Patch_Models.thy ===== *)
theory Text_Patch_Models
  imports Py_Prelude
begin

section \<open>Text patches: data model\<close>

text \<open>
  The data classes of \<^verbatim>\<open>app/services/infrastructure/workspace_files/text_patch/models.py\<close>
  and \<^verbatim>\<open>IndentStyle\<close>, \<^verbatim>\<open>FuzzMatch\<close> of \<^verbatim>\<open>matcher.py\<close>. \<^verbatim>\<open>Fuzz\<close> is an \<^verbatim>\<open>IntFlag\<close>:
  a natural number combined with bitwise \<open>OR\<close> and tested with bitwise \<open>AND\<close>. A Python
  \<^verbatim>\<open>dict\<close> from paths is an association list in insertion order. Exceptions are the values of
  \<open>patch_error\<close>; the constructors follow the exception classes, their arguments are what the
  message is built from.
\<close>

unbundle bit_operations_syntax

datatype action_type = ADD | DELETE | UPDATE

type_synonym fuzz = nat

definition fuzz_NONE :: fuzz where "fuzz_NONE = 0"

definition fuzz_IGNORED_TRAILING_WHITESPACE :: fuzz where
  "fuzz_IGNORED_TRAILING_WHITESPACE = push_bit 1 1"

definition fuzz_NORMALIZED_EXPLICIT_TAB :: fuzz where
  "fuzz_NORMALIZED_EXPLICIT_TAB = push_bit 2 1"

definition fuzz_IGNORED_WHITESPACE :: fuzz where
  "fuzz_IGNORED_WHITESPACE = push_bit 3 1"

definition fuzz_EDIT_DISTANCE_MATCH :: fuzz where
  "fuzz_EDIT_DISTANCE_MATCH = push_bit 4 1"

definition fuzz_IGNORED_EOF_SIGNAL :: fuzz where
  "fuzz_IGNORED_EOF_SIGNAL = push_bit 5 1"

definition fuzz_MERGED_OPERATOR_SECTION :: fuzz where
  "fuzz_MERGED_OPERATOR_SECTION = push_bit 6 1"

definition fuzz_NORMALIZED_EXPLICIT_NL :: fuzz where
  "fuzz_NORMALIZED_EXPLICIT_NL = push_bit 7 1"

lemmas fuzz_defs = fuzz_NONE_def fuzz_IGNORED_TRAILING_WHITESPACE_def
  fuzz_NORMALIZED_EXPLICIT_TAB_def fuzz_IGNORED_WHITESPACE_def fuzz_EDIT_DISTANCE_MATCH_def
  fuzz_IGNORED_EOF_SIGNAL_def fuzz_MERGED_OPERATOR_SECTION_def fuzz_NORMALIZED_EXPLICIT_NL_def

definition has_fuzz :: "fuzz \<Rightarrow> fuzz \<Rightarrow> bool" where
  "has_fuzz f flag \<longleftrightarrow> f AND flag \<noteq> 0"

record chunk =
  orig_index :: int
  del_lines :: "ustr list"
  ins_lines :: "ustr list"

record patch_action =
  action_kind :: action_type
  chunks :: "chunk list"
  new_file :: "ustr option"
  move_path :: "ustr option"

type_synonym patch = "(ustr \<times> patch_action) list"

record file_change =
  change_kind :: action_type
  old_content :: "ustr option"
  new_content :: "ustr option"
  change_move_path :: "ustr option"

record commit =
  changes :: "(ustr \<times> file_change) list"
  commit_fuzz :: fuzz

record indent_style =
  tab_size :: nat
  insert_spaces :: bool

record fuzz_match =
  match_line :: nat
  match_fuzz :: fuzz

text \<open>
  The exception classes. A \<^verbatim>\<open>DiffError\<close> or \<^verbatim>\<open>InvalidPatchFormatError\<close> carries the
  reason its message states. \<^verbatim>\<open>KeyError\<close> is the exception of a dictionary access.
\<close>

datatype diff_reason =
    MissingFile action_type ustr
  | FileAlreadyExists ustr
  | DuplicatePath action_type ustr
  | UnknownLine "ustr option"
  | InvalidLineSplit "ustr option"
  | IndexExceedsPatch nat nat
  | OrigIndexPastEnd ustr int nat
  | OrigIndexBackwards ustr int int

datatype format_reason =
    PatchMustStart
  | InvalidPatchText
  | MissingEndPatch
  | InvalidAddFileLine ustr
  | InvalidLine ustr

datatype patch_error =
    DiffError diff_reason
  | InvalidPatchFormatError format_reason
  | InvalidContextError ustr nat "ustr list" bool
  | KeyError ustr

end
