(* ===== verification/Workspace_File.thy ===== *)
theory Workspace_File
  imports Utf8_Quote Text_Patch_Models
begin

section \<open>Workspace files: system calls and atomic publication\<close>

text \<open>
  \<^verbatim>\<open>app/services/infrastructure/workspace_files/text_publication.py\<close>: reading a file with proof that it
  did not change meanwhile, replacing and deleting it under a precondition. The functions run on a
  \<open>world\<close>: the file tree and the number of system calls made so far. A \<open>machine\<close> decides what the program
  cannot: before every call other processes may have rewritten the tree (\<open>m_writer\<close>), and a call may
  fail, with or without having taken effect (\<open>m_fault\<close>, with the name of the exception class; that a file
  is missing or a directory is only reported when it is so). Reading a file that is open is one call. The
  paths are resolved absolute paths, so that a directory on the way is a directory and not a link.
  \<^verbatim>\<open>file_access\<close> only rewords an \<^verbatim>\<open>OSError\<close>.
\<close>

type_synonym bytes = "nat list"

type_synonym path = "ustr list"

subsection \<open>The tree and the machine\<close>

record file_stat =
  st_dev :: nat
  st_ino :: nat
  st_mode :: nat
  st_size :: nat
  st_mtime_ns :: nat
  st_ctime_ns :: nat

record inode =
  n_stat :: file_stat
  n_bytes :: bytes

definition S_IFMT :: "nat \<Rightarrow> nat" where "S_IFMT m = m div 4096 mod 16"

definition S_IMODE :: "nat \<Rightarrow> nat" where "S_IMODE m = m mod 4096"

definition S_ISDIR :: "nat \<Rightarrow> bool" where "S_ISDIR m \<longleftrightarrow> S_IFMT m = 4"

definition S_ISREG :: "nat \<Rightarrow> bool" where "S_ISREG m \<longleftrightarrow> S_IFMT m = 8"

definition S_ISLNK :: "nat \<Rightarrow> bool" where "S_ISLNK m \<longleftrightarrow> S_IFMT m = 10"

abbreviation n_mode :: "inode \<Rightarrow> nat" where "n_mode n \<equiv> st_mode (n_stat n)"

type_synonym tree = "path \<Rightarrow> inode option"

text \<open>\<^verbatim>\<open>OSError\<close> with its subclass; \<open>EOTHER\<close> carries the name of any other class.\<close>

datatype os_error = ENOENT | EEXIST | EISDIR | ENOTDIR | EOTHER string

datatype platform = nt | darwin | linux | other_platform

text \<open>
  \<open>m_link t p\<close> is what opening the symbolic link \<open>p\<close> reads, \<open>None\<close> when it leads nowhere; \<open>m_temp\<close> the
  random part of a temporary name; \<open>m_ino\<close> and \<open>m_clock\<close> the inode numbers and times the kernel assigns.
\<close>

record machine =
  m_platform :: platform
  m_writer :: "nat \<Rightarrow> tree \<Rightarrow> tree"
  m_fault :: "nat \<Rightarrow> (string \<times> bool) option"
  m_link :: "nat \<Rightarrow> path \<Rightarrow> bytes option"
  m_dev :: nat
  m_ino :: "nat \<Rightarrow> nat"
  m_clock :: "nat \<Rightarrow> nat"
  m_temp :: "nat \<Rightarrow> ustr"

record world =
  tree_of :: tree
  calls :: nat

text \<open>
  The exceptions. \<open>Conflict\<close> is \<^verbatim>\<open>WorkspaceFileConflictError\<close>, \<open>Unverified\<close> is
  \<^verbatim>\<open>FilePublicationUnverifiedError\<close> with the expected and the observed hash (both \<^verbatim>\<open>RuntimeError\<close>s);
  \<open>Bad_Value\<close> a \<^verbatim>\<open>ValueError\<close>, \<open>Not_Unicode\<close>, \<open>Output_Limit\<close> and \<open>Patch_Failed\<close> its subclasses
  \<^verbatim>\<open>UnicodeError\<close>, \<^verbatim>\<open>TextMutationOutputLimitError\<close> and \<^verbatim>\<open>DiffError\<close> (\<open>Invalid_Patch\<close> when it
  rewords a \<^verbatim>\<open>ValueError\<close>); \<open>Runtime\<close> another \<^verbatim>\<open>RuntimeError\<close>.
\<close>

datatype file_error =
    OS_Error os_error
  | Bad_Value string
  | Not_Unicode
  | Conflict
  | Unverified ustr "ustr option"
  | Runtime string
  | Output_Limit
  | Denied ustr
  | Patch_Failed patch_error
  | Invalid_Patch string
  | Missing_Key ustr
  | Attribute_Error

subsection \<open>Computations\<close>

type_synonym 'a io = "world \<Rightarrow> (file_error + 'a) \<times> world"

definition io_return :: "'a \<Rightarrow> 'a io" where
  "io_return x w = (Inr x, w)"

definition io_raise :: "file_error \<Rightarrow> 'a io" where
  "io_raise e w = (Inl e, w)"

definition io_bind :: "'a io \<Rightarrow> ('a \<Rightarrow> 'b io) \<Rightarrow> 'b io" where
  "io_bind m f w = (case m w of (Inl e, w') \<Rightarrow> (Inl e, w') | (Inr x, w') \<Rightarrow> f x w')"

definition io_catch :: "'a io \<Rightarrow> (file_error \<Rightarrow> 'a io) \<Rightarrow> 'a io" where
  "io_catch m h w = (case m w of (Inl e, w') \<Rightarrow> h e w' | (Inr x, w') \<Rightarrow> (Inr x, w'))"

definition io_require :: "bool \<Rightarrow> file_error \<Rightarrow> unit io" where
  "io_require b e = (if b then io_return () else io_raise e)"

text \<open>A call that fails by itself has no effect; one that is disturbed may have had it.\<close>

definition syscall :: "machine \<Rightarrow> (nat \<Rightarrow> tree \<Rightarrow> os_error + 'a \<times> tree) \<Rightarrow> 'a io" where
  "syscall m f w =
     (let now = calls w; tr = m_writer m now (tree_of w) in
      case f now tr of
        Inl e \<Rightarrow> (Inl (OS_Error e), \<lparr>tree_of = tr, calls = Suc now\<rparr>)
      | Inr (x, tr') \<Rightarrow>
          (case m_fault m now of
             None \<Rightarrow> (Inr x, \<lparr>tree_of = tr', calls = Suc now\<rparr>)
           | Some (name, took_effect) \<Rightarrow>
               (Inl (OS_Error (EOTHER name)), \<lparr>tree_of = (if took_effect then tr' else tr), calls = Suc now\<rparr>)))"

subsection \<open>System calls\<close>

definition directory :: "tree \<Rightarrow> path \<Rightarrow> bool" where
  "directory tr p \<longleftrightarrow> p = [] \<or> (case tr p of None \<Rightarrow> False | Some n \<Rightarrow> S_ISDIR (n_mode n))"

text \<open>How a path that leads nowhere fails: through a file used as a directory, or because something is missing.\<close>

definition absence :: "tree \<Rightarrow> path \<Rightarrow> os_error" where
  "absence tr p = (if list_ex (\<lambda>k. tr (take k p) \<noteq> None \<and> \<not> directory tr (take k p)) [1..<length p] then ENOTDIR else ENOENT)"

definition lstat :: "machine \<Rightarrow> path \<Rightarrow> file_stat io" where
  "lstat m p = syscall m (\<lambda>t tr. case tr p of None \<Rightarrow> Inl (absence tr p) | Some n \<Rightarrow> Inr (n_stat n, tr))"

text \<open>\<^verbatim>\<open>Path.exists\<close>, \<^verbatim>\<open>Path.is_symlink\<close>, \<^verbatim>\<open>Path.is_dir\<close>: a missing file is the answer no.\<close>

definition answer_no :: "bool io \<Rightarrow> bool io" where
  "answer_no c = io_catch c (\<lambda>e. if e = OS_Error ENOENT \<or> e = OS_Error ENOTDIR then io_return False else io_raise e)"

definition path_exists :: "machine \<Rightarrow> path \<Rightarrow> bool io" where
  "path_exists m p = answer_no (syscall m (\<lambda>t tr. Inr (case tr p of None \<Rightarrow> False
     | Some n \<Rightarrow> S_ISLNK (n_mode n) \<longrightarrow> m_link m t p \<noteq> None, tr)))"

definition is_symlink :: "machine \<Rightarrow> path \<Rightarrow> bool io" where
  "is_symlink m p = answer_no (syscall m (\<lambda>t tr. Inr (case tr p of None \<Rightarrow> False
     | Some n \<Rightarrow> S_ISLNK (n_mode n), tr)))"

definition is_dir :: "machine \<Rightarrow> path \<Rightarrow> bool io" where
  "is_dir m p = answer_no (syscall m (\<lambda>t tr. Inr (case tr p of None \<Rightarrow> False
     | Some n \<Rightarrow> S_ISDIR (n_mode n), tr)))"

definition exists_or_link :: "machine \<Rightarrow> path \<Rightarrow> bool io" where
  "exists_or_link m p = io_bind (path_exists m p) (\<lambda>b. if b then io_return True else is_symlink m p)"

text \<open>\<^verbatim>\<open>open("rb")\<close> and \<^verbatim>\<open>read\<close>, of at most \<open>limit\<close> bytes when there is a limit.\<close>

definition clip :: "nat option \<Rightarrow> bytes \<Rightarrow> bytes" where
  "clip limit b = (case limit of None \<Rightarrow> b | Some k \<Rightarrow> take k b)"

definition read_bytes :: "machine \<Rightarrow> path \<Rightarrow> nat option \<Rightarrow> bytes io" where
  "read_bytes m p limit = syscall m (\<lambda>t tr. case tr p of None \<Rightarrow> Inl (absence tr p)
     | Some n \<Rightarrow>
         if S_ISLNK (n_mode n)
         then (case m_link m t p of None \<Rightarrow> Inl ENOENT | Some b \<Rightarrow> Inr (clip limit b, tr))
         else if S_ISDIR (n_mode n) then Inl EISDIR
         else Inr (clip limit (n_bytes n), tr))"

definition new_inode :: "machine \<Rightarrow> nat \<Rightarrow> nat \<Rightarrow> inode" where
  "new_inode m t mode = \<lparr>n_stat = \<lparr>st_dev = m_dev m, st_ino = m_ino m t, st_mode = mode, st_size = 0,
     st_mtime_ns = m_clock m t, st_ctime_ns = m_clock m t\<rparr>, n_bytes = []\<rparr>"

text \<open>Creating an entry needs a free name in a directory that exists.\<close>

definition create_entry :: "inode \<Rightarrow> path \<Rightarrow> tree \<Rightarrow> os_error + unit \<times> tree" where
  "create_entry n p tr =
     (if p = [] \<or> tr p \<noteq> None then Inl EEXIST
      else if directory tr (butlast p) then Inr ((), tr(p \<mapsto> n))
      else Inl (absence tr p))"

definition os_mkdir :: "machine \<Rightarrow> path \<Rightarrow> unit io" where
  "os_mkdir m p = syscall m (\<lambda>t. create_entry (new_inode m t (4 * 4096 + 0x1FF)) p)"

text \<open>
  \<^verbatim>\<open>Path.mkdir(parents=True, exist_ok=True)\<close>; the second attempt after the parents exist is made
  without \<^verbatim>\<open>parents\<close>.
\<close>

definition mkdir_exist_ok :: "machine \<Rightarrow> path \<Rightarrow> file_error \<Rightarrow> unit io" where
  "mkdir_exist_ok m p e = io_bind (is_dir m p) (\<lambda>b. if b then io_return () else io_raise e)"

function mkdir_parents :: "machine \<Rightarrow> path \<Rightarrow> unit io" where
  "mkdir_parents m p = io_catch (os_mkdir m p) (\<lambda>e.
     if e = OS_Error ENOENT
     then (if p = [] then io_raise e
           else io_bind (mkdir_parents m (butlast p)) (\<lambda>_.
             io_catch (os_mkdir m p) (\<lambda>e'. if e' = OS_Error ENOENT then io_raise e' else mkdir_exist_ok m p e')))
     else mkdir_exist_ok m p e)"
  by pat_completeness auto
termination
  by (relation "measure (\<lambda>(m, p). length p)") auto

declare mkdir_parents.simps [simp del]

text \<open>
  \<^verbatim>\<open>tempfile.mkstemp(prefix=f".{path.name}.", suffix=".tmp", dir=path.parent)\<close>: a name that is taken is
  replaced by the next random one, at most \<open>TMP_MAX\<close> times.
\<close>

definition temp_path :: "machine \<Rightarrow> nat \<Rightarrow> path \<Rightarrow> path" where
  "temp_path m t p = butlast p @ [u ''.'' @ last p @ u ''.'' @ m_temp m t @ u ''.tmp'']"

definition create_temp :: "machine \<Rightarrow> path \<Rightarrow> (path \<times> nat) io" where
  "create_temp m p = syscall m (\<lambda>t tr. case create_entry (new_inode m t (8 * 4096 + 0x180)) (temp_path m t p) tr of
     Inl e \<Rightarrow> Inl e | Inr (_, tr') \<Rightarrow> Inr ((temp_path m t p, m_ino m t), tr'))"

primrec mkstemp_tries :: "nat \<Rightarrow> machine \<Rightarrow> path \<Rightarrow> (path \<times> nat) io" where
  "mkstemp_tries 0 m p = io_raise (OS_Error EEXIST)"
| "mkstemp_tries (Suc k) m p =
     io_catch (create_temp m p) (\<lambda>e. if e = OS_Error EEXIST then mkstemp_tries k m p else io_raise e)"

definition TMP_MAX :: nat where
  "TMP_MAX = 10000"

definition mkstemp :: "machine \<Rightarrow> path \<Rightarrow> (path \<times> nat) io" where
  "mkstemp m p = mkstemp_tries TMP_MAX m p"

lemma mkstemp_first:
  "mkstemp m p = io_catch (create_temp m p) (\<lambda>e. if e = OS_Error EEXIST then mkstemp_tries 9999 m p else io_raise e)"
proof -
  have "TMP_MAX = Suc 9999" by (simp add: TMP_MAX_def)
  then show ?thesis by (metis mkstemp_def mkstemp_tries.simps(2))
qed

text \<open>
  Writing through the descriptor reaches the created inode: if the name stands for another file by now,
  the tree does not show the effect.
\<close>

definition write_open :: "machine \<Rightarrow> path \<Rightarrow> nat \<Rightarrow> bytes \<Rightarrow> unit io" where
  "write_open m p ino b = syscall m (\<lambda>t tr. Inr ((), case tr p of None \<Rightarrow> tr
     | Some n \<Rightarrow> if st_ino (n_stat n) = ino
         then tr(p \<mapsto> \<lparr>n_stat = (n_stat n)\<lparr>st_size := length b, st_mtime_ns := m_clock m t,
                         st_ctime_ns := m_clock m t\<rparr>, n_bytes = b\<rparr>)
         else tr))"

definition fsync :: "machine \<Rightarrow> unit io" where
  "fsync m = syscall m (\<lambda>t tr. Inr ((), tr))"

definition chmod :: "machine \<Rightarrow> path \<Rightarrow> nat \<Rightarrow> unit io" where
  "chmod m p mode = syscall m (\<lambda>t tr. case tr p of None \<Rightarrow> Inl ENOENT
     | Some n \<Rightarrow> Inr ((), tr(p \<mapsto> n\<lparr>n_stat := (n_stat n)\<lparr>st_mode := S_IFMT (n_mode n) * 4096 + S_IMODE mode,
                                     st_ctime_ns := m_clock m t\<rparr>\<rparr>)))"

definition moved_inode :: "machine \<Rightarrow> nat \<Rightarrow> inode \<Rightarrow> inode" where
  "moved_inode m t n = n\<lparr>n_stat := (n_stat n)\<lparr>st_ctime_ns := m_clock m t\<rparr>\<rparr>"

definition os_replace :: "machine \<Rightarrow> path \<Rightarrow> path \<Rightarrow> unit io" where
  "os_replace m src dst = syscall m (\<lambda>t tr. case tr src of None \<Rightarrow> Inl ENOENT
     | Some n \<Rightarrow> (case tr dst of
           Some d \<Rightarrow> if S_ISDIR (n_mode d) then Inl EISDIR
                     else Inr ((), tr(dst \<mapsto> moved_inode m t n, src := None))
         | None \<Rightarrow> Inr ((), tr(dst \<mapsto> moved_inode m t n, src := None))))"

text \<open>
  \<^verbatim>\<open>rename_entry_exclusive\<close> of \<^verbatim>\<open>runtime.py\<close>: the three platforms have a rename that fails when the
  target exists.
\<close>

definition rename_entry_exclusive :: "machine \<Rightarrow> path \<Rightarrow> path \<Rightarrow> unit io" where
  "rename_entry_exclusive m src dst =
     (if m_platform m = other_platform then io_raise (Runtime ''unsupported platform'')
      else syscall m (\<lambda>t tr. case tr src of None \<Rightarrow> Inl ENOENT
        | Some n \<Rightarrow> (case tr dst of
              Some d \<Rightarrow> Inl EEXIST
            | None \<Rightarrow> Inr ((), tr(dst \<mapsto> moved_inode m t n, src := None)))))"

definition unlink :: "machine \<Rightarrow> path \<Rightarrow> unit io" where
  "unlink m p = syscall m (\<lambda>t tr. case tr p of None \<Rightarrow> Inl (absence tr p)
     | Some n \<Rightarrow> if S_ISDIR (n_mode n) then Inl EISDIR else Inr ((), tr(p := None)))"

definition unlink_missing_ok :: "machine \<Rightarrow> path \<Rightarrow> unit io" where
  "unlink_missing_ok m p = io_catch (unlink m p) (\<lambda>e. if e = OS_Error ENOENT then io_return () else io_raise e)"

subsection \<open>Reading with a stable version\<close>

record file_preimage =
  pre_content :: bytes
  pre_stat :: file_stat

definition pre_mode :: "file_preimage \<Rightarrow> nat" where
  "pre_mode b = S_IMODE (st_mode (pre_stat b))"

definition content_hash :: "(bytes \<Rightarrow> ustr) \<Rightarrow> bytes \<Rightarrow> ustr" where
  "content_hash sha b = u ''sha256:'' @ sha b"

definition within :: "nat option \<Rightarrow> nat \<Rightarrow> bool" where
  "within limit k = (case limit of None \<Rightarrow> True | Some l \<Rightarrow> k \<le> l)"

definition read_file_preimage :: "machine \<Rightarrow> path \<Rightarrow> nat option \<Rightarrow> file_preimage io" where
  "read_file_preimage m p max_bytes =
     io_bind (lstat m p) (\<lambda>before.
     io_bind (io_require (\<not> S_ISLNK (st_mode before)) (Bad_Value ''symlink'')) (\<lambda>_.
     io_bind (io_require (\<not> S_ISDIR (st_mode before)) (OS_Error EISDIR)) (\<lambda>_.
     io_bind (io_require (S_ISREG (st_mode before)) (Bad_Value ''not a regular file'')) (\<lambda>_.
     io_bind (io_require (within max_bytes (st_size before)) (Bad_Value ''too large'')) (\<lambda>_.
     io_bind (read_bytes m p (map_option Suc max_bytes)) (\<lambda>content.
     io_bind (lstat m p) (\<lambda>after.
     io_bind (io_require (before = after) Conflict) (\<lambda>_.
     io_bind (io_require (within max_bytes (length content)) (Bad_Value ''too large'')) (\<lambda>_.
     io_return \<lparr>pre_content = content, pre_stat = after\<rparr>)))))))))"

text \<open>\<^verbatim>\<open>FileNotFoundError\<close>, \<^verbatim>\<open>IsADirectoryError\<close> and \<^verbatim>\<open>ValueError\<close> of the second read mean a conflict.\<close>

fun is_bad_value :: "file_error \<Rightarrow> bool" where
  "is_bad_value (Bad_Value s) = True"
| "is_bad_value Not_Unicode = True"
| "is_bad_value Output_Limit = True"
| "is_bad_value (Patch_Failed e) = True"
| "is_bad_value (Invalid_Patch s) = True"
| "is_bad_value e = False"

definition require_file_preimage :: "machine \<Rightarrow> path \<Rightarrow> file_preimage option \<Rightarrow> unit io" where
  "require_file_preimage m p before = (case before of
     None \<Rightarrow> io_bind (exists_or_link m p) (\<lambda>b. io_require (\<not> b) Conflict)
   | Some b \<Rightarrow>
       io_bind (io_catch (read_file_preimage m p (Some (length (pre_content b)))) (\<lambda>e.
         if e \<in> {OS_Error ENOENT, OS_Error EISDIR} \<or> is_bad_value e then io_raise Conflict else io_raise e))
       (\<lambda>latest. io_require (pre_content latest = pre_content b) Conflict))"

subsection \<open>Publishing and deleting\<close>

text \<open>Filling the temporary file and checking the precondition, then the rename to the final name.\<close>

definition stage_content :: "machine \<Rightarrow> path \<Rightarrow> nat \<Rightarrow> path \<Rightarrow> bytes \<Rightarrow> file_preimage option \<Rightarrow> nat option \<Rightarrow> unit io" where
  "stage_content m tmp ino p content before mode =
     io_bind (write_open m tmp ino content) (\<lambda>_.
     io_bind (fsync m) (\<lambda>_.
     io_bind (case (case before of Some b \<Rightarrow> Some (pre_mode b) | None \<Rightarrow> mode) of
                None \<Rightarrow> io_return ()
              | Some pm \<Rightarrow> if m_platform m = nt then io_return () else chmod m tmp pm) (\<lambda>_.
     require_file_preimage m p before)))"

definition publish_through :: "machine \<Rightarrow> path \<Rightarrow> nat \<Rightarrow> path \<Rightarrow> bytes \<Rightarrow> file_preimage option \<Rightarrow> nat option \<Rightarrow> unit io" where
  "publish_through m tmp ino p content before mode =
     io_bind (stage_content m tmp ino p content before mode) (\<lambda>_.
     if before = None then rename_entry_exclusive m tmp p else os_replace m tmp p)"

definition verify_published :: "(bytes \<Rightarrow> ustr) \<Rightarrow> machine \<Rightarrow> path \<Rightarrow> bytes \<Rightarrow> file_preimage io" where
  "verify_published sha m p content =
     io_bind (io_catch (read_file_preimage m p (Some (length content)))
                (\<lambda>_. io_raise (Unverified (content_hash sha content) None))) (\<lambda>observed.
     io_bind (io_require (pre_content observed = content)
                (Unverified (content_hash sha content) (Some (content_hash sha (pre_content observed))))) (\<lambda>_.
     io_return observed))"

text \<open>
  The temporary file is removed when the body fails (\<^verbatim>\<open>finally\<close>); a failure of that removal takes the
  place of the first exception. After the rename there is nothing to remove.
\<close>

definition publish_file_content ::
  "(bytes \<Rightarrow> ustr) \<Rightarrow> machine \<Rightarrow> path \<Rightarrow> bytes \<Rightarrow> file_preimage option \<Rightarrow> nat option \<Rightarrow> file_preimage io" where
  "publish_file_content sha m p content before mode =
     io_bind (mkdir_parents m (butlast p)) (\<lambda>_.
     io_bind (mkstemp m p) (\<lambda>(tmp, ino).
     io_bind (io_catch (publish_through m tmp ino p content before mode)
                (\<lambda>e. io_bind (unlink_missing_ok m tmp) (\<lambda>_. io_raise e))) (\<lambda>_.
     verify_published sha m p content)))"

definition delete_file_content :: "machine \<Rightarrow> path \<Rightarrow> file_preimage \<Rightarrow> unit io" where
  "delete_file_content m p before =
     io_bind (require_file_preimage m p (Some before)) (\<lambda>_.
     io_bind (unlink m p) (\<lambda>_.
     io_bind (exists_or_link m p) (\<lambda>b. io_require (\<not> b) (Unverified (u ''absent'') None))))"

end
