(* ===== verification/Edit_Distance.thy ===== *)
theory Edit_Distance
  imports Main
begin

section \<open>Reference specification: minimal edit distance\<close>

text \<open>
  \<open>edits n xs ys\<close> says that \<open>ys\<close> is reached from \<open>xs\<close> by an alignment with \<open>n\<close> insertions,
  deletions and substitutions. \<open>ed\<close> computes the least such \<open>n\<close>; it is the specification the
  two-row routine of the patch matcher is compared with.
\<close>

inductive edits :: "nat \<Rightarrow> 'a list \<Rightarrow> 'a list \<Rightarrow> bool" where
  edits_Nil: "edits 0 [] []"
| edits_keep: "edits n xs ys \<Longrightarrow> edits n (x # xs) (x # ys)"
| edits_subst: "edits n xs ys \<Longrightarrow> edits (Suc n) (x # xs) (y # ys)"
| edits_del: "edits n xs ys \<Longrightarrow> edits (Suc n) (x # xs) ys"
| edits_ins: "edits n xs ys \<Longrightarrow> edits (Suc n) xs (y # ys)"

fun ed :: "'a list \<Rightarrow> 'a list \<Rightarrow> nat" where
  "ed [] ys = length ys"
| "ed (x # xs) [] = Suc (length xs)"
| "ed (x # xs) (y # ys) =
     min (ed (x # xs) ys + 1) (min (ed xs (y # ys) + 1) (ed xs ys + (if x \<noteq> y then 1 else 0)))"

lemma ed_Nil2 [simp]: "ed xs [] = length xs"
  by (cases xs) auto

lemma edits_insert_all: "edits (length ys) [] ys"
  by (induction ys) (auto intro: edits.intros)

lemma edits_delete_all: "edits (length xs) xs []"
  by (induction xs) (auto intro: edits.intros)

lemma edits_ed: "edits (ed xs ys) xs ys"
proof (induction xs ys rule: ed.induct)
  case (3 x xs y ys)
  then show ?case
    by (auto simp: min_def intro: edits.intros)
qed (use edits_insert_all edits_delete_all in \<open>auto intro: edits.intros\<close>)

lemma ed_le_Cons1: "ed (x # xs) ys \<le> Suc (ed xs ys)"
  by (cases ys) auto

lemma ed_le_Cons2: "ed xs (y # ys) \<le> Suc (ed xs ys)"
  by (cases xs) auto

lemma ed_least: "edits n xs ys \<Longrightarrow> ed xs ys \<le> n"
proof (induction rule: edits.induct)
  case (edits_del n xs ys x)
  then show ?case using ed_le_Cons1 [of x xs ys] by linarith
next
  case (edits_ins n xs ys y)
  then show ?case using ed_le_Cons2 [of xs y ys] by linarith
qed auto

lemma edits_append: "edits n xs ys \<Longrightarrow> edits m as bs \<Longrightarrow> edits (n + m) (xs @ as) (ys @ bs)"
  by (induction rule: edits.induct) (auto intro: edits.intros)

lemma edits_sym: "edits n xs ys \<Longrightarrow> edits n ys xs"
  by (induction rule: edits.induct) (auto intro: edits.intros)

lemma edits_snoc_intros:
  "edits n xs ys \<Longrightarrow> edits n (xs @ [x]) (ys @ [x])"
  "edits n xs ys \<Longrightarrow> edits (Suc n) (xs @ [x]) (ys @ [y])"
  "edits n xs ys \<Longrightarrow> edits (Suc n) (xs @ [x]) ys"
  "edits n xs ys \<Longrightarrow> edits (Suc n) xs (ys @ [y])"
  using edits_append [of n xs ys 0 "[x]" "[x]"] edits_append [of n xs ys "Suc 0" "[x]" "[y]"]
    edits_append [of n xs ys "Suc 0" "[x]" "[]"] edits_append [of n xs ys "Suc 0" "[]" "[y]"]
  by (auto intro: edits.intros)

lemma edits_rev: "edits n xs ys \<Longrightarrow> edits n (rev xs) (rev ys)"
  by (induction rule: edits.induct) (auto intro: edits_snoc_intros edits.intros)

lemma ed_rev: "ed (rev xs) (rev ys) = ed xs ys"
proof (rule antisym)
  show "ed (rev xs) (rev ys) \<le> ed xs ys"
    by (rule ed_least, rule edits_rev, rule edits_ed)
  show "ed xs ys \<le> ed (rev xs) (rev ys)"
    using edits_rev [OF edits_ed [of "rev xs" "rev ys"]] by (simp add: ed_least)
qed

lemma ed_commute: "ed xs ys = ed ys xs"
  by (meson antisym ed_least edits_ed edits_sym)

text \<open>The rows of the dynamic program: distances of a fixed reversed prefix to all prefixes.\<close>

fun ed_row :: "'a list \<Rightarrow> 'a list \<Rightarrow> 'a list \<Rightarrow> nat list" where
  "ed_row a b [] = [ed a b]"
| "ed_row a b (r # rs) = ed a b # ed_row a (r # b) rs"

lemma ed_row_Nil: "ed_row [] b rs = [length b..<length b + length rs + 1]"
proof (induction rs arbitrary: b)
  case (Cons r rs)
  then show ?case by (simp add: upt_conv_Cons del: upt_Suc)
qed simp

lemma last_ed_row: "last (ed_row a b rs) = ed a (rev rs @ b)"
proof (induction rs arbitrary: b)
  case (Cons r rs)
  have "ed_row a (r # b) rs \<noteq> []" by (cases rs) auto
  with Cons show ?case by simp
qed simp

lemma ed_row_Cons: "ed_row a b rs = ed a b # tl (ed_row a b rs)"
  by (cases rs) auto

end
