(* ===== verification/Text_Patch_Matcher.thy ===== *)
theory Text_Patch_Matcher
  imports Text_Patch_Models Edit_Distance
begin

section \<open>Text patches: locating a context in a file\<close>

text \<open>
  The functions of \<^verbatim>\<open>text_patch/matcher.py\<close>: exact and fuzzy context search, indentation
  guessing and conversion, and the two-row Levenshtein distance. \<^verbatim>\<open>unicodedata.normalize("NFC", _)\<close>
  needs the Unicode database, which is not part of the repository, so it is the parameter \<open>nfc\<close>
  of every function that canonicalizes.
\<close>

unbundle bit_operations_syntax

subsection \<open>Canonical form of a line\<close>

definition punctuation_equivalent :: "nat \<Rightarrow> nat" where
  "punctuation_equivalent c =
     (if c \<in> {0x2010, 0x2011, 0x2012, 0x2013, 0x2014, 0x2212} then 45
      else if c \<in> {0x201C, 0x201D, 0x201E, 0xAB, 0xBB} then 34
      else if c \<in> {0x2018, 0x2019, 0x201B} then 39
      else if c \<in> {0xA0, 0x202F} then 32
      else c)"

definition canonicalize :: "(ustr \<Rightarrow> ustr) \<Rightarrow> ustr \<Rightarrow> ustr" where
  "canonicalize nfc s = map punctuation_equivalent (nfc s)"

subsection \<open>Explicit tabs and newlines\<close>

text \<open>Length of the longest prefix that matches \<^verbatim>\<open>^(?:\s|\\t|/|#)*\<close>.\<close>

fun tab_prefix_end :: "ustr \<Rightarrow> nat" where
  "tab_prefix_end [] = 0"
| "tab_prefix_end [c] = (if is_space c \<or> c = 47 \<or> c = 35 then 1 else 0)"
| "tab_prefix_end (c # d # s) =
     (if is_space c \<or> c = 47 \<or> c = 35 then Suc (tab_prefix_end (d # s))
      else if c = 92 \<and> d = 116 then Suc (Suc (tab_prefix_end s))
      else 0)"

definition replace_explicit_tabs :: "ustr \<Rightarrow> ustr" where
  "replace_explicit_tabs v =
     (let prefix_end = tab_prefix_end v
      in replace_all [92, 116] [9] (take prefix_end v) @ drop prefix_end v)"

definition replace_explicit_newlines :: "ustr \<Rightarrow> ustr" where
  "replace_explicit_newlines v = replace_explicit_tabs (replace_all [92, 110] [nl] v)"

subsection \<open>Exact search\<close>

text \<open>The \<^verbatim>\<open>for index in range(first, last + 1)\<close> loop: \<open>n\<close> counts the indices left.\<close>

fun find_exact_from :: "ustr list \<Rightarrow> ustr list \<Rightarrow> nat \<Rightarrow> nat \<Rightarrow> nat option" where
  "find_exact_from ls ctx index 0 = None"
| "find_exact_from ls ctx index (Suc n) =
     (if slice index (index + length ctx) ls = ctx then Some index
      else find_exact_from ls ctx (Suc index) n)"

definition find_exact :: "ustr list \<Rightarrow> ustr list \<Rightarrow> nat \<Rightarrow> nat option" where
  "find_exact ls ctx start =
     find_exact_from ls ctx start (nat (int (length ls) - int (length ctx) + 1 - int start))"

subsection \<open>Hints\<close>

text \<open>The two passes of the loop over \<^verbatim>\<open>trim\<close>, each over \<^verbatim>\<open>range(start, len(lines))\<close>.\<close>

fun find_hint_from :: "(ustr \<Rightarrow> ustr) \<Rightarrow> ustr \<Rightarrow> ustr list \<Rightarrow> nat \<Rightarrow> nat option" where
  "find_hint_from norm hint [] index = None"
| "find_hint_from norm hint (l # ls) index =
     (if norm l = hint then Some (index + 1) else find_hint_from norm hint ls (Suc index))"

definition find_hint :: "(ustr \<Rightarrow> ustr) \<Rightarrow> ustr list \<Rightarrow> ustr \<Rightarrow> nat \<Rightarrow> nat option" where
  "find_hint nfc ls hint start =
     (case find_hint_from (canonicalize nfc) (canonicalize nfc hint) (drop start ls) start of
        Some i \<Rightarrow> Some i
      | None \<Rightarrow> find_hint_from (\<lambda>l. canonicalize nfc (strip l)) (canonicalize nfc hint) (drop start ls) start)"

subsection \<open>Levenshtein distance\<close>

text \<open>
  The inner loop over \<^verbatim>\<open>enumerate(right, start=1)\<close>: \<open>prev\<close> is the suffix of \<^verbatim>\<open>previous\<close> from
  \<^verbatim>\<open>right_index - 1\<close> on and \<open>cur\<close> is \<^verbatim>\<open>current[-1]\<close>.
\<close>

fun lev_row :: "nat \<Rightarrow> ustr \<Rightarrow> nat list \<Rightarrow> nat \<Rightarrow> nat list" where
  "lev_row lc (rc # rs) (p0 # p1 # ps) cur =
     (let v = min (cur + 1) (min (p1 + 1) (p0 + (if lc \<noteq> rc then 1 else 0)))
      in v # lev_row lc rs (p1 # ps) v)"
| "lev_row lc _ _ cur = []"

text \<open>The outer loop over \<^verbatim>\<open>enumerate(left, start=1)\<close>.\<close>

fun lev_rows :: "ustr \<Rightarrow> ustr \<Rightarrow> nat \<Rightarrow> nat list \<Rightarrow> nat list" where
  "lev_rows [] right left_index previous = previous"
| "lev_rows (lc # ls) right left_index previous =
     lev_rows ls right (Suc left_index) (left_index # lev_row lc right previous left_index)"

definition levenshtein :: "ustr \<Rightarrow> ustr \<Rightarrow> nat" where
  "levenshtein left right =
     (let (left', right') = (if length left < length right then (right, left) else (left, right))
      in last (lev_rows left' right' 1 [0..<length right' + 1]))"

subsection \<open>Context search with increasing tolerance\<close>

text \<open>
  \<^verbatim>\<open>int(len(context) * 0.34)\<close>: the double nearest to 0.34 is above it and every rounding error is
  far below 1/50, so the truncated product is \<open>34 n div 100\<close>.
\<close>

definition max_distance :: "nat \<Rightarrow> nat" where
  "max_distance n = (34 * n) div 100"

definition lines_distance :: "ustr list \<Rightarrow> ustr list \<Rightarrow> nat \<Rightarrow> nat" where
  "lines_distance ls ctx index =
     sum_list (map2 levenshtein (slice index (index + length ctx) ls) ctx)"

fun find_near_from :: "ustr list \<Rightarrow> ustr list \<Rightarrow> nat \<Rightarrow> nat \<Rightarrow> nat \<Rightarrow> nat option" where
  "find_near_from ls ctx maxd index 0 = None"
| "find_near_from ls ctx maxd index (Suc n) =
     (if lines_distance ls ctx index \<le> maxd then Some index
      else find_near_from ls ctx maxd (Suc index) n)"

definition find_near :: "ustr list \<Rightarrow> ustr list \<Rightarrow> nat \<Rightarrow> nat \<Rightarrow> nat option" where
  "find_near ls ctx maxd start =
     find_near_from ls ctx maxd start (nat (int (length ls) - int (length ctx) + 1 - int start))"

definition find_context_core :: "(ustr \<Rightarrow> ustr) \<Rightarrow> ustr list \<Rightarrow> ustr list \<Rightarrow> nat \<Rightarrow> fuzz_match option" where
  "find_context_core nfc ls ctx start =
     (if ctx = [] then Some \<lparr>match_line = start, match_fuzz = fuzz_NONE\<rparr> else
      let canonical_lines = map (canonicalize nfc) ls;
          canonical_context = map (canonicalize nfc) ctx in
      case find_exact canonical_lines canonical_context start of
        Some m \<Rightarrow> Some \<lparr>match_line = m, match_fuzz = fuzz_NONE\<rparr>
      | None \<Rightarrow>
      let trailing_lines = map rstrip canonical_lines;
          trailing_context = map rstrip canonical_context;
          fuzz = fuzz_IGNORED_TRAILING_WHITESPACE in
      case find_exact trailing_lines trailing_context start of
        Some m \<Rightarrow> Some \<lparr>match_line = m, match_fuzz = fuzz\<rparr>
      | None \<Rightarrow>
      let explicit_tab_context = map replace_explicit_tabs trailing_context;
          tabs_changed = (explicit_tab_context \<noteq> trailing_context);
          fuzz1 = (if tabs_changed then fuzz OR fuzz_NORMALIZED_EXPLICIT_TAB else fuzz) in
      case (if tabs_changed then find_exact trailing_lines explicit_tab_context start else None) of
        Some m \<Rightarrow> Some \<lparr>match_line = m, match_fuzz = fuzz1\<rparr>
      | None \<Rightarrow>
      case (if length ctx = 1 then
              (let explicit_newline =
                     split_lines (replace_explicit_newlines (hd explicit_tab_context))
               in if explicit_newline \<noteq> explicit_tab_context
                  then find_exact trailing_lines explicit_newline start else None)
            else None) of
        Some m \<Rightarrow> Some \<lparr>match_line = m, match_fuzz = fuzz1 OR fuzz_NORMALIZED_EXPLICIT_NL\<rparr>
      | None \<Rightarrow>
      let stripped_lines = map strip trailing_lines;
          stripped_context = map strip explicit_tab_context;
          fuzz2 = fuzz1 OR fuzz_IGNORED_WHITESPACE in
      case find_exact stripped_lines stripped_context start of
        Some m \<Rightarrow> Some \<lparr>match_line = m, match_fuzz = fuzz2\<rparr>
      | None \<Rightarrow>
      let maxd = max_distance (length ctx) in
      if maxd \<le> 0 then None else
      map_option (\<lambda>m. \<lparr>match_line = m, match_fuzz = fuzz2 OR fuzz_EDIT_DISTANCE_MATCH\<rparr>)
        (find_near stripped_lines stripped_context maxd start))"

definition find_context ::
    "(ustr \<Rightarrow> ustr) \<Rightarrow> ustr \<Rightarrow> ustr list \<Rightarrow> ustr list \<Rightarrow> nat \<Rightarrow> bool \<Rightarrow> fuzz_match option" where
  "find_context nfc path0 ls ctx start eof =
     (let path = strip path0;
          candidate_lines = (case ls of [] \<Rightarrow> ls | l # rest \<Rightarrow> if contains path l then rest else ls);
          candidate_context =
            (case ctx of [] \<Rightarrow> ctx | c # rest \<Rightarrow> if contains path c then rest else ctx)
      in if eof then
           (case find_context_core nfc candidate_lines candidate_context
                   (length candidate_lines - length candidate_context) of
              Some m \<Rightarrow> Some m
            | None \<Rightarrow>
                map_option (\<lambda>m. m\<lparr>match_fuzz := match_fuzz m OR fuzz_IGNORED_EOF_SIGNAL\<rparr>)
                  (find_context_core nfc candidate_lines candidate_context start))
         else find_context_core nfc candidate_lines candidate_context start)"

subsection \<open>Indentation\<close>

fun common_prefix_length :: "'a list \<Rightarrow> 'a list \<Rightarrow> nat" where
  "common_prefix_length (x # xs) (y # ys) = (if x = y then Suc (common_prefix_length xs ys) else 0)"
| "common_prefix_length _ _ = 0"

definition abs_diff :: "nat \<Rightarrow> nat \<Rightarrow> nat" where
  "abs_diff a b = (a - b) + (b - a)"

definition spaces_difference :: "ustr \<Rightarrow> nat \<Rightarrow> ustr \<Rightarrow> nat \<Rightarrow> nat \<times> bool" where
  "spaces_difference left left_indent right right_indent =
     (let shared = common_prefix_length (take left_indent left) (take right_indent right);
          left_suffix = slice shared left_indent left;
          right_suffix = slice shared right_indent right;
          left_spaces = count_list left_suffix 32;
          left_tabs = count_list left_suffix 9;
          right_spaces = count_list right_suffix 32;
          right_tabs = count_list right_suffix 9
      in if (left_spaces > 0 \<and> left_tabs > 0) \<or> (right_spaces > 0 \<and> right_tabs > 0)
         then (0, False)
         else
           let tab_difference = abs_diff left_tabs right_tabs;
               space_difference = abs_diff left_spaces right_spaces
           in if tab_difference = 0 then
                (space_difference,
                 space_difference > 0
                 \<and> (1 \<le> right_spaces \<and> right_spaces - 1 < length left)
                 \<and> right_spaces < length right
                 \<and> right ! right_spaces \<noteq> 32
                 \<and> left ! (right_spaces - 1) = 32
                 \<and> (left \<noteq> [] \<and> last left = 44))
              else if space_difference mod tab_difference = 0
                then (space_difference div tab_difference, False)
              else (0, False))"

record indent_scan =
  tab_lines :: nat
  space_lines :: nat
  previous_line :: ustr
  previous_indent :: nat
  scores :: "nat list"

definition scan_line :: "indent_style \<Rightarrow> indent_scan \<Rightarrow> ustr \<Rightarrow> indent_scan" where
  "scan_line dflt st line =
     (let indent = length (takeWhile (\<lambda>c. c = 32 \<or> c = 9) line)
      in if indent = length line then st
         else
           let prefix = take indent line;
               tabs = count_list prefix 9;
               spaces = count_list prefix 32;
               st1 = (if tabs > 0 then st\<lparr>tab_lines := tab_lines st + 1\<rparr>
                      else if spaces > 1 then st\<lparr>space_lines := space_lines st + 1\<rparr> else st);
               (difference, looks_like_alignment) =
                 spaces_difference (previous_line st1) (previous_indent st1) line indent
           in if looks_like_alignment \<and> \<not> (insert_spaces dflt \<and> tab_size dflt = difference)
              then st1
              else
                let st2 = (if difference \<le> 8
                           then st1\<lparr>scores := (scores st1)[difference := scores st1 ! difference + 1]\<rparr>
                           else st1)
                in st2\<lparr>previous_line := line, previous_indent := indent\<rparr>)"

definition guess_indentation :: "ustr list \<Rightarrow> indent_style option \<Rightarrow> indent_style" where
  "guess_indentation ls fallback =
     (let dflt = (case fallback of Some s \<Rightarrow> s | None \<Rightarrow> \<lparr>tab_size = 4, insert_spaces = False\<rparr>);
          st = foldl (scan_line dflt)
                 \<lparr>tab_lines = 0, space_lines = 0, previous_line = [], previous_indent = 0,
                  scores = replicate 9 0\<rparr>
                 (take 10000 ls);
          spaces_wanted = (if tab_lines st \<noteq> space_lines st then tab_lines st < space_lines st
                           else insert_spaces dflt);
          sc = scores st;
          (best_score, best_size) =
            foldl (\<lambda>(best, size) candidate.
                     if sc ! candidate > best then (sc ! candidate, candidate) else (best, size))
                  (0, tab_size dflt) [2, 4, 6, 8, 3, 5, 7];
          size = (if spaces_wanted
                  then (if best_size = 4 \<and> sc ! 4 > 0 \<and> sc ! 2 > 0 \<and> 2 * (sc ! 2) \<ge> sc ! 4
                        then 2 else best_size)
                  else tab_size dflt)
      in \<lparr>tab_size = size, insert_spaces = spaces_wanted\<rparr>)"

fun indent_columns :: "nat \<Rightarrow> ustr \<Rightarrow> nat \<Rightarrow> nat" where
  "indent_columns ts [] level = level"
| "indent_columns ts (c # s) level =
     (if c = 32 then indent_columns ts s (level + 1)
      else if c = 9 then indent_columns ts s (level + (ts - level mod ts))
      else level)"

definition indent_level :: "ustr \<Rightarrow> nat \<Rightarrow> nat" where
  "indent_level line ts = indent_columns ts line 0 div ts"

definition indent_unit :: "indent_style \<Rightarrow> ustr" where
  "indent_unit style = (if insert_spaces style then replicate (tab_size style) 32 else [9])"

function leading_units :: "ustr \<Rightarrow> ustr \<Rightarrow> nat" where
  "leading_units unit line =
     (if unit \<noteq> [] \<and> startswith line unit then Suc (leading_units unit (drop (length unit) line))
      else 0)"
  by pat_completeness auto
termination
proof (relation "measure (\<lambda>(unit, line). length line)", goal_cases)
  case (2 unit line)
  then have "line \<noteq> []" by (auto simp: startswith_def)
  with 2 show ?case by simp
qed simp

declare leading_units.simps [simp del]

definition transform_indentation :: "ustr \<Rightarrow> indent_style \<Rightarrow> indent_style \<Rightarrow> ustr" where
  "transform_indentation line source target =
     (if source = target then line
      else let n = leading_units (indent_unit source) line
           in concat (replicate n (indent_unit target)) @ drop (n * length (indent_unit source)) line)"

subsection \<open>The two-row routine computes the edit distance\<close>

lemma lev_row_ed_row:
  "ed (lc # a) b # lev_row lc rs (ed_row a b rs) (ed (lc # a) b) = ed_row (lc # a) b rs"
proof (induction rs arbitrary: b)
  case (Cons r rs)
  have "lev_row lc (r # rs) (ed_row a b (r # rs)) (ed (lc # a) b)
      = ed (lc # a) (r # b) # lev_row lc rs (ed_row a (r # b) rs) (ed (lc # a) (r # b))"
    by (cases rs) (simp_all add: Let_def)
  then show ?case using Cons.IH [of "r # b"] by (simp only: ed_row.simps)
qed simp

lemma lev_rows_ed_row:
  "lev_rows ls right (Suc (length a)) (ed_row a [] right) = ed_row (rev ls @ a) [] right"
proof (induction ls arbitrary: a)
  case (Cons lc ls)
  have "Suc (length a) # lev_row lc right (ed_row a [] right) (Suc (length a)) = ed_row (lc # a) [] right"
    using lev_row_ed_row [of lc a "[]" right] by simp
  with Cons [of "lc # a"] show ?case by simp
qed simp

lemma levenshtein_eq_ed: "levenshtein left right = ed left right"
proof -
  have rows: "last (lev_rows l r 1 [0..<length r + 1]) = ed l r" for l r
    using lev_rows_ed_row [of l r "[]"] by (simp add: ed_row_Nil last_ed_row ed_rev)
  show ?thesis
    unfolding levenshtein_def using rows by (simp add: ed_commute del: upt_Suc)
qed

text \<open>
  C37: the two-row table of \<^verbatim>\<open>_levenshtein\<close> computes the edit distance, the least number of
  single-character insertions, deletions and substitutions that turn one string into the other.
\<close>

theorem levenshtein_least_edits:
  "edits (levenshtein left right) left right \<and> levenshtein left right = (LEAST n. edits n left right)"
  by (auto simp: levenshtein_eq_ed edits_ed intro!: Least_equality [symmetric] ed_least)

subsection \<open>The searches return the first hit\<close>

definition matches_at :: "'a list \<Rightarrow> 'a list \<Rightarrow> nat \<Rightarrow> bool" where
  "matches_at ls ctx i \<longleftrightarrow> i + length ctx \<le> length ls \<and> slice i (i + length ctx) ls = ctx"

definition near_at :: "ustr list \<Rightarrow> ustr list \<Rightarrow> nat \<Rightarrow> nat \<Rightarrow> bool" where
  "near_at ls ctx maxd i \<longleftrightarrow> i + length ctx \<le> length ls \<and> lines_distance ls ctx i \<le> maxd"

text \<open>Both loops have the shape of this scan.\<close>

lemma scan_Some:
  assumes "\<And>i. scan i 0 = None"
    and "\<And>i n. scan i (Suc n) = (if hit i then Some i else scan (Suc i) n)"
  shows "scan i n = Some k \<longleftrightarrow>
     i \<le> k \<and> k < i + n \<and> hit k \<and> (\<forall>j. i \<le> j \<and> j < k \<longrightarrow> \<not> hit j)"
proof (induction n arbitrary: i)
  case (Suc n)
  show ?case
  proof (cases "hit i")
    case True
    then show ?thesis by (auto simp: assms)
  next
    case False
    then have step: "scan i (Suc n) = scan (Suc i) n" by (simp add: assms)
    show ?thesis
    proof
      assume "scan i (Suc n) = Some k"
      with step have "scan (Suc i) n = Some k" by simp
      then have h: "Suc i \<le> k \<and> k < Suc i + n \<and> hit k"
        "\<forall>j. Suc i \<le> j \<and> j < k \<longrightarrow> \<not> hit j" unfolding Suc by blast+
      have "\<not> hit j" if "i \<le> j \<and> j < k" for j
        using that h(2) False by (cases "j = i") auto
      with h show "i \<le> k \<and> k < i + Suc n \<and> hit k \<and> (\<forall>j. i \<le> j \<and> j < k \<longrightarrow> \<not> hit j)" by auto
    next
      assume h: "i \<le> k \<and> k < i + Suc n \<and> hit k \<and> (\<forall>j. i \<le> j \<and> j < k \<longrightarrow> \<not> hit j)"
      with False have "k \<noteq> i" by auto
      with h have "scan (Suc i) n = Some k" by (subst Suc) auto
      with step show "scan i (Suc n) = Some k" by simp
    qed
  qed
qed (simp add: assms)

interpretation exact: first_hit "find_exact ls ctx" "matches_at ls ctx" for ls ctx
  by unfold_locales
    (auto simp: find_exact_def matches_at_def
      scan_Some [of "find_exact_from ls ctx" "\<lambda>i. slice i (i + length ctx) ls = ctx"])

interpretation near: first_hit "find_near ls ctx maxd" "near_at ls ctx maxd" for ls ctx maxd
  by unfold_locales
    (auto simp: find_near_def near_at_def
      scan_Some [of "find_near_from ls ctx maxd" "\<lambda>i. lines_distance ls ctx i \<le> maxd"])

subsection \<open>What a context match guarantees\<close>

lemma has_fuzz_or [simp]: "has_fuzz (f OR g) h \<longleftrightarrow> has_fuzz f h \<or> has_fuzz g h"
  by (auto simp: has_fuzz_def bit_eq_iff bit_simps simp del: neq0_conv)

lemma fuzz_flag_simps [simp]:
  "\<not> has_fuzz fuzz_NONE f"
  "has_fuzz fuzz_NORMALIZED_EXPLICIT_NL fuzz_NORMALIZED_EXPLICIT_NL"
  "f OR g = fuzz_NONE \<longleftrightarrow> f = fuzz_NONE \<and> g = fuzz_NONE"
  "fuzz_IGNORED_TRAILING_WHITESPACE \<noteq> fuzz_NONE"
  by (simp_all add: has_fuzz_def fuzz_defs or_eq_0_iff)

lemma find_exact_map_bounds:
  "find_exact (map f ls) (map g ctx) start = Some i \<Longrightarrow> ctx \<noteq> [] \<Longrightarrow>
     start \<le> i \<and> i < length ls \<and> i + length ctx \<le> length ls"
  using exact.search_sound [of "map f ls" "map g ctx" start i]
  by (cases ctx) (auto simp: matches_at_def)

lemma find_exact_split_bounds:
  "find_exact (map f ls) (split_lines v) start = Some i \<Longrightarrow> start \<le> i \<and> i < length ls"
  using exact.search_sound [of "map f ls" "split_lines v" start i]
  by (cases "split_lines v") (auto simp: matches_at_def)

lemma find_near_map_bounds:
  "find_near (map f ls) (map g ctx) d start = Some i \<Longrightarrow> ctx \<noteq> [] \<Longrightarrow>
     start \<le> i \<and> i < length ls \<and> i + length ctx \<le> length ls"
  using near.search_sound [of "map f ls" "map g ctx" d start i]
  by (cases ctx) (auto simp: near_at_def)

lemma find_context_core_exact:
  "ctx \<noteq> [] \<Longrightarrow>
   find_exact (map (canonicalize nfc) ls) (map (canonicalize nfc) ctx) start = Some i \<Longrightarrow>
   find_context_core nfc ls ctx start = Some \<lparr>match_line = i, match_fuzz = fuzz_NONE\<rparr>"
  by (simp add: find_context_core_def)

lemma find_context_core_inexact:
  assumes "find_context_core nfc ls ctx start = Some m" and "ctx \<noteq> []"
    and "find_exact (map (canonicalize nfc) ls) (map (canonicalize nfc) ctx) start = None"
  shows "match_fuzz m \<noteq> fuzz_NONE \<and> start \<le> match_line m \<and> match_line m < length ls
    \<and> (has_fuzz (match_fuzz m) fuzz_NORMALIZED_EXPLICIT_NL \<or> match_line m + length ctx \<le> length ls)"
  using assms unfolding find_context_core_def Let_def
  by (auto simp del: map_map split: option.splits if_splits
      dest!: find_exact_map_bounds find_exact_split_bounds find_near_map_bounds)

text \<open>
  C36: the search for a context that is not empty prefers an exact match of the canonical lines (normalised, with
  typographic punctuation replaced): it returns a result without fuzz exactly when the canonical context occurs in the
  canonical lines at or after the start, and then the first such place. Every result lies inside the file
  and not before the start.
\<close>

theorem find_context_core_exact_first:
  assumes "ctx \<noteq> []"
  shows "((\<exists>m. find_context_core nfc ls ctx start = Some m \<and> match_fuzz m = fuzz_NONE) \<longleftrightarrow>
            (\<exists>i\<ge>start. matches_at (map (canonicalize nfc) ls) (map (canonicalize nfc) ctx) i))
    \<and> (\<forall>m. find_context_core nfc ls ctx start = Some m \<longrightarrow>
         (match_fuzz m = fuzz_NONE \<longrightarrow>
           matches_at (map (canonicalize nfc) ls) (map (canonicalize nfc) ctx) (match_line m)
           \<and> (\<forall>j. start \<le> j \<and> j < match_line m \<longrightarrow>
                \<not> matches_at (map (canonicalize nfc) ls) (map (canonicalize nfc) ctx) j))
         \<and> start \<le> match_line m \<and> match_line m < length ls)"
proof (cases "find_exact (map (canonicalize nfc) ls) (map (canonicalize nfc) ctx) start")
  case None
  with find_context_core_inexact [OF _ assms None] show ?thesis
    using exact.search_None by auto
next
  case (Some i)
  note m = find_context_core_exact [OF assms Some]
  from Some have "start \<le> i \<and> i < length ls" using find_exact_map_bounds assms by blast
  with Some show ?thesis by (auto simp: m exact.search_Some)
qed

theorem find_context_core_exact_first_witness:
  "matches_at (map (canonicalize (\<lambda>s. s)) [u ''x'', u ''y'']) (map (canonicalize (\<lambda>s. s)) [u ''y'']) 1"
proof -
  have "find_context_core (\<lambda>s. s) [u ''x'', u ''y''] [u ''y''] 0 = Some \<lparr>match_line = 1, match_fuzz = fuzz_NONE\<rparr>"
    by (simp add: find_context_core_def find_exact_def slice_def canonicalize_def punctuation_equivalent_def u_def)
  with find_context_core_exact_first [of "[u ''y'']" "\<lambda>s. s" "[u ''x'', u ''y'']" 0] show ?thesis by fastforce
qed

subsection \<open>Indentation styles have a positive width\<close>

lemma best_candidate_pos:
  "0 < size0 \<Longrightarrow> \<forall>c\<in>set cs. 0 < c \<Longrightarrow>
   0 < snd (foldl (\<lambda>(best, size) c. if f c > best then (f c, c) else (best, size)) (b0, size0) cs)"
  by (induction cs arbitrary: b0 size0) auto

lemma guess_indentation_tab_size_pos:
  assumes "\<And>s. fallback = Some s \<Longrightarrow> 0 < tab_size s"
  shows "0 < tab_size (guess_indentation ls fallback)"
proof -
  define dflt where
    "dflt = (case fallback of Some s \<Rightarrow> s | None \<Rightarrow> \<lparr>tab_size = 4, insert_spaces = False\<rparr>)"
  have "0 < tab_size dflt" using assms by (auto simp: dflt_def split: option.split)
  then show ?thesis
    using best_candidate_pos [of "tab_size dflt" "[2, 4, 6, 8, 3, 5, 7]"]
    unfolding guess_indentation_def Let_def dflt_def [symmetric]
    by (auto simp: split_beta simp del: foldl.simps foldl_Cons)
qed

end
