(* ===== verification/Text_Patch_Parser.thy ===== *)
theory Text_Patch_Parser
  imports Text_Patch_Matcher
begin

section \<open>Text patches: parsing and application\<close>

text \<open>
  \<^verbatim>\<open>text_patch/parser.py\<close>. The parser object is a record, its methods take and return it. The two
  outer \<^verbatim>\<open>while\<close> loops (\<^verbatim>\<open>parse\<close> and \<^verbatim>\<open>_parse_update_file\<close>) are
  \<^theory_text>\<open>partial_function (option)\<close>: \<open>None\<close> is a loop that never ends, \<open>Some (Inl e)\<close> a raised
  exception, \<open>Some (Inr x)\<close> a normal return.
\<close>

unbundle bit_operations_syntax

definition PATCH_PREFIX :: ustr where "PATCH_PREFIX = u ''*** Begin Patch''"
definition PATCH_SUFFIX :: ustr where "PATCH_SUFFIX = u ''*** End Patch''"
definition ADD_FILE_PREFIX :: ustr where "ADD_FILE_PREFIX = u ''*** Add File: ''"
definition DELETE_FILE_PREFIX :: ustr where "DELETE_FILE_PREFIX = u ''*** Delete File: ''"
definition UPDATE_FILE_PREFIX :: ustr where "UPDATE_FILE_PREFIX = u ''*** Update File: ''"
definition MOVE_FILE_TO_PREFIX :: ustr where "MOVE_FILE_TO_PREFIX = u ''*** Move to: ''"
definition END_OF_FILE_PREFIX :: ustr where "END_OF_FILE_PREFIX = u ''*** End of File''"
definition CHUNK_DELIMITER :: ustr where "CHUNK_DELIMITER = u ''@@''"

lemmas prefix_defs = PATCH_PREFIX_def PATCH_SUFFIX_def ADD_FILE_PREFIX_def DELETE_FILE_PREFIX_def
  UPDATE_FILE_PREFIX_def MOVE_FILE_TO_PREFIX_def END_OF_FILE_PREFIX_def CHUNK_DELIMITER_def

text \<open>
  \<^verbatim>\<open>\.(tex|latex|sty|cls|bib|bst|ins)$\<close> with \<^verbatim>\<open>re.IGNORECASE\<close>: a pattern letter also matches its
  capital, and the letters i and s match their extra Unicode case variants.
\<close>

definition matches_ignoring_case :: "nat \<Rightarrow> nat \<Rightarrow> bool" where
  "matches_ignoring_case p c \<longleftrightarrow> c = p \<or> c + 32 = p
     \<or> (p = 115 \<and> c = 0x17F) \<or> (p = 105 \<and> (c = 0x130 \<or> c = 0x131))"

definition avoid_explicit_tabs :: "ustr \<Rightarrow> bool" where
  "avoid_explicit_tabs path \<longleftrightarrow>
     (\<exists>ext \<in> set (map u [''tex'', ''latex'', ''sty'', ''cls'', ''bib'', ''bst'', ''ins'']).
        length ext < length path
        \<and> path ! (length path - length ext - 1) = 46
        \<and> list_all2 matches_ignoring_case ext (drop (length path - length ext) path))"

subsection \<open>Sections\<close>

datatype mode = M_ADD | M_DELETE | M_KEEP

record patch_section =
  sec_context :: "ustr list"
  sec_chunks :: "chunk list"
  end_index :: nat
  sec_eof :: bool
  fuzz_merges :: nat

record peek_state =
  pk_index :: nat
  pk_old :: "ustr list"
  pk_deleted :: "ustr list"
  pk_inserted :: "ustr list"
  pk_chunks :: "chunk list"
  pk_mode :: mode
  pk_merges :: nat

definition starts_with_any :: "ustr \<Rightarrow> ustr list \<Rightarrow> bool" where
  "starts_with_any current prefixes \<longleftrightarrow> (\<exists>p\<in>set prefixes. startswith current (strip p))"

definition section_prefixes :: "ustr list" where
  "section_prefixes = [CHUNK_DELIMITER, PATCH_SUFFIX, UPDATE_FILE_PREFIX, DELETE_FILE_PREFIX,
     ADD_FILE_PREFIX, END_OF_FILE_PREFIX]"

definition line_mode :: "ustr \<Rightarrow> mode" where
  "line_mode l = (if startswith l [43] then M_ADD else if startswith l [45] then M_DELETE else M_KEEP)"

definition flush_chunk :: "peek_state \<Rightarrow> chunk list" where
  "flush_chunk st =
     (if pk_inserted st \<noteq> [] \<or> pk_deleted st \<noteq> []
      then pk_chunks st @ [\<lparr>orig_index = int (length (pk_old st)) - int (length (pk_deleted st)),
                           del_lines = pk_deleted st, ins_lines = pk_inserted st\<rparr>]
      else pk_chunks st)"

text \<open>The body of the \<^verbatim>\<open>while\<close> loop after the break tests: classify the line, then file it. \<open>rest\<close> is
  \<^verbatim>\<open>lines[index:]\<close> after the increment, so its head is \<^verbatim>\<open>next_line\<close>.\<close>

definition push_line :: "mode \<Rightarrow> ustr \<Rightarrow> peek_state \<Rightarrow> peek_state" where
  "push_line mode line st =
     (let st1 = st\<lparr>pk_index := pk_index st + 1, pk_mode := mode\<rparr>;
          st2 = (if mode = M_KEEP \<and> pk_mode st \<noteq> mode
                 then st1\<lparr>pk_chunks := flush_chunk st1, pk_deleted := [], pk_inserted := []\<rparr>
                 else st1)
      in case mode of
           M_DELETE \<Rightarrow> st2\<lparr>pk_deleted := pk_deleted st2 @ [line], pk_old := pk_old st2 @ [line]\<rparr>
         | M_ADD \<Rightarrow> st2\<lparr>pk_inserted := pk_inserted st2 @ [line]\<rparr>
         | M_KEEP \<Rightarrow> st2\<lparr>pk_old := pk_old st2 @ [line]\<rparr>)"

definition peek_line :: "nat \<Rightarrow> ustr \<Rightarrow> ustr list \<Rightarrow> peek_state \<Rightarrow> peek_state" where
  "peek_line fuzz_merge current rest st =
     (let last_mode = pk_mode st;
          plain = (\<not> (startswith current [43] \<or> startswith current [45] \<or> startswith current [32]));
          next_mode = line_mode (case rest of [] \<Rightarrow> [] | l # _ \<Rightarrow> l);
          can_fuzz = (last_mode \<noteq> M_KEEP \<and> next_mode = last_mode);
          merges = (if plain \<and> can_fuzz then pk_merges st + 1 else pk_merges st);
          mode = (if plain then (if can_fuzz \<and> fuzz_merge = merges then next_mode else M_KEEP)
                  else line_mode current);
          line = (if plain then current else drop 1 current)
      in push_line mode line (st\<lparr>pk_merges := merges\<rparr>))"

fun peek_loop :: "nat \<Rightarrow> ustr list \<Rightarrow> peek_state \<Rightarrow> patch_error + peek_state" where
  "peek_loop fuzz_merge [] st = Inr st"
| "peek_loop fuzz_merge (current # rest) st =
     (if starts_with_any current section_prefixes
      then Inr (if pk_mode st = M_KEEP \<and> pk_old st \<noteq> [] \<and> strip (last (pk_old st)) = []
                then st\<lparr>pk_old := butlast (pk_old st)\<rparr> else st)
      else if current = u ''***'' then Inr st
      else if startswith current (u ''***'') then Inl (InvalidPatchFormatError (InvalidLine current))
      else peek_loop fuzz_merge rest (peek_line fuzz_merge current rest st))"

definition peek_next_section :: "ustr list \<Rightarrow> nat \<Rightarrow> nat \<Rightarrow> patch_error + patch_section" where
  "peek_next_section lines initial_index fuzz_merge =
     bind_res
       (peek_loop fuzz_merge (drop initial_index lines)
          \<lparr>pk_index = initial_index, pk_old = [], pk_deleted = [], pk_inserted = [], pk_chunks = [],
           pk_mode = M_KEEP, pk_merges = 0\<rparr>)
       (\<lambda>st. let eof = (pk_index st < length lines \<and> lines ! pk_index st = END_OF_FILE_PREFIX)
             in Inr \<lparr>sec_context = pk_old st, sec_chunks = flush_chunk st,
                     end_index = (if eof then pk_index st + 1 else pk_index st),
                     sec_eof = eof, fuzz_merges = pk_merges st\<rparr>)"

subsection \<open>The parser object\<close>

record parser =
  current_files :: "(ustr \<times> ustr) list"
  lines :: "ustr list"
  index :: nat
  actions :: patch
  fuzz :: fuzz

definition indent_style_of :: "parser \<Rightarrow> ustr \<Rightarrow> indent_style option" where
  "indent_style_of p path =
     map_option (\<lambda>content. guess_indentation (split_lines content) None) (map_of (current_files p) path)"

definition is_done :: "parser \<Rightarrow> ustr list \<Rightarrow> bool" where
  "is_done p prefixes \<longleftrightarrow> index p \<ge> length (lines p) \<or> starts_with_any (lines p ! index p) prefixes"

definition starts_with :: "parser \<Rightarrow> ustr \<Rightarrow> bool" where
  "starts_with p prefix \<longleftrightarrow> index p < length (lines p) \<and> startswith (lines p ! index p) prefix"

definition current_line :: "parser \<Rightarrow> ustr option" where
  "current_line p = (if index p < length (lines p) then Some (lines p ! index p) else None)"

definition read_prefixed :: "parser \<Rightarrow> ustr \<Rightarrow> bool \<Rightarrow> patch_error + (ustr \<times> parser)" where
  "read_prefixed p prefix return_entire =
     (if index p \<ge> length (lines p)
      then Inl (DiffError (IndexExceedsPatch (index p) (length (lines p))))
      else let current = lines p ! index p
           in if \<not> startswith current prefix then Inr ([], p)
              else Inr (if return_entire then current else drop (length prefix) current,
                        p\<lparr>index := index p + 1\<rparr>))"

definition reject_duplicate :: "parser \<Rightarrow> ustr \<Rightarrow> action_type \<Rightarrow> patch_error + unit" where
  "reject_duplicate p path operation =
     (if path \<in> fst ` set (actions p) then Inl (DiffError (DuplicatePath operation path)) else Inr ())"

subsection \<open>Update hunks\<close>

text \<open>The loop over \<^verbatim>\<open>range(section.fuzz_merges + 1)\<close>.\<close>

fun try_merges ::
    "(ustr \<Rightarrow> ustr) \<Rightarrow> ustr \<Rightarrow> ustr list \<Rightarrow> parser \<Rightarrow> nat \<Rightarrow> nat list \<Rightarrow> patch_section
     \<Rightarrow> patch_error + (patch_section \<times> fuzz_match option)" where
  "try_merges nfc path file_lines p search_index [] sec = Inr (sec, None)"
| "try_merges nfc path file_lines p search_index (fuzz_merge # rest) sec =
     bind_res (if fuzz_merge > 0 then peek_next_section (lines p) (index p) fuzz_merge else Inr sec)
       (\<lambda>sec'.
         case (case find_context nfc path file_lines (sec_context sec') search_index (sec_eof sec') of
                 Some m \<Rightarrow> Some m
               | None \<Rightarrow> find_context nfc path file_lines (sec_context sec') 0 (sec_eof sec')) of
           Some m \<Rightarrow>
             Inr (sec', Some (if fuzz_merge > 0
                              then m\<lparr>match_fuzz := match_fuzz m OR fuzz_MERGED_OPERATOR_SECTION\<rparr>
                              else m))
         | None \<Rightarrow> try_merges nfc path file_lines p search_index rest sec')"

definition adjust_chunk ::
    "fuzz_match \<Rightarrow> bool \<Rightarrow> ustr \<Rightarrow> indent_style \<Rightarrow> indent_style \<Rightarrow> chunk \<Rightarrow> chunk" where
  "adjust_chunk m should_replace_explicit_tabs extra_indent source_indent target_indent c =
     (let nlf = has_fuzz (match_fuzz m) fuzz_NORMALIZED_EXPLICIT_NL;
          tabf = has_fuzz (match_fuzz m) fuzz_NORMALIZED_EXPLICIT_TAB;
          ins1 = (if nlf then map replace_explicit_newlines (ins_lines c) else ins_lines c);
          del1 = (if nlf then map replace_explicit_newlines (del_lines c) else del_lines c);
          ins2 = (if should_replace_explicit_tabs \<or> tabf then map replace_explicit_tabs ins1 else ins1);
          ins3 = map (\<lambda>line. if strip line = [] then line
                             else extra_indent @ transform_indentation line source_indent target_indent) ins2;
          del2 = (if tabf then map replace_explicit_tabs del1 else del1)
      in \<lparr>orig_index = orig_index c + int (match_line m), del_lines = del2, ins_lines = ins3\<rparr>)"

text \<open>The part of an iteration after the context was found: the chunks are shifted to the match and
  re-indented, the search position and the parser index move past the section.\<close>

definition accept_section ::
    "ustr list \<Rightarrow> indent_style \<Rightarrow> bool \<Rightarrow> parser \<Rightarrow> chunk list \<Rightarrow> patch_section \<Rightarrow> fuzz_match
     \<Rightarrow> parser \<times> nat \<times> chunk list" where
  "accept_section file_lines target_indent should_replace_explicit_tabs p cs sec m =
     (let source_indent =
            guess_indentation (concat (map ins_lines (sec_chunks sec)) @ sec_context sec)
              (Some target_indent);
          matched_indent =
            indent_level (if match_line m < length file_lines then file_lines ! match_line m else [])
              (tab_size target_indent);
          first_context0 = (case sec_context sec of [] \<Rightarrow> [] | c # _ \<Rightarrow> c);
          first_context =
            (if has_fuzz (match_fuzz m) fuzz_NORMALIZED_EXPLICIT_NL
             then replace_explicit_newlines first_context0
             else if has_fuzz (match_fuzz m) fuzz_NORMALIZED_EXPLICIT_TAB
             then replace_explicit_tabs first_context0
             else first_context0);
          source_level = indent_level first_context (tab_size source_indent);
          extra_indent = concat (replicate (matched_indent - source_level) (indent_unit target_indent))
      in (p\<lparr>fuzz := fuzz p OR match_fuzz m, index := end_index sec\<rparr>,
          match_line m + length (sec_context sec),
          cs @ map (adjust_chunk m should_replace_explicit_tabs extra_indent source_indent
                      target_indent) (sec_chunks sec)))"

text \<open>One iteration of the \<^verbatim>\<open>while\<close> loop of \<^verbatim>\<open>_parse_update_file\<close>: the state is the parser, the
  search index and the chunks appended so far.\<close>

definition update_body ::
    "(ustr \<Rightarrow> ustr) \<Rightarrow> ustr \<Rightarrow> ustr list \<Rightarrow> indent_style \<Rightarrow> bool \<Rightarrow> parser \<times> nat \<times> chunk list
     \<Rightarrow> patch_error + (parser \<times> nat \<times> chunk list)" where
  "update_body nfc path file_lines target_indent should_replace_explicit_tabs = (\<lambda>(p0, search0, cs).
     bind_res (read_prefixed p0 CHUNK_DELIMITER True) (\<lambda>(section_line, p).
     let section_hint = strip (drop (length CHUNK_DELIMITER) section_line) in
     if section_line = [] \<and> search0 \<noteq> 0
     then Inl (DiffError (InvalidLineSplit (current_line p)))
     else
     let search_index =
           (if section_hint \<noteq> []
            then (case find_hint nfc file_lines section_hint search0 of None \<Rightarrow> search0 | Some i \<Rightarrow> i)
            else search0) in
     bind_res (peek_next_section (lines p) (index p) 0) (\<lambda>sec0.
     bind_res (try_merges nfc path file_lines p search_index [0..<fuzz_merges sec0 + 1] sec0) (\<lambda>(sec, mo).
     case mo of
       None \<Rightarrow> Inl (InvalidContextError path search_index (sec_context sec) (sec_eof sec))
     | Some m \<Rightarrow> Inr (accept_section file_lines target_indent should_replace_explicit_tabs p cs sec m)))))"

definition update_stop_prefixes :: "ustr list" where
  "update_stop_prefixes = [PATCH_SUFFIX, UPDATE_FILE_PREFIX, DELETE_FILE_PREFIX, ADD_FILE_PREFIX,
     END_OF_FILE_PREFIX]"

partial_function (option) update_loop ::
    "(ustr \<Rightarrow> ustr) \<Rightarrow> ustr \<Rightarrow> ustr list \<Rightarrow> indent_style \<Rightarrow> bool \<Rightarrow> parser \<times> nat \<times> chunk list
     \<Rightarrow> (patch_error + (parser \<times> chunk list)) option" where
  "update_loop nfc path file_lines target_indent tabs st =
     (if is_done (fst st) update_stop_prefixes then Some (Inr (fst st, snd (snd st)))
      else case update_body nfc path file_lines target_indent tabs st of
             Inl e \<Rightarrow> Some (Inl e)
           | Inr st' \<Rightarrow> update_loop nfc path file_lines target_indent tabs st')"

declare update_loop.simps [code]

definition parse_update_file ::
    "(ustr \<Rightarrow> ustr) \<Rightarrow> parser \<Rightarrow> ustr \<Rightarrow> ustr \<Rightarrow> indent_style
     \<Rightarrow> (patch_error + (patch_action \<times> parser)) option" where
  "parse_update_file nfc p path text target_indent =
     map_option (\<lambda>r. bind_res r (\<lambda>(p', cs).
         Inr (\<lparr>action_kind = UPDATE, chunks = cs, new_file = None, move_path = None\<rparr>, p')))
       (update_loop nfc path (split_lines text) target_indent
          (\<not> avoid_explicit_tabs (rstrip path)) (p, 0, []))"

subsection \<open>Added files\<close>

definition add_stop_prefixes :: "ustr list" where
  "add_stop_prefixes = [PATCH_SUFFIX, UPDATE_FILE_PREFIX, DELETE_FILE_PREFIX, ADD_FILE_PREFIX]"

text \<open>The \<^verbatim>\<open>while\<close> loop of \<^verbatim>\<open>_parse_add_file\<close> over the lines from the index on; every iteration
  consumes one line.\<close>

fun add_file_lines :: "ustr list \<Rightarrow> nat \<Rightarrow> ustr list \<Rightarrow> patch_error + (ustr list \<times> nat)" where
  "add_file_lines [] i content = Inr (content, i)"
| "add_file_lines (line # rest) i content =
     (if starts_with_any line add_stop_prefixes then Inr (content, i)
      else if \<not> startswith line [43] then Inl (InvalidPatchFormatError (InvalidAddFileLine line))
      else add_file_lines rest (Suc i) (content @ [drop 1 line]))"

definition parse_add_file :: "parser \<Rightarrow> patch_error + (patch_action \<times> parser)" where
  "parse_add_file p =
     bind_res (add_file_lines (drop (index p) (lines p)) (index p) []) (\<lambda>(content, i).
       Inr (\<lparr>action_kind = ADD, chunks = [], new_file = Some (join_lines content), move_path = None\<rparr>,
            p\<lparr>index := i\<rparr>))"

subsection \<open>The main loop\<close>

text \<open>The update branch of \<^verbatim>\<open>parse\<close>, after the path was read.\<close>

definition parse_update_branch ::
    "(ustr \<Rightarrow> ustr) \<Rightarrow> parser \<Rightarrow> ustr \<Rightarrow> (patch_error + parser) option" where
  "parse_update_branch nfc p1 path =
     (case bind_res (reject_duplicate p1 path UPDATE) (\<lambda>_. read_prefixed p1 MOVE_FILE_TO_PREFIX False) of
        Inl e \<Rightarrow> Some (Inl e)
      | Inr (move_to, p2) \<Rightarrow>
          (case (map_of (current_files p2) path, indent_style_of p2 path) of
             (Some text, Some style) \<Rightarrow>
               map_option (\<lambda>r. bind_res r (\<lambda>(action, p3).
                   Inr (p3\<lparr>actions := al_set path
                            (action\<lparr>move_path := (if move_to = [] then None else Some move_to)\<rparr>)
                            (actions p3)\<rparr>)))
                 (parse_update_file nfc p2 path text style)
           | _ \<Rightarrow> Some (Inl (DiffError (MissingFile UPDATE path)))))"

definition parse_delete_branch :: "parser \<Rightarrow> ustr \<Rightarrow> patch_error + parser" where
  "parse_delete_branch p path =
     bind_res (reject_duplicate p path DELETE) (\<lambda>_.
       if path \<notin> fst ` set (current_files p) then Inl (DiffError (MissingFile DELETE path))
       else Inr (p\<lparr>actions := al_set path
              \<lparr>action_kind = DELETE, chunks = [], new_file = None, move_path = None\<rparr> (actions p)\<rparr>))"

definition parse_add_branch :: "parser \<Rightarrow> ustr \<Rightarrow> patch_error + parser" where
  "parse_add_branch p path =
     bind_res (reject_duplicate p path ADD) (\<lambda>_.
       if path \<in> fst ` set (current_files p) then Inl (DiffError (FileAlreadyExists path))
       else bind_res (parse_add_file p) (\<lambda>(action, p').
              Inr (p'\<lparr>actions := al_set path action (actions p')\<rparr>)))"

text \<open>One iteration of the \<^verbatim>\<open>while\<close> loop of \<^verbatim>\<open>parse\<close>. A header line with an empty path is consumed and
  the next kind of header is tried on the following line, as \<^verbatim>\<open>_read_prefixed\<close> does.\<close>

definition parse_step :: "(ustr \<Rightarrow> ustr) \<Rightarrow> parser \<Rightarrow> (patch_error + parser) option" where
  "parse_step nfc p =
     (case read_prefixed p UPDATE_FILE_PREFIX False of
        Inl e \<Rightarrow> Some (Inl e)
      | Inr (path, p1) \<Rightarrow>
          if path \<noteq> [] then parse_update_branch nfc p1 path
          else case read_prefixed p1 DELETE_FILE_PREFIX False of
            Inl e \<Rightarrow> Some (Inl e)
          | Inr (path, p2) \<Rightarrow>
              if path \<noteq> [] then Some (parse_delete_branch p2 path)
              else case read_prefixed p2 ADD_FILE_PREFIX False of
                Inl e \<Rightarrow> Some (Inl e)
              | Inr (path, p3) \<Rightarrow>
                  if path \<noteq> [] then Some (parse_add_branch p3 path)
                  else Some (Inl (DiffError (UnknownLine (current_line p3)))))"

partial_function (option) parse_loop :: "(ustr \<Rightarrow> ustr) \<Rightarrow> parser \<Rightarrow> (patch_error + parser) option" where
  "parse_loop nfc p =
     (if is_done p [PATCH_SUFFIX] then Some (Inr p)
      else Option.bind (parse_step nfc p) (\<lambda>r.
             case r of Inl e \<Rightarrow> Some (Inl e) | Inr p' \<Rightarrow> parse_loop nfc p'))"

declare parse_loop.simps [code]

definition parse :: "(ustr \<Rightarrow> ustr) \<Rightarrow> parser \<Rightarrow> (patch_error + parser) option" where
  "parse nfc p =
     map_option (\<lambda>r. bind_res r (\<lambda>p'.
         if \<not> starts_with p' PATCH_SUFFIX then Inl (InvalidPatchFormatError MissingEndPatch)
         else Inr (p'\<lparr>index := index p' + 1\<rparr>)))
       (parse_loop nfc p)"

subsection \<open>From the patch to the new contents\<close>

fun apply_chunks ::
    "ustr \<Rightarrow> ustr list \<Rightarrow> chunk list \<Rightarrow> int \<Rightarrow> ustr list \<Rightarrow> patch_error + (int \<times> ustr list)" where
  "apply_chunks path source [] source_index destination = Inr (source_index, destination)"
| "apply_chunks path source (c # cs) source_index destination =
     (if orig_index c > int (length source)
      then Inl (DiffError (OrigIndexPastEnd path (orig_index c) (length source)))
      else if source_index > orig_index c
      then Inl (DiffError (OrigIndexBackwards path source_index (orig_index c)))
      else apply_chunks path source cs (orig_index c + int (length (del_lines c)))
             (destination @ slice (nat source_index) (nat (orig_index c)) source @ ins_lines c))"

definition get_updated_lines :: "ustr list \<Rightarrow> chunk list \<Rightarrow> ustr \<Rightarrow> patch_error + ustr list" where
  "get_updated_lines source cs path =
     bind_res (apply_chunks path source cs 0 []) (\<lambda>(i, destination).
       Inr (destination @ drop (nat i) source))"

definition get_updated_file :: "ustr \<Rightarrow> patch_action \<Rightarrow> ustr \<Rightarrow> patch_error + ustr" where
  "get_updated_file text action path =
     bind_res (get_updated_lines (split_lines text) (chunks action) path) (\<lambda>ls. Inr (join_lines ls))"

definition action_to_change :: "(ustr \<times> ustr) list \<Rightarrow> ustr \<times> patch_action \<Rightarrow> patch_error + (ustr \<times> file_change)" where
  "action_to_change files = (\<lambda>(path, action).
     case action_kind action of
       DELETE \<Rightarrow>
         (case map_of files path of
            None \<Rightarrow> Inl (KeyError path)
          | Some old \<Rightarrow> Inr (path, \<lparr>change_kind = DELETE, old_content = Some old, new_content = None,
                                   change_move_path = None\<rparr>))
     | ADD \<Rightarrow> Inr (path, \<lparr>change_kind = ADD, old_content = None,
                         new_content = Some (case new_file action of None \<Rightarrow> [] | Some s \<Rightarrow> s),
                         change_move_path = None\<rparr>)
     | UPDATE \<Rightarrow>
         (case map_of files path of
            None \<Rightarrow> Inl (KeyError path)
          | Some old \<Rightarrow>
              bind_res (get_updated_file old action path) (\<lambda>new.
                Inr (path, \<lparr>change_kind = UPDATE, old_content = Some old, new_content = Some new,
                            change_move_path = move_path action\<rparr>))))"

definition patch_to_commit :: "patch \<Rightarrow> (ustr \<times> ustr) list \<Rightarrow> fuzz \<Rightarrow> patch_error + commit" where
  "patch_to_commit pt files fz =
     bind_res (map_res (action_to_change files) pt) (\<lambda>cs. Inr \<lparr>changes = cs, commit_fuzz = fz\<rparr>)"

subsection \<open>Entry points\<close>

definition parse_patch :: "(ustr \<Rightarrow> ustr) \<Rightarrow> ustr \<Rightarrow> (ustr \<times> ustr) list \<Rightarrow> (patch_error + commit) option" where
  "parse_patch nfc text files =
     (if \<not> startswith text (PATCH_PREFIX @ [nl]) then Some (Inl (InvalidPatchFormatError PatchMustStart))
      else let ls = split_lines (strip text) in
      if length ls < 2 then Some (Inl (InvalidPatchFormatError InvalidPatchText))
      else if \<not> startswith (hd ls) PATCH_PREFIX then Some (Inl (InvalidPatchFormatError PatchMustStart))
      else let ls' = (if last ls \<noteq> PATCH_SUFFIX then ls @ [PATCH_SUFFIX] else ls) in
      map_option (\<lambda>r. bind_res r (\<lambda>p. patch_to_commit (actions p) files (fuzz p)))
        (parse nfc \<lparr>current_files = files, lines = ls', index = 1, actions = [], fuzz = fuzz_NONE\<rparr>))"

text \<open>\<^verbatim>\<open>result.setdefault(key, None)\<close> and \<^verbatim>\<open>list(result)\<close>: first occurrences, in order.\<close>

fun first_occurrences :: "'a list \<Rightarrow> 'a list \<Rightarrow> 'a list" where
  "first_occurrences seen [] = []"
| "first_occurrences seen (x # xs) =
     (if x \<in> set seen then first_occurrences seen xs else x # first_occurrences (x # seen) xs)"

fun header_path :: "ustr list \<Rightarrow> ustr \<Rightarrow> ustr option" where
  "header_path [] line = None"
| "header_path (p # ps) line =
     (if startswith line p then Some (drop (length p) line) else header_path ps line)"

definition identify_files_affected :: "ustr \<Rightarrow> ustr list" where
  "identify_files_affected text =
     first_occurrences []
       (List.map_filter
          (header_path [UPDATE_FILE_PREFIX, DELETE_FILE_PREFIX, MOVE_FILE_TO_PREFIX, ADD_FILE_PREFIX])
          (split_lines (strip text)))"

definition identify_files_needed :: "ustr \<Rightarrow> ustr list" where
  "identify_files_needed text =
     first_occurrences []
       (List.map_filter (header_path [UPDATE_FILE_PREFIX, DELETE_FILE_PREFIX]) (split_lines (strip text)))"

definition identify_files_added :: "ustr \<Rightarrow> ustr list" where
  "identify_files_added text =
     List.map_filter (header_path [ADD_FILE_PREFIX]) (split_lines (strip text))"

end
