(* ===== verification/Text_Mutation.thy ===== *)
theory Text_Mutation
  imports Workspace_File Text_Patch_Parser
begin

section \<open>Text mutations: the one chain that changes workspace files\<close>

text \<open>
  \<^verbatim>\<open>text_mutation.py\<close>, \<^verbatim>\<open>text_patch/executor.py\<close>, the exact edits of \<^verbatim>\<open>text_owner.py\<close> and the journal of
  \<^verbatim>\<open>text_journal.py\<close>, all under \<^verbatim>\<open>app/services/infrastructure/workspace_files/\<close>. Arguments stand for what
  lies outside these files: \<open>expand\<close> and \<open>realpath\<close> for the user's home directory and symbolic links
  (\<^verbatim>\<open>Path.expanduser\<close>, \<^verbatim>\<open>Path.resolve\<close>), \<open>access\<close> for the \<^verbatim>\<open>WorkspaceFilePaths\<close> object that is passed in
  (\<^verbatim>\<open>require_access\<close> and \<^verbatim>\<open>reference\<close>), \<open>authorize\<close> for the caller's rule, \<open>sha\<close> for SHA-256, \<open>nfc\<close> for
  Unicode normalisation, \<open>lock\<close> for the outcome of taking and releasing the workspace lock. Journals are
  private to this module and are kept beside the tree.
\<close>

subsection \<open>Snapshots and planned publications\<close>

definition MAX_FILE_BYTES :: nat where "MAX_FILE_BYTES = 33554432"

record file_snapshot =
  snap_uri :: ustr
  real_path :: path
  snap_before :: "file_preimage option"

definition absent :: ustr where "absent = u ''absent''"

definition content_version :: "(bytes \<Rightarrow> ustr) \<Rightarrow> bytes option \<Rightarrow> ustr" where
  "content_version sha b = (case b of None \<Rightarrow> absent | Some c \<Rightarrow> content_hash sha c)"

definition snap_version :: "(bytes \<Rightarrow> ustr) \<Rightarrow> file_snapshot \<Rightarrow> ustr" where
  "snap_version sha s = (case snap_before s of None \<Rightarrow> absent | Some b \<Rightarrow> content_hash sha (pre_content b))"

record text_publication =
  pub_snapshot :: file_snapshot
  pub_content :: "bytes option"
  pub_operation :: string
  pub_mode :: "nat option"

abbreviation target_of :: "text_publication \<Rightarrow> path" where
  "target_of s \<equiv> real_path (pub_snapshot s)"

subsection \<open>Preparing a patch\<close>

definition crlf :: ustr where "crlf = [13, 10]"

definition line_ending :: "file_preimage option \<Rightarrow> ustr" where
  "line_ending before = (case before of None \<Rightarrow> [nl]
     | Some b \<Rightarrow> if contains crlf (pre_content b) \<and> nl \<notin> set (replace_all crlf [] (pre_content b))
                 then crlf else [nl])"

definition lookup :: "(ustr \<times> 'a) list \<Rightarrow> ustr \<Rightarrow> file_error + 'a" where
  "lookup d k = (case map_of d k of None \<Rightarrow> Inl (Missing_Key k) | Some v \<Rightarrow> Inr v)"

definition decode :: "bytes \<Rightarrow> file_error + ustr" where
  "decode b = (case utf8_decode b of None \<Rightarrow> Inl Not_Unicode | Some s \<Rightarrow> Inr s)"

definition encode :: "ustr \<Rightarrow> file_error + bytes" where
  "encode s = (case utf8_encode s of None \<Rightarrow> Inl Not_Unicode | Some b \<Rightarrow> Inr b)"

definition logical_text :: "file_preimage \<Rightarrow> file_error + ustr" where
  "logical_text b = bind_res (decode (pre_content b)) (\<lambda>s. Inr (replace_all (line_ending (Some b)) [nl] s))"

fun current_texts :: "(ustr \<times> file_snapshot) list \<Rightarrow> ustr list \<Rightarrow> file_error + (ustr \<times> ustr) list" where
  "current_texts snaps [] = Inr []"
| "current_texts snaps (name # names) =
     bind_res (lookup snaps name) (\<lambda>s.
       case snap_before s of
         None \<Rightarrow> current_texts snaps names
       | Some b \<Rightarrow> bind_res (logical_text b) (\<lambda>text.
           bind_res (current_texts snaps names) (\<lambda>rest. Inr ((name, text) # rest))))"

definition reject_existing :: "(ustr \<times> file_snapshot) list \<Rightarrow> ustr \<Rightarrow> file_error + unit" where
  "reject_existing snaps name =
     bind_res (lookup snaps name) (\<lambda>s. require (snap_before s = None) Conflict)"

fun action_value :: "action_type \<Rightarrow> string" where
  "action_value ADD = ''add''"
| "action_value DELETE = ''delete''"
| "action_value UPDATE = ''update''"

text \<open>The bytes of a change, with the line ending of the file that it starts from.\<close>

definition published_bytes :: "file_snapshot \<Rightarrow> file_change \<Rightarrow> file_error + bytes" where
  "published_bytes source change = encode (replace_all [nl] (line_ending (snap_before source))
     (case new_content change of None \<Rightarrow> [] | Some s \<Rightarrow> s))"

definition moved_to :: "file_change \<Rightarrow> ustr" where
  "moved_to change = (case change_move_path change of None \<Rightarrow> [] | Some q \<Rightarrow> q)"

definition change_steps :: "(ustr \<times> file_snapshot) list \<Rightarrow> ustr \<times> file_change \<Rightarrow> file_error + text_publication list" where
  "change_steps snaps = (\<lambda>(name, change).
     bind_res (lookup snaps name) (\<lambda>source.
     bind_res (published_bytes source change) (\<lambda>content.
     if change_kind change = DELETE
     then Inr [\<lparr>pub_snapshot = source, pub_content = None, pub_operation = ''delete'', pub_mode = None\<rparr>]
     else if moved_to change = []
     then Inr [\<lparr>pub_snapshot = source, pub_content = Some content,
                pub_operation = action_value (change_kind change), pub_mode = None\<rparr>]
     else bind_res (lookup snaps (moved_to change)) (\<lambda>destination.
         case snap_before source of
           None \<Rightarrow> Inl Attribute_Error
         | Some b \<Rightarrow>
             Inr [\<lparr>pub_snapshot = destination, pub_content = Some content, pub_operation = ''move'',
                   pub_mode = Some (pre_mode b)\<rparr>,
                  \<lparr>pub_snapshot = source, pub_content = None, pub_operation = ''move'', pub_mode = None\<rparr>]))))"

definition prepare_steps :: "commit \<Rightarrow> (ustr \<times> file_snapshot) list \<Rightarrow> file_error + text_publication list" where
  "prepare_steps c snaps = bind_res (map_res (change_steps snaps) (changes c)) (\<lambda>xs. Inr (concat xs))"

text \<open>\<open>None\<close>: parsing the patch does not return.\<close>

definition prepare_patch ::
  "(ustr \<Rightarrow> ustr) \<Rightarrow> ustr \<Rightarrow> (ustr \<times> file_snapshot) list \<Rightarrow> (file_error + text_publication list) option" where
  "prepare_patch nfc text snaps =
     (case bind_res (current_texts snaps (identify_files_needed text)) (\<lambda>current.
             bind_res (map_res (reject_existing snaps) (identify_files_added text)) (\<lambda>_. Inr current)) of
        Inl e \<Rightarrow> Some (Inl e)
      | Inr current \<Rightarrow>
          (case parse_patch nfc text current of
             None \<Rightarrow> None
           | Some (Inl e) \<Rightarrow> Some (Inl (Patch_Failed e))
           | Some (Inr c) \<Rightarrow> Some (prepare_steps c snaps)))"

subsection \<open>Exact edits\<close>

text \<open>\<^verbatim>\<open>str.count\<close> and \<^verbatim>\<open>str.replace\<close> with a count of one, for a non-empty pattern.\<close>

function count_occurrences :: "ustr \<Rightarrow> ustr \<Rightarrow> nat" where
  "count_occurrences old [] = 0"
| "count_occurrences old (c # s) =
     (if old \<noteq> [] \<and> startswith (c # s) old
      then Suc (count_occurrences old (drop (length old) (c # s)))
      else count_occurrences old s)"
  by pat_completeness auto
termination
  by (relation "measure (\<lambda>(old, s). length s)") auto

fun replace_first :: "ustr \<Rightarrow> ustr \<Rightarrow> ustr \<Rightarrow> ustr" where
  "replace_first old new [] = []"
| "replace_first old new (c # s) =
     (if startswith (c # s) old then new @ drop (length old) (c # s) else c # replace_first old new s)"

definition create_text :: "ustr \<Rightarrow> ustr \<Rightarrow> file_preimage option \<Rightarrow> file_error + bytes" where
  "create_text content expected before =
     (if expected \<noteq> absent \<or> before \<noteq> None then Inl Conflict else encode content)"

definition edit_text :: "ustr \<Rightarrow> ustr \<Rightarrow> bool \<Rightarrow> file_preimage option \<Rightarrow> file_error + bytes" where
  "edit_text old new every before = (case before of
     None \<Rightarrow> Inl (OS_Error ENOENT)
   | Some b \<Rightarrow>
       if old = [] \<or> old = new then Inl (Bad_Value ''old_string'')
       else bind_res (decode (pre_content b)) (\<lambda>original.
         let occurrences = count_occurrences old original in
         if occurrences = 0 \<or> (\<not> every \<and> occurrences \<noteq> 1) then Inl (Bad_Value ''occurrences'')
         else encode (if every then replace_all old new original else replace_first old new original)))"

subsection \<open>Publishing step by step\<close>

record attempts =
  attempted :: nat
  failure :: "file_error option"
  confirmed :: "nat list"
  unverified :: "nat list"

fun is_unverified :: "file_error \<Rightarrow> bool" where
  "is_unverified (Unverified x y) = True"
| "is_unverified e = False"

definition attempt_step :: "(bytes \<Rightarrow> ustr) \<Rightarrow> machine \<Rightarrow> text_publication \<Rightarrow> unit io" where
  "attempt_step sha m s = (case pub_content s of
     None \<Rightarrow> (case snap_before (pub_snapshot s) of
         None \<Rightarrow> io_raise (Bad_Value ''deleting a missing file'')
       | Some b \<Rightarrow> delete_file_content m (target_of s) b)
   | Some c \<Rightarrow> io_bind (publish_file_content sha m (target_of s) c (snap_before (pub_snapshot s)) (pub_mode s))
       (\<lambda>_. io_return ()))"

text \<open>Every exception of a step is an \<^verbatim>\<open>OSError\<close>, \<^verbatim>\<open>RuntimeError\<close> or \<^verbatim>\<open>ValueError\<close> and ends the loop.\<close>

fun attempt_steps :: "(bytes \<Rightarrow> ustr) \<Rightarrow> machine \<Rightarrow> text_publication list \<Rightarrow> attempts \<Rightarrow> world \<Rightarrow> attempts \<times> world" where
  "attempt_steps sha m [] a w = (a, w)"
| "attempt_steps sha m (s # ss) a w =
     (let i = attempted a; a' = a\<lparr>attempted := Suc i\<rparr> in
      case attempt_step sha m s w of
        (Inr _, w') \<Rightarrow> attempt_steps sha m ss (a'\<lparr>confirmed := i # confirmed a\<rparr>) w'
      | (Inl e, w') \<Rightarrow>
          (a'\<lparr>failure := Some e, unverified := (if is_unverified e then i # unverified a else unverified a)\<rparr>, w'))"

definition budget_limit :: "nat option \<Rightarrow> nat option" where
  "budget_limit max_bytes = Some (case max_bytes of None \<Rightarrow> MAX_FILE_BYTES | Some k \<Rightarrow> min MAX_FILE_BYTES k)"

definition observe :: "machine \<Rightarrow> file_snapshot \<Rightarrow> nat option \<Rightarrow> world \<Rightarrow> (file_error + file_preimage option) \<times> world" where
  "observe m s max_bytes =
     io_bind (exists_or_link m (real_path s)) (\<lambda>found.
     if \<not> found then io_return None
     else io_bind (read_file_preimage m (real_path s) (budget_limit max_bytes)) (\<lambda>b. io_return (Some b)))"

datatype publication_state = not_attempted | published | not_published | unknown

datatype observation = After_Error string | After bool ustr

fun os_error_name :: "os_error \<Rightarrow> string" where
  "os_error_name ENOENT = ''FileNotFoundError''"
| "os_error_name EEXIST = ''FileExistsError''"
| "os_error_name EISDIR = ''IsADirectoryError''"
| "os_error_name ENOTDIR = ''NotADirectoryError''"
| "os_error_name (EOTHER name) = name"

fun patch_error_name :: "patch_error \<Rightarrow> string" where
  "patch_error_name (DiffError r) = ''DiffError''"
| "patch_error_name (InvalidPatchFormatError r) = ''InvalidPatchFormatError''"
| "patch_error_name (InvalidContextError p n ls b) = ''InvalidContextError''"
| "patch_error_name (KeyError k) = ''KeyError''"

fun error_name :: "file_error \<Rightarrow> string" where
  "error_name (OS_Error e) = os_error_name e"
| "error_name (Bad_Value s) = ''ValueError''"
| "error_name Not_Unicode = ''UnicodeDecodeError''"
| "error_name Conflict = ''WorkspaceFileConflictError''"
| "error_name (Unverified x y) = ''FilePublicationUnverifiedError''"
| "error_name (Runtime s) = ''RuntimeError''"
| "error_name Output_Limit = ''TextMutationOutputLimitError''"
| "error_name (Denied r) = ''ResourceUriResolveError''"
| "error_name (Patch_Failed e) = patch_error_name e"
| "error_name (Invalid_Patch s) = ''DiffError''"
| "error_name (Missing_Key k) = ''KeyError''"
| "error_name Attribute_Error = ''AttributeError''"

definition normal_newlines :: "ustr \<Rightarrow> ustr" where
  "normal_newlines s = replace_all [13] [nl] (replace_all crlf [nl] s)"

definition observation_of :: "file_error + file_preimage option \<Rightarrow> observation" where
  "observation_of r = (case r of
     Inl e \<Rightarrow> After_Error (error_name e)
   | Inr None \<Rightarrow> After False []
   | Inr (Some b) \<Rightarrow> (case utf8_decode (pre_content b) of
         None \<Rightarrow> After_Error ''invalid_encoding''
       | Some s \<Rightarrow> After True (normal_newlines s)))"

definition observed_version :: "(bytes \<Rightarrow> ustr) \<Rightarrow> file_error + file_preimage option \<Rightarrow> ustr option" where
  "observed_version sha r = (case r of
     Inl e \<Rightarrow> None
   | Inr None \<Rightarrow> Some absent
   | Inr (Some b) \<Rightarrow> Some (content_hash sha (pre_content b)))"

record file_receipt =
  r_path :: ustr
  r_operation :: string
  r_state :: publication_state
  r_expected_version :: ustr
  r_intended_version :: ustr
  r_exists :: "bool option"
  r_content_hash :: "ustr option"
  r_observation_error :: "string option"

definition publication_state_of ::
  "(bytes \<Rightarrow> ustr) \<Rightarrow> attempts \<Rightarrow> nat \<Rightarrow> text_publication \<Rightarrow> ustr option \<Rightarrow> publication_state" where
  "publication_state_of sha a i s observed =
     (if attempted a \<le> i then not_attempted
      else if observed = None then unknown
      else if observed = Some (content_version sha (pub_content s))
      then (if i \<in> set (confirmed a) then published else unknown)
      else if observed = Some (snap_version sha (pub_snapshot s)) \<and> i \<notin> set (confirmed a) \<and> i \<notin> set (unverified a)
      then not_published
      else unknown)"

definition receipt_of :: "(bytes \<Rightarrow> ustr) \<Rightarrow> attempts \<Rightarrow> nat \<Rightarrow> text_publication \<Rightarrow> file_error + file_preimage option \<Rightarrow> file_receipt" where
  "receipt_of sha a i s r =
     (let observed = observed_version sha r in
      \<lparr>r_path = snap_uri (pub_snapshot s), r_operation = pub_operation s,
       r_state = publication_state_of sha a i s observed,
       r_expected_version = snap_version sha (pub_snapshot s),
       r_intended_version = content_version sha (pub_content s),
       r_exists = map_option (\<lambda>v. v \<noteq> absent) observed,
       r_content_hash = (if observed = Some absent then None else observed),
       r_observation_error = (case observation_of r of After_Error n \<Rightarrow> if n = '''' then None else Some n | _ \<Rightarrow> None)\<rparr>)"

definition remaining_budget :: "nat option \<Rightarrow> file_error + file_preimage option \<Rightarrow> nat option" where
  "remaining_budget budget r = (case r of
     Inr (Some b) \<Rightarrow> map_option (\<lambda>k. k - length (pre_content b)) budget
   | _ \<Rightarrow> budget)"

text \<open>A dictionary filled from the left: the first key keeps its place, the last value counts.\<close>

definition dict_cons :: "'k \<Rightarrow> 'v \<Rightarrow> ('k \<times> 'v) list \<Rightarrow> ('k \<times> 'v) list" where
  "dict_cons k v d = (k, case map_of d k of None \<Rightarrow> v | Some v' \<Rightarrow> v') # al_del k d"

fun observe_steps ::
  "(bytes \<Rightarrow> ustr) \<Rightarrow> machine \<Rightarrow> attempts \<Rightarrow> nat \<Rightarrow> nat option \<Rightarrow> text_publication list \<Rightarrow> world
   \<Rightarrow> (file_receipt list \<times> (ustr \<times> observation) list \<times> file_error option) \<times> world" where
  "observe_steps sha m a i budget [] w = (([], [], failure a), w)"
| "observe_steps sha m a i budget (s # ss) w =
     (case observe m (pub_snapshot s) budget w of (r, w') \<Rightarrow>
      let receipt = receipt_of sha a i s r;
          a' = (if i < attempted a \<and> r_state receipt \<noteq> published \<and> failure a = None
                then a\<lparr>failure := Some (Unverified (content_version sha (pub_content s)) (observed_version sha r))\<rparr>
                else a)
      in case observe_steps sha m a' (Suc i) (remaining_budget budget r) ss w' of
           ((receipts, observations, fail), w'') \<Rightarrow>
             ((receipt # receipts, dict_cons (snap_uri (pub_snapshot s)) (observation_of r) observations, fail), w''))"

definition publish_steps ::
  "(bytes \<Rightarrow> ustr) \<Rightarrow> machine \<Rightarrow> text_publication list \<Rightarrow> nat option \<Rightarrow> world
   \<Rightarrow> (file_receipt list \<times> (ustr \<times> observation) list \<times> file_error option) \<times> world" where
  "publish_steps sha m steps budget w =
     (case attempt_steps sha m steps \<lparr>attempted = 0, failure = None, confirmed = [], unverified = []\<rparr> w of
        (a, w') \<Rightarrow> observe_steps sha m a 0 budget steps w')"

subsection \<open>Targets\<close>

definition path_parts :: "ustr \<Rightarrow> path" where
  "path_parts s = filter (\<lambda>x. x \<noteq> [] \<and> x \<noteq> u ''.'') (split_on 47 s)"

text \<open>\<^verbatim>\<open>PureWindowsPath(s).drive\<close> is not empty: a drive letter or a network share.\<close>

definition windows_drive :: "ustr \<Rightarrow> bool" where
  "windows_drive s \<longleftrightarrow> (let n = map (\<lambda>c. if c = 47 then 92 else c) s in
     startswith n [92, 92] \<or> startswith (drop 1 n) [58])"

definition is_relative_to :: "path \<Rightarrow> path \<Rightarrow> bool" where
  "is_relative_to p base \<longleftrightarrow> take (length base) p = base"

text \<open>
  \<^verbatim>\<open>resolve_native_file_path\<close> of \<^verbatim>\<open>app/core/path_utils.py\<close> on a POSIX system, without permission for
  paths outside. \<open>expand\<close> maps a first component that starts with a tilde to the home directory it
  names. \<open>Denied\<close> is \<^verbatim>\<open>ForbiddenError\<close>.
\<close>

definition requested_path :: "(ustr \<Rightarrow> file_error + path) \<Rightarrow> path \<Rightarrow> ustr \<Rightarrow> file_error + path" where
  "requested_path expand base s =
     (if startswith s [47] then Inr (path_parts s)
      else case path_parts s of
        c # rest \<Rightarrow> if startswith c [126] then bind_res (expand c) (\<lambda>home. Inr (home @ rest))
                    else Inr (base @ c # rest)
      | [] \<Rightarrow> Inr base)"

definition resolve_native_file_path ::
  "(ustr \<Rightarrow> file_error + path) \<Rightarrow> (path \<Rightarrow> path) \<Rightarrow> path \<Rightarrow> ustr \<Rightarrow> file_error + path" where
  "resolve_native_file_path expand realpath base s =
     (if 0 \<in> set s then Inl (Bad_Value ''NUL'')
      else if windows_drive s then Inl (Bad_Value ''drive'')
      else bind_res (requested_path expand (realpath base) s) (\<lambda>requested.
        if is_relative_to (realpath requested) (realpath base) then Inr (realpath requested)
        else Inl (Denied (u ''outside''))))"

definition resolve_workspace_file ::
  "(ustr \<Rightarrow> file_error + path) \<Rightarrow> (path \<Rightarrow> path) \<Rightarrow> path \<Rightarrow> ustr \<Rightarrow> file_error + path" where
  "resolve_workspace_file expand realpath root s =
     (if contains (u ''://'') s \<or> startswith s [47] \<or> windows_drive s then Inl (Bad_Value ''absolute path or URI'')
      else if s = [] \<or> u ''..'' \<in> set (path_parts s) \<or> 0 \<in> set s then Inl (Bad_Value ''relative path'')
      else case resolve_native_file_path expand realpath root s of
        Inl (Denied r) \<Rightarrow> Inl (Bad_Value ''outside the root'')
      | Inl e \<Rightarrow> Inl e
      | Inr p \<Rightarrow> if p = root \<or> \<not> is_relative_to p root then Inl (Bad_Value ''outside the root'') else Inr p)"

text \<open>The directories from the parent of a target up to the root, the root excluded.\<close>

function parents_below :: "path \<Rightarrow> path \<Rightarrow> path list" where
  "parents_below root p = (if p = root \<or> p = [] then [] else p # parents_below root (butlast p))"
  by pat_completeness auto
termination
  by (relation "measure (\<lambda>(root, p). length p)") auto

declare parents_below.simps [simp del]

fun check_parents :: "machine \<Rightarrow> path list \<Rightarrow> path list \<Rightarrow> unit io" where
  "check_parents m targets [] = io_return ()"
| "check_parents m targets (p # ps) =
     io_bind (io_require (p \<notin> set targets) (Bad_Value ''ancestor and descendant'')) (\<lambda>_.
     io_bind (path_exists m p) (\<lambda>e.
     io_bind (if e then is_dir m p else io_return True) (\<lambda>ok.
     io_bind (io_require ok (Bad_Value ''parent is not a directory'')) (\<lambda>_.
     check_parents m targets ps))))"

fun check_targets :: "machine \<Rightarrow> path \<Rightarrow> path list \<Rightarrow> path list \<Rightarrow> unit io" where
  "check_targets m root targets [] = io_return ()"
| "check_targets m root targets (p # ps) =
     io_bind (check_parents m targets (parents_below root (butlast p))) (\<lambda>_. check_targets m root targets ps)"

text \<open>A computation that reads the state of the links at this moment.\<close>

definition io_now :: "(nat \<Rightarrow> file_error + 'a) \<Rightarrow> 'a io" where
  "io_now f w = (f (calls w), w)"

text \<open>What the text mutation gets from its caller.\<close>

record surroundings =
  e_expand :: "ustr \<Rightarrow> file_error + path"
  e_realpath :: "nat \<Rightarrow> path \<Rightarrow> path"
  e_access :: "nat \<Rightarrow> path \<Rightarrow> file_error + ustr"
  e_authorize :: "ustr \<Rightarrow> file_error option"
  e_lock :: "file_error option"
  e_unlock :: "file_error option"

definition resolve_now :: "surroundings \<Rightarrow> path \<Rightarrow> nat \<Rightarrow> ustr \<Rightarrow> file_error + path" where
  "resolve_now env root t = resolve_workspace_file (e_expand env) (e_realpath env t) root"

definition validate_text_paths :: "machine \<Rightarrow> surroundings \<Rightarrow> ustr list \<Rightarrow> path \<Rightarrow> unit io" where
  "validate_text_paths m env names root =
     io_bind (io_now (\<lambda>t. map_res (resolve_now env root t) names)) (\<lambda>targets.
     io_bind (io_require (distinct targets) (Bad_Value ''same file'')) (\<lambda>_.
     check_targets m root targets targets))"

subsection \<open>Capturing the originals\<close>

text \<open>\<^verbatim>\<open>(?:absent|sha256:[0-9a-f]{64})\Z\<close>\<close>

definition is_version :: "ustr \<Rightarrow> bool" where
  "is_version v \<longleftrightarrow> v = absent \<or> (take 7 v = u ''sha256:'' \<and> length v = 71
     \<and> (\<forall>c\<in>set (drop 7 v). (48 \<le> c \<and> c \<le> 57) \<or> (97 \<le> c \<and> c \<le> 102)))"

text \<open>\<^verbatim>\<open>json.dumps(s, ensure_ascii=False)\<close> for a string.\<close>

definition json_char :: "nat \<Rightarrow> ustr" where
  "json_char c = (case map_of [(34, 34), (92, 92), (8, 98), (9, 116), (10, 110), (12, 102), (13, 114)] c of
       Some e \<Rightarrow> [92, e]
     | None \<Rightarrow> if c < 32 then [92, 117, 48, 48, 48 + c div 16,
                               if c mod 16 < 10 then 48 + c mod 16 else 87 + c mod 16]
               else [c])"

definition json_string :: "ustr \<Rightarrow> ustr" where
  "json_string s = [34] @ concat (map json_char s) @ [34]"

definition utf8_length :: "ustr \<Rightarrow> file_error + nat" where
  "utf8_length s = bind_res (encode s) (\<lambda>b. Inr (length b))"

definition require_text :: "file_preimage option \<Rightarrow> file_error + ustr" where
  "require_text before = (case before of None \<Rightarrow> Inr []
     | Some b \<Rightarrow> if 0 \<in> set (pre_content b) then Inl (Bad_Value ''not a text file'') else decode (pre_content b))"

text \<open>The transport budget: the bytes captured so far, or a raise.\<close>

definition charge :: "nat option \<Rightarrow> nat \<Rightarrow> ustr \<Rightarrow> ustr \<Rightarrow> file_error + nat" where
  "charge max_bytes captured text uri = (case max_bytes of None \<Rightarrow> Inr captured
     | Some limit \<Rightarrow>
         bind_res (utf8_length (json_string text)) (\<lambda>a.
         bind_res (utf8_length uri) (\<lambda>b.
         let total = captured + a + b + 128 in
         if limit < total then Inl Output_Limit else Inr total)))"

definition capture_snapshot ::
  "(bytes \<Rightarrow> ustr) \<Rightarrow> machine \<Rightarrow> surroundings \<Rightarrow> path \<Rightarrow> (ustr \<times> ustr) list \<Rightarrow> nat option \<Rightarrow> nat \<Rightarrow> ustr
   \<Rightarrow> (file_snapshot \<times> nat) io" where
  "capture_snapshot sha m env root expected max_bytes captured name =
     io_bind (io_now (\<lambda>_. lookup expected name)) (\<lambda>version.
     io_bind (io_require (is_version version) (Bad_Value ''expected version'')) (\<lambda>_.
     io_bind (io_now (\<lambda>t. resolve_now env root t name)) (\<lambda>p.
     io_bind (io_now (\<lambda>t. e_access env t p)) (\<lambda>uri.
     io_bind (case e_authorize env uri of None \<Rightarrow> io_return () | Some e \<Rightarrow> io_raise e) (\<lambda>_.
     io_bind (exists_or_link m p) (\<lambda>found.
     io_bind (if found then io_bind (read_file_preimage m p (budget_limit max_bytes)) (\<lambda>b. io_return (Some b))
              else io_return None) (\<lambda>before.
     io_bind (io_now (\<lambda>_. require_text before)) (\<lambda>text.
     io_bind (io_now (\<lambda>_. charge max_bytes captured text uri)) (\<lambda>total.
     let snapshot = \<lparr>snap_uri = uri, real_path = p, snap_before = before\<rparr> in
     io_bind (io_require (snap_version sha snapshot = version) Conflict) (\<lambda>_.
     io_return (snapshot, total)))))))))))"

fun capture_snapshots ::
  "(bytes \<Rightarrow> ustr) \<Rightarrow> machine \<Rightarrow> surroundings \<Rightarrow> path \<Rightarrow> (ustr \<times> ustr) list \<Rightarrow> nat option \<Rightarrow> nat \<Rightarrow> ustr list
   \<Rightarrow> (ustr \<times> file_snapshot) list io" where
  "capture_snapshots sha m env root expected max_bytes captured [] = io_return []"
| "capture_snapshots sha m env root expected max_bytes captured (name # names) =
     io_bind (capture_snapshot sha m env root expected max_bytes captured name) (\<lambda>(snapshot, total).
     io_bind (capture_snapshots sha m env root expected max_bytes total names) (\<lambda>rest.
     io_return (dict_cons name snapshot rest)))"

subsection \<open>Checking the plan\<close>

fun check_plan :: "ustr list \<Rightarrow> text_publication list \<Rightarrow> file_error + unit" where
  "check_plan touched [] = Inr ()"
| "check_plan touched (s # ss) =
     (let uri = snap_uri (pub_snapshot s) in
      if uri \<in> set touched then Inl (Bad_Value ''file changed twice'')
      else if (case pub_content s of None \<Rightarrow> False | Some c \<Rightarrow> MAX_FILE_BYTES < length c \<or> 0 \<in> set c)
      then Inl (Bad_Value ''too large or binary'')
      else check_plan (uri # touched) ss)"

definition changes_bytes :: "text_publication \<Rightarrow> bool" where
  "changes_bytes s \<longleftrightarrow> pub_content s \<noteq> map_option pre_content (snap_before (pub_snapshot s))"

definition before_text :: "file_snapshot \<Rightarrow> file_error + ustr" where
  "before_text s = (case snap_before s of None \<Rightarrow> Inr []
     | Some b \<Rightarrow> bind_res (decode (pre_content b)) (\<lambda>t. Inr (normal_newlines t)))"

record journal_snapshot =
  j_uri :: ustr
  j_before_exists :: bool
  j_before_content :: ustr
  j_after :: "observation option"

definition journal_record :: "file_snapshot \<Rightarrow> file_error + journal_snapshot" where
  "journal_record s = bind_res (before_text s) (\<lambda>t.
     Inr \<lparr>j_uri = snap_uri s, j_before_exists = snap_before s \<noteq> None, j_before_content = t, j_after = None\<rparr>)"

definition json_record :: "journal_snapshot \<Rightarrow> ustr" where
  "json_record j = u ''{'' @ json_string (u ''uri'') @ u '': '' @ json_string (j_uri j)
     @ u '', '' @ json_string (u ''before_exists'') @ u '': '' @ (if j_before_exists j then u ''true'' else u ''false'')
     @ u '', '' @ json_string (u ''before_content'') @ u '': '' @ json_string (j_before_content j) @ u ''}''"

definition json_planned :: "text_publication \<Rightarrow> file_error + ustr" where
  "json_planned s =
     bind_res (case pub_content s of None \<Rightarrow> Inr [] | Some c \<Rightarrow> decode c) (\<lambda>t.
     Inr (u ''{'' @ json_string (u ''uri'') @ u '': '' @ json_string (snap_uri (pub_snapshot s))
       @ u '', '' @ json_string (u ''after_content'') @ u '': '' @ json_string t @ u ''}''))"

definition json_list :: "ustr list \<Rightarrow> ustr" where
  "json_list xs = u ''['' @ join (u '', '') xs @ u '']''"

definition check_budget :: "nat option \<Rightarrow> journal_snapshot list \<Rightarrow> text_publication list \<Rightarrow> file_error + unit" where
  "check_budget max_bytes records steps = (case max_bytes of None \<Rightarrow> Inr ()
     | Some limit \<Rightarrow>
         bind_res (map_res json_planned steps) (\<lambda>planned.
         bind_res (utf8_length (json_list [json_list (map json_record records), json_list planned])) (\<lambda>k.
         require (k + 4096 * length steps \<le> limit) Output_Limit)))"

definition check_mutation :: "nat option \<Rightarrow> (ustr \<times> file_snapshot) list \<Rightarrow> text_publication list
  \<Rightarrow> file_error + journal_snapshot list" where
  "check_mutation max_bytes snaps steps =
     bind_res (check_plan [] steps) (\<lambda>_.
     bind_res (require (list_ex changes_bytes steps) (Bad_Value ''no change'')) (\<lambda>_.
     bind_res (map_res journal_record (map snd snaps)) (\<lambda>records.
     bind_res (check_budget max_bytes records steps) (\<lambda>_. Inr records))))"

subsection \<open>The journal\<close>

text \<open>
  Journals are kept as values: only this code writes them, so each is read back as it was written. A file that another
  process removed makes the update fail; one that it damaged, for which \<^verbatim>\<open>_read_journal\<close> raises
  \<^verbatim>\<open>TypeError\<close> or a JSON error, is not modelled.
\<close>

record journal =
  j_snapshots :: "journal_snapshot list"
  j_files :: "file_receipt list option"

record workspace =
  ws_world :: world
  ws_journals :: "(ustr \<times> journal) list"

definition in_world :: "'a io \<Rightarrow> workspace \<Rightarrow> (file_error + 'a) \<times> workspace" where
  "in_world c ws = (case c (ws_world ws) of (r, w) \<Rightarrow> (r, ws\<lparr>ws_world := w\<rparr>))"

definition journal_call ::
  "machine \<Rightarrow> ((ustr \<times> journal) list \<Rightarrow> file_error + (ustr \<times> journal) list) \<Rightarrow> workspace
   \<Rightarrow> (file_error + unit) \<times> workspace" where
  "journal_call m f ws =
     (let now = calls (ws_world ws);
          w = \<lparr>tree_of = m_writer m now (tree_of (ws_world ws)), calls = Suc now\<rparr> in
      case f (ws_journals ws) of
        Inl e \<Rightarrow> (Inl e, ws\<lparr>ws_world := w\<rparr>)
      | Inr js \<Rightarrow>
          (case m_fault m now of
             None \<Rightarrow> (Inr (), \<lparr>ws_world = w, ws_journals = js\<rparr>)
           | Some (name, took_effect) \<Rightarrow>
               (Inl (OS_Error (EOTHER name)), \<lparr>ws_world = w, ws_journals = (if took_effect then js else ws_journals ws)\<rparr>)))"

definition write_text_mutation_journal ::
  "machine \<Rightarrow> ustr \<Rightarrow> journal_snapshot list \<Rightarrow> workspace \<Rightarrow> (file_error + unit) \<times> workspace" where
  "write_text_mutation_journal m journal_id records =
     journal_call m (\<lambda>js. Inr (al_set journal_id \<lparr>j_snapshots = records, j_files = None\<rparr> js))"

definition update_snapshot :: "(ustr \<times> observation) list \<Rightarrow> journal_snapshot \<Rightarrow> journal_snapshot" where
  "update_snapshot observations j = (case map_of observations (j_uri j) of
     None \<Rightarrow> j | Some ob \<Rightarrow> j\<lparr>j_after := Some ob\<rparr>)"

definition update_text_mutation_journal ::
  "machine \<Rightarrow> ustr \<Rightarrow> file_receipt list \<Rightarrow> (ustr \<times> observation) list \<Rightarrow> workspace
   \<Rightarrow> (file_error + unit) \<times> workspace" where
  "update_text_mutation_journal m journal_id receipts observations =
     journal_call m (\<lambda>js. case map_of js journal_id of
       None \<Rightarrow> Inl (Runtime ''journal missing'')
     | Some j \<Rightarrow> Inr (al_set journal_id
         \<lparr>j_snapshots = map (update_snapshot observations) (j_snapshots j), j_files = Some receipts\<rparr> js))"

subsection \<open>The whole mutation\<close>

datatype mutation_effect = effect_unknown | completed | partial | not_executed

definition effect_of :: "publication_state list \<Rightarrow> mutation_effect" where
  "effect_of states = (if unknown \<in> set states then effect_unknown
     else if set states = {published} then completed
     else if published \<in> set states then partial else not_executed)"

datatype failure_code = revision_conflict | execution_failed

definition code_of :: "file_error \<Rightarrow> failure_code" where
  "code_of e = (if e = Conflict then revision_conflict else execution_failed)"

record mutation_result =
  mr_success :: bool
  mr_effect :: mutation_effect
  mr_explanation :: ustr
  mr_target :: ustr
  mr_journal_id :: ustr
  mr_files :: "file_receipt list"
  mr_code :: "failure_code option"
  mr_error :: "file_error option"
  mr_lock_release_error :: "file_error option"

definition publish_mutation ::
  "(bytes \<Rightarrow> ustr) \<Rightarrow> machine \<Rightarrow> ustr \<Rightarrow> ustr \<Rightarrow> ustr \<Rightarrow> nat option \<Rightarrow> journal_snapshot list \<Rightarrow> text_publication list
   \<Rightarrow> workspace \<Rightarrow> (file_error + mutation_result) \<times> workspace" where
  "publish_mutation sha m journal_id explanation root_uri max_bytes records steps ws =
     (case write_text_mutation_journal m journal_id records ws of
        (Inl e, ws') \<Rightarrow> (Inl e, ws')
      | (Inr _, ws') \<Rightarrow>
          (case publish_steps sha m steps max_bytes (ws_world ws') of
             ((receipts, observations, fail), w) \<Rightarrow>
          (case update_text_mutation_journal m journal_id receipts observations (ws'\<lparr>ws_world := w\<rparr>) of
             (r, ws'') \<Rightarrow>
             let fail' = (case r of Inl e \<Rightarrow> Some e | Inr _ \<Rightarrow> fail) in
             (Inr \<lparr>mr_success = (fail' = None), mr_effect = effect_of (map r_state receipts),
                   mr_explanation = explanation, mr_target = root_uri, mr_journal_id = journal_id,
                   mr_files = receipts, mr_code = map_option code_of fail', mr_error = fail',
                   mr_lock_release_error = None\<rparr>, ws''))))"

text \<open>
  \<^verbatim>\<open>with workspace_file_mutation_lock(...)\<close>: a failure to release replaces the exception of the body, but
  never a result that the body has already produced.
\<close>

definition release_lock :: "surroundings \<Rightarrow> file_error + mutation_result \<Rightarrow> file_error + mutation_result" where
  "release_lock env r = (case e_unlock env of None \<Rightarrow> r
     | Some e \<Rightarrow> (case r of Inl _ \<Rightarrow> Inl e
         | Inr x \<Rightarrow> Inr (x\<lparr>mr_success := False, mr_lock_release_error := Some e,
                         mr_code := (case mr_code x of None \<Rightarrow> Some execution_failed | c \<Rightarrow> c)\<rparr>)))"

definition capture_all ::
  "(bytes \<Rightarrow> ustr) \<Rightarrow> machine \<Rightarrow> surroundings \<Rightarrow> path \<Rightarrow> ustr list \<Rightarrow> (ustr \<times> ustr) list \<Rightarrow> nat option
   \<Rightarrow> (ustr \<times> file_snapshot) list io" where
  "capture_all sha m env root declared expected max_bytes =
     io_bind (validate_text_paths m env declared root) (\<lambda>_.
     io_bind (io_require (set (map fst expected) = set declared) (Bad_Value ''expected_versions'')) (\<lambda>_.
     capture_snapshots sha m env root expected max_bytes 0 declared))"

definition locked_mutation ::
  "(bytes \<Rightarrow> ustr) \<Rightarrow> machine \<Rightarrow> surroundings \<Rightarrow> path \<Rightarrow> ustr \<Rightarrow> ustr list \<Rightarrow> (ustr \<times> ustr) list
   \<Rightarrow> ((ustr \<times> file_snapshot) list \<Rightarrow> (file_error + text_publication list) option)
   \<Rightarrow> ustr \<Rightarrow> ustr \<Rightarrow> nat option \<Rightarrow> workspace \<Rightarrow> ((file_error + mutation_result) \<times> workspace) option" where
  "locked_mutation sha m env root root_uri declared expected prepare explanation journal_id max_bytes ws =
     (case in_world (capture_all sha m env root declared expected max_bytes) ws of
        (Inl e, ws') \<Rightarrow> Some (Inl e, ws')
      | (Inr snaps, ws') \<Rightarrow>
          (case prepare snaps of
             None \<Rightarrow> None
           | Some r \<Rightarrow>
               Some (case bind_res r (\<lambda>steps. bind_res (check_mutation max_bytes snaps steps)
                            (\<lambda>records. Inr (records, steps))) of
                       Inl e \<Rightarrow> (Inl e, ws')
                     | Inr (records, steps) \<Rightarrow>
                         publish_mutation sha m journal_id explanation root_uri max_bytes records steps ws')))"

definition execute_text_mutation ::
  "(bytes \<Rightarrow> ustr) \<Rightarrow> machine \<Rightarrow> surroundings \<Rightarrow> path \<Rightarrow> ustr \<Rightarrow> ustr list \<Rightarrow> (ustr \<times> ustr) list
   \<Rightarrow> ((ustr \<times> file_snapshot) list \<Rightarrow> (file_error + text_publication list) option)
   \<Rightarrow> ustr \<Rightarrow> ustr \<Rightarrow> nat option \<Rightarrow> workspace \<Rightarrow> ((file_error + mutation_result) \<times> workspace) option" where
  "execute_text_mutation sha m env root root_uri declared expected prepare explanation journal_id max_bytes ws =
     (case in_world (is_dir m root) ws of
        (Inl e, ws') \<Rightarrow> Some (Inl e, ws')
      | (Inr False, ws') \<Rightarrow> Some (Inl (OS_Error ENOTDIR), ws')
      | (Inr True, ws') \<Rightarrow>
          (case e_lock env of
             Some e \<Rightarrow> Some (Inl e, ws')
           | None \<Rightarrow> map_option (\<lambda>(r, ws''). (release_lock env r, ws''))
               (locked_mutation sha m env root root_uri declared expected prepare explanation journal_id max_bytes ws')))"

text \<open>
  A patch request (\<^verbatim>\<open>_execute_local\<close>): the declared files are those that the patch names; a plain
  \<^verbatim>\<open>ValueError\<close> becomes a \<^verbatim>\<open>DiffError\<close>. The number \<^verbatim>\<open>fuzz\<close> that the receipt also shows is that of the
  commit.
\<close>

definition as_diff_error :: "file_error + 'a \<Rightarrow> file_error + 'a" where
  "as_diff_error r = (case r of Inl (Bad_Value s) \<Rightarrow> Inl (Invalid_Patch s) | _ \<Rightarrow> r)"

definition apply_patch ::
  "(bytes \<Rightarrow> ustr) \<Rightarrow> (ustr \<Rightarrow> ustr) \<Rightarrow> machine \<Rightarrow> surroundings \<Rightarrow> path \<Rightarrow> ustr \<Rightarrow> ustr \<Rightarrow> (ustr \<times> ustr) list
   \<Rightarrow> ustr \<Rightarrow> ustr \<Rightarrow> nat option \<Rightarrow> workspace \<Rightarrow> ((file_error + mutation_result) \<times> workspace) option" where
  "apply_patch sha nfc m env root root_uri text expected explanation journal_id max_bytes ws =
     map_option (\<lambda>(r, ws'). (as_diff_error r, ws'))
       (execute_text_mutation sha m env root root_uri (identify_files_affected text) expected
          (prepare_patch nfc text) explanation journal_id max_bytes ws)"

end
