(* ===== verification/Workspace_File_Correct.thy ===== *)
theory Workspace_File_Correct
  imports Workspace_File "HOL-Library.Sublist"
begin

section \<open>What publishing does to the tree\<close>

text \<open>
  The effect of the file operations when no other process writes (\<open>quiet\<close>), whatever calls fail: a read
  changes nothing and returns what is there; publishing and deleting either leave the target as it was
  or bring it to the intended content, and touch nothing else but missing parent directories and the
  temporary file.
\<close>

subsection \<open>Rules for computations\<close>

lemma io_bind_Inr: "io_bind c f w = (Inr y, w') \<longleftrightarrow> (\<exists>x w1. c w = (Inr x, w1) \<and> f x w1 = (Inr y, w'))"
  by (auto simp: io_bind_def split: prod.splits sum.splits)

lemma io_bind_Inl:
  "io_bind c f w = (Inl e, w') \<longleftrightarrow> c w = (Inl e, w') \<or> (\<exists>x w1. c w = (Inr x, w1) \<and> f x w1 = (Inl e, w'))"
  by (auto simp: io_bind_def split: prod.splits sum.splits)

lemma io_catch_Inr:
  "io_catch c h w = (Inr x, w') \<longleftrightarrow> c w = (Inr x, w') \<or> (\<exists>e w1. c w = (Inl e, w1) \<and> h e w1 = (Inr x, w'))"
  by (auto simp: io_catch_def split: prod.splits sum.splits)

lemma io_catch_Inl: "io_catch c h w = (Inl e, w') \<longleftrightarrow> (\<exists>e' w1. c w = (Inl e', w1) \<and> h e' w1 = (Inl e, w'))"
  by (auto simp: io_catch_def split: prod.splits sum.splits)

lemma io_return_eq [simp]: "io_return x w = (r, w') \<longleftrightarrow> r = Inr x \<and> w' = w"
  by (auto simp: io_return_def)

lemma io_raise_eq [simp]: "io_raise e w = (r, w') \<longleftrightarrow> r = Inl e \<and> w' = w"
  by (auto simp: io_raise_def)

lemma io_require_Inr [simp]: "io_require b e w = (Inr x, w') \<longleftrightarrow> b \<and> w' = w"
  by (auto simp: io_require_def)

lemma io_require_Inl [simp]: "io_require b e w = (Inl e', w') \<longleftrightarrow> \<not> b \<and> e' = e \<and> w' = w"
  by (auto simp: io_require_def)

lemmas io_eqs = io_bind_Inr io_bind_Inl io_catch_Inr io_catch_Inl

subsection \<open>Interface: relations between trees that calls respect\<close>

definition obeys :: "(tree \<Rightarrow> tree \<Rightarrow> bool) \<Rightarrow> 'a io \<Rightarrow> bool" where
  "obeys rel c \<longleftrightarrow> (\<forall>w. rel (tree_of w) (tree_of (snd (c w))))"

lemma obeysD: "obeys rel c \<Longrightarrow> c w = (r, w') \<Longrightarrow> rel (tree_of w) (tree_of w')"
  by (metis obeys_def snd_conv)

lemma obeys_weaken: "obeys rel c \<Longrightarrow> (\<And>a b. rel a b \<Longrightarrow> rel' a b) \<Longrightarrow> obeys rel' c"
  by (auto simp: obeys_def)

locale tree_relation =
  fixes rel :: "tree \<Rightarrow> tree \<Rightarrow> bool"
  assumes rel_refl: "rel a a"
    and rel_trans: "rel a b \<Longrightarrow> rel b c \<Longrightarrow> rel a c"
begin

lemma resp_return: "obeys rel (io_return x)"
  by (simp add: obeys_def io_return_def rel_refl)

lemma resp_raise: "obeys rel (io_raise e)"
  by (simp add: obeys_def io_raise_def rel_refl)

lemma resp_require: "obeys rel (io_require b e)"
  by (simp add: io_require_def resp_return resp_raise)

lemma resp_bind_value:
  assumes "obeys rel c" and "\<And>w x w1. c w = (Inr x, w1) \<Longrightarrow> obeys rel (f x)"
  shows "obeys rel (io_bind c f)"
proof -
  have "rel (tree_of w) (tree_of (snd (io_bind c f w)))" for w
  proof (cases "c w")
    case (Pair r w1)
    with obeysD [OF assms(1)] have "rel (tree_of w) (tree_of w1)" by blast
    then show ?thesis
      using Pair assms(2) rel_trans by (cases r) (auto simp: io_bind_def obeys_def)
  qed
  then show ?thesis by (simp add: obeys_def)
qed

lemma resp_bind: "obeys rel c \<Longrightarrow> (\<And>x. obeys rel (f x)) \<Longrightarrow> obeys rel (io_bind c f)"
  by (rule resp_bind_value)

lemma resp_catch:
  assumes "obeys rel c" and "\<And>x. obeys rel (h x)"
  shows "obeys rel (io_catch c h)"
proof -
  have "rel (tree_of w) (tree_of (snd (io_catch c h w)))" for w
  proof (cases "c w")
    case (Pair r w1)
    with obeysD [OF assms(1)] have "rel (tree_of w) (tree_of w1)" by blast
    then show ?thesis
      using Pair assms(2) rel_trans by (cases r) (auto simp: io_catch_def obeys_def)
  qed
  then show ?thesis by (simp add: obeys_def)
qed

lemmas resp_rules = resp_return resp_raise resp_require resp_bind resp_catch

end

interpretation same: tree_relation "(=)"
  by unfold_locales auto

text \<open>Only the paths in \<open>T\<close> change; those in \<open>D\<close> may come into being.\<close>

definition keeps :: "path set \<Rightarrow> path set \<Rightarrow> tree \<Rightarrow> tree \<Rightarrow> bool" where
  "keeps T D a b \<longleftrightarrow> (\<forall>q. q \<notin> T \<longrightarrow> b q = a q \<or> q \<in> D \<and> a q = None)"

lemma keeps_trans: "keeps T D a b \<Longrightarrow> keeps T D b c \<Longrightarrow> keeps T D a c"
  unfolding keeps_def by metis

interpretation kept: tree_relation "keeps T D" for T D
  by unfold_locales (simp add: keeps_def, rule keeps_trans)

lemma obeys_same_keeps: "obeys (=) c \<Longrightarrow> obeys (keeps T D) c"
  by (erule obeys_weaken) (simp add: keeps_def)

subsection \<open>Calls on a quiet machine\<close>

definition quiet :: "machine \<Rightarrow> bool" where
  "quiet m \<longleftrightarrow> (\<forall>t tr. m_writer m t tr = tr)"

lemma syscall_Inr:
  "quiet m \<Longrightarrow> syscall m f w = (Inr x, w') \<longleftrightarrow>
     m_fault m (calls w) = None \<and> (\<exists>tr. f (calls w) (tree_of w) = Inr (x, tr) \<and> w' = \<lparr>tree_of = tr, calls = Suc (calls w)\<rparr>)"
  by (auto simp: syscall_def quiet_def Let_def split: sum.splits prod.splits option.splits)

lemma syscall_obeys:
  assumes "quiet m" and "\<And>t tr x tr'. f t tr = Inr (x, tr') \<Longrightarrow> rel tr tr'" and "\<And>tr. rel tr tr"
  shows "obeys rel (syscall m f)"
  using assms by (auto simp: obeys_def syscall_def quiet_def Let_def split: sum.splits prod.splits option.splits)

lemma syscall_tree:
  assumes "quiet m" and "syscall m f w = (r, w')"
  shows "tree_of w' = tree_of w \<or> (\<exists>x. f (calls w) (tree_of w) = Inr (x, tree_of w'))"
  using assms by (auto simp: syscall_def quiet_def Let_def split: sum.splits prod.splits option.splits if_splits)

named_theorems reading \<open>calls that leave the tree alone\<close>

lemma answer_no_reads [reading]: "obeys (=) c \<Longrightarrow> obeys (=) (answer_no c)"
  by (auto simp: answer_no_def intro!: same.resp_rules)

lemma reading_calls [reading]:
  assumes "quiet m"
  shows "obeys (=) (lstat m p)" "obeys (=) (path_exists m p)" "obeys (=) (is_symlink m p)"
    "obeys (=) (is_dir m p)" "obeys (=) (read_bytes m p k)" "obeys (=) (fsync m)"
  by (auto simp: lstat_def path_exists_def is_symlink_def is_dir_def read_bytes_def fsync_def
      intro!: answer_no_reads syscall_obeys [OF assms] split: option.splits if_splits)

lemma exists_or_link_reads [reading]: "quiet m \<Longrightarrow> obeys (=) (exists_or_link m p)"
  by (auto simp: exists_or_link_def intro!: same.resp_rules reading)

lemma read_file_preimage_reads [reading]: "quiet m \<Longrightarrow> obeys (=) (read_file_preimage m p k)"
  by (auto simp: read_file_preimage_def intro!: same.resp_rules reading)

lemma require_file_preimage_reads [reading]: "quiet m \<Longrightarrow> obeys (=) (require_file_preimage m p b)"
  by (auto simp: require_file_preimage_def split: option.splits intro!: same.resp_rules reading)

lemma verify_published_reads [reading]: "quiet m \<Longrightarrow> obeys (=) (verify_published sha m p c)"
  by (auto simp: verify_published_def intro!: same.resp_rules reading)

text \<open>What the reads return.\<close>

lemma lstat_Inr:
  "quiet m \<Longrightarrow> lstat m p w = (Inr st, w') \<Longrightarrow> \<exists>n. tree_of w p = Some n \<and> st = n_stat n \<and> tree_of w' = tree_of w"
  by (auto simp: lstat_def syscall_Inr split: option.splits)

lemma read_bytes_Inr:
  "quiet m \<Longrightarrow> read_bytes m p k w = (Inr b, w') \<Longrightarrow> tree_of w p = Some n \<Longrightarrow> \<not> S_ISLNK (n_mode n) \<Longrightarrow>
   b = clip k (n_bytes n) \<and> tree_of w' = tree_of w"
  by (auto simp: read_bytes_def syscall_Inr split: option.splits if_splits)

lemma clip_within: "within k (length (clip (map_option Suc k) b)) \<Longrightarrow> clip (map_option Suc k) b = b"
  by (auto simp: clip_def within_def split: option.splits)

lemma read_file_preimage_Inr:
  assumes "quiet m" and "read_file_preimage m p k w = (Inr b, w')"
  shows "\<exists>n. tree_of w p = Some n \<and> pre_content b = n_bytes n \<and> pre_stat b = n_stat n"
proof -
  from assms(2) obtain st w1 content w2 w3 where
    1: "lstat m p w = (Inr st, w1)" and "\<not> S_ISLNK (st_mode st)"
    and 2: "read_bytes m p (map_option Suc k) w1 = (Inr content, w2)" and 3: "lstat m p w2 = (Inr st, w3)"
    and "within k (length content)" and "b = \<lparr>pre_content = content, pre_stat = st\<rparr>"
    by (auto simp: read_file_preimage_def io_eqs)
  with lstat_Inr [OF assms(1) 1] read_bytes_Inr [OF assms(1) 2] show ?thesis
    using clip_within [of k] by fastforce
qed

lemma path_exists_Inr:
  "quiet m \<Longrightarrow> path_exists m p w = (Inr b, w') \<Longrightarrow>
   tree_of w' = tree_of w \<and> (b \<longrightarrow> tree_of w p \<noteq> None)
   \<and> (\<not> b \<longrightarrow> (\<forall>n. tree_of w p = Some n \<longrightarrow> S_ISLNK (n_mode n)))"
  by (auto simp: path_exists_def answer_no_def io_eqs syscall_def quiet_def Let_def
      split: option.splits prod.splits if_splits)

lemma is_symlink_Inr:
  "quiet m \<Longrightarrow> is_symlink m p w = (Inr b, w') \<Longrightarrow>
   b = (\<exists>n. tree_of w p = Some n \<and> S_ISLNK (n_mode n)) \<and> tree_of w' = tree_of w"
  by (auto simp: is_symlink_def answer_no_def io_eqs syscall_def quiet_def Let_def
      split: option.splits prod.splits if_splits)

lemma exists_or_link_Inr:
  assumes "quiet m" and "exists_or_link m p w = (Inr b, w')"
  shows "b \<longleftrightarrow> tree_of w p \<noteq> None"
  using assms(2)
  by (auto simp: exists_or_link_def io_eqs split: if_splits
      dest!: path_exists_Inr [OF assms(1)] is_symlink_Inr [OF assms(1)])


subsection \<open>Calls that write\<close>

named_theorems framing \<open>which paths a call may change\<close>

lemma create_entry_Inr:
  "create_entry n p tr = Inr (x, tr') \<Longrightarrow> tr p = None \<and> p \<noteq> [] \<and> tr' = tr(p \<mapsto> n)"
  by (auto simp: create_entry_def split: if_splits)

lemma os_mkdir_frame [framing]: "quiet m \<Longrightarrow> p \<in> D \<or> p = [] \<Longrightarrow> obeys (keeps T D) (os_mkdir m p)"
  unfolding os_mkdir_def
  by (rule syscall_obeys) (auto simp: keeps_def fun_upd_def dest!: create_entry_Inr split: if_splits)

lemma mkdir_exist_ok_reads [reading]: "quiet m \<Longrightarrow> obeys (=) (mkdir_exist_ok m p e)"
  by (auto simp: mkdir_exist_ok_def intro!: same.resp_rules reading)

lemma mkdir_parents_frame [framing]:
  assumes "quiet m" and "\<And>q. prefix q p \<Longrightarrow> q \<in> D \<or> q = []"
  shows "obeys (keeps T D) (mkdir_parents m p)"
  using assms
proof (induction m p rule: mkdir_parents.induct)
  case (1 m p)
  have mk: "obeys (keeps T D) (os_mkdir m p)"
    by (rule os_mkdir_frame) (use "1.prems" in auto)
  have ok: "obeys (keeps T D) (mkdir_exist_ok m p e)" for e
    by (rule obeys_same_keeps) (simp add: mkdir_exist_ok_reads "1.prems"(1))
  have "obeys (keeps T D) (mkdir_parents m (butlast p))" if "p \<noteq> []"
    using "1.IH" [OF refl that "1.prems"(1)] "1.prems"(2) prefix_order.trans [OF _ prefixeq_butlast] by blast
  with mk ok show ?case
    by (subst mkdir_parents.simps) (auto intro!: kept.resp_rules)
qed

lemma mkstemp_frame [framing]:
  assumes "quiet m" and "\<And>t. temp_path m t p \<in> T"
  shows "obeys (keeps T D) (mkstemp m p)"
proof -
  have "obeys (keeps T D) (create_temp m p)"
    unfolding create_temp_def
    by (rule syscall_obeys [OF assms(1)]) (auto simp: keeps_def fun_upd_def assms(2) dest!: create_entry_Inr split: sum.splits if_splits)
  then have "obeys (keeps T D) (mkstemp_tries k m p)" for k
    by (induction k) (auto intro!: kept.resp_rules)
  then show ?thesis by (simp add: mkstemp_def)
qed

text \<open>The temporary file comes from an attempt that succeeded.\<close>

lemma create_temp_Inr:
  assumes "quiet m" and "create_temp m p w = (Inr (tmp, ino), w')"
  shows "tmp = temp_path m (calls w) p \<and> (\<exists>n. tree_of w' tmp = Some n \<and> st_ino (n_stat n) = ino)"
proof (cases "create_entry (new_inode m (calls w) (8 * 4096 + 0x180)) (temp_path m (calls w) p) (tree_of w)")
  case (Inr x)
  with assms show ?thesis
    by (cases x) (auto simp: create_temp_def syscall_Inr new_inode_def dest!: create_entry_Inr)
qed (use assms in \<open>simp add: create_temp_def syscall_Inr\<close>)

lemma mkstemp_created: "mkstemp m p w = (Inr x, w') \<Longrightarrow> \<exists>w0. create_temp m p w0 = (Inr x, w')"
proof -
  have "mkstemp_tries k m p w = (Inr x, w') \<Longrightarrow> \<exists>w0. create_temp m p w0 = (Inr x, w')" for k
    by (induction k arbitrary: w) (auto simp: io_catch_def io_raise_def split: prod.splits sum.splits if_splits)
  then show "mkstemp m p w = (Inr x, w') \<Longrightarrow> ?thesis" by (simp add: mkstemp_def)
qed

lemma update_frame [framing]:
  assumes "quiet m" and "p \<in> T"
  shows "obeys (keeps T D) (write_open m p ino b)" "obeys (keeps T D) (chmod m p k)"
    "obeys (keeps T D) (unlink m p)" "obeys (keeps T D) (unlink_missing_ok m p)"
proof -
  show "obeys (keeps T D) (write_open m p ino b)" "obeys (keeps T D) (chmod m p k)"
    and *: "obeys (keeps T D) (unlink m p)"
    using assms
    by (auto simp: write_open_def chmod_def unlink_def keeps_def split: option.splits if_splits
        intro!: syscall_obeys)
  show "obeys (keeps T D) (unlink_missing_ok m p)"
    using * by (auto simp: unlink_missing_ok_def intro!: kept.resp_rules)
qed

lemma rename_frame [framing]:
  assumes "quiet m" and "src \<in> T" and "dst \<in> T"
  shows "obeys (keeps T D) (os_replace m src dst)" "obeys (keeps T D) (rename_entry_exclusive m src dst)"
  using assms
  by (auto simp: os_replace_def rename_entry_exclusive_def keeps_def kept.resp_raise split: option.splits if_splits
      intro!: syscall_obeys)

lemmas reading_keeps =
  reading_calls [THEN obeys_same_keeps] require_file_preimage_reads [THEN obeys_same_keeps]
  verify_published_reads [THEN obeys_same_keeps]

lemma stage_content_frame [framing]:
  assumes "quiet m" and "tmp \<in> T"
  shows "obeys (keeps T D) (stage_content m tmp ino p c b mode)"
  using assms unfolding stage_content_def
  by (auto intro!: kept.resp_rules framing reading_keeps split: option.splits)

lemma publish_through_frame [framing]:
  assumes "quiet m" and "tmp \<in> T" and "p \<in> T"
  shows "obeys (keeps T D) (publish_through m tmp ino p c b mode)"
  using assms unfolding publish_through_def by (auto intro!: kept.resp_rules framing)

definition temps :: "machine \<Rightarrow> path \<Rightarrow> path set" where
  "temps m p = range (\<lambda>t. temp_path m t p)"

lemma mkstemp_name: "quiet m \<Longrightarrow> mkstemp m p w = (Inr (tmp, ino), w') \<Longrightarrow> tmp \<in> temps m p"
  by (auto simp: temps_def dest!: mkstemp_created create_temp_Inr)

lemma strict_prefix_butlast: "prefix q (butlast p) \<Longrightarrow> q \<in> {q. strict_prefix q p} \<or> q = []"
  by (cases p rule: rev_cases) (auto simp: strict_prefix_def dest: prefix_length_le)

lemma publish_file_content_frame [framing]:
  assumes "quiet m"
  shows "obeys (keeps (insert p (temps m p)) {q. strict_prefix q p}) (publish_file_content sha m p c b mode)"
proof -
  let ?K = "keeps (insert p (temps m p)) {q. strict_prefix q p}"
  have parents: "obeys ?K (mkdir_parents m (butlast p))"
    by (rule mkdir_parents_frame [OF assms strict_prefix_butlast])
  have temp: "obeys ?K (mkstemp m p)"
    by (rule mkstemp_frame [OF assms]) (auto simp: temps_def)
  have finish: "obeys ?K (io_bind (io_catch (publish_through m tmp ino p c b mode)
      (\<lambda>e. io_bind (unlink_missing_ok m tmp) (\<lambda>_. io_raise e))) (\<lambda>_. verify_published sha m p c))"
    if "tmp \<in> temps m p" for tmp ino
    using that assms by (auto intro!: kept.resp_rules framing reading_keeps)
  show ?thesis
    unfolding publish_file_content_def
    by (intro kept.resp_bind [OF parents] kept.resp_bind_value [OF temp])
      (auto split: prod.splits intro!: finish dest: mkstemp_name [OF assms])
qed

subsection \<open>Outcomes\<close>

text \<open>The path holds the intended content: these bytes, or nothing.\<close>

definition holds :: "tree \<Rightarrow> path \<Rightarrow> bytes option \<Rightarrow> bool" where
  "holds tr p content \<longleftrightarrow> (case content of None \<Rightarrow> tr p = None | Some b \<Rightarrow> \<exists>n. tr p = Some n \<and> n_bytes n = b)"

definition old_or_new :: "tree \<Rightarrow> tree \<Rightarrow> path \<Rightarrow> bytes option \<Rightarrow> bool" where
  "old_or_new a b p content \<longleftrightarrow> b p = a p \<or> holds b p content"

lemma temp_path_neq: "p \<noteq> [] \<Longrightarrow> temp_path m t p \<noteq> p"
  by (cases p rule: rev_cases) (auto simp: temp_path_def dest: arg_cong [of _ _ length])

lemma target_not_temp: "p \<noteq> [] \<Longrightarrow> p \<notin> temps m p"
  by (metis imageE temp_path_neq temps_def)

lemma keeps_at: "keeps T D a b \<Longrightarrow> q \<notin> T \<Longrightarrow> q \<notin> D \<Longrightarrow> b q = a q"
  by (auto simp: keeps_def)

lemma keeps_existing: "keeps T D a b \<Longrightarrow> q \<notin> T \<Longrightarrow> a q \<noteq> None \<Longrightarrow> b q = a q"
  by (auto simp: keeps_def)

lemma mkstemp_Inr:
  assumes "quiet m" and "mkstemp m p w = (Inr (tmp, ino), w')"
  shows "\<exists>n. tree_of w' tmp = Some n \<and> st_ino (n_stat n) = ino"
  using mkstemp_created [OF assms(2)] assms(1) by (auto dest!: create_temp_Inr)

lemma write_open_Inr:
  "quiet m \<Longrightarrow> write_open m p ino b w = (Inr x, w') \<Longrightarrow> tree_of w p = Some n \<Longrightarrow> st_ino (n_stat n) = ino \<Longrightarrow>
   holds (tree_of w') p (Some b)"
  by (auto simp: write_open_def syscall_Inr holds_def)

lemma chmod_holds:
  "quiet m \<Longrightarrow> chmod m p k w = (Inr x, w') \<Longrightarrow> holds (tree_of w) p (Some b) \<Longrightarrow> holds (tree_of w') p (Some b)"
  by (auto simp: chmod_def syscall_Inr holds_def split: option.splits)

lemma rename_outcome:
  assumes "quiet m" and "holds (tree_of w) tmp (Some b)" and "tmp \<noteq> p"
    and "(if exclusive then rename_entry_exclusive m tmp p else os_replace m tmp p) w = (r, w')"
  shows "old_or_new (tree_of w) (tree_of w') p (Some b) \<and> (\<forall>x. r = Inr x \<longrightarrow> holds (tree_of w') p (Some b))"
  using assms
  by (auto simp: rename_entry_exclusive_def os_replace_def old_or_new_def holds_def syscall_def quiet_def Let_def
      moved_inode_def split: option.splits if_splits prod.splits)


lemma stage_content_Inr:
  assumes "quiet m" and "stage_content m tmp ino p c before mode w = (Inr x, w')"
    and "tree_of w tmp = Some n" and "st_ino (n_stat n) = ino"
  shows "holds (tree_of w') tmp (Some c)"
proof -
  from assms(2) obtain w1 w2 w3 where 1: "write_open m tmp ino c w = (Inr (), w1)"
    and 2: "fsync m w1 = (Inr (), w2)"
    and 3: "(case (case before of Some b \<Rightarrow> Some (pre_mode b) | None \<Rightarrow> mode) of None \<Rightarrow> io_return ()
        | Some pm \<Rightarrow> if m_platform m = nt then io_return () else chmod m tmp pm) w2 = (Inr (), w3)"
    and 4: "require_file_preimage m p before w3 = (Inr x, w')"
    by (auto simp: stage_content_def io_eqs)
  have "holds (tree_of w2) tmp (Some c)"
    using write_open_Inr [OF assms(1) 1 assms(3,4)] obeysD [OF reading_calls(6) [OF assms(1)] 2] by simp
  then have "holds (tree_of w3) tmp (Some c)"
    using 3 by (auto split: option.splits if_splits dest: chmod_holds [OF assms(1)])
  then show ?thesis
    using obeysD [OF require_file_preimage_reads [OF assms(1)] 4] by simp
qed

lemma publish_through_outcome:
  assumes "quiet m" and "publish_through m tmp ino p c before mode w = (r, w')"
    and "tree_of w tmp = Some n" and "st_ino (n_stat n) = ino" and "tmp \<noteq> p"
  shows "old_or_new (tree_of w) (tree_of w') p (Some c) \<and> (\<forall>x. r = Inr x \<longrightarrow> holds (tree_of w') p (Some c))"
proof -
  obtain r1 w1 where st: "stage_content m tmp ino p c before mode w = (r1, w1)" by fastforce
  have "keeps {tmp} {} (tree_of w) (tree_of w1)"
    using obeysD [OF stage_content_frame [OF assms(1)] st] by blast
  with assms(5) have same: "tree_of w1 p = tree_of w p" by (auto dest: keeps_at)
  show ?thesis
  proof (cases r1)
    case (Inl e)
    with assms(2) st same show ?thesis
      by (auto simp: publish_through_def io_bind_def old_or_new_def)
  next
    case (Inr x)
    with st have "holds (tree_of w1) tmp (Some c)"
      using stage_content_Inr [OF assms(1) _ assms(3,4)] by auto
    from rename_outcome [OF assms(1) this assms(5), of "before = None"] assms(2) st Inr same show ?thesis
      by (auto simp: publish_through_def io_bind_def old_or_new_def)
  qed
qed

lemma verify_published_Inr:
  "quiet m \<Longrightarrow> verify_published sha m p c w = (Inr b, w') \<Longrightarrow> holds (tree_of w') p (Some c)"
  using obeysD [OF verify_published_reads, of m sha p c w]
  by (fastforce simp: verify_published_def io_eqs holds_def dest: read_file_preimage_Inr)

lemma publish_or_clean_outcome:
  assumes "quiet m" and "tree_of w tmp = Some n" and "st_ino (n_stat n) = ino" and "tmp \<noteq> p"
    and "io_catch (publish_through m tmp ino p c before mode)
      (\<lambda>e. io_bind (unlink_missing_ok m tmp) (\<lambda>_. io_raise e)) w = (r, w')"
  shows "old_or_new (tree_of w) (tree_of w') p (Some c)"
proof -
  obtain r1 w1 where thr: "publish_through m tmp ino p c before mode w = (r1, w1)" by fastforce
  note out = publish_through_outcome [OF assms(1) thr assms(2-4)]
  have "keeps {tmp} {} (tree_of w1) (tree_of w')"
  proof (cases r1)
    case (Inl e)
    have "obeys (keeps {tmp} {}) (io_bind (unlink_missing_ok m tmp) (\<lambda>_. io_raise e))"
      using assms(1) by (auto intro!: kept.resp_rules framing)
    from obeysD [OF this] assms(5) thr Inl show ?thesis by (auto simp: io_catch_def)
  next
    case (Inr x)
    with assms(5) thr show ?thesis by (simp add: io_catch_def kept.rel_refl)
  qed
  with assms(4) have "tree_of w' p = tree_of w1 p" by (auto dest: keeps_at)
  with out show ?thesis by (auto simp: old_or_new_def holds_def)
qed

lemma mkdir_parents_target:
  assumes "quiet m" and "mkdir_parents m (butlast p) w = (r, w')"
  shows "tree_of w' p = tree_of w p"
proof -
  have "keeps {} {q. strict_prefix q p} (tree_of w) (tree_of w')"
    by (rule obeysD [OF mkdir_parents_frame [OF assms(1) strict_prefix_butlast] assms(2)])
  then show ?thesis by (auto dest: keeps_at)
qed

lemma mkstemp_target:
  assumes "quiet m" and "p \<noteq> []" and "mkstemp m p w = (r, w')"
  shows "tree_of w' p = tree_of w p"
proof -
  have "keeps (temps m p) {} (tree_of w) (tree_of w')"
    by (rule obeysD [OF mkstemp_frame [OF assms(1)] assms(3)]) (simp add: temps_def)
  with target_not_temp [OF assms(2)] show ?thesis by (auto dest: keeps_at)
qed

lemma publish_file_content_outcome:
  assumes "quiet m" and "p \<noteq> []" and "publish_file_content sha m p c before mode w = (r, w')"
  shows "old_or_new (tree_of w) (tree_of w') p (Some c) \<and> (\<forall>x. r = Inr x \<longrightarrow> holds (tree_of w') p (Some c))"
proof -
  obtain r1 w1 where dirs: "mkdir_parents m (butlast p) w = (r1, w1)" by fastforce
  obtain r2 w2 where temp: "mkstemp m p w1 = (r2, w2)" by fastforce
  note same = mkdir_parents_target [OF assms(1) dirs] mkstemp_target [OF assms(1,2) temp]
  consider (failed) "w' = w1 \<or> w' = w2" "\<exists>e. r = Inl e"
    | (published) tmp ino where "r2 = Inr (tmp, ino)"
      "io_bind (io_catch (publish_through m tmp ino p c before mode)
        (\<lambda>e. io_bind (unlink_missing_ok m tmp) (\<lambda>_. io_raise e))) (\<lambda>_. verify_published sha m p c) w2 = (r, w')"
    using assms(3) dirs temp by (cases r1; cases r2) (auto simp: publish_file_content_def io_bind_def)
  then show ?thesis
  proof cases
    case failed
    with same show ?thesis by (auto simp: old_or_new_def)
  next
    case (published tmp ino)
    have tmp: "tmp \<noteq> p"
      using mkstemp_name [OF assms(1)] temp published(1) target_not_temp [OF assms(2)] by blast
    obtain n where n: "tree_of w2 tmp = Some n" "st_ino (n_stat n) = ino"
      using mkstemp_Inr [OF assms(1)] temp published(1) by blast
    obtain r3 w3 where pub: "io_catch (publish_through m tmp ino p c before mode)
        (\<lambda>e. io_bind (unlink_missing_ok m tmp) (\<lambda>_. io_raise e)) w2 = (r3, w3)" by fastforce
    have out: "old_or_new (tree_of w) (tree_of w3) p (Some c)"
      using publish_or_clean_outcome [OF assms(1) n tmp pub] same by (simp add: old_or_new_def)
    show ?thesis
    proof (cases r3)
      case (Inl e)
      with published(2) pub out show ?thesis by (auto simp: io_bind_def)
    next
      case (Inr x)
      with published(2) pub have ver: "verify_published sha m p c w3 = (r, w')" by (simp add: io_bind_def)
      then show ?thesis
        using obeysD [OF verify_published_reads [OF assms(1)] ver] verify_published_Inr [OF assms(1)] out by auto
    qed
  qed
qed

lemma delete_file_content_outcome:
  assumes "quiet m" and "delete_file_content m p before w = (r, w')"
  shows "old_or_new (tree_of w) (tree_of w') p None \<and> (\<forall>x. r = Inr x \<longrightarrow> holds (tree_of w') p None)"
proof -
  have un: "old_or_new (tree_of w1) (tree_of w2) p None \<and> (\<forall>x. r1 = Inr x \<longrightarrow> holds (tree_of w2) p None)"
    if "unlink m p w1 = (r1, w2)" for r1 w1 w2
    using that assms(1) by (auto simp: unlink_def syscall_def quiet_def Let_def old_or_new_def holds_def
        split: option.splits if_splits prod.splits)
  from assms(2) show ?thesis
    using obeysD [OF require_file_preimage_reads [OF assms(1)]] obeysD [OF exists_or_link_reads [OF assms(1)]] un
    by (cases r) (fastforce simp: delete_file_content_def io_eqs old_or_new_def)+
qed

lemma delete_file_content_frame [framing]: "quiet m \<Longrightarrow> obeys (keeps {p} {}) (delete_file_content m p before)"
  unfolding delete_file_content_def
  by (auto intro!: kept.resp_rules framing reading_keeps exists_or_link_reads [THEN obeys_same_keeps])

end
