(* ===== verification/Text_Publication.thy ===== *)
theory Text_Publication
  imports Text_Mutation Workspace_File_Correct
begin

section \<open>Publishing a list of files and reporting it\<close>

text \<open>
  \<^verbatim>\<open>_publish_steps\<close>: the loop that publishes and the loop that observes. What the loop records on any
  machine, what the tree looks like after it when nobody else writes, and that the receipts say so.
\<close>

subsection \<open>One step\<close>

lemma holds_cong: "a p = b p \<Longrightarrow> holds a p c = holds b p c"
  by (simp add: holds_def split: option.splits)

text \<open>The paths that a step may change, apart from creating missing parent directories.\<close>

definition footprint :: "machine \<Rightarrow> text_publication \<Rightarrow> path set" where
  "footprint m s = insert (target_of s) (if pub_content s = None then {} else temps m (target_of s))"

definition new_dirs :: "text_publication \<Rightarrow> path set" where
  "new_dirs s = (if pub_content s = None then {} else {q. strict_prefix q (target_of s)})"

lemma attempt_step_frame:
  assumes "quiet m"
  shows "obeys (keeps (footprint m s) (new_dirs s)) (attempt_step sha m s)"
proof (cases "pub_content s")
  case None
  then show ?thesis
    using assms by (auto simp: attempt_step_def footprint_def new_dirs_def split: option.splits
        intro!: kept.resp_rules framing)
next
  case (Some c)
  then show ?thesis
    using assms by (auto simp: attempt_step_def footprint_def new_dirs_def intro!: kept.resp_rules framing)
qed

lemma attempt_step_outcome:
  assumes "quiet m" and "target_of s \<noteq> []" and "attempt_step sha m s w = (r, w')"
  shows "old_or_new (tree_of w) (tree_of w') (target_of s) (pub_content s)
    \<and> (\<forall>x. r = Inr x \<longrightarrow> holds (tree_of w') (target_of s) (pub_content s))"
proof (cases "pub_content s")
  case None
  then show ?thesis
    using assms(3) delete_file_content_outcome [OF assms(1)]
    by (cases "snap_before (pub_snapshot s)") (auto simp: attempt_step_def old_or_new_def)
next
  case (Some c)
  with assms(3) have "io_bind (publish_file_content sha m (target_of s) c (snap_before (pub_snapshot s)) (pub_mode s))
       (\<lambda>_. io_return ()) w = (r, w')" by (simp add: attempt_step_def)
  with Some show ?thesis
    using publish_file_content_outcome [OF assms(1,2)] by (cases r) (fastforce simp: io_eqs)+
qed

subsection \<open>The loop\<close>

definition fresh_attempts :: attempts where
  "fresh_attempts = \<lparr>attempted = 0, failure = None, confirmed = [], unverified = []\<rparr>"

text \<open>What the loop records, on any machine: all steps up to the first failure are confirmed.\<close>

lemma attempt_steps_record:
  assumes "attempt_steps sha m ss a w = (a', w')" and "failure a = None" and "set (confirmed a) = {..<attempted a}"
  shows "(failure a' = None \<and> attempted a' = attempted a + length ss \<and> set (confirmed a') = {..<attempted a'})
    \<or> (failure a' \<noteq> None \<and> attempted a < attempted a' \<and> attempted a' \<le> attempted a + length ss
        \<and> set (confirmed a') = {..<attempted a' - 1})"
  using assms
proof (induction ss arbitrary: a w)
  case (Cons s ss)
  show ?case
  proof (cases "attempt_step sha m s w")
    case (Pair r w1)
    show ?thesis
    proof (cases r)
      case (Inl e)
      with Pair Cons.prems(1) have "failure a' = Some e" "attempted a' = Suc (attempted a)" "confirmed a' = confirmed a"
        by (auto simp: Let_def)
      with Cons.prems(3) show ?thesis by simp
    next
      case (Inr x)
      with Pair Cons.prems
      have "attempt_steps sha m ss (a\<lparr>attempted := Suc (attempted a), confirmed := attempted a # confirmed a\<rparr>) w1 = (a', w')"
        by (simp add: Let_def)
      from Cons.IH [OF this] Cons.prems show ?thesis by (auto simp: lessThan_Suc)
    qed
  qed
qed auto

lemma attempt_steps_counts: "attempt_steps sha m ss a w = (a', w') \<Longrightarrow> attempted a \<le> attempted a'"
  by (induction ss arbitrary: a w) (fastforce simp: Let_def split: prod.splits sum.splits)+

text \<open>
  Steps that do not interfere: no target lies in what another step may touch.
\<close>

definition independent :: "machine \<Rightarrow> text_publication list \<Rightarrow> bool" where
  "independent m ss \<longleftrightarrow> (\<forall>s\<in>set ss. target_of s \<noteq> [])
     \<and> (\<forall>i<length ss. \<forall>j<length ss. i \<noteq> j \<longrightarrow> target_of (ss ! i) \<notin> footprint m (ss ! j) \<union> new_dirs (ss ! j))"

lemma independent_Cons:
  assumes "independent m (s # ss)"
  shows "independent m ss" and "target_of s \<noteq> []"
    and "\<And>x. x \<in> set ss \<Longrightarrow> target_of x \<notin> footprint m s \<union> new_dirs s"
    and "\<And>x. x \<in> set ss \<Longrightarrow> target_of s \<notin> footprint m x \<union> new_dirs x"
proof -
  note D = assms [unfolded independent_def, THEN conjunct2, rule_format]
  show "target_of s \<noteq> []" using assms by (simp add: independent_def)
  show "independent m ss"
    using assms D [of "Suc i" "Suc j" for i j] by (auto simp: independent_def)
  show "target_of x \<notin> footprint m s \<union> new_dirs s" if "x \<in> set ss" for x
    using D [of "Suc i" 0 for i] that by (auto simp: in_set_conv_nth)
  show "target_of s \<notin> footprint m x \<union> new_dirs x" if "x \<in> set ss" for x
    using D [of 0 "Suc i" for i] that by (auto simp: in_set_conv_nth)
qed

definition touched :: "machine \<Rightarrow> text_publication list \<Rightarrow> path set" where
  "touched m ss = (\<Union>s\<in>set ss. footprint m s)"

definition created_dirs :: "text_publication list \<Rightarrow> path set" where
  "created_dirs ss = (\<Union>s\<in>set ss. new_dirs s)"

lemma keeps_mono: "keeps T D a b \<Longrightarrow> T \<subseteq> T' \<Longrightarrow> D \<subseteq> D' \<Longrightarrow> keeps T' D' a b"
  unfolding keeps_def by blast

lemma attempt_steps_frame:
  assumes "quiet m" and "attempt_steps sha m ss a w = (a', w')"
  shows "keeps (touched m ss) (created_dirs ss) (tree_of w) (tree_of w')"
  using assms(2)
proof (induction ss arbitrary: a w)
  case Nil
  then show ?case by (simp add: kept.rel_refl)
next
  case (Cons s ss)
  obtain r w1 where st: "attempt_step sha m s w = (r, w1)" by fastforce
  have 1: "keeps (touched m (s # ss)) (created_dirs (s # ss)) (tree_of w) (tree_of w1)"
    by (rule keeps_mono [OF obeysD [OF attempt_step_frame [OF assms(1)] st]])
      (auto simp: touched_def created_dirs_def)
  show ?case
  proof (cases r)
    case (Inl e)
    with Cons.prems st 1 show ?thesis by (simp add: Let_def)
  next
    case (Inr x)
    with Cons.prems st have "keeps (touched m ss) (created_dirs ss) (tree_of w1) (tree_of w')"
      by (auto simp: Let_def intro: Cons.IH)
    then have "keeps (touched m (s # ss)) (created_dirs (s # ss)) (tree_of w1) (tree_of w')"
      by (rule keeps_mono) (auto simp: touched_def created_dirs_def)
    with 1 show ?thesis by (rule keeps_trans)
  qed
qed

lemma later_steps_keep:
  assumes "quiet m" and "attempt_steps sha m ss a w = (a', w')"
    and "\<And>x. x \<in> set ss \<Longrightarrow> q \<notin> footprint m x \<union> new_dirs x"
  shows "tree_of w' q = tree_of w q"
  using keeps_at [OF attempt_steps_frame [OF assms(1,2)]] assms(3) by (auto simp: touched_def created_dirs_def)

text \<open>The state of every target after the loop, by its index.\<close>

lemma attempt_steps_outcome:
  assumes "quiet m" and "independent m ss" and "attempt_steps sha m ss a w = (a', w')"
    and "failure a = None" and "set (confirmed a) = {..<attempted a}" and "i < length ss"
  shows "(attempted a + i \<in> set (confirmed a') \<longrightarrow> holds (tree_of w') (target_of (ss ! i)) (pub_content (ss ! i)))
    \<and> old_or_new (tree_of w) (tree_of w') (target_of (ss ! i)) (pub_content (ss ! i))
    \<and> (attempted a' \<le> attempted a + i \<longrightarrow> tree_of w' (target_of (ss ! i)) = tree_of w (target_of (ss ! i)))"
  using assms(2-)
proof (induction ss arbitrary: a w i)
  case (Cons s ss)
  note ind = independent_Cons [OF Cons.prems(1)]
  obtain r w1 where st: "attempt_step sha m s w = (r, w1)" by fastforce
  note out = attempt_step_outcome [OF assms(1) ind(2) st]
  have other: "tree_of w1 (target_of x) = tree_of w (target_of x)" if "x \<in> set ss" for x
    using keeps_at [OF obeysD [OF attempt_step_frame [OF assms(1)] st]] ind(3) [OF that] by blast
  show ?case
  proof (cases r)
    case (Inl e)
    with Cons.prems(2) st have *: "w' = w1" "attempted a' = Suc (attempted a)" "confirmed a' = confirmed a"
      by (auto simp: Let_def)
    show ?thesis
      using * out Cons.prems(4,5) other [of "ss ! (i - 1)"] by (cases i) (auto simp: old_or_new_def)
  next
    case (Inr x)
    let ?a = "a\<lparr>attempted := Suc (attempted a), confirmed := attempted a # confirmed a\<rparr>"
    from Inr Cons.prems st have rest: "attempt_steps sha m ss ?a w1 = (a', w')" by (simp add: Let_def)
    have a: "failure ?a = None" "set (confirmed ?a) = {..<attempted ?a}"
      using Cons.prems by (auto simp: lessThan_Suc)
    show ?thesis
    proof (cases i)
      case 0
      have "tree_of w' (target_of s) = tree_of w1 (target_of s)"
        using later_steps_keep [OF assms(1) rest] ind(4) by blast
      moreover have "attempted a < attempted a'"
        using attempt_steps_counts [OF rest] by simp
      ultimately show ?thesis
        using 0 out Inr by (simp add: old_or_new_def holds_cong [of "tree_of w'" "target_of s" "tree_of w1"])
    next
      case (Suc k)
      with Cons.prems(5) have k: "k < length ss" by simp
      from Cons.IH [OF ind(1) rest a k] other [of "ss ! k"] k Suc show ?thesis
        by (auto simp: old_or_new_def)
    qed
  qed
qed simp


subsection \<open>Observing\<close>

lemma observe_reads: "quiet m \<Longrightarrow> obeys (=) (observe m s k)"
  by (auto simp: observe_def intro!: same.resp_rules reading)

lemma observe_Inr:
  assumes "quiet m" and "observe m s k w = (Inr ob, w')"
  shows "map_option pre_content ob = map_option n_bytes (tree_of w (real_path s))"
proof -
  from assms(2) obtain found w1 where 1: "exists_or_link m (real_path s) w = (Inr found, w1)"
    and 2: "(if \<not> found then io_return None
      else io_bind (read_file_preimage m (real_path s) (budget_limit k)) (\<lambda>b. io_return (Some b))) w1 = (Inr ob, w')"
    by (auto simp: observe_def io_eqs)
  have "tree_of w1 = tree_of w" using obeysD [OF exists_or_link_reads [OF assms(1)] 1] by simp
  with exists_or_link_Inr [OF assms(1) 1] 2 show ?thesis
    by (auto simp: io_eqs split: if_splits dest!: read_file_preimage_Inr [OF assms(1)])
qed

lemma observe_steps_Cons:
  assumes "observe_steps sha m a i budget (s # ss) w = ((receipts, obs, fail), w')"
  obtains r w1 rs obs' f where "observe m (pub_snapshot s) budget w = (r, w1)"
    and "observe_steps sha m (a\<lparr>failure := f\<rparr>) (Suc i) (remaining_budget budget r) ss w1 = ((rs, obs', fail), w')"
    and "receipts = receipt_of sha a i s r # rs"
    and "f = (if i < attempted a \<and> r_state (receipt_of sha a i s r) \<noteq> published \<and> failure a = None
      then Some (Unverified (content_version sha (pub_content s)) (observed_version sha r)) else failure a)"
proof -
  obtain r w1 where ob: "observe m (pub_snapshot s) budget w = (r, w1)" by fastforce
  have "a\<lparr>failure := failure a\<rparr> = a" by simp
  with assms ob that show thesis
    by (fastforce simp: Let_def split: prod.splits if_splits)
qed

text \<open>Every step is observed, in order, and gets the receipt of its observation.\<close>

lemma observe_steps_receipts:
  assumes "observe_steps sha m a i budget ss w = ((receipts, obs, fail), w')"
  shows "length receipts = length ss"
    and "\<And>k. k < length ss \<Longrightarrow> \<exists>b r w1 w2. observe m (pub_snapshot (ss ! k)) b w1 = (r, w2)
      \<and> receipts ! k = receipt_of sha a (i + k) (ss ! k) r \<and> (quiet m \<longrightarrow> tree_of w1 = tree_of w)"
    and "quiet m \<Longrightarrow> tree_of w' = tree_of w"
proof -
  have state: "receipt_of sha (a\<lparr>failure := f\<rparr>) k s r = receipt_of sha a k s r" for a f k s r
    by (simp add: receipt_of_def publication_state_of_def Let_def)
  have "length receipts = length ss \<and> (\<forall>k<length ss. \<exists>b r w1 w2. observe m (pub_snapshot (ss ! k)) b w1 = (r, w2)
      \<and> receipts ! k = receipt_of sha a (i + k) (ss ! k) r \<and> (quiet m \<longrightarrow> tree_of w1 = tree_of w))
      \<and> (quiet m \<longrightarrow> tree_of w' = tree_of w)"
    using assms
  proof (induction ss arbitrary: a i budget w receipts obs)
    case (Cons s ss)
    obtain r w1 rs obs' f where
      ob: "observe m (pub_snapshot s) budget w = (r, w1)"
      and rest: "observe_steps sha m (a\<lparr>failure := f\<rparr>) (Suc i) (remaining_budget budget r) ss w1 = ((rs, obs', fail), w')"
      and rec: "receipts = receipt_of sha a i s r # rs" by (rule observe_steps_Cons [OF Cons.prems])
    have w1: "quiet m \<Longrightarrow> tree_of w1 = tree_of w" using obeysD [OF observe_reads ob] by simp
    note IH = Cons.IH [OF rest, unfolded state]
    show ?case
    proof (intro conjI allI impI)
      show "length receipts = length (s # ss)" using IH rec by simp
      fix k assume k: "k < length (s # ss)"
      show "\<exists>b r w1 w2. observe m (pub_snapshot ((s # ss) ! k)) b w1 = (r, w2)
          \<and> receipts ! k = receipt_of sha a (i + k) ((s # ss) ! k) r \<and> (quiet m \<longrightarrow> tree_of w1 = tree_of w)"
      proof (cases k)
        case 0
        then show ?thesis using rec ob by auto
      next
        case (Suc j)
        with k IH obtain b r' v v' where "observe m (pub_snapshot (ss ! j)) b v = (r', v')"
          "rs ! j = receipt_of sha a (Suc i + j) (ss ! j) r'" "quiet m \<longrightarrow> tree_of v = tree_of w1" by auto
        with Suc rec w1 show ?thesis by auto
      qed
    next
      assume "quiet m" with IH w1 show "tree_of w' = tree_of w" by simp
    qed
  qed simp
  then show "length receipts = length ss"
    and "\<And>k. k < length ss \<Longrightarrow> \<exists>b r w1 w2. observe m (pub_snapshot (ss ! k)) b w1 = (r, w2)
      \<and> receipts ! k = receipt_of sha a (i + k) (ss ! k) r \<and> (quiet m \<longrightarrow> tree_of w1 = tree_of w)"
    and "quiet m \<Longrightarrow> tree_of w' = tree_of w" by auto
qed

lemma observe_steps_failure:
  assumes "observe_steps sha m a i budget ss w = ((receipts, obs, fail), w')" and "i + length ss \<le> attempted a"
  shows "fail = None \<longleftrightarrow> failure a = None \<and> (\<forall>r\<in>set receipts. r_state r = published)"
  using assms
proof (induction ss arbitrary: a i budget w receipts obs)
  case (Cons s ss)
  obtain r w1 rs obs' f where
    rest: "observe_steps sha m (a\<lparr>failure := f\<rparr>) (Suc i) (remaining_budget budget r) ss w1 = ((rs, obs', fail), w')"
    and rec: "receipts = receipt_of sha a i s r # rs"
    and f: "f = (if i < attempted a \<and> r_state (receipt_of sha a i s r) \<noteq> published \<and> failure a = None
      then Some (Unverified (content_version sha (pub_content s)) (observed_version sha r)) else failure a)"
    by (rule observe_steps_Cons [OF Cons.prems(1)])
  have "fail = None \<longleftrightarrow> f = None \<and> (\<forall>r\<in>set rs. r_state r = published)"
    using Cons.IH [OF rest] Cons.prems(2) by simp
  moreover have "i < attempted a" using Cons.prems(2) by simp
  ultimately show ?case unfolding rec f by (cases "failure a") simp_all
qed simp


lemma observe_steps_keep_failure:
  "observe_steps sha m a i budget ss w = ((receipts, obs, None), w') \<Longrightarrow> failure a = None"
proof (induction ss arbitrary: a i budget w receipts obs)
  case (Cons s ss)
  obtain r w1 rs obs' f where
    rest: "observe_steps sha m (a\<lparr>failure := f\<rparr>) (Suc i) (remaining_budget budget r) ss w1 = ((rs, obs', None), w')"
    and f: "f = (if i < attempted a \<and> r_state (receipt_of sha a i s r) \<noteq> published \<and> failure a = None
      then Some (Unverified (content_version sha (pub_content s)) (observed_version sha r)) else failure a)"
    by (rule observe_steps_Cons [OF Cons.prems])
  from Cons.IH [OF rest] f show ?case by (simp split: if_splits)
qed simp

subsection \<open>Receipts\<close>

lemma receipt_states:
  "r_state (receipt_of sha a i s r) = published \<longleftrightarrow>
     i < attempted a \<and> observed_version sha r = Some (content_version sha (pub_content s)) \<and> i \<in> set (confirmed a)"
  "r_state (receipt_of sha a i s r) = not_attempted \<longleftrightarrow> attempted a \<le> i"
  "r_state (receipt_of sha a i s r) = not_published \<longleftrightarrow>
     i < attempted a \<and> observed_version sha r = Some (snap_version sha (pub_snapshot s))
     \<and> observed_version sha r \<noteq> Some (content_version sha (pub_content s))
     \<and> i \<notin> set (confirmed a) \<and> i \<notin> set (unverified a)"
  by (auto simp: receipt_of_def publication_state_of_def Let_def split: if_splits)

lemma publish_steps_split:
  assumes "publish_steps sha m ss budget w = ((receipts, obs, fail), w')"
  obtains a w1 where "attempt_steps sha m ss fresh_attempts w = (a, w1)"
    and "observe_steps sha m a 0 budget ss w1 = ((receipts, obs, fail), w')"
  using assms by (auto simp: publish_steps_def fresh_attempts_def split: prod.splits)

lemma fresh_attempts_ok: "failure fresh_attempts = None" "set (confirmed fresh_attempts) = {..<attempted fresh_attempts}"
  "attempted fresh_attempts = 0"
  by (simp_all add: fresh_attempts_def)

lemma success_iff_published_lemma:
  assumes "publish_steps sha m ss budget w = ((receipts, obs, fail), w')"
  shows "fail = None \<longleftrightarrow> (\<forall>r\<in>set receipts. r_state r = published)"
proof -
  obtain a w1 where att: "attempt_steps sha m ss fresh_attempts w = (a, w1)"
    and ob: "observe_steps sha m a 0 budget ss w1 = ((receipts, obs, fail), w')"
    by (rule publish_steps_split [OF assms])
  note rec = attempt_steps_record [OF att fresh_attempts_ok(1,2), unfolded fresh_attempts_ok(3)]
  show ?thesis
  proof (cases "failure a")
    case None
    with rec observe_steps_failure [OF ob] show ?thesis by simp
  next
    case (Some e)
    let ?i = "attempted a - 1"
    from Some rec have "0 < attempted a" "attempted a \<le> length ss" and c: "set (confirmed a) = {..<?i}"
      by simp_all
    then have i: "?i < length ss" "?i < attempted a" by simp_all
    have "?i \<notin> set (confirmed a)" unfolding c by simp
    with observe_steps_receipts(2) [OF ob i(1)] have "r_state (receipts ! ?i) \<noteq> published"
      by (auto simp: receipt_states)
    then have "\<exists>r\<in>set receipts. r_state r \<noteq> published"
      using observe_steps_receipts(1) [OF ob] i(1) nth_mem by fastforce
    moreover have "fail \<noteq> None"
    proof
      assume "fail = None"
      with observe_steps_keep_failure ob have "failure a = None" by blast
      with Some show False by simp
    qed
    ultimately show ?thesis by blast
  qed
qed


lemma observed_version_tree:
  assumes "quiet m" and "observe m s k w = (r, w')" and "observed_version sha r = Some v"
  shows "v = content_version sha (map_option n_bytes (tree_of w (real_path s)))"
proof (cases r)
  case (Inr ob)
  with assms(2) observe_Inr [OF assms(1)] have "map_option pre_content ob = map_option n_bytes (tree_of w (real_path s))"
    by blast
  with Inr assms(3) show ?thesis
    by (cases ob) (auto simp: observed_version_def content_version_def split: option.splits)
qed (use assms(3) in \<open>simp add: observed_version_def\<close>)

lemma holds_version: "holds tr p content \<Longrightarrow> content_version sha (map_option n_bytes (tr p)) = content_version sha content"
  by (auto simp: holds_def content_version_def split: option.splits)

lemma receipt_truth_lemma:
  assumes "quiet m" and "independent m ss" and "publish_steps sha m ss budget w = ((receipts, obs, fail), w')"
    and "i < length ss"
  shows "r_state (receipts ! i) = published \<Longrightarrow> holds (tree_of w') (target_of (ss ! i)) (pub_content (ss ! i))"
    and "r_state (receipts ! i) \<in> {not_attempted, not_published} \<Longrightarrow>
      tree_of w' (target_of (ss ! i)) = tree_of w (target_of (ss ! i))"
proof -
  obtain a w1 where att: "attempt_steps sha m ss fresh_attempts w = (a, w1)"
    and ob: "observe_steps sha m a 0 budget ss w1 = ((receipts, obs, fail), w')"
    by (rule publish_steps_split [OF assms(3)])
  obtain b r v v' where r: "observe m (pub_snapshot (ss ! i)) b v = (r, v')"
      "receipts ! i = receipt_of sha a i (ss ! i) r" and v: "tree_of v = tree_of w1"
    using observe_steps_receipts(2) [OF ob assms(4)] assms(1) by auto
  have w': "tree_of w' = tree_of w1" by (rule observe_steps_receipts(3) [OF ob assms(1)])
  note out = attempt_steps_outcome [OF assms(1,2) att fresh_attempts_ok(1,2) assms(4), unfolded fresh_attempts_ok(3)]
  show "holds (tree_of w') (target_of (ss ! i)) (pub_content (ss ! i))" if "r_state (receipts ! i) = published"
    using that out w' by (simp add: r(2) receipt_states)
  show "tree_of w' (target_of (ss ! i)) = tree_of w (target_of (ss ! i))"
    if "r_state (receipts ! i) \<in> {not_attempted, not_published}"
  proof (cases "attempted a \<le> i")
    case True
    with out w' show ?thesis by simp
  next
    case False
    with that have "r_state (receipts ! i) = not_published" by (auto simp: r(2) receipt_states)
    then have "\<not> holds (tree_of w1) (target_of (ss ! i)) (pub_content (ss ! i))"
      using observed_version_tree [OF assms(1) r(1)] v holds_version [of "tree_of w1" "target_of (ss ! i)"]
      by (auto simp: r(2) receipt_states)
    with out w' show ?thesis by (simp add: old_or_new_def)
  qed
qed


end
