(* ===== verification/Text_Patch_Apply.thy ===== *)
theory Text_Patch_Apply
  imports Text_Patch_Parser
begin

section \<open>Text patches: what applying a patch does\<close>

text \<open>
  The specification of a patch as a list of hunks (kept, deleted and inserted lines), the proof that
  \<^verbatim>\<open>_get_updated_file\<close> computes the target of the hunks, and the invariant of \<^verbatim>\<open>_peek_next_section\<close>:
  every chunk it produces deletes lines of the context it returns.
\<close>

subsection \<open>Hunks\<close>

type_synonym hunk = "ustr list \<times> ustr list \<times> ustr list"

definition hunks_source :: "hunk list \<Rightarrow> ustr list \<Rightarrow> ustr list" where
  "hunks_source hs rest = concat (map (\<lambda>(keep, del, ins). keep @ del) hs) @ rest"

definition hunks_target :: "hunk list \<Rightarrow> ustr list \<Rightarrow> ustr list" where
  "hunks_target hs rest = concat (map (\<lambda>(keep, del, ins). keep @ ins) hs) @ rest"

fun hunks_chunks :: "nat \<Rightarrow> hunk list \<Rightarrow> chunk list" where
  "hunks_chunks pos [] = []"
| "hunks_chunks pos ((keep, del, ins) # hs) =
     \<lparr>orig_index = int (pos + length keep), del_lines = del, ins_lines = ins\<rparr>
       # hunks_chunks (pos + length keep + length del) hs"

definition reverse_hunk :: "hunk \<Rightarrow> hunk" where
  "reverse_hunk = (\<lambda>(keep, del, ins). (keep, ins, del))"

lemma hunks_reverse:
  "hunks_source (map reverse_hunk hs) rest = hunks_target hs rest"
  "hunks_target (map reverse_hunk hs) rest = hunks_source hs rest"
  by (induction hs) (auto simp: hunks_source_def hunks_target_def reverse_hunk_def)

lemma slice_prefix: "slice i (i + length ys) (xs @ ys @ zs) = ys" if "i = length xs"
  using that by (simp add: slice_def)

lemma apply_chunks_hunks:
  "apply_chunks path (done @ hunks_source hs rest) (hunks_chunks (length done) hs) (int (length done)) dest
   = Inr (int (length done + length (hunks_source hs [])), dest @ hunks_target hs [])"
proof (induction hs arbitrary: "done" dest)
  case (Cons h hs)
  obtain keep del ins where h: "h = (keep, del, ins)" by (cases h)
  have src: "hunks_source (h # hs) rest = keep @ del @ hunks_source hs rest"
    by (simp add: hunks_source_def h)
  show ?case
    using Cons.IH [of "done @ keep @ del" "dest @ keep @ ins"]
    by (simp add: src) (simp add: h slice_prefix hunks_source_def hunks_target_def add.assoc nat_int_add)
qed (simp add: hunks_source_def hunks_target_def)

lemma get_updated_lines_hunks:
  "get_updated_lines (hunks_source hs rest) (hunks_chunks 0 hs) path = Inr (hunks_target hs rest)"
proof -
  have "hunks_source hs rest = hunks_source hs [] @ rest"
    by (simp add: hunks_source_def)
  then show ?thesis
    using apply_chunks_hunks [of path "[]" hs rest "[]"]
    by (simp add: get_updated_lines_def) (simp add: hunks_target_def)
qed

text \<open>
  C32: applying the chunks of a hunk list to its source produces its target, and applying the
  chunks of the reversed hunks to the target gives the source back.
\<close>

theorem apply_hunks_and_undo:
  "get_updated_lines (hunks_source hs rest) (hunks_chunks 0 hs) path = Inr (hunks_target hs rest)
   \<and> get_updated_lines (hunks_target hs rest) (hunks_chunks 0 (map reverse_hunk hs)) path
     = Inr (hunks_source hs rest)"
  using get_updated_lines_hunks [of hs rest path] get_updated_lines_hunks [of "map reverse_hunk hs" rest path]
  by (simp add: hunks_reverse)

text \<open>The chunks an application accepts: in order, disjoint, starting inside the file.\<close>

fun chunks_fit :: "int \<Rightarrow> chunk list \<Rightarrow> nat \<Rightarrow> bool" where
  "chunks_fit pos [] n = True"
| "chunks_fit pos (c # cs) n =
     (pos \<le> orig_index c \<and> orig_index c \<le> int n
      \<and> chunks_fit (orig_index c + int (length (del_lines c))) cs n)"

lemma apply_chunks_succeeds_iff:
  "(\<exists>r. apply_chunks path source cs pos dest = Inr r) \<longleftrightarrow> chunks_fit pos cs (length source)"
  by (induction cs arbitrary: pos dest) auto

text \<open>
  C38: an update raises no error exactly when its chunks are in order, do not overlap and start
  inside the file.
\<close>

theorem update_succeeds_iff_chunks_fit:
  "(\<exists>new. get_updated_file old action path = Inr new)
   \<longleftrightarrow> chunks_fit 0 (chunks action) (length (split_lines old))"
  using apply_chunks_succeeds_iff [of path "split_lines old" "chunks action" 0 "[]"]
  by (auto simp: get_updated_file_def get_updated_lines_def)

fun chunks_within :: "ustr list \<Rightarrow> nat \<Rightarrow> chunk list \<Rightarrow> nat \<Rightarrow> bool" where
  "chunks_within src lo [] hi = (lo \<le> hi)"
| "chunks_within src lo (c # cs) hi =
     (int lo \<le> orig_index c
      \<and> take (length (del_lines c)) (drop (nat (orig_index c)) src) = del_lines c
      \<and> chunks_within src (nat (orig_index c) + length (del_lines c)) cs hi)"

lemma chunks_within_le: "chunks_within src lo cs hi \<Longrightarrow> lo \<le> hi"
  by (induction cs arbitrary: lo) fastforce+

lemma chunks_within_mono: "chunks_within src lo cs hi \<Longrightarrow> hi \<le> hi' \<Longrightarrow> chunks_within src lo cs hi'"
  by (induction cs arbitrary: lo) auto

lemma chunks_within_snoc:
  "chunks_within src lo cs mid \<Longrightarrow> int mid \<le> orig_index c \<Longrightarrow>
   take (length (del_lines c)) (drop (nat (orig_index c)) src) = del_lines c \<Longrightarrow>
   nat (orig_index c) + length (del_lines c) \<le> hi \<Longrightarrow>
   chunks_within src lo (cs @ [c]) hi"
  by (induction cs arbitrary: lo) auto

lemma chunks_within_cong:
  assumes "chunks_within src lo cs hi" and "take hi src = take hi src'"
  shows "chunks_within src' lo cs hi"
  using assms(1)
proof (induction cs arbitrary: lo)
  case (Cons c cs)
  let ?i = "nat (orig_index c)" and ?n = "length (del_lines c)"
  from Cons.prems have "?i + ?n \<le> hi" by (auto dest: chunks_within_le)
  then have "take ?n (drop ?i src) = take ?n (drop ?i (take hi src))"
    and "take ?n (drop ?i src') = take ?n (drop ?i (take hi src'))"
    by (simp_all add: drop_take take_take min_def)
  with Cons assms(2) show ?case by auto
qed simp

lemma chunks_within_hunks:
  assumes "hi \<le> length src"
  shows "chunks_within src lo cs hi \<Longrightarrow>
    \<exists>hs rest. drop lo src = hunks_source hs rest \<and> cs = hunks_chunks lo hs"
proof (induction cs arbitrary: lo)
  case Nil
  show ?case by (rule exI [of _ "[]"]) (simp add: hunks_source_def)
next
  case (Cons c cs)
  let ?i = "nat (orig_index c)" and ?n = "length (del_lines c)"
  have i: "orig_index c = int ?i" "lo \<le> ?i" and within: "chunks_within src (?i + ?n) cs hi"
    using Cons.prems by auto
  then have "?i + ?n \<le> length src" using assms by (auto dest: chunks_within_le)
  then have len: "length (slice lo ?i src) = ?i - lo" by (simp add: length_slice)
  from Cons.IH [OF within] obtain hs rest where
    hs: "drop (?i + ?n) src = hunks_source hs rest" "cs = hunks_chunks (?i + ?n) hs" by blast
  have "drop lo src = slice lo ?i src @ del_lines c @ drop (?i + ?n) src"
    using i(2) Cons.prems slice_append_drop [of lo ?i src] append_take_drop_id [of ?n "drop ?i src"]
    by (simp add: add.commute)
  moreover have "c = \<lparr>orig_index = int (lo + (?i - lo)), del_lines = del_lines c, ins_lines = ins_lines c\<rparr>"
    using i by simp
  ultimately show ?case using hs i(2) len
    by (intro exI [of _ "(slice lo ?i src, del_lines c, ins_lines c) # hs"] exI [of _ rest])
      (simp add: hunks_source_def)
qed

subsection \<open>The chunks of a section\<close>

definition peek_inv :: "peek_state \<Rightarrow> bool" where
  "peek_inv st \<longleftrightarrow>
     (\<exists>before. pk_old st = before @ pk_deleted st)
     \<and> (pk_mode st = M_KEEP \<longrightarrow> pk_deleted st = [] \<and> pk_inserted st = [])
     \<and> chunks_within (pk_old st) 0 (pk_chunks st)
         (if pk_mode st = M_KEEP then length (pk_old st) - 1
          else length (pk_old st) - length (pk_deleted st))"

lemma flush_chunk_within:
  assumes "peek_inv st"
  shows "chunks_within (pk_old st) 0 (flush_chunk st) (length (pk_old st))"
proof -
  from assms obtain before where old: "pk_old st = before @ pk_deleted st"
    by (auto simp: peek_inv_def)
  show ?thesis
  proof (cases "pk_mode st = M_KEEP")
    case True
    with assms show ?thesis
      by (auto simp: peek_inv_def flush_chunk_def intro: chunks_within_mono)
  next
    case False
    with assms old have "chunks_within (pk_old st) 0 (pk_chunks st) (length before)"
      by (simp add: peek_inv_def)
    then show ?thesis
      by (auto simp: flush_chunk_def old intro: chunks_within_snoc chunks_within_mono)
  qed
qed

lemma chunks_within_extend:
  "chunks_within xs lo cs hi \<Longrightarrow> hi \<le> length xs \<Longrightarrow> chunks_within (xs @ ys) lo cs hi"
  by (erule chunks_within_cong) simp

lemma push_line_index [simp]: "pk_index (push_line mode line st) = Suc (pk_index st)"
  by (cases mode) (auto simp: push_line_def Let_def)

lemma peek_line_index [simp]: "pk_index (peek_line fuzz_merge current rest st) = Suc (pk_index st)"
  by (simp add: peek_line_def Let_def)

lemma push_line_inv:
  assumes "peek_inv st"
  shows "peek_inv (push_line mode line st)"
proof -
  have within: "chunks_within (pk_old st @ ys) 0 (flush_chunk st) (length (pk_old st))" for ys
    by (rule chunks_within_extend [OF flush_chunk_within [OF assms]]) simp
  have base: "chunks_within (pk_old st @ ys) 0 (pk_chunks st) (length (pk_old st) - length (pk_deleted st))" for ys
    using assms by (auto simp: peek_inv_def intro!: chunks_within_extend intro: chunks_within_mono split: if_splits)
  have flush: "flush_chunk (st\<lparr>pk_index := i, pk_mode := md\<rparr>) = flush_chunk st" for i md
    by (simp add: flush_chunk_def)
  show ?thesis
  proof (cases mode)
    case M_KEEP
    then show ?thesis
      using assms within base [of "[line]"]
      by (cases "pk_mode st = M_KEEP") (auto simp: peek_inv_def push_line_def Let_def flush)
  next
    case M_DELETE
    then show ?thesis using assms base [of "[line]"] by (auto simp: peek_inv_def push_line_def)
  next
    case M_ADD
    then show ?thesis using assms base [of "[]"] by (auto simp: peek_inv_def push_line_def)
  qed
qed

lemma peek_inv_merges [simp]: "peek_inv (st\<lparr>pk_merges := k\<rparr>) = peek_inv st"
  by (simp add: peek_inv_def)

lemma peek_inv_init [simp]:
  "peek_inv \<lparr>pk_index = i, pk_old = [], pk_deleted = [], pk_inserted = [], pk_chunks = [],
     pk_mode = M_KEEP, pk_merges = 0\<rparr>"
  by (simp add: peek_inv_def)

lemma peek_line_inv: "peek_inv st \<Longrightarrow> peek_inv (peek_line fuzz_merge current rest st)"
  by (simp add: peek_line_def Let_def push_line_inv)

lemma peek_loop_within:
  "peek_loop fuzz_merge ls st = Inr st' \<Longrightarrow> peek_inv st \<Longrightarrow>
   chunks_within (pk_old st') 0 (flush_chunk st') (length (pk_old st'))"
proof (induction fuzz_merge ls st rule: peek_loop.induct)
  case (1 fuzz_merge st)
  then show ?case by (auto intro: flush_chunk_within)
next
  case (2 fuzz_merge current rest st)
  have pop: "chunks_within (butlast (pk_old st)) 0 (pk_chunks st) (length (butlast (pk_old st)))"
    if "pk_mode st = M_KEEP"
  proof (rule chunks_within_cong)
    show "chunks_within (pk_old st) 0 (pk_chunks st) (length (butlast (pk_old st)))"
      using that 2 by (simp add: peek_inv_def)
  qed (simp add: butlast_conv_take)
  then show ?case
    using 2 by (auto simp: flush_chunk_within peek_line_inv split: if_splits)
      (auto simp: peek_inv_def flush_chunk_def)
qed

lemma section_chunks_within:
  assumes "peek_next_section ls i fuzz_merge = Inr sec"
  shows "chunks_within (sec_context sec) 0 (sec_chunks sec) (length (sec_context sec))"
  using assms
  by (auto simp: peek_next_section_def Let_def intro!: peek_loop_within)

lemma peek_loop_index:
  "peek_loop fuzz_merge ls st = Inr st' \<Longrightarrow> pk_index st \<le> pk_index st'"
  by (induction fuzz_merge ls st rule: peek_loop.induct) (auto split: if_splits)

lemma peek_loop_progress:
  assumes "peek_loop fuzz_merge (l # ls) st = Inr st'"
    and "\<not> starts_with_any l section_prefixes" and "l \<noteq> u ''***''"
  shows "pk_index st < pk_index st'"
  using assms by (auto split: if_splits dest!: peek_loop_index)

lemma section_end_index:
  assumes "peek_next_section ls i fuzz_merge = Inr sec"
  shows "i \<le> end_index sec"
  using assms by (auto simp: peek_next_section_def Let_def dest!: peek_loop_index)

lemma section_progress:
  assumes "peek_next_section ls i fuzz_merge = Inr sec" and "i < length ls"
    and "\<not> starts_with_any (ls ! i) section_prefixes" and "ls ! i \<noteq> u ''***''"
  shows "i < end_index sec"
proof -
  have "drop i ls = ls ! i # drop (Suc i) ls" using assms(2) by (rule Cons_nth_drop_Suc [symmetric])
  with assms show ?thesis
    by (auto simp: peek_next_section_def Let_def simp del: peek_loop.simps dest!: peek_loop_progress)
qed

subsection \<open>An exact match deletes the lines it names\<close>

lemma core_match_exact:
  assumes "find_context_core nfc fl ctx s = Some m" and "ctx \<noteq> []" and "match_fuzz m = fuzz_NONE"
  shows "matches_at (map (canonicalize nfc) fl) (map (canonicalize nfc) ctx) (match_line m)"
proof (cases "find_exact (map (canonicalize nfc) fl) (map (canonicalize nfc) ctx) s")
  case None
  with find_context_core_inexact [OF assms(1,2)] assms(3) show ?thesis by simp
next
  case (Some i)
  with find_context_core_exact [OF assms(2) this] assms(1) show ?thesis
    using exact.search_sound by fastforce
qed

lemma fuzz_or_eof [simp]: "f OR fuzz_IGNORED_EOF_SIGNAL \<noteq> fuzz_NONE"
  by (metis fuzz_NONE_def fuzz_IGNORED_EOF_SIGNAL_def or_eq_0_iff push_bit_eq_0_iff zero_neq_one)

lemma find_context_plain:
  assumes "find_context nfc path fl ctx start eof = Some m" and "match_fuzz m = fuzz_NONE" and "ctx \<noteq> []"
    and "fl \<noteq> [] \<Longrightarrow> \<not> contains (strip path) (hd fl)" and "\<not> contains (strip path) (hd ctx)"
  shows "matches_at (map (canonicalize nfc) fl) (map (canonicalize nfc) ctx) (match_line m)"
proof -
  have cand: "(case fl of [] \<Rightarrow> fl | l # rest \<Rightarrow> if contains (strip path) l then rest else fl) = fl"
    "(case ctx of [] \<Rightarrow> ctx | l # rest \<Rightarrow> if contains (strip path) l then rest else ctx) = ctx"
    using assms(4,5) by (auto split: list.split)
  from assms(1,2) show ?thesis
    unfolding find_context_def cand Let_def by (auto split: if_split_asm option.split_asm intro: core_match_exact [OF _ assms(3)])
qed

text \<open>The facts that evaluate the search and the section reader on literals.\<close>

lemmas context_evaluation = find_context_def find_context_core_def strip_def lstrip_def rstrip_def
  is_space_def u_def find_exact_def slice_def canonicalize_def punctuation_equivalent_def startswith_def

lemmas section_evaluation = peek_next_section_def starts_with_any_def section_prefixes_def prefix_defs
  peek_line_def push_line_def line_mode_def flush_chunk_def Let_def

lemma chunks_within_mem:
  "chunks_within src lo cs hi \<Longrightarrow> c \<in> set cs \<Longrightarrow>
   0 \<le> orig_index c \<and> nat (orig_index c) + length (del_lines c) \<le> hi
   \<and> take (length (del_lines c)) (drop (nat (orig_index c)) src) = del_lines c"
  by (induction cs arbitrary: lo) (auto dest: chunks_within_le)

text \<open>
  When a section is found by an exact match and neither the file nor the section starts with a
  line that mentions the path, every chunk of the section deletes lines of the file that are, up to
  canonical form, the lines the patch names.
\<close>

theorem exact_match_deletes_named_lines:
  assumes pk: "peek_next_section ls i fuzz_merge = Inr sec" and c: "c \<in> set (sec_chunks sec)"
    and m: "find_context nfc path fl (sec_context sec) start (sec_eof sec) = Some m"
      "match_fuzz m = fuzz_NONE" "sec_context sec \<noteq> []"
    and hd: "fl \<noteq> [] \<Longrightarrow> \<not> contains (strip path) (hd fl)" "\<not> contains (strip path) (hd (sec_context sec))"
    and c': "c' = adjust_chunk m tabs extra src tgt c"
  shows "0 \<le> orig_index c' \<and> nat (orig_index c') + length (del_lines c') \<le> length fl
    \<and> map (canonicalize nfc) (slice (nat (orig_index c')) (nat (orig_index c') + length (del_lines c')) fl)
      = map (canonicalize nfc) (del_lines c')"
proof -
  let ?c = "canonicalize nfc" and ?o = "nat (orig_index c)" and ?n = "length (del_lines c)" and ?m = "match_line m"
  have eq: "orig_index c' = orig_index c + int ?m" "del_lines c' = del_lines c"
    using m(2) by (simp_all add: c' adjust_chunk_def Let_def)
  from chunks_within_mem [OF section_chunks_within [OF pk] c]
  have o: "0 \<le> orig_index c" "?o + ?n \<le> length (sec_context sec)"
    "take ?n (drop ?o (sec_context sec)) = del_lines c" by auto
  from find_context_plain [OF m hd] have
    mt: "?m + length (sec_context sec) \<le> length fl"
    "take (length (sec_context sec)) (drop ?m (map ?c fl)) = map ?c (sec_context sec)"
    by (auto simp: matches_at_def slice_def)
  have "map ?c (del_lines c) = take ?n (drop ?o (map ?c (sec_context sec)))"
    using o(3) by (metis drop_map take_map)
  also have "\<dots> = take ?n (drop ?o (drop ?m (map ?c fl)))"
    using o(2) by (simp add: mt(2) [symmetric] drop_take take_take min_def)
  also have "\<dots> = map ?c (slice (?o + ?m) (?o + ?m + ?n) fl)"
    by (simp add: slice_def take_map drop_map)
  finally show ?thesis using o mt(1) by (simp add: eq nat_add_distrib)
qed

theorem exact_match_deletes_named_lines_witness:
  "0 \<le> orig_index (adjust_chunk \<lparr>match_line = 1, match_fuzz = fuzz_NONE\<rparr> False [] \<lparr>tab_size = 4, insert_spaces = True\<rparr>
        \<lparr>tab_size = 4, insert_spaces = True\<rparr> \<lparr>orig_index = 0, del_lines = [u ''y''], ins_lines = [u ''z'']\<rparr>)"
  using exact_match_deletes_named_lines
    [of "[u ''-y'', u ''+z'']" 0 0
        "\<lparr>sec_context = [u ''y''], sec_chunks = [\<lparr>orig_index = 0, del_lines = [u ''y''], ins_lines = [u ''z'']\<rparr>],
          end_index = 2, sec_eof = False, fuzz_merges = 0\<rparr>"
        "\<lparr>orig_index = 0, del_lines = [u ''y''], ins_lines = [u ''z'']\<rparr>"
        "\<lambda>s. s" "u ''a.py''" "[u ''x'', u ''y'']" 0 "\<lparr>match_line = 1, match_fuzz = fuzz_NONE\<rparr>"
        "adjust_chunk \<lparr>match_line = 1, match_fuzz = fuzz_NONE\<rparr> False [] \<lparr>tab_size = 4, insert_spaces = True\<rparr>
          \<lparr>tab_size = 4, insert_spaces = True\<rparr> \<lparr>orig_index = 0, del_lines = [u ''y''], ins_lines = [u ''z'']\<rparr>"
        False "[]" "\<lparr>tab_size = 4, insert_spaces = True\<rparr>" "\<lparr>tab_size = 4, insert_spaces = True\<rparr>"]
  by (simp add: section_evaluation context_evaluation)

text \<open>
  C40: when the first line of the file mentions the path, the first line of the context does not, and the section has no
  end-of-file mark, an exact match is reported one line too early: the search runs on the lines after the first
  and returns an index into them, so the context stands one line further down in the file.
\<close>

theorem path_mention_shifts_match:
  assumes "contains (strip path) l" and "\<not> contains (strip path) (hd ctx)" and "ctx \<noteq> []"
    and "find_context nfc path (l # rest) ctx start False = Some m" and "match_fuzz m = fuzz_NONE"
  shows "matches_at (map (canonicalize nfc) (l # rest)) (map (canonicalize nfc) ctx) (Suc (match_line m))"
proof -
  have "find_context_core nfc rest ctx start = Some m"
    using assms(1-4) by (auto simp: find_context_def neq_Nil_conv)
  from core_match_exact [OF this assms(3,5)] show ?thesis
    by (simp add: matches_at_def slice_def)
qed

theorem path_mention_shifts_match_witness:
  "find_context (\<lambda>s. s) (u ''a.py'') [u ''# a.py'', u ''x'', u ''y''] [u ''y''] 0 False
     = Some \<lparr>match_line = 1, match_fuzz = fuzz_NONE\<rparr>
   \<and> matches_at (map (canonicalize (\<lambda>s. s)) [u ''# a.py'', u ''x'', u ''y'']) (map (canonicalize (\<lambda>s. s)) [u ''y'']) 2"
  using path_mention_shifts_match [of "u ''a.py''" "u ''# a.py''" "[u ''y'']" "\<lambda>s. s" "[u ''x'', u ''y'']" 0
      "\<lparr>match_line = 1, match_fuzz = fuzz_NONE\<rparr>"]
  by (simp add: context_evaluation numeral_2_eq_2)

end
