(* ===== verification/Text_Patch_Termination.thy ===== *)
theory Text_Patch_Termination
  imports Text_Patch_Apply
begin

section \<open>Text patches: when the parser returns\<close>

text \<open>
  \<^verbatim>\<open>_parse_update_file\<close> and \<^verbatim>\<open>parse\<close> are \<^verbatim>\<open>while\<close> loops whose progress depends on the text. This
  theory proves that they return whenever no line of the patch is a bare \<^verbatim>\<open>***\<close>, and that such a line in
  an update section keeps the parser in the same state for ever.
\<close>

subsection \<open>Progress of one iteration\<close>

unbundle bit_operations_syntax

definition same_input :: "parser \<Rightarrow> parser \<Rightarrow> bool" where
  "same_input p q \<longleftrightarrow> lines q = lines p \<and> current_files q = current_files p"

lemma same_input_simps [simp]:
  "same_input p p"
  "same_input p (q\<lparr>index := i\<rparr>) = same_input p q"
  "same_input p (q\<lparr>actions := a\<rparr>) = same_input p q"
  "same_input p (q\<lparr>fuzz := f\<rparr>) = same_input p q"
  "same_input (p\<lparr>index := i\<rparr>) q = same_input p q"
  by (auto simp: same_input_def)

lemma same_input_trans: "same_input p q \<Longrightarrow> same_input q r \<Longrightarrow> same_input p r"
  by (simp add: same_input_def)

lemma read_prefixed_cases:
  assumes "read_prefixed p prefix entire = Inr (s, p')"
  obtains (skip) "index p < length (lines p)" "\<not> startswith (lines p ! index p) prefix" "s = []" "p' = p"
  | (read) "index p < length (lines p)" "startswith (lines p ! index p) prefix"
      "s = (if entire then lines p ! index p else drop (length prefix) (lines p ! index p))"
      "p' = p\<lparr>index := index p + 1\<rparr>"
  using assms by (auto simp: read_prefixed_def Let_def split: if_splits)

lemma try_merges_section:
  "try_merges nfc path fl p si ms sec = Inr (sec', mo) \<Longrightarrow>
   \<exists>fm. peek_next_section (lines p) (index p) fm = Inr sec \<Longrightarrow>
   \<exists>fm. peek_next_section (lines p) (index p) fm = Inr sec'"
proof (induction ms arbitrary: sec)
  case (Cons fm ms)
  then show ?case by (auto split: option.splits if_splits)
qed auto

lemma accept_section_frame:
  assumes "accept_section fl tgt tabs p cs sec m = (p', s', cs')"
  shows "index p' = end_index sec" "s' = match_line m + length (sec_context sec)"
    "same_input p p'" "actions p' = actions p"
  using assms by (auto simp: accept_section_def Let_def)

lemma update_body_Inr:
  assumes "update_body nfc path fl tgt tabs (p0, s0, cs) = Inr (p', s', cs')"
  obtains section_line p sec fm and m :: fuzz_match where
    "read_prefixed p0 CHUNK_DELIMITER True = Inr (section_line, p)"
    "section_line \<noteq> [] \<or> s0 = 0"
    "peek_next_section (lines p) (index p) fm = Inr sec"
    "index p' = end_index sec" "same_input p0 p'" "actions p' = actions p0"
    "s' = match_line m + length (sec_context sec)"
proof -
  from assms obtain section_line p where
    rd: "read_prefixed p0 CHUNK_DELIMITER True = Inr (section_line, p)"
    by (cases "read_prefixed p0 CHUNK_DELIMITER True") (simp_all add: update_body_def, metis surj_pair)
  have same: "same_input p0 p" "actions p = actions p0"
    using rd by (auto elim: read_prefixed_cases)
  define hint where "hint = strip (drop (length CHUNK_DELIMITER) section_line)"
  define si where "si = (if hint \<noteq> []
    then (case find_hint nfc fl hint s0 of None \<Rightarrow> s0 | Some i \<Rightarrow> i) else s0)"
  have eq: "update_body nfc path fl tgt tabs (p0, s0, cs) =
    (if section_line = [] \<and> s0 \<noteq> 0 then Inl (DiffError (InvalidLineSplit (current_line p)))
     else bind_res (peek_next_section (lines p) (index p) 0) (\<lambda>sec0.
       bind_res (try_merges nfc path fl p si [0..<fuzz_merges sec0 + 1] sec0) (\<lambda>(sec, mo).
       case mo of
         None \<Rightarrow> Inl (InvalidContextError path si (sec_context sec) (sec_eof sec))
       | Some m \<Rightarrow> Inr (accept_section fl tgt tabs p cs sec m))))"
    by (simp only: update_body_def rd case_prod_conv bind_res_simps Let_def si_def hint_def)
  have guard: "section_line \<noteq> [] \<or> s0 = 0"
    using assms unfolding eq by (auto split: if_split_asm)
  then have "\<not> (section_line = [] \<and> s0 \<noteq> 0)" by blast
  with assms eq have "bind_res (peek_next_section (lines p) (index p) 0) (\<lambda>sec0.
       bind_res (try_merges nfc path fl p si [0..<fuzz_merges sec0 + 1] sec0) (\<lambda>(sec, mo).
       case mo of
         None \<Rightarrow> Inl (InvalidContextError path si (sec_context sec) (sec_eof sec))
       | Some m \<Rightarrow> Inr (accept_section fl tgt tabs p cs sec m))) = Inr (p', s', cs')"
    by (simp only: if_False)
  then obtain sec0 r where
    pk: "peek_next_section (lines p) (index p) 0 = Inr sec0"
    and tr: "try_merges nfc path fl p si [0..<fuzz_merges sec0 + 1] sec0 = Inr r"
    and cr: "(case r of (sec, mo) \<Rightarrow> case mo of
         None \<Rightarrow> Inl (InvalidContextError path si (sec_context sec) (sec_eof sec))
       | Some m \<Rightarrow> Inr (accept_section fl tgt tabs p cs sec m)) = Inr (p', s', cs')"
    unfolding bind_res_eq_Inr by blast
  obtain sec mo where r: "r = (sec, mo)" by (cases r)
  note tm = tr [unfolded r] and mo = cr [unfolded r case_prod_conv]
  from mo obtain m where acc: "accept_section fl tgt tabs p cs sec m = (p', s', cs')"
    by (cases mo) auto
  from try_merges_section [OF tm] pk obtain fm where
    sec: "peek_next_section (lines p) (index p) fm = Inr sec" by blast
  note frame = accept_section_frame [OF acc]
  have "same_input p0 p'" "actions p' = actions p0"
    using same_input_trans [OF same(1) frame(3)] same(2) frame(4) by simp_all
  then show ?thesis
    by (rule that [OF rd guard sec frame(1) _ _ frame(2)])
qed

lemma section_prefixes_update_stop:
  "starts_with_any l section_prefixes \<longleftrightarrow> startswith l (strip CHUNK_DELIMITER) \<or> starts_with_any l update_stop_prefixes"
  unfolding starts_with_any_def section_prefixes_def update_stop_prefixes_def
  by simp

lemma strip_CHUNK_DELIMITER [simp]: "strip CHUNK_DELIMITER = CHUNK_DELIMITER"
  by (simp add: strip_def lstrip_def rstrip_def is_space_def CHUNK_DELIMITER_def u_def)

lemma update_body_frame:
  assumes "update_body nfc path fl tgt tabs (p0, s0, cs) = Inr (p', s', cs')"
  shows "same_input p0 p' \<and> actions p' = actions p0 \<and> index p0 \<le> index p'"
  using assms
proof (rule update_body_Inr)
  fix section_line p sec fm and m :: fuzz_match
  assume rd: "read_prefixed p0 CHUNK_DELIMITER True = Inr (section_line, p)"
    and pk: "peek_next_section (lines p) (index p) fm = Inr sec"
    and p': "index p' = end_index sec" "same_input p0 p'" "actions p' = actions p0"
  from rd have "index p0 \<le> index p" by (auto elim: read_prefixed_cases)
  with section_end_index [OF pk] p' show ?thesis by simp
qed

lemma update_body_progress:
  assumes "update_body nfc path fl tgt tabs (p0, s0, cs) = Inr (p', s', cs')"
    and nd: "\<not> is_done p0 update_stop_prefixes" and "lines p0 ! index p0 \<noteq> u ''***''"
  shows "index p0 < index p'"
  using assms(1)
proof (rule update_body_Inr)
  fix section_line p sec fm and m :: fuzz_match
  assume rd: "read_prefixed p0 CHUNK_DELIMITER True = Inr (section_line, p)"
    and pk: "peek_next_section (lines p) (index p) fm = Inr sec" and p': "index p' = end_index sec"
  from rd show ?thesis
  proof (cases rule: read_prefixed_cases)
    case skip
    with nd assms(3) section_progress [OF pk] p' show ?thesis
      by (simp add: is_done_def section_prefixes_update_stop)
  next
    case read
    with section_end_index [OF pk] p' show ?thesis by simp
  qed
qed

lemma update_loop_total:
  assumes "u ''***'' \<notin> set (lines (fst st))"
  shows "\<exists>r. update_loop nfc path fl tgt tabs st = Some r"
  using assms
proof (induction "length (lines (fst st)) - index (fst st)" arbitrary: st rule: less_induct)
  case less
  obtain p s cs where st: "st = (p, s, cs)" by (cases st)
  show ?case
  proof (cases "is_done p update_stop_prefixes")
    case True
    then show ?thesis by (simp add: update_loop.simps st)
  next
    case False
    then have i: "index p < length (lines p)" by (simp add: is_done_def)
    show ?thesis
    proof (cases "update_body nfc path fl tgt tabs st")
      case (Inl e)
      with False show ?thesis by (simp add: update_loop.simps st)
    next
      case (Inr st')
      obtain p' s' cs' where st': "st' = (p', s', cs')" by (cases st')
      note body = Inr [unfolded st st']
      have "lines p ! index p \<noteq> u ''***''" using less.prems i st by (metis fst_conv nth_mem)
      with update_body_frame [OF body] update_body_progress [OF body False] i
      have "length (lines p') - index p' < length (lines p) - index p" "lines p' = lines p"
        by (auto simp: same_input_def)
      with less.hyps [of st'] less.prems obtain r where "update_loop nfc path fl tgt tabs st' = Some r"
        by (auto simp: st st')
      with False Inr show ?thesis by (simp add: update_loop.simps [of _ _ _ _ _ "(p, s, cs)"] st)
    qed
  qed
qed

lemma update_loop_frame:
  assumes "update_loop nfc path fl tgt tabs st = Some (Inr (p', cs'))"
  shows "same_input (fst st) p' \<and> actions p' = actions (fst st) \<and> index (fst st) \<le> index p'"
proof -
  have "\<forall>p' cs'. r = Inr (p', cs') \<longrightarrow>
      same_input (fst st) p' \<and> actions p' = actions (fst st) \<and> index (fst st) \<le> index p'"
    if ret: "update_loop nfc path fl tgt tabs st = Some r" for r
  proof (rule update_loop.raw_induct [where P = "\<lambda>nfc path fl tgt tabs st r. \<forall>p' cs'. r = Inr (p', cs') \<longrightarrow>
        same_input (fst st) p' \<and> actions p' = actions (fst st) \<and> index (fst st) \<le> index p'", OF _ ret], goal_cases)
    case (1 f nfc path fl tgt tabs st r)
    obtain p s cs where st: "st = (p, s, cs)" by (cases st)
    show ?case
    proof (cases "is_done (fst st) update_stop_prefixes")
      case True
      with 1(2) show ?thesis by auto
    next
      case False
      show ?thesis
      proof (cases "update_body nfc path fl tgt tabs st")
        case (Inl e)
        with False 1(2) show ?thesis by auto
      next
        case (Inr st')
        obtain q s' cs' where st': "st' = (q, s', cs')" by (cases st')
        from False Inr 1(2) have "f nfc path fl tgt tabs st' = Some r" by simp
        from 1(1) [OF this] update_body_frame [OF Inr [unfolded st st']] show ?thesis
          by (auto simp: st st' intro: same_input_trans)
      qed
    qed
  qed
  with assms show ?thesis by blast
qed

lemma parse_update_file_frame:
  assumes "parse_update_file nfc p path text tgt = Some (Inr (a, p'))"
  shows "same_input p p' \<and> actions p' = actions p \<and> index p \<le> index p' \<and> action_kind a = UPDATE"
  using assms update_loop_frame [of nfc path "split_lines text" tgt _ "(p, 0, [])" p']
  by (auto simp: parse_update_file_def)

lemma parse_update_file_total:
  assumes "u ''***'' \<notin> set (lines p)"
  shows "\<exists>r. parse_update_file nfc p path text tgt = Some r"
  using update_loop_total [of "(p, 0, [])"] assms by (fastforce simp: parse_update_file_def)

lemma add_file_lines_index: "add_file_lines ls i content = Inr (content', i') \<Longrightarrow> i \<le> i'"
  by (induction ls i content rule: add_file_lines.induct) (auto split: if_splits)

lemma parse_add_file_frame:
  assumes "parse_add_file p = Inr (a, p')"
  shows "same_input p p' \<and> actions p' = actions p \<and> index p \<le> index p' \<and> action_kind a = ADD"
  using assms by (auto simp: parse_add_file_def dest: add_file_lines_index)

definition header_ok :: "parser \<Rightarrow> ustr \<Rightarrow> action_type \<Rightarrow> bool" where
  "header_ok p path kind \<longleftrightarrow> path \<noteq> [] \<and>
     (case kind of
        UPDATE \<Rightarrow> UPDATE_FILE_PREFIX @ path \<in> set (lines p) \<and> path \<in> fst ` set (current_files p)
      | DELETE \<Rightarrow> DELETE_FILE_PREFIX @ path \<in> set (lines p) \<and> path \<in> fst ` set (current_files p)
      | ADD \<Rightarrow> ADD_FILE_PREFIX @ path \<in> set (lines p) \<and> path \<notin> fst ` set (current_files p))"

text \<open>One iteration of the main loop adds one action for a header line and moves on.\<close>

definition step_ok :: "parser \<Rightarrow> parser \<Rightarrow> bool" where
  "step_ok p p' \<longleftrightarrow> same_input p p' \<and> index p < index p' \<and>
     (\<exists>path a. path \<notin> fst ` set (actions p) \<and> header_ok p path (action_kind a)
        \<and> actions p' = actions p @ [(path, a)])"

lemma read_header:
  assumes "read_prefixed p prefix False = Inr (path, p')" and "path \<noteq> []"
  shows "prefix @ path \<in> set (lines p)" "p' = p\<lparr>index := index p + 1\<rparr>"
  using assms by (auto elim!: read_prefixed_cases simp: startswith_def in_set_conv_nth)
    (metis append_take_drop_id)

lemma read_prefixed_frame:
  assumes "read_prefixed p prefix e = Inr (s, p')"
  shows "same_input p p' \<and> actions p' = actions p \<and> index p \<le> index p'"
  using assms by (auto elim!: read_prefixed_cases)

lemma parse_update_branch_ok:
  assumes "parse_update_branch nfc p1 path = Some (Inr p')"
    and "path \<noteq> []" "UPDATE_FILE_PREFIX @ path \<in> set (lines p1)" "index p < index p1"
    "same_input p p1" "actions p1 = actions p"
  shows "step_ok p p'"
proof -
  from assms(1) obtain move p2 content style a p3 where
    dup: "path \<notin> fst ` set (actions p1)"
    and rd: "read_prefixed p1 MOVE_FILE_TO_PREFIX False = Inr (move, p2)"
    and fl: "map_of (current_files p2) path = Some content"
    and upd: "parse_update_file nfc p2 path content style = Some (Inr (a, p3))"
    and p': "p' = p3\<lparr>actions := al_set path
        (a\<lparr>move_path := (if move = [] then None else Some move)\<rparr>) (actions p3)\<rparr>"
    by (auto simp: parse_update_branch_def bind_res_eq_Inl reject_duplicate_def
        split: sum.splits option.splits if_splits prod.splits)
  note f1 = read_prefixed_frame [OF rd] and f2 = parse_update_file_frame [OF upd]
  from fl have "path \<in> fst ` set (current_files p2)" by (force dest: map_of_SomeD)
  with assms f1 f2 dup p' show ?thesis
    by (auto simp: step_ok_def header_ok_def same_input_def al_set_new)
qed

lemma parse_delete_branch_ok:
  assumes "parse_delete_branch p1 path = Inr p'"
    and "path \<noteq> []" "DELETE_FILE_PREFIX @ path \<in> set (lines p1)" "index p < index p1"
    "same_input p p1" "actions p1 = actions p"
  shows "step_ok p p'"
  using assms by (force simp: parse_delete_branch_def reject_duplicate_def step_ok_def header_ok_def
      same_input_def al_set_new split: if_splits)

lemma parse_add_branch_ok:
  assumes "parse_add_branch p1 path = Inr p'"
    and "path \<noteq> []" "ADD_FILE_PREFIX @ path \<in> set (lines p1)" "index p < index p1"
    "same_input p p1" "actions p1 = actions p"
  shows "step_ok p p'"
  using assms by (auto simp: parse_add_branch_def reject_duplicate_def step_ok_def header_ok_def
      same_input_def al_set_new split: if_splits dest!: parse_add_file_frame)


lemma parse_step_ok:
  assumes "parse_step nfc p = Some (Inr p')"
  shows "step_ok p p'"
proof -
  from assms obtain path1 p1 where r1: "read_prefixed p UPDATE_FILE_PREFIX False = Inr (path1, p1)"
    by (auto simp: parse_step_def split: sum.splits)
  show ?thesis
  proof (cases "path1 = []")
    case False
    with assms r1 have "parse_update_branch nfc p1 path1 = Some (Inr p')" by (simp add: parse_step_def)
    with read_header [OF r1 False] False show ?thesis by (auto intro: parse_update_branch_ok)
  next
    case True
    note f1 = read_prefixed_frame [OF r1]
    from True assms r1 obtain path2 p2 where r2: "read_prefixed p1 DELETE_FILE_PREFIX False = Inr (path2, p2)"
      by (auto simp: parse_step_def split: sum.splits)
    show ?thesis
    proof (cases "path2 = []")
      case False
      with True assms r1 r2 have "parse_delete_branch p2 path2 = Inr p'" by (simp add: parse_step_def)
      with read_header [OF r2 False] False f1 show ?thesis
        by (auto simp: same_input_def intro!: parse_delete_branch_ok)
    next
      case False2: True
      note f2 = read_prefixed_frame [OF r2]
      from True False2 assms r1 r2 obtain path3 p3 where
        r3: "read_prefixed p2 ADD_FILE_PREFIX False = Inr (path3, p3)" and ne: "path3 \<noteq> []"
        and "parse_add_branch p3 path3 = Inr p'"
        by (auto simp: parse_step_def split: sum.splits if_splits)
      with read_header [OF r3 ne] f1 f2 show ?thesis
        by (auto simp: same_input_def intro!: parse_add_branch_ok)
    qed
  qed
qed

lemma parse_step_total:
  assumes "u ''***'' \<notin> set (lines p)"
  shows "\<exists>r. parse_step nfc p = Some r"
proof -
  have "\<exists>r. parse_update_branch nfc q path = Some r" if "lines q = lines p" for q path
    using that assms parse_update_file_total
    by (fastforce simp: parse_update_branch_def same_input_def bind_res_eq_Inl reject_duplicate_def
        split: sum.splits option.splits prod.splits if_splits dest!: read_prefixed_frame)
  then show ?thesis
    using read_prefixed_frame by (auto simp: parse_step_def same_input_def split: sum.splits prod.splits)
qed

lemma parse_loop_total:
  assumes "u ''***'' \<notin> set (lines p)"
  shows "\<exists>r. parse_loop nfc p = Some r"
  using assms
proof (induction "length (lines p) - index p" arbitrary: p rule: less_induct)
  case less
  from parse_step_total [OF less.prems] obtain r where r: "parse_step nfc p = Some r" by blast
  show ?case
  proof (cases "is_done p [PATCH_SUFFIX]")
    case True
    then show ?thesis by (simp add: parse_loop.simps)
  next
    case False
    then have i: "index p < length (lines p)" by (simp add: is_done_def)
    show ?thesis
    proof (cases r)
      case (Inl e)
      with False r show ?thesis by (simp add: parse_loop.simps [of _ p])
    next
      case (Inr p')
      with r parse_step_ok have "step_ok p p'" by simp
      then have "lines p' = lines p" "length (lines p) - index p' < length (lines p) - index p"
        using i by (auto simp: step_ok_def same_input_def intro: diff_less_mono2)
      with less.prems less.hyps [of p'] obtain r' where "parse_loop nfc p' = Some r'"
        by auto
      with False r Inr show ?thesis by (simp add: parse_loop.simps [of _ p])
    qed
  qed
qed

text \<open>
  C30: parsing returns, with a commit or with an exception, for every text in which no line is a
  bare \<^verbatim>\<open>***\<close>.
\<close>

theorem parse_patch_terminates:
  assumes "u ''***'' \<notin> set (split_lines (strip text))"
  shows "\<exists>r. parse_patch nfc text files = Some r"
proof -
  have "\<exists>r. parse_loop nfc \<lparr>current_files = files, lines = ls, index = 1, actions = [], fuzz = fuzz_NONE\<rparr> = Some r"
    if "u ''***'' \<notin> set ls" for ls
    by (rule parse_loop_total) (simp add: that)
  moreover have "u ''***'' \<noteq> PATCH_SUFFIX" by (simp add: PATCH_SUFFIX_def)
  ultimately show ?thesis
    using assms by (auto simp: parse_patch_def parse_def Let_def)
qed

theorem parse_patch_terminates_witness:
  "\<exists>r. parse_patch (\<lambda>s. s) (u ''ab'') [] = Some r"
  by (rule parse_patch_terminates) (simp add: strip_def lstrip_def rstrip_def is_space_def u_def)

subsection \<open>A bare \<open>***\<close> line\<close>


lemma stop_prefixes_bare_stars [simp]:
  "\<not> starts_with_any (u ''***'') update_stop_prefixes"
  "\<not> starts_with_any (u ''***'') section_prefixes"
  "\<not> startswith (u ''***'') CHUNK_DELIMITER"
  "\<not> startswith (u ''***'') MOVE_FILE_TO_PREFIX"
  by (simp_all add: starts_with_any_def update_stop_prefixes_def section_prefixes_def prefix_defs
      startswith_def strip_def lstrip_def rstrip_def is_space_def u_def)

lemma bare_stars_section:
  assumes "i < length ls" and "ls ! i = u ''***''"
  shows "peek_next_section ls i 0 =
    Inr \<lparr>sec_context = [], sec_chunks = [], end_index = i, sec_eof = False, fuzz_merges = 0\<rparr>"
proof -
  have "drop i ls = u ''***'' # drop (Suc i) ls" using Cons_nth_drop_Suc [OF assms(1)] assms(2) by simp
  with assms show ?thesis
    by (simp add: peek_next_section_def Let_def flush_chunk_def) (simp add: END_OF_FILE_PREFIX_def)
qed

lemma bare_stars_stuck:
  assumes "index p < length (lines p)" and "lines p ! index p = u ''***''"
  shows "update_body nfc path fl tgt tabs (p, 0, cs) = Inr (p, 0, cs)"
proof -
  have "p\<lparr>fuzz := fuzz p OR fuzz_NONE, index := index p\<rparr> = p"
    by (cases p) (simp add: fuzz_NONE_def)
  with assms show ?thesis
    by (simp add: update_body_def read_prefixed_def Let_def bare_stars_section find_context_def
        find_context_core_def accept_section_def strip_def lstrip_def rstrip_def split: list.split)
qed

lemma update_loop_diverges:
  assumes "update_body nfc path fl tgt tabs st = Inr st" and "\<not> is_done (fst st) update_stop_prefixes"
  shows "update_loop nfc path fl tgt tabs st = None"
proof (cases "update_loop nfc path fl tgt tabs st")
  case (Some r)
  let ?P = "\<lambda>nfc' path' fl' tgt' tabs' st' r.
    \<not> (nfc' = nfc \<and> path' = path \<and> fl' = fl \<and> tgt' = tgt \<and> tabs' = tabs \<and> st' = st)"
  have "?P nfc path fl tgt tabs st r"
  proof (rule update_loop.raw_induct [where P = ?P, OF _ Some], goal_cases)
    case (1 f nfc' path' fl' tgt' tabs' st' r')
    show ?case
    proof
      assume "nfc' = nfc \<and> path' = path \<and> fl' = fl \<and> tgt' = tgt \<and> tabs' = tabs \<and> st' = st"
      with 1(2) assms have "f nfc path fl tgt tabs st = Some r'" by simp
      from 1(1) [OF this] show False by simp
    qed
  qed
  then show ?thesis by simp
qed simp

lemma strip_id:
  assumes "xs \<noteq> []" and "\<not> is_space (hd xs)" and "\<not> is_space (last xs)"
  shows "strip xs = xs"
proof -
  have "lstrip xs = xs" using assms(1,2) by (cases xs) (auto simp: lstrip_def)
  moreover have "rstrip xs = xs" using assms(1,3) by (cases xs rule: rev_cases) (auto simp: rstrip_def)
  ultimately show ?thesis by (simp add: strip_def)
qed

lemma join_lines_snoc: "xs \<noteq> [] \<Longrightarrow> join_lines (xs @ [y]) = join_lines xs @ nl # y"
  by (induction xs rule: induct_list012) auto

text \<open>A patch text put together from its lines, as the entry point sees it.\<close>

definition patch_text :: "ustr list \<Rightarrow> ustr" where
  "patch_text body = join_lines (PATCH_PREFIX # body @ [PATCH_SUFFIX])"

lemma patch_text_strip: "strip (patch_text body) = patch_text body"
proof (rule strip_id)
  have "last (patch_text body) = last PATCH_SUFFIX"
    using join_lines_snoc [of "PATCH_PREFIX # body" PATCH_SUFFIX]
    by (simp add: patch_text_def PATCH_SUFFIX_def u_def)
  then show "\<not> is_space (last (patch_text body))" by (simp add: PATCH_SUFFIX_def u_def is_space_def)
  show "patch_text body \<noteq> []" "\<not> is_space (hd (patch_text body))"
    by (simp_all add: patch_text_def join_Cons PATCH_PREFIX_def u_def is_space_def)
qed

lemma patch_text_start: "startswith (patch_text body) (PATCH_PREFIX @ [nl])"
  by (simp add: patch_text_def join_Cons startswith_def)

lemma nl_not_in_prefixes [simp]:
  "nl \<notin> set PATCH_PREFIX" "nl \<notin> set PATCH_SUFFIX" "nl \<notin> set ADD_FILE_PREFIX"
  "nl \<notin> set UPDATE_FILE_PREFIX" "nl \<notin> set DELETE_FILE_PREFIX" "nl \<notin> set (u ''***'')"
  by (simp_all add: prefix_defs u_def)

lemma parse_patch_text:
  assumes "\<forall>l\<in>set body. nl \<notin> set l"
  shows "parse_patch nfc (patch_text body) files =
    map_option (\<lambda>r. bind_res r (\<lambda>p. patch_to_commit (actions p) files (fuzz p)))
      (parse nfc \<lparr>current_files = files, lines = PATCH_PREFIX # body @ [PATCH_SUFFIX], index = 1,
                  actions = [], fuzz = fuzz_NONE\<rparr>)"
proof -
  have "split_lines (patch_text body) = PATCH_PREFIX # body @ [PATCH_SUFFIX]"
    unfolding patch_text_def using assms by (intro split_on_join) auto
  then show ?thesis
    using patch_text_start [of body]
    by (simp add: parse_patch_def patch_text_strip) (simp add: startswith_def)
qed

text \<open>
  C39: a patch whose first section updates an existing file and begins with a bare \<^verbatim>\<open>***\<close> line makes the
  parser loop for ever, whatever lines follow.
\<close>

theorem parse_patch_hangs_on_bare_stars:
  assumes "path \<noteq> []" and "nl \<notin> set path" and "path \<in> fst ` set files" and "nl \<notin> \<Union> (set ` set later)"
  shows "parse_patch nfc (patch_text ((UPDATE_FILE_PREFIX @ path) # u ''***'' # later)) files = None"
proof -
  let ?p = "\<lparr>current_files = files, lines = PATCH_PREFIX # ((UPDATE_FILE_PREFIX @ path) # u ''***'' # later) @ [PATCH_SUFFIX],
    index = 1, actions = [], fuzz = fuzz_NONE\<rparr>"
  let ?q = "?p\<lparr>index := 2\<rparr>"
  from assms(3) obtain content where "map_of files path = Some content"
    by (metis map_of_eq_None_iff option.exhaust)
  moreover have "update_loop nfc path fl tgt tabs (?q, 0, []) = None" for fl tgt tabs
    by (rule update_loop_diverges, rule bare_stars_stuck) (simp_all add: is_done_def)
  ultimately have "parse_update_branch nfc ?q path = None"
    by (simp add: parse_update_branch_def reject_duplicate_def read_prefixed_def indent_style_of_def
        parse_update_file_def)
  then have "parse_step nfc ?p = None"
    using assms(1) by (simp add: parse_step_def read_prefixed_def startswith_def numeral_2_eq_2)
  moreover have "\<not> is_done ?p [PATCH_SUFFIX]"
    by (simp add: is_done_def starts_with_any_def startswith_def prefix_defs strip_def lstrip_def
        rstrip_def is_space_def u_def)
  ultimately have "parse_loop nfc ?p = None" by (simp add: parse_loop.simps)
  then show ?thesis using assms(2,4) by (simp add: parse_patch_text parse_def)
qed

theorem parse_patch_hangs_on_bare_stars_witness:
  "parse_patch (\<lambda>s. s) (patch_text ((UPDATE_FILE_PREFIX @ u ''a.py'') # u ''***'' # [u ''+y''])) [(u ''a.py'', u ''x'')] = None"
  by (rule parse_patch_hangs_on_bare_stars) (simp_all add: u_def)

end
