(* ===== verification/Text_Patch_Commit.thy ===== *)
theory Text_Patch_Commit
  imports Text_Patch_Termination
begin

section \<open>Text patches: the commit of a whole patch\<close>

text \<open>
  Statements about \<^verbatim>\<open>parse_patch\<close> from the text to the commit: added files round trip, and a commit
  changes only the files the headers of the patch name.
\<close>

subsection \<open>Added files round trip\<close>

lemma plus_line_simps [simp]:
  "\<not> starts_with_any (43 # l) add_stop_prefixes"
  "startswith (43 # l) [43]"
  by (simp_all add: starts_with_any_def add_stop_prefixes_def prefix_defs startswith_def strip_def
      lstrip_def rstrip_def is_space_def u_def)

lemma suffix_stops [simp]:
  "starts_with_any PATCH_SUFFIX add_stop_prefixes"
  "starts_with_any PATCH_SUFFIX [PATCH_SUFFIX]"
  by (simp_all add: starts_with_any_def add_stop_prefixes_def prefix_defs startswith_def strip_def
      lstrip_def rstrip_def is_space_def u_def)

lemma add_file_lines_plus:
  "add_file_lines (map (\<lambda>l. 43 # l) content @ PATCH_SUFFIX # rest) i acc = Inr (acc @ content, i + length content)"
  by (induction content arbitrary: i acc) auto

lemma header_prefixes_differ [simp]:
  "\<not> startswith (ADD_FILE_PREFIX @ path) UPDATE_FILE_PREFIX"
  "\<not> startswith (ADD_FILE_PREFIX @ path) DELETE_FILE_PREFIX"
  "\<not> startswith (DELETE_FILE_PREFIX @ path) UPDATE_FILE_PREFIX"
  "startswith (prefix @ path) prefix"
  "\<not> starts_with_any (ADD_FILE_PREFIX @ path) [PATCH_SUFFIX]"
  by (simp_all add: starts_with_any_def prefix_defs startswith_def strip_def
      lstrip_def rstrip_def is_space_def u_def)

lemma parse_added_file:
  assumes "path \<noteq> []" and "nl \<notin> set path" and "path \<notin> fst ` set files"
    and "\<forall>l\<in>set content. nl \<notin> set l"
  shows "parse_patch nfc (patch_text ((ADD_FILE_PREFIX @ path) # map (\<lambda>l. 43 # l) content)) files =
    Some (Inr \<lparr>changes = [(path, \<lparr>change_kind = ADD, old_content = None,
                 new_content = Some (join_lines content), change_move_path = None\<rparr>)],
               commit_fuzz = fuzz_NONE\<rparr>)"
proof -
  let ?ls = "PATCH_PREFIX # ((ADD_FILE_PREFIX @ path) # map (\<lambda>l. 43 # l) content) @ [PATCH_SUFFIX]"
  let ?p = "\<lparr>current_files = files, lines = ?ls, index = 1, actions = [], fuzz = fuzz_NONE\<rparr>"
  let ?a = "\<lparr>action_kind = ADD, chunks = [], new_file = Some (join_lines content), move_path = None\<rparr>"
  let ?q = "?p\<lparr>index := 2 + length content, actions := [(path, ?a)]\<rparr>"
  have "parse_step nfc ?p = Some (Inr ?q)"
    using assms add_file_lines_plus [of content "[]" 2 "[]"]
    by (simp add: parse_step_def read_prefixed_def parse_add_branch_def reject_duplicate_def
        parse_add_file_def numeral_2_eq_2)
  moreover have "is_done ?q [PATCH_SUFFIX]" "starts_with ?q PATCH_SUFFIX"
    by (simp_all add: is_done_def starts_with_def nth_append startswith_def)
  moreover have "\<not> is_done ?p [PATCH_SUFFIX]" by (simp add: is_done_def)
  ultimately have "parse_loop nfc ?p = Some (Inr ?q)" and "starts_with ?q PATCH_SUFFIX"
    by (simp_all add: parse_loop.simps)
  then show ?thesis
    using assms by (subst parse_patch_text)
      (auto simp: parse_def patch_to_commit_def action_to_change_def)
qed

text \<open>
  C33: a patch that adds a file with given lines parses, whatever the other files are, to the commit
  that adds exactly these lines, without fuzz.
\<close>

theorem add_file_round_trip:
  assumes "path \<noteq> []" and "nl \<notin> set path" and "path \<notin> fst ` set files" and "nl \<notin> \<Union> (set ` set content)"
  shows "parse_patch nfc (patch_text ((ADD_FILE_PREFIX @ path) # map (\<lambda>l. 43 # l) content)) files =
    Some (Inr \<lparr>changes = [(path, \<lparr>change_kind = ADD, old_content = None,
                 new_content = Some (join_lines content), change_move_path = None\<rparr>)],
               commit_fuzz = fuzz_NONE\<rparr>)"
  using assms by (intro parse_added_file) auto

theorem add_file_round_trip_witness:
  "parse_patch (\<lambda>s. s) (patch_text ((ADD_FILE_PREFIX @ u ''n.py'') # map (\<lambda>l. 43 # l) [u ''x'', u ''y'']))
     [(u ''a.py'', u ''z'')] =
    Some (Inr \<lparr>changes = [(u ''n.py'', \<lparr>change_kind = ADD, old_content = None,
                 new_content = Some (join_lines [u ''x'', u ''y'']), change_move_path = None\<rparr>)],
               commit_fuzz = fuzz_NONE\<rparr>)"
  by (rule add_file_round_trip) (simp_all add: u_def)

subsection \<open>Commits mention only declared files\<close>

definition actions_ok :: "parser \<Rightarrow> parser \<Rightarrow> bool" where
  "actions_ok p0 p \<longleftrightarrow> distinct (map fst (actions p)) \<and> same_input p0 p
     \<and> (\<forall>path a. (path, a) \<in> set (actions p) \<longrightarrow> header_ok p0 path (action_kind a))"

lemma actions_ok_step: "actions_ok p0 p \<Longrightarrow> step_ok p q \<Longrightarrow> actions_ok p0 q"
  by (auto simp: actions_ok_def step_ok_def same_input_def header_ok_def split: action_type.splits)

lemma parse_loop_actions_ok:
  assumes "parse_loop nfc p = Some (Inr p')" and "actions_ok p0 p"
  shows "actions_ok p0 p'"
proof -
  let ?P = "\<lambda>nfc p r. \<forall>p'. r = Inr p' \<longrightarrow> actions_ok p0 p \<longrightarrow> actions_ok p0 p'"
  have "?P nfc p r" if "parse_loop nfc p = Some r" for r
  proof (rule parse_loop.raw_induct [where P = ?P, OF _ that], goal_cases)
    case (1 f nfc p r)
    show ?case
    proof (cases "is_done p [PATCH_SUFFIX]")
      case True
      with 1(2) show ?thesis by auto
    next
      case False
      with 1(2) obtain s where s: "parse_step nfc p = Some s" by (auto simp: bind_eq_Some_conv)
      show ?thesis
      proof (cases s)
        case (Inl e)
        with False s 1(2) show ?thesis by auto
      next
        case (Inr q)
        with False s 1(2) have "f nfc q = Some r" by simp
        from 1(1) [OF this] Inr s parse_step_ok actions_ok_step show ?thesis by blast
      qed
    qed
  qed
  from this [OF assms(1)] assms(2) show ?thesis by blast
qed

lemma first_occurrences_set: "set (first_occurrences seen xs) = set xs - set seen"
  by (induction seen xs rule: first_occurrences.induct) auto

lemma header_listed:
  "UPDATE_FILE_PREFIX @ path \<in> set (split_lines (strip t)) \<Longrightarrow> path \<in> set (identify_files_needed t)"
  "DELETE_FILE_PREFIX @ path \<in> set (split_lines (strip t)) \<Longrightarrow> path \<in> set (identify_files_needed t)"
  "ADD_FILE_PREFIX @ path \<in> set (split_lines (strip t)) \<Longrightarrow> path \<in> set (identify_files_added t)"
  by (force simp: identify_files_needed_def identify_files_added_def first_occurrences_set
      List.map_filter_def image_iff)+

text \<open>
  What a change may be: its path stands in a header of exactly its kind. The entry points that tell the caller
  which files to read list it too.
\<close>

definition change_ok :: "ustr \<Rightarrow> (ustr \<times> ustr) list \<Rightarrow> ustr \<Rightarrow> file_change \<Rightarrow> bool" where
  "change_ok t files path ch \<longleftrightarrow> path \<noteq> [] \<and>
     (case change_kind ch of
        ADD \<Rightarrow> ADD_FILE_PREFIX @ path \<in> set (split_lines (strip t)) \<and> path \<in> set (identify_files_added t)
          \<and> map_of files path = None
          \<and> old_content ch = None \<and> new_content ch \<noteq> None \<and> change_move_path ch = None
      | DELETE \<Rightarrow> DELETE_FILE_PREFIX @ path \<in> set (split_lines (strip t)) \<and> path \<in> set (identify_files_needed t)
          \<and> map_of files path \<noteq> None
          \<and> old_content ch = map_of files path \<and> new_content ch = None \<and> change_move_path ch = None
      | UPDATE \<Rightarrow> UPDATE_FILE_PREFIX @ path \<in> set (split_lines (strip t)) \<and> path \<in> set (identify_files_needed t)
          \<and> map_of files path \<noteq> None
          \<and> old_content ch = map_of files path \<and> new_content ch \<noteq> None)"

lemma action_to_change_ok:
  assumes "action_to_change files (path, a) = Inr (path', ch)"
    and "header_ok p path (action_kind a)" and "current_files p = files"
    and "set (lines p) \<subseteq> insert PATCH_SUFFIX (set (split_lines (strip t)))"
  shows "path' = path \<and> change_ok t files path ch"
proof -
  have "prefix @ path \<noteq> PATCH_SUFFIX" if "prefix \<in> {UPDATE_FILE_PREFIX, DELETE_FILE_PREFIX, ADD_FILE_PREFIX}" for prefix
    using that by (auto simp: prefix_defs u_def)
  with assms(4) have "prefix @ path \<in> set (split_lines (strip t))"
    if "prefix \<in> {UPDATE_FILE_PREFIX, DELETE_FILE_PREFIX, ADD_FILE_PREFIX}" "prefix @ path \<in> set (lines p)" for prefix
    using that by blast
  with assms(2) have named:
    "action_kind a = ADD \<Longrightarrow> ADD_FILE_PREFIX @ path \<in> set (split_lines (strip t))"
    "action_kind a = DELETE \<Longrightarrow> DELETE_FILE_PREFIX @ path \<in> set (split_lines (strip t))"
    "action_kind a = UPDATE \<Longrightarrow> UPDATE_FILE_PREFIX @ path \<in> set (split_lines (strip t))"
    by (auto simp: header_ok_def split: action_type.splits)
  note header_listed(1) [OF named(3)] header_listed(2) [OF named(2)] header_listed(3) [OF named(1)] named
  with assms(1-3) show ?thesis
    by (cases "action_kind a")
      (auto simp: action_to_change_def header_ok_def change_ok_def map_of_eq_None_iff split: option.splits)
qed

text \<open>
  C31: the commit of a patch has one change per path, each for a path that a header line of exactly that kind
  names: only a path under \<^verbatim>\<open>*** Delete File\<close> is deleted, only one under \<^verbatim>\<open>*** Update File\<close> updated, only one under
  \<^verbatim>\<open>*** Add File\<close> added. An added path was absent, an updated or deleted one present with the recorded old
  content, the new content is there unless the file is deleted, and only an update can move.
\<close>

theorem parse_patch_changes_declared_files:
  assumes "parse_patch nfc t files = Some (Inr c)"
  shows "distinct (map fst (changes c)) \<and> (\<forall>(path, ch)\<in>set (changes c). change_ok t files path ch)"
proof -
  let ?ls = "split_lines (strip t)"
  define ls where "ls = (if last ?ls \<noteq> PATCH_SUFFIX then ?ls @ [PATCH_SUFFIX] else ?ls)"
  then have ls: "set ls \<subseteq> insert PATCH_SUFFIX (set ?ls)" by auto
  from assms obtain p where
    loop: "parse_loop nfc \<lparr>current_files = files, lines = ls, index = 1, actions = [], fuzz = fuzz_NONE\<rparr> = Some (Inr p)"
    and pc: "patch_to_commit (actions p) files (fuzz p) = Inr c"
    unfolding parse_patch_def parse_def Let_def ls_def [symmetric] by (auto split: if_split_asm)
  let ?p0 = "\<lparr>current_files = files, lines = ls, index = 1, actions = [], fuzz = fuzz_NONE\<rparr>"
  have "actions_ok ?p0 ?p0" by (simp add: actions_ok_def)
  from parse_loop_actions_ok [OF loop this] have
    d: "distinct (map fst (actions p))"
    and h: "\<And>path a. (path, a) \<in> set (actions p) \<Longrightarrow> header_ok ?p0 path (action_kind a)"
    by (simp_all add: actions_ok_def)
  from pc have rel: "list_all2 (\<lambda>x y. action_to_change files x = Inr y) (actions p) (changes c)"
    by (auto simp: patch_to_commit_def map_res_eq_Inr)
  have ok: "fst y = fst x \<and> change_ok t files (fst y) (snd y)"
    if "x \<in> set (actions p)" "action_to_change files x = Inr y" for x y
    using action_to_change_ok [of files "fst x" "snd x" "fst y" "snd y" ?p0 t] h ls that by auto
  from rel have "map fst (changes c) = map fst (actions p)"
    using ok by (induction rule: list_all2_induct) auto
  moreover have "\<exists>x\<in>set (actions p). action_to_change files x = Inr y" if "y \<in> set (changes c)" for y
  proof -
    from that obtain i where "i < length (changes c)" "y = changes c ! i" by (auto simp: in_set_conv_nth)
    with rel show ?thesis by (auto simp: list_all2_conv_all_nth intro!: bexI [of _ "actions p ! i"])
  qed
  ultimately show ?thesis using d ok by (auto, fastforce)
qed

theorem parse_patch_changes_declared_files_witness:
  "change_ok (patch_text ((ADD_FILE_PREFIX @ u ''n.py'') # map (\<lambda>l. 43 # l) [u ''x''])) [] (u ''n.py'')
     \<lparr>change_kind = ADD, old_content = None, new_content = Some (join_lines [u ''x'']), change_move_path = None\<rparr>"
  using parse_patch_changes_declared_files [OF parse_added_file [of "u ''n.py''" "[]" "[u ''x'']" "\<lambda>s. s"]]
  by (simp add: u_def)

end
