(* ===== verification/Text_Mutation_Correct.thy ===== *)
theory Text_Mutation_Correct
  imports Text_Publication Text_Patch_Commit
begin

section \<open>What a text mutation guarantees\<close>

text \<open>
  \<^verbatim>\<open>execute_text_mutation\<close> as a whole: it captures the declared files, checks the versions that the caller
  expects, publishes and reports. The last part composes it with the patch parser.
\<close>

subsection \<open>Capturing\<close>

named_theorems looking \<open>the checks of a mutation leave the tree alone\<close>

lemma io_now_reads [looking]: "obeys (=) (io_now f)"
  by (simp add: io_now_def obeys_def)

lemma check_parents_reads [looking]: "quiet m \<Longrightarrow> obeys (=) (check_parents m targets ps)"
  by (induction ps) (auto intro!: same.resp_rules reading)

lemma check_targets_reads [looking]: "quiet m \<Longrightarrow> obeys (=) (check_targets m root targets ps)"
  by (induction ps) (auto intro!: same.resp_rules looking)

lemma validate_text_paths_reads [looking]: "quiet m \<Longrightarrow> obeys (=) (validate_text_paths m env names root)"
  by (auto simp: validate_text_paths_def intro!: same.resp_rules looking)

lemma capture_snapshot_reads [looking]:
  "quiet m \<Longrightarrow> obeys (=) (capture_snapshot sha m env root expected max_bytes captured name)"
  by (auto simp: capture_snapshot_def Let_def split: option.splits intro!: same.resp_rules looking reading)

lemma capture_snapshots_reads [looking]:
  "quiet m \<Longrightarrow> obeys (=) (capture_snapshots sha m env root expected max_bytes captured names)"
  by (induction names arbitrary: captured) (auto intro!: same.resp_rules looking split: prod.splits)

lemma capture_all_reads [looking]:
  "quiet m \<Longrightarrow> obeys (=) (capture_all sha m env root declared expected max_bytes)"
  by (auto simp: capture_all_def intro!: same.resp_rules looking)

text \<open>The links do not change while the mutation runs.\<close>

definition stable :: "surroundings \<Rightarrow> bool" where
  "stable env \<longleftrightarrow> (\<forall>t. e_realpath env t = e_realpath env 0)"

abbreviation resolved :: "surroundings \<Rightarrow> path \<Rightarrow> ustr \<Rightarrow> file_error + path" where
  "resolved env root \<equiv> resolve_now env root 0"

lemma resolve_stable: "stable env \<Longrightarrow> resolve_now env root t = resolved env root"
  by (metis resolve_now_def stable_def)

text \<open>A snapshot that tells what the tree holds and that the caller expected it.\<close>

definition faithful :: "(bytes \<Rightarrow> ustr) \<Rightarrow> surroundings \<Rightarrow> path \<Rightarrow> (ustr \<times> ustr) list \<Rightarrow> tree \<Rightarrow> ustr \<Rightarrow> file_snapshot \<Rightarrow> bool" where
  "faithful sha env root expected tr name s \<longleftrightarrow> resolved env root name = Inr (real_path s)
     \<and> map_option pre_content (snap_before s) = map_option n_bytes (tr (real_path s))
     \<and> map_of expected name = Some (snap_version sha s)"

lemma io_now_eq: "io_now f w = (r, w') \<longleftrightarrow> f (calls w) = r \<and> w' = w"
  by (auto simp: io_now_def)

lemma lookup_Inr: "lookup d k = Inr v \<longleftrightarrow> map_of d k = Some v"
  by (simp add: lookup_def split: option.splits)

lemma captured_file:
  assumes "quiet m" and "exists_or_link m p w = (Inr found, w1)"
    and "(if found then io_bind (read_file_preimage m p k) (\<lambda>b. io_return (Some b)) else io_return None) w1
      = (Inr before, w2)"
  shows "map_option pre_content before = map_option n_bytes (tree_of w p)"
  using exists_or_link_Inr [OF assms(1,2)] assms(3) obeysD [OF exists_or_link_reads [OF assms(1)] assms(2)]
  by (auto simp: io_eqs split: if_splits dest!: read_file_preimage_Inr [OF assms(1)])

lemma capture_snapshot_faithful:
  assumes "quiet m" and "stable env"
    and "capture_snapshot sha m env root expected max_bytes captured name w = (Inr (s, total1), w')"
  shows "faithful sha env root expected (tree_of w) name s"
  using assms(3) resolve_stable [OF assms(2), of root "calls w"]
  by (clarsimp simp: capture_snapshot_def io_eqs io_now_eq lookup_Inr Let_def faithful_def
      captured_file [OF assms(1)] split: option.splits)

lemma map_of_dict_cons: "map_of (dict_cons k v d) = (map_of d)(k \<mapsto> case map_of d k of None \<Rightarrow> v | Some v' \<Rightarrow> v')"
  by (simp add: dict_cons_def fun_eq_iff)

lemma capture_snapshots_faithful:
  assumes "quiet m" and "stable env"
    and "capture_snapshots sha m env root expected max_bytes captured names w = (Inr snaps, w')"
  shows "set names = fst ` set snaps
    \<and> (\<forall>name s. map_of snaps name = Some s \<longrightarrow> faithful sha env root expected (tree_of w) name s)"
  using assms(3)
proof (induction names arbitrary: captured w snaps)
  case (Cons name names)
  from Cons.prems obtain s total1 w1 rest where
    1: "capture_snapshot sha m env root expected max_bytes captured name w = (Inr (s, total1), w1)"
    and 2: "capture_snapshots sha m env root expected max_bytes total1 names w1 = (Inr rest, w')"
    and snaps: "snaps = dict_cons name s rest"
    by (auto simp: io_eqs split: prod.splits)
  have "tree_of w1 = tree_of w" using obeysD [OF capture_snapshot_reads [OF assms(1)] 1] by simp
  with Cons.IH [OF 2] capture_snapshot_faithful [OF assms(1,2) 1] show ?case
    unfolding snaps map_of_dict_cons by (auto simp: dict_cons_def image_iff split: if_splits option.splits)
qed simp

subsection \<open>Targets that do not interfere\<close>

lemma is_relative_to_prefix: "is_relative_to p base \<longleftrightarrow> prefix base p"
  by (metis append_take_drop_id append_eq_conv_conj is_relative_to_def prefix_def)

lemma resolve_below_root:
  "resolve_workspace_file expand realpath root s = Inr p \<Longrightarrow> strict_prefix root p"
  by (auto simp: resolve_workspace_file_def is_relative_to_prefix strict_prefix_def
      split: if_splits sum.splits file_error.splits)

lemma parents_below_mem:
  "strict_prefix root q \<Longrightarrow> prefix q p \<Longrightarrow> q \<in> set (parents_below root p)"
proof (induction root p rule: parents_below.induct)
  case (1 root p)
  then have "p \<noteq> root" "p \<noteq> []" by (auto simp: strict_prefix_def)
  show ?case
  proof (cases "q = p")
    case True
    then show ?thesis using \<open>p \<noteq> root\<close> \<open>p \<noteq> []\<close> by (simp add: parents_below.simps [of root p])
  next
    case False
    with "1.prems" \<open>p \<noteq> []\<close> have "prefix q (butlast p)"
      by (cases p rule: rev_cases) (auto simp: prefix_snoc)
    with "1.IH" "1.prems" \<open>p \<noteq> root\<close> \<open>p \<noteq> []\<close> show ?thesis
      by (subst parents_below.simps) simp
  qed
qed

lemma check_parents_ok: "check_parents m targets ps w = (Inr x, w') \<Longrightarrow> set ps \<inter> set targets = {}"
  by (induction ps arbitrary: w) (auto simp: io_eqs)

lemma check_targets_ok:
  "check_targets m root targets ps w = (Inr x, w') \<Longrightarrow> p \<in> set ps \<Longrightarrow>
   set (parents_below root (butlast p)) \<inter> set targets = {}"
  by (induction ps arbitrary: w) (auto simp: io_eqs dest: check_parents_ok)

text \<open>What validation establishes for the declared names.\<close>

lemma validate_text_paths_ok:
  assumes "stable env" and "validate_text_paths m env names root w = (Inr x, w')"
    and "i < length names" and "j < length names" and "i \<noteq> j"
    and "resolved env root (names ! i) = Inr p" and "resolved env root (names ! j) = Inr q"
  shows "p \<noteq> q \<and> \<not> strict_prefix p q \<and> p \<noteq> []"
proof -
  from assms(2) obtain targets w1 where t: "map_res (resolved env root) names = Inr targets"
    and d: "distinct targets" and c: "check_targets m root targets targets w1 = (Inr x, w')"
    by (auto simp: validate_text_paths_def io_eqs io_now_eq resolve_stable [OF assms(1), of root "calls w"])
  from t have l: "length targets = length names" and nth: "\<And>k. k < length names \<Longrightarrow> resolved env root (names ! k) = Inr (targets ! k)"
    by (auto simp: map_res_eq_Inr list_all2_conv_all_nth)
  have p: "p = targets ! i" and q: "q = targets ! j" using nth assms(3,4,6,7) by auto
  have below: "strict_prefix root p"
    using assms(6) by (auto simp: resolve_now_def dest: resolve_below_root)
  have "\<not> strict_prefix p q"
  proof
    assume "strict_prefix p q"
    then have "prefix p (butlast q)"
      by (cases q rule: rev_cases) (auto simp: strict_prefix_def prefix_snoc)
    then have "p \<in> set (parents_below root (butlast q))" by (rule parents_below_mem [OF below])
    with check_targets_ok [OF c, of q] p q l assms(3,4) show False by (metis disjoint_iff nth_mem)
  qed
  moreover have "p \<noteq> q" using d p q l assms(3-5) by (simp add: nth_eq_iff_index_eq)
  moreover have "p \<noteq> []" using below by auto
  ultimately show ?thesis by blast
qed

lemma check_plan_distinct:
  "check_plan seen ss = Inr x \<Longrightarrow>
   distinct (map (\<lambda>s. snap_uri (pub_snapshot s)) ss) \<and> set seen \<inter> (\<lambda>s. snap_uri (pub_snapshot s)) ` set ss = {}"
proof (induction ss arbitrary: seen)
  case (Cons s ss)
  let ?uri = "snap_uri (pub_snapshot s)"
  from Cons.prems have "?uri \<notin> set seen" and "check_plan (?uri # seen) ss = Inr x"
    by (auto simp: Let_def split: if_splits)
  with Cons.IH [of "?uri # seen"] show ?case by auto
qed simp

text \<open>Temporary names are random: none of them is the name of a declared file.\<close>

definition fresh_temps :: "machine \<Rightarrow> surroundings \<Rightarrow> path \<Rightarrow> ustr list \<Rightarrow> bool" where
  "fresh_temps m env root names \<longleftrightarrow>
     (\<forall>a\<in>set names. \<forall>b\<in>set names. \<forall>p q. resolved env root a = Inr p \<longrightarrow> resolved env root b = Inr q \<longrightarrow> p \<notin> temps m q)"

lemma plan_independent:
  assumes "stable env" and "validate_text_paths m env names root w = (Inr x, w')" and "fresh_temps m env root names"
    and snaps: "\<And>name s. map_of snaps name = Some s \<Longrightarrow> name \<in> set names \<and> resolved env root name = Inr (real_path s)"
    and plan: "check_plan [] ss = Inr ()" and src: "pub_snapshot ` set ss \<subseteq> ran (map_of snaps)"
  shows "independent m ss"
proof -
  have named: "\<exists>k<length names. map_of snaps (names ! k) = Some (pub_snapshot s)
      \<and> resolved env root (names ! k) = Inr (target_of s)" if "s \<in> set ss" for s
  proof -
    from src that obtain name where "map_of snaps name = Some (pub_snapshot s)" by (auto simp: ran_def)
    with snaps show ?thesis by (metis in_set_conv_nth)
  qed
  have "target_of (ss ! i) \<notin> footprint m (ss ! j) \<union> new_dirs (ss ! j)"
    if i: "i < length ss" and j: "j < length ss" and ij: "i \<noteq> j" for i j
  proof -
    obtain a where a: "a < length names" "map_of snaps (names ! a) = Some (pub_snapshot (ss ! i))"
      "resolved env root (names ! a) = Inr (target_of (ss ! i))" using named i by (meson nth_mem)
    obtain b where b: "b < length names" "map_of snaps (names ! b) = Some (pub_snapshot (ss ! j))"
      "resolved env root (names ! b) = Inr (target_of (ss ! j))" using named j by (meson nth_mem)
    have "snap_uri (pub_snapshot (ss ! i)) \<noteq> snap_uri (pub_snapshot (ss ! j))"
      using check_plan_distinct [OF plan] i j ij by (simp add: distinct_conv_nth)
    then have "a \<noteq> b" using a(2) b(2) by auto
    from validate_text_paths_ok [OF assms(1,2) a(1) b(1) this a(3) b(3)]
    have "target_of (ss ! i) \<noteq> target_of (ss ! j)" "\<not> strict_prefix (target_of (ss ! i)) (target_of (ss ! j))" by auto
    moreover have "target_of (ss ! i) \<notin> temps m (target_of (ss ! j))"
      using assms(3) a b unfolding fresh_temps_def by (meson nth_mem)
    ultimately show ?thesis by (auto simp: footprint_def new_dirs_def)
  qed
  moreover have "target_of s \<noteq> []" if "s \<in> set ss" for s
    using named [OF that] by (auto simp: resolve_now_def dest: resolve_below_root)
  ultimately show ?thesis by (auto simp: independent_def)
qed

subsection \<open>The whole mutation, taken apart\<close>

lemma capture_all_Inr:
  assumes "capture_all sha m env root declared expected max_bytes w = (Inr snaps, w')"
  obtains w1 where "validate_text_paths m env declared root w = (Inr (), w1)"
    and "capture_snapshots sha m env root expected max_bytes 0 declared w1 = (Inr snaps, w')"
    and "set (map fst expected) = set declared"
  using assms by (auto simp: capture_all_def io_eqs)

lemma execute_result:
  assumes "execute_text_mutation sha m env root root_uri declared expected prepare explanation jid max_bytes ws
    = Some (Inr res, ws')"
  obtains w1 snaps w2 steps records res0 where
    "is_dir m root (ws_world ws) = (Inr True, w1)"
    "capture_all sha m env root declared expected max_bytes w1 = (Inr snaps, w2)"
    "prepare snaps = Some (Inr steps)" "check_mutation max_bytes snaps steps = Inr records"
    "publish_mutation sha m jid explanation root_uri max_bytes records steps (ws\<lparr>ws_world := w2\<rparr>) = (Inr res0, ws')"
    "release_lock env (Inr res0) = Inr res"
  using assms
  by (auto simp: execute_text_mutation_def locked_mutation_def in_world_def bind_res_eq_Inl release_lock_def
      split: prod.splits sum.splits bool.splits option.splits)

lemma publish_mutation_result:
  assumes "publish_mutation sha m jid explanation root_uri max_bytes records steps ws = (Inr res, ws')"
  obtains ws1 receipts obs fail w r where
    "write_text_mutation_journal m jid records ws = (Inr (), ws1)"
    "publish_steps sha m steps max_bytes (ws_world ws1) = ((receipts, obs, fail), w)"
    "update_text_mutation_journal m jid receipts obs (ws1\<lparr>ws_world := w\<rparr>) = (r, ws')"
    "mr_files res = receipts" "mr_effect res = effect_of (map r_state receipts)" "mr_journal_id res = jid"
    "mr_error res = (case r of Inl e \<Rightarrow> Some e | Inr _ \<Rightarrow> fail)" "mr_success res \<longleftrightarrow> mr_error res = None"
  using assms by (auto simp: publish_mutation_def Let_def split: prod.splits sum.splits)

lemma journal_call_tree: "quiet m \<Longrightarrow> journal_call m f ws = (r, ws') \<Longrightarrow> tree_of (ws_world ws') = tree_of (ws_world ws)"
  by (auto simp: journal_call_def quiet_def Let_def split: sum.splits option.splits)

subsection \<open>Patches, taken apart\<close>

lemma prepare_patch_Inr:
  assumes "prepare_patch nfc text snaps = Some (Inr steps)"
  obtains current c where "current_texts snaps (identify_files_needed text) = Inr current"
    and "parse_patch nfc text current = Some (Inr c)" and "prepare_steps c snaps = Inr steps"
  using assms by (auto simp: prepare_patch_def bind_res_eq_Inl split: sum.splits option.splits)

text \<open>The change has reached the tree: gone, rewritten in place, or written to its new name.\<close>

definition applied :: "tree \<Rightarrow> (ustr \<times> file_snapshot) list \<Rightarrow> ustr \<times> file_change \<Rightarrow> bool" where
  "applied tr snaps = (\<lambda>(name, change). \<exists>s b. map_of snaps name = Some s \<and> published_bytes s change = Inr b
     \<and> (if change_kind change = DELETE then tr (real_path s) = None
        else if moved_to change = [] then holds tr (real_path s) (Some b)
        else tr (real_path s) = None
          \<and> (\<exists>d. map_of snaps (moved_to change) = Some d \<and> holds tr (real_path d) (Some b))))"

lemma change_steps_applied:
  assumes "change_steps snaps ch = Inr ss" and "\<forall>s\<in>set ss. holds tr (target_of s) (pub_content s)"
  shows "applied tr snaps ch"
  using assms
  by (auto simp: change_steps_def applied_def lookup_Inr holds_def split: prod.splits if_splits option.splits)

lemma change_steps_source: "change_steps snaps ch = Inr ss \<Longrightarrow> pub_snapshot ` set ss \<subseteq> ran (map_of snaps)"
  by (auto simp: change_steps_def lookup_Inr ranI split: prod.splits if_splits option.splits)

lemma prepare_steps_Inr:
  assumes "prepare_steps c snaps = Inr steps"
  shows "pub_snapshot ` set steps \<subseteq> ran (map_of snaps)"
    and "\<forall>s\<in>set steps. holds tr (target_of s) (pub_content s) \<Longrightarrow> ch \<in> set (changes c) \<Longrightarrow> applied tr snaps ch"
proof -
  from assms obtain xs where xs: "list_all2 (\<lambda>ch x. change_steps snaps ch = Inr x) (changes c) xs" "steps = concat xs"
    by (auto simp: prepare_steps_def map_res_eq_Inr)
  show "pub_snapshot ` set steps \<subseteq> ran (map_of snaps)"
    using xs(1) unfolding xs(2) by (induction rule: list_all2_induct) (auto dest: change_steps_source)
  show "applied tr snaps ch" if "\<forall>s\<in>set steps. holds tr (target_of s) (pub_content s)" "ch \<in> set (changes c)"
  proof -
    from xs(1) that(2) have "\<exists>x\<in>set xs. change_steps snaps ch = Inr x"
      by (induction rule: list_all2_induct) auto
    then obtain x where "change_steps snaps ch = Inr x" "x \<in> set xs" by blast
    with that(1) xs(2) show ?thesis by (auto intro: change_steps_applied)
  qed
qed

lemma check_mutation_Inr:
  "check_mutation max_bytes snaps steps = Inr records \<Longrightarrow> check_plan [] steps = Inr () \<and> steps \<noteq> []"
  by (cases steps) (auto simp: check_mutation_def)

lemma receipts_length:
  assumes "publish_steps sha m ss budget w = ((receipts, obs, fail), w')"
  shows "length receipts = length ss"
  by (rule publish_steps_split [OF assms]) (rule observe_steps_receipts(1))

lemma publish_steps_frame:
  assumes "quiet m" and "publish_steps sha m ss budget w = ((receipts, obs, fail), w')"
  shows "keeps (touched m ss) (created_dirs ss) (tree_of w) (tree_of w')"
proof (rule publish_steps_split [OF assms(2)])
  fix a w1 assume "attempt_steps sha m ss fresh_attempts w = (a, w1)"
    and "observe_steps sha m a 0 budget ss w1 = ((receipts, obs, fail), w')"
  then show ?thesis
    using attempt_steps_frame [OF assms(1)] observe_steps_receipts(3) assms(1) by fastforce
qed

lemma effect_completed: "states \<noteq> [] \<Longrightarrow> \<forall>s\<in>set states. s = published \<Longrightarrow> effect_of states = completed"
  by (cases states) (auto simp: effect_of_def)

text \<open>A successful mutation, in one place: what it captured, planned and published.\<close>

lemma mutation_success:
  assumes "execute_text_mutation sha m env root root_uri declared expected prepare explanation jid max_bytes ws
    = Some (Inr res, ws')" and "mr_success res"
  shows "mr_effect res = completed \<and> (\<forall>r\<in>set (mr_files res). r_state r = published) \<and> mr_error res = None
    \<and> mr_lock_release_error res = None
    \<and> (\<exists>j. map_of (ws_journals ws') (mr_journal_id res) = Some j \<and> j_files j = Some (mr_files res))"
proof -
  obtain w1 snaps w2 steps records res0 where
    plan: "check_mutation max_bytes snaps steps = Inr records"
    and pub: "publish_mutation sha m jid explanation root_uri max_bytes records steps (ws\<lparr>ws_world := w2\<rparr>) = (Inr res0, ws')"
    and rel: "release_lock env (Inr res0) = Inr res"
    by (rule execute_result [OF assms(1)])
  from rel assms(2) have res: "res0 = res" by (auto simp: release_lock_def split: option.splits)
  obtain ws1 receipts obs fail w r where
    steps: "publish_steps sha m steps max_bytes (ws_world ws1) = ((receipts, obs, fail), w)"
    and upd: "update_text_mutation_journal m jid receipts obs (ws1\<lparr>ws_world := w\<rparr>) = (r, ws')"
    and out: "mr_files res = receipts" "mr_effect res = effect_of (map r_state receipts)" "mr_journal_id res = jid"
      "mr_error res = (case r of Inl e \<Rightarrow> Some e | Inr _ \<Rightarrow> fail)" "mr_success res \<longleftrightarrow> mr_error res = None"
    by (rule publish_mutation_result [OF pub [unfolded res]])
  from out assms(2) have ok: "fail = None" "r = Inr ()" by (auto split: sum.splits)
  have all: "\<forall>r\<in>set receipts. r_state r = published" using success_iff_published_lemma [OF steps] ok by simp
  moreover have "receipts \<noteq> []" using check_mutation_Inr [OF plan] receipts_length [OF steps] by auto
  moreover have "mr_lock_release_error res = None"
    using pub res by (auto simp: publish_mutation_def Let_def split: prod.splits sum.splits)
  moreover have "\<exists>j. map_of (ws_journals ws') jid = Some j \<and> j_files j = Some receipts"
    using upd ok by (auto simp: update_text_mutation_journal_def journal_call_def Let_def split: sum.splits option.splits)
  ultimately show ?thesis using out assms(2) by (auto intro: effect_completed)
qed

lemma mutation_raise:
  assumes "quiet m"
    and "execute_text_mutation sha m env root root_uri declared expected prepare explanation jid max_bytes ws
      = Some (Inl e, ws')"
  shows "tree_of (ws_world ws') = tree_of (ws_world ws)"
proof -
  note reads = obeysD [OF reading_calls(4) [OF assms(1)]] obeysD [OF capture_all_reads [OF assms(1)]]
    journal_call_tree [OF assms(1)]
  from assms(2) show ?thesis
    by (auto simp: execute_text_mutation_def locked_mutation_def in_world_def release_lock_def publish_mutation_def
        write_text_mutation_journal_def Let_def split: prod.splits sum.splits bool.splits option.splits dest!: reads)
qed


text \<open>What a mutation has established before it publishes.\<close>

lemma mutation_captured:
  assumes "quiet m" and "stable env"
    and "execute_text_mutation sha m env root root_uri declared expected prepare explanation jid max_bytes ws
      = Some (Inr res, ws')"
  obtains w1 w2 w3 snaps steps records res0 where
    "validate_text_paths m env declared root w1 = (Inr (), w3)" "set declared = fst ` set snaps"
    "\<forall>name s. map_of snaps name = Some s \<longrightarrow> faithful sha env root expected (tree_of (ws_world ws)) name s"
    "prepare snaps = Some (Inr steps)" "check_mutation max_bytes snaps steps = Inr records"
    "publish_mutation sha m jid explanation root_uri max_bytes records steps (ws\<lparr>ws_world := w2\<rparr>) = (Inr res0, ws')"
    "release_lock env (Inr res0) = Inr res" "tree_of w2 = tree_of (ws_world ws)"
proof (rule execute_result [OF assms(3)])
  fix w1 snaps w2 steps records res0
  assume dir: "is_dir m root (ws_world ws) = (Inr True, w1)"
    and cap: "capture_all sha m env root declared expected max_bytes w1 = (Inr snaps, w2)"
    and rest: "prepare snaps = Some (Inr steps)" "check_mutation max_bytes snaps steps = Inr records"
    "publish_mutation sha m jid explanation root_uri max_bytes records steps (ws\<lparr>ws_world := w2\<rparr>) = (Inr res0, ws')"
    "release_lock env (Inr res0) = Inr res"
  obtain w3 where val: "validate_text_paths m env declared root w1 = (Inr (), w3)"
    and snp: "capture_snapshots sha m env root expected max_bytes 0 declared w3 = (Inr snaps, w2)"
    by (rule capture_all_Inr [OF cap])
  have tree: "tree_of w3 = tree_of (ws_world ws)"
    using obeysD [OF reading_calls(4) [OF assms(1)] dir] obeysD [OF validate_text_paths_reads [OF assms(1)] val] by simp
  moreover have "tree_of w2 = tree_of w3" using obeysD [OF capture_snapshots_reads [OF assms(1)] snp] by simp
  ultimately show thesis
    using that [OF val _ _ rest] capture_snapshots_faithful [OF assms(1,2) snp, unfolded tree] by simp
qed

lemma mutation_versions:
  assumes "quiet m" and "stable env"
    and "execute_text_mutation sha m env root root_uri declared expected prepare explanation jid max_bytes ws
      = Some (Inr res, ws')" and "name \<in> set declared"
  shows "\<exists>p. resolved env root name = Inr p
    \<and> map_of expected name = Some (content_version sha (map_option n_bytes (tree_of (ws_world ws) p)))"
proof (rule mutation_captured [OF assms(1-3)])
  fix snaps :: "(ustr \<times> file_snapshot) list"
  assume "set declared = fst ` set snaps"
    and faith: "\<forall>name s. map_of snaps name = Some s \<longrightarrow> faithful sha env root expected (tree_of (ws_world ws)) name s"
  with assms(4) obtain s where "map_of snaps name = Some s" by (metis map_of_eq_None_iff not_None_eq)
  with faith have "faithful sha env root expected (tree_of (ws_world ws)) name s" by blast
  then show ?thesis
    by (auto simp: faithful_def snap_version_def content_version_def split: option.splits)
qed

lemma as_diff_error_Inr: "as_diff_error r = Inr x \<longleftrightarrow> r = Inr x"
  by (cases r rule: sum.exhaust) (auto simp: as_diff_error_def split: file_error.splits)

lemma published_everywhere:
  assumes "quiet m" and "independent m steps"
    and "publish_mutation sha m jid explanation root_uri max_bytes records steps ws = (Inr res, ws')"
    and "\<forall>r\<in>set (mr_files res). r_state r = published"
  shows "\<forall>s\<in>set steps. holds (tree_of (ws_world ws')) (target_of s) (pub_content s)"
proof -
  obtain ws1 receipts obs fail w r where st: "publish_steps sha m steps max_bytes (ws_world ws1) = ((receipts, obs, fail), w)"
    and upd: "update_text_mutation_journal m jid receipts obs (ws1\<lparr>ws_world := w\<rparr>) = (r, ws')"
    and out: "mr_files res = receipts"
    by (rule publish_mutation_result [OF assms(3)])
  have "tree_of (ws_world ws') = tree_of w"
    using journal_call_tree [OF assms(1)] upd by (auto simp: update_text_mutation_journal_def)
  then show ?thesis
    using receipt_truth_lemma(1) [OF assms(1,2) st] receipts_length [OF st] assms(4) out
    by (simp add: all_set_conv_all_nth)
qed

lemma patch_success:
  assumes "quiet m" and "stable env" and "fresh_temps m env root (identify_files_affected text)"
    and run: "apply_patch sha nfc m env root root_uri text expected explanation jid max_bytes ws = Some (Inr res, ws')"
    and "mr_success res"
  shows "\<exists>snaps current c. (\<forall>name s. map_of snaps name = Some s \<longrightarrow>
        faithful sha env root expected (tree_of (ws_world ws)) name s)
    \<and> current_texts snaps (identify_files_needed text) = Inr current
    \<and> parse_patch nfc text current = Some (Inr c)
    \<and> (\<forall>ch\<in>set (changes c). applied (tree_of (ws_world ws')) snaps ch)"
proof -
  from run have exec: "execute_text_mutation sha m env root root_uri (identify_files_affected text) expected
      (prepare_patch nfc text) explanation jid max_bytes ws = Some (Inr res, ws')"
    by (auto simp: apply_patch_def as_diff_error_Inr)
  obtain w1 w2 w3 snaps steps records res0 where
    val: "validate_text_paths m env (identify_files_affected text) root w1 = (Inr (), w3)"
    and names: "set (identify_files_affected text) = fst ` set snaps"
    and faith: "\<forall>name s. map_of snaps name = Some s \<longrightarrow> faithful sha env root expected (tree_of (ws_world ws)) name s"
    and prep: "prepare_patch nfc text snaps = Some (Inr steps)"
    and plan: "check_mutation max_bytes snaps steps = Inr records"
    and pub: "publish_mutation sha m jid explanation root_uri max_bytes records steps (ws\<lparr>ws_world := w2\<rparr>) = (Inr res0, ws')"
    and rel: "release_lock env (Inr res0) = Inr res"
    by (rule mutation_captured [OF assms(1,2) exec])
  obtain current c where cur: "current_texts snaps (identify_files_needed text) = Inr current"
    and c: "parse_patch nfc text current = Some (Inr c)" "prepare_steps c snaps = Inr steps"
    by (rule prepare_patch_Inr [OF prep])
  have "independent m steps"
  proof (rule plan_independent [OF assms(2) val assms(3)])
    show "check_plan [] steps = Inr ()" using check_mutation_Inr [OF plan] by simp
    show "pub_snapshot ` set steps \<subseteq> ran (map_of snaps)" by (rule prepare_steps_Inr(1) [OF c(2)])
    fix name s assume "map_of snaps name = Some s"
    with faith names show "name \<in> set (identify_files_affected text) \<and> resolved env root name = Inr (real_path s)"
      by (auto simp: faithful_def dest: map_of_SomeD intro: rev_image_eqI)
  qed
  moreover have "mr_files res0 = mr_files res" using rel by (auto simp: release_lock_def split: option.splits)
  ultimately have "\<forall>s\<in>set steps. holds (tree_of (ws_world ws')) (target_of s) (pub_content s)"
    using published_everywhere [OF assms(1) _ pub] mutation_success [OF exec assms(5)] by simp
  then have "\<forall>ch\<in>set (changes c). applied (tree_of (ws_world ws')) snaps ch"
    using prepare_steps_Inr(2) [OF c(2)] by blast
  with faith cur c(1) show ?thesis by blast
qed

subsection \<open>A concrete run\<close>

text \<open>An undisturbed machine, a workspace directory \<^verbatim>\<open>/w\<close>, and a patch that adds \<^verbatim>\<open>n\<close> with one line.\<close>

definition demo_machine :: machine where
  "demo_machine = \<lparr>m_platform = linux, m_writer = \<lambda>t tr. tr, m_fault = \<lambda>t. None, m_link = \<lambda>t p. None,
     m_dev = 1, m_ino = \<lambda>t. t, m_clock = \<lambda>t. t, m_temp = \<lambda>t. u ''r''\<rparr>"

definition demo_env :: surroundings where
  "demo_env = \<lparr>e_expand = \<lambda>c. Inr [], e_realpath = \<lambda>t p. p, e_access = \<lambda>t p. Inr (last p),
     e_authorize = \<lambda>uri. None, e_lock = None, e_unlock = None\<rparr>"

definition demo_tree :: tree where
  "demo_tree = [[u ''w''] \<mapsto> new_inode demo_machine 0 (4 * 4096)]"

definition demo_ws :: workspace where
  "demo_ws = \<lparr>ws_world = \<lparr>tree_of = demo_tree, calls = 1\<rparr>, ws_journals = []\<rparr>"

abbreviation demo_sha :: "bytes \<Rightarrow> ustr" where "demo_sha \<equiv> \<lambda>b. replicate 64 48"

definition demo_patch :: ustr where
  "demo_patch = patch_text ((ADD_FILE_PREFIX @ u ''n'') # map (\<lambda>l. 43 # l) [u ''x''])"

lemma demo_sel [simp]:
  "m_platform demo_machine = linux" "m_writer demo_machine t tr = tr" "m_fault demo_machine t = None"
  "m_link demo_machine t p = None" "m_dev demo_machine = 1" "m_ino demo_machine t = t" "m_clock demo_machine t = t"
  "m_temp demo_machine t = u ''r''" "e_access demo_env t p = Inr (last p)" "e_authorize demo_env x = None"
  "e_lock demo_env = None" "e_unlock demo_env = None"
  by (simp_all add: demo_machine_def demo_env_def)

lemma demo_quiet: "quiet demo_machine"
  by (simp add: quiet_def demo_machine_def)

lemma demo_stable: "stable demo_env"
  by (simp add: stable_def demo_env_def)

lemma demo_names: "identify_files_affected demo_patch = [u ''n'']" "identify_files_needed demo_patch = []"
  "identify_files_added demo_patch = [u ''n'']"
  by (simp_all add: identify_files_affected_def identify_files_needed_def identify_files_added_def demo_patch_def patch_text_def
      strip_def lstrip_def rstrip_def is_space_def prefix_defs u_def startswith_def List.map_filter_simps)

lemma demo_resolve: "resolve_now demo_env [u ''w''] t (u ''n'') = Inr [u ''w'', u ''n'']"
  by (simp add: resolve_now_def resolve_workspace_file_def resolve_native_file_path_def requested_path_def demo_env_def
      path_parts_def windows_drive_def is_relative_to_def startswith_def u_def)

lemma demo_parents: "parents_below [u ''w''] [u ''w''] = []"
  by (simp add: parents_below.simps)

lemmas demo_calls = io_bind_def io_catch_def io_return_def io_raise_def io_require_def io_now_def syscall_def
  path_exists_def is_symlink_def is_dir_def exists_or_link_def answer_no_def

lemma demo_dir: "is_dir demo_machine [u ''w''] (ws_world demo_ws) = (Inr True, \<lparr>tree_of = demo_tree, calls = 2\<rparr>)"
  by (simp add: demo_calls demo_ws_def demo_tree_def new_inode_def S_ISDIR_def S_IFMT_def)

definition demo_snap :: file_snapshot where
  "demo_snap = \<lparr>snap_uri = u ''n'', real_path = [u ''w'', u ''n''], snap_before = None\<rparr>"

lemma demo_capture:
  "capture_all demo_sha demo_machine demo_env [u ''w''] [u ''n''] [(u ''n'', absent)] None \<lparr>tree_of = demo_tree, calls = 2\<rparr>
    = (Inr [(u ''n'', demo_snap)], \<lparr>tree_of = demo_tree, calls = 4\<rparr>)"
  by (simp add: capture_all_def validate_text_paths_def capture_snapshot_def demo_calls demo_resolve demo_parents
      lookup_def is_version_def require_text_def charge_def snap_version_def dict_cons_def al_del_def Let_def
      demo_tree_def demo_snap_def)


lemma demo_snap_before [simp]: "snap_before demo_snap = None"
  by (simp add: demo_snap_def)

definition demo_steps :: "text_publication list" where
  "demo_steps = [\<lparr>pub_snapshot = demo_snap, pub_content = Some (u ''x''), pub_operation = ''add'', pub_mode = None\<rparr>]"

lemma demo_prepare: "prepare_patch nfc demo_patch [(u ''n'', demo_snap)] = Some (Inr demo_steps)"
proof -
  have "parse_patch nfc demo_patch [] = Some (Inr \<lparr>changes = [(u ''n'', \<lparr>change_kind = ADD, old_content = None,
      new_content = Some (u ''x''), change_move_path = None\<rparr>)], commit_fuzz = fuzz_NONE\<rparr>)"
    using parse_added_file [of "u ''n''" "[]" "[u ''x'']" nfc] by (simp add: demo_patch_def u_def)
  moreover have "published_bytes demo_snap \<lparr>change_kind = ADD, old_content = None, new_content = Some (u ''x''),
      change_move_path = None\<rparr> = Inr (u ''x'')"
    by (simp add: published_bytes_def line_ending_def demo_snap_def encode_def u_def startswith_def utf8_encode_char_def)
  ultimately show ?thesis
    by (simp add: prepare_patch_def demo_names reject_existing_def lookup_def prepare_steps_def
        change_steps_def moved_to_def demo_steps_def demo_snap_before)
qed

lemma demo_check: "check_mutation None [(u ''n'', demo_snap)] demo_steps
  = Inr [\<lparr>j_uri = u ''n'', j_before_exists = False, j_before_content = [], j_after = None\<rparr>]"
  by (simp add: check_mutation_def demo_steps_def Let_def MAX_FILE_BYTES_def u_def changes_bytes_def demo_snap_def
      journal_record_def before_text_def check_budget_def)

definition demo_file :: inode where
  "demo_file = \<lparr>n_stat = \<lparr>st_dev = 1, st_ino = 7, st_mode = 8 * 4096 + 0x180, st_size = 1, st_mtime_ns = 8, st_ctime_ns = 12\<rparr>,
     n_bytes = u ''x''\<rparr>"

lemma demo_decode: "utf8_decode [120] = Some [120]"
  by (rule utf8_round_trip_lemma) (simp add: utf8_encode_char_def)

definition demo_receipt :: file_receipt where
  "demo_receipt = \<lparr>r_path = u ''n'', r_operation = ''add'', r_state = published, r_expected_version = absent,
     r_intended_version = content_hash demo_sha (u ''x''), r_exists = Some True,
     r_content_hash = Some (content_hash demo_sha (u ''x'')), r_observation_error = None\<rparr>"

lemma demo_publish: "publish_steps demo_sha demo_machine demo_steps None \<lparr>tree_of = demo_tree, calls = 5\<rparr>
  = (([demo_receipt], [(u ''n'', After True (u ''x''))], None),
     \<lparr>tree_of = demo_tree([u ''w'', u ''n''] \<mapsto> demo_file), calls = 20\<rparr>)"
  by (simp add: publish_steps_def demo_steps_def attempt_step_def demo_snap_def publish_file_content_def
    mkdir_parents.simps os_mkdir_def create_entry_def mkdir_exist_ok_def mkstemp_first create_temp_def absence_def publish_through_def stage_content_def
    write_open_def fsync_def require_file_preimage_def rename_entry_exclusive_def verify_published_def
    read_file_preimage_def lstat_def read_bytes_def demo_calls demo_tree_def new_inode_def temp_path_def directory_def
    S_ISDIR_def S_IFMT_def S_ISLNK_def S_ISREG_def within_def clip_def moved_inode_def u_def
    observe_def budget_limit_def MAX_FILE_BYTES_def receipt_of_def observed_version_def publication_state_of_def
    content_version_def observation_of_def demo_decode normal_newlines_def crlf_def startswith_def absent_def
    content_hash_def dict_cons_def al_del_def snap_version_def Let_def demo_file_def demo_receipt_def)

definition demo_result :: mutation_result where
  "demo_result = \<lparr>mr_success = True, mr_effect = completed, mr_explanation = [], mr_target = u ''w'',
     mr_journal_id = u ''j'', mr_files = [demo_receipt], mr_code = None, mr_error = None, mr_lock_release_error = None\<rparr>"

definition demo_after :: workspace where
  "demo_after = \<lparr>ws_world = \<lparr>tree_of = demo_tree([u ''w'', u ''n''] \<mapsto> demo_file), calls = 21\<rparr>,
     ws_journals = [(u ''j'', \<lparr>j_snapshots = [\<lparr>j_uri = u ''n'', j_before_exists = False, j_before_content = [],
       j_after = Some (After True (u ''x''))\<rparr>], j_files = Some [demo_receipt]\<rparr>)]\<rparr>"

lemma demo_execute:
  "execute_text_mutation demo_sha demo_machine demo_env [u ''w''] (u ''w'') [u ''n''] [(u ''n'', absent)]
    (prepare_patch nfc demo_patch) [] (u ''j'') None demo_ws = Some (Inr demo_result, demo_after)"
  by (simp add: execute_text_mutation_def locked_mutation_def in_world_def demo_dir [unfolded demo_ws_def, simplified]
      demo_capture demo_prepare demo_check publish_mutation_def write_text_mutation_journal_def
      update_text_mutation_journal_def journal_call_def Let_def demo_publish release_lock_def update_snapshot_def
      effect_of_def demo_result_def demo_after_def demo_ws_def) (simp add: demo_receipt_def)

lemma demo_apply:
  "apply_patch demo_sha nfc demo_machine demo_env [u ''w''] (u ''w'') demo_patch [(u ''n'', absent)] [] (u ''j'') None demo_ws
    = Some (Inr demo_result, demo_after)"
  by (simp add: apply_patch_def demo_names demo_execute as_diff_error_def)

lemma demo_temps: "[u ''w'', u ''n''] \<notin> temps demo_machine [u ''w'', u ''n'']"
  by (rule target_not_temp) simp

lemma demo_fresh_temps: "fresh_temps demo_machine demo_env [u ''w''] (identify_files_affected demo_patch)"
  using demo_temps by (simp add: fresh_temps_def demo_names demo_resolve)

lemma demo_independent: "independent demo_machine demo_steps"
  by (simp add: independent_def demo_steps_def demo_snap_def)

lemma demo_stale:
  "execute_text_mutation demo_sha demo_machine demo_env [u ''w''] (u ''w'') [u ''n''] [(u ''n'', content_hash demo_sha [])]
    (prepare_patch nfc demo_patch) [] (u ''j'') None demo_ws
    = Some (Inl Conflict, \<lparr>ws_world = \<lparr>tree_of = demo_tree, calls = 4\<rparr>, ws_journals = []\<rparr>)"
proof -
  have "is_version (content_hash demo_sha [])" by (simp add: is_version_def content_hash_def u_def numeral_eq_Suc)
  moreover have "absent \<noteq> content_hash demo_sha []" by (simp add: absent_def content_hash_def u_def)
  ultimately have "capture_all demo_sha demo_machine demo_env [u ''w''] [u ''n''] [(u ''n'', content_hash demo_sha [])] None
      \<lparr>tree_of = demo_tree, calls = 2\<rparr> = (Inl Conflict, \<lparr>tree_of = demo_tree, calls = 4\<rparr>)"
    by (simp add: capture_all_def validate_text_paths_def capture_snapshot_def demo_calls demo_resolve demo_parents
        lookup_def require_text_def charge_def snap_version_def Let_def demo_tree_def)
  then show ?thesis
    by (simp add: execute_text_mutation_def locked_mutation_def in_world_def demo_dir release_lock_def demo_ws_def
        demo_dir [unfolded demo_ws_def, simplified])
qed


subsection \<open>Properties\<close>

text \<open>
  C13: A patch request that reports success has been applied. If no other process writes meanwhile, the files
  that the patch was matched against are the ones in the workspace, with the versions that the caller
  expected, the patch parses to a commit, and every change of that commit is in the tree: deleted files
  are gone, added and updated files hold exactly the bytes of the change, moved files are at their new
  name only. Calls may fail at any point of the run, with or without taking effect.
\<close>

theorem successful_patch_is_applied:
  assumes "quiet m" and "stable env" and "fresh_temps m env root (identify_files_affected text)"
    and "apply_patch sha nfc m env root root_uri text expected explanation jid max_bytes ws = Some (Inr res, ws')"
    and "mr_success res"
  shows "\<exists>snaps current c. (\<forall>name s. map_of snaps name = Some s \<longrightarrow>
        faithful sha env root expected (tree_of (ws_world ws)) name s)
    \<and> current_texts snaps (identify_files_needed text) = Inr current
    \<and> parse_patch nfc text current = Some (Inr c)
    \<and> (\<forall>ch\<in>set (changes c). applied (tree_of (ws_world ws')) snaps ch)"
  using assms by (rule patch_success)

theorem successful_patch_is_applied_witness:
  "\<exists>snaps current c. current_texts snaps (identify_files_needed demo_patch) = Inr current
    \<and> parse_patch (\<lambda>s. s) demo_patch current = Some (Inr c)
    \<and> list_all (applied (tree_of (ws_world demo_after)) snaps) (changes c)"
proof -
  have "mr_success demo_result" by (simp add: demo_result_def)
  from successful_patch_is_applied [OF demo_quiet demo_stable demo_fresh_temps demo_apply [of "\<lambda>s. s"] this]
  show ?thesis unfolding list_all_iff by blast
qed

text \<open>
  C14: The receipts tell the truth. If no other process writes and the files of the plan do not interfere,
  then, whichever system calls fail in whatever way: a file reported \<^verbatim>\<open>published\<close> holds the intended content
  (or is absent, for a deletion), a file reported \<^verbatim>\<open>not_attempted\<close> or \<^verbatim>\<open>not_published\<close> is untouched, and
  every other existing file is as before.
\<close>

theorem receipts_tell_the_truth:
  assumes "quiet m" and "independent m ss" and "publish_steps sha m ss budget w = ((receipts, obs, fail), w')"
    and "i < length ss"
  shows "(r_state (receipts ! i) = published \<longrightarrow> holds (tree_of w') (target_of (ss ! i)) (pub_content (ss ! i)))
    \<and> (r_state (receipts ! i) \<in> {not_attempted, not_published} \<longrightarrow>
        tree_of w' (target_of (ss ! i)) = tree_of w (target_of (ss ! i)))
    \<and> (q \<notin> touched m ss \<longrightarrow> tree_of w q \<noteq> None \<longrightarrow> tree_of w' q = tree_of w q)"
  by (intro conjI impI receipt_truth_lemma [OF assms] keeps_existing [OF publish_steps_frame [OF assms(1,3)]])

theorem receipts_tell_the_truth_witness:
  "holds (demo_tree([u ''w'', u ''n''] \<mapsto> demo_file)) (target_of (demo_steps ! 0)) (pub_content (demo_steps ! 0))"
  using receipts_tell_the_truth [OF demo_quiet demo_independent demo_publish, of 0]
  by (simp add: demo_receipt_def) (simp add: demo_steps_def)

text \<open>
  On any machine, with any interference: publishing reports no failure exactly when every file of the
  plan is reported published.
\<close>

theorem no_failure_iff_all_published:
  "(snd (snd (fst (publish_steps sha m ss budget w))) = None)
    = list_all (\<lambda>r. r_state r = published) (fst (fst (publish_steps sha m ss budget w)))"
proof -
  obtain receipts obs fail w' where r: "publish_steps sha m ss budget w = ((receipts, obs, fail), w')"
    by (metis prod.collapse)
  show ?thesis using success_iff_published_lemma [OF r] by (simp add: r list_all_iff)
qed

text \<open>
  On any machine, with any interference: a mutation that reports success has effect \<^verbatim>\<open>completed\<close>, every
  file published, no error of the lock, and its journal entry lists exactly the reported files.
\<close>

theorem success_is_complete_and_journaled:
  assumes "execute_text_mutation sha m env root root_uri declared expected prepare explanation jid max_bytes ws
    = Some (Inr res, ws')" and "mr_success res"
  shows "mr_effect res = completed \<and> (\<forall>r\<in>set (mr_files res). r_state r = published) \<and> mr_error res = None
    \<and> mr_lock_release_error res = None
    \<and> (\<exists>j. map_of (ws_journals ws') (mr_journal_id res) = Some j \<and> j_files j = Some (mr_files res))"
  using assms by (rule mutation_success)

theorem success_is_complete_and_journaled_witness:
  "mr_effect demo_result = completed
    \<and> (\<exists>j. map_of (ws_journals demo_after) (mr_journal_id demo_result) = Some j \<and> j_files j = Some [demo_receipt])"
proof -
  have "mr_success demo_result" by (simp add: demo_result_def)
  from success_is_complete_and_journaled [OF demo_execute [of "\<lambda>s. s"] this] show ?thesis
    by (simp add: demo_result_def)
qed

text \<open>
  C16: A mutation that raises an exception has changed no file: every check, and every failure to write the
  journal or to take the lock, comes before the first publication. (Nobody else writes the tree or the journals.)
\<close>

theorem raising_mutation_changes_nothing:
  assumes "quiet m"
    and "execute_text_mutation sha m env root root_uri declared expected prepare explanation jid max_bytes ws
      = Some (Inl e, ws')"
  shows "tree_of (ws_world ws') = tree_of (ws_world ws)"
  using assms by (rule mutation_raise)

theorem raising_mutation_changes_nothing_witness: "tree_of (ws_world demo_ws) = demo_tree"
  using raising_mutation_changes_nothing [OF demo_quiet demo_stale [of "\<lambda>s. s"]] by simp

text \<open>
  C15: Optimistic concurrency. A mutation only gets as far as a result if, for every declared file, the
  version that the caller expected is the version of the file in the workspace.
\<close>

theorem result_needs_current_versions:
  assumes "quiet m" and "stable env"
    and "execute_text_mutation sha m env root root_uri declared expected prepare explanation jid max_bytes ws
      = Some (Inr res, ws')" and "name \<in> set declared"
  shows "\<exists>p. resolved env root name = Inr p
    \<and> map_of expected name = Some (content_version sha (map_option n_bytes (tree_of (ws_world ws) p)))"
  using assms by (rule mutation_versions)

theorem result_needs_current_versions_witness:
  "\<exists>p. resolved demo_env [u ''w''] (u ''n'') = Inr p
    \<and> Some absent = Some (content_version demo_sha (map_option n_bytes (demo_tree p)))"
  using result_needs_current_versions [OF demo_quiet demo_stable demo_execute [of "\<lambda>s. s"], of "u ''n''"]
  by (simp add: demo_ws_def)

end
