(* ===== verification/Text_Content.thy ===== *)
theory Text_Content
  imports Text_Mutation
begin

section \<open>The content that edits and patches publish\<close>

text \<open>
  The bytes that an exact edit produces, and that a patch keeps the line endings of the file it changes.
\<close>

subsection \<open>Line endings\<close>

lemma replace_same: "replace_all [c] [c] s = s"
  by (induction s) (auto simp: startswith_def)

lemma startswith_crlf: "startswith (c # s) crlf \<longleftrightarrow> c = 13 \<and> (\<exists>s'. s = nl # s')"
  by (cases s) (auto simp: startswith_def crlf_def)

text \<open>Turning CRLF into LF and back gives the text, if no LF stands alone.\<close>

lemma crlf_round_trip:
  "nl \<notin> set (replace_all crlf [] s) \<Longrightarrow> replace_all [nl] crlf (replace_all crlf [nl] s) = s"
proof (induction crlf "[nl]" s rule: replace_all.induct)
  case (2 c s)
  show ?case
  proof (cases "startswith (c # s) crlf")
    case True
    then obtain s' where s: "c = 13" "s = nl # s'" by (auto simp: startswith_crlf)
    from 2(1) "2.prems" True s have "replace_all [nl] crlf (replace_all crlf [nl] s') = s'"
      by (simp add: crlf_def startswith_def)
    with s show ?thesis by (simp add: crlf_def startswith_def)
  next
    case False
    with 2(2) "2.prems" show ?thesis by (auto simp: startswith_def crlf_def)
  qed
qed simp

lemma replace_crlf_skip: "13 \<notin> set e \<Longrightarrow> replace_all crlf new (e @ b) = e @ replace_all crlf new b"
  by (induction e) (auto simp: startswith_crlf)

lemma utf8_char_high: "utf8_encode_char c = Some e \<Longrightarrow> \<not> c < 0x80 \<Longrightarrow> x \<in> set e \<Longrightarrow> 0x80 \<le> x"
  by (auto simp: utf8_encode_char_def split: if_split_asm)

lemma utf8_char_ascii: "c < 0x80 \<Longrightarrow> utf8_encode_char c = Some [c]"
  by (simp add: utf8_encode_char_def)

lemma utf8_mem_ascii: "utf8_encode s = Some bs \<Longrightarrow> x < 0x80 \<Longrightarrow> x \<in> set bs \<longleftrightarrow> x \<in> set s"
proof (induction s arbitrary: bs)
  case (Cons c s)
  then obtain e b where e: "utf8_encode_char c = Some e" "utf8_encode s = Some b" "bs = e @ b"
    by (auto split: option.split_asm)
  have "x \<in> set e \<longleftrightarrow> x = c"
    using e(1) utf8_char_high [OF e(1), of x] utf8_char_ascii [of c] Cons.prems(2) by (cases "c < 0x80") auto
  with e Cons.IH [OF e(2) Cons.prems(2)] show ?case by auto
qed simp

lemma utf8_starts_ascii:
  "utf8_encode s = Some bs \<Longrightarrow> x < 0x80 \<Longrightarrow> (\<exists>b. bs = x # b) \<longleftrightarrow> (\<exists>s'. s = x # s')"
proof (cases s)
  case (Cons c s')
  assume "utf8_encode s = Some bs" and x: "x < 0x80"
  with Cons obtain e b where e: "utf8_encode_char c = Some e" "bs = e @ b"
    by (auto split: option.split_asm)
  then obtain h t where "e = h # t" using utf8_encode_char_not_Nil by (cases e) auto
  with e x Cons utf8_char_high [OF e(1), of h] utf8_char_ascii [of c] show ?thesis by (cases "c < 0x80") auto
qed auto

lemma utf8_replace_crlf:
  "utf8_encode s = Some bs \<Longrightarrow> utf8_encode (replace_all crlf [] s) = Some (replace_all crlf [] bs)"
proof (induction crlf "[] :: ustr" s arbitrary: bs rule: replace_all.induct)
  case (2 c s)
  show ?case
  proof (cases "startswith (c # s) crlf")
    case True
    then obtain s' where s: "c = 13" "s = nl # s'" by (auto simp: startswith_crlf)
    with "2.prems" obtain b where b: "bs = 13 # nl # b" "utf8_encode s' = Some b"
      by (auto simp: utf8_char_ascii split: option.split_asm)
    from 2(1) True s b have "utf8_encode (replace_all crlf [] s') = Some (replace_all crlf [] b)"
      by (simp add: crlf_def startswith_def)
    with s b show ?thesis by (simp add: crlf_def startswith_def)
  next
    case False
    from "2.prems" obtain e b where e: "utf8_encode_char c = Some e" "utf8_encode s = Some b" "bs = e @ b"
      by (auto split: option.split_asm)
    have "replace_all crlf [] bs = e @ replace_all crlf [] b"
    proof (cases "c = 13")
      case True
      with False have "\<not> (\<exists>s'. s = nl # s')" by (simp add: startswith_crlf)
      with utf8_starts_ascii [OF e(2), of nl] have "\<not> (\<exists>b'. b = nl # b')" by simp
      with True e show ?thesis by (auto simp: utf8_char_ascii startswith_crlf)
    next
      case False
      with e(1) have "13 \<notin> set e"
        using utf8_char_high [OF e(1), of 13] utf8_char_ascii [of c] by (cases "c < 0x80") auto
      then show ?thesis using e(3) by (simp add: replace_crlf_skip)
    qed
    with False e 2(2) show ?thesis by simp
  qed
qed simp

lemma published_bytes_same:
  assumes "snap_before s = Some b" and "logical_text b = Inr t" and "new_content change = Some t"
  shows "published_bytes s change = Inr (pre_content b)"
proof -
  from assms(2) obtain chars where dec: "utf8_decode (pre_content b) = Some chars"
    and t: "t = replace_all (line_ending (Some b)) [nl] chars"
    by (auto simp: logical_text_def decode_def split: option.splits)
  note enc = utf8_decode_encode [OF dec]
  have "replace_all [nl] (line_ending (Some b)) t = chars"
  proof (cases "contains crlf (pre_content b) \<and> nl \<notin> set (replace_all crlf [] (pre_content b))")
    case True
    then have le: "line_ending (Some b) = crlf" by (simp add: line_ending_def)
    from True utf8_mem_ascii [OF utf8_replace_crlf [OF enc], of nl] have "nl \<notin> set (replace_all crlf [] chars)" by simp
    with t show ?thesis unfolding le by (simp add: crlf_round_trip)
  next
    case False
    then have "line_ending (Some b) = [nl]" by (auto simp: line_ending_def)
    with t show ?thesis by (simp add: replace_same)
  qed
  with assms(1,3) enc show ?thesis by (simp add: published_bytes_def encode_def)
qed

subsection \<open>Exact edits\<close>

lemma startswith_split: "startswith s p \<Longrightarrow> s = p @ drop (length p) s"
  by (metis append_take_drop_id startswith_def)

lemma count_zero: "old \<noteq> [] \<Longrightarrow> count_occurrences old s = 0 \<longleftrightarrow> \<not> contains old s"
  by (induction old s rule: count_occurrences.induct) auto

lemma contains_self: "contains old (old @ z)"
  by (cases "old @ z") (simp_all add: startswith_def, metis append_eq_conv_conj)

lemma contains_append: "contains p s \<Longrightarrow> contains p (a @ s)"
  by (induction a) auto

text \<open>The first occurrence, and what the two string methods make of it.\<close>

definition first_at :: "ustr \<Rightarrow> ustr \<Rightarrow> ustr \<Rightarrow> bool" where
  "first_at old a z \<longleftrightarrow> (\<forall>k<length a. \<not> startswith (drop k (a @ old @ z)) old)"

lemma contains_first: "contains old s \<Longrightarrow> \<exists>a z. s = a @ old @ z \<and> first_at old a z"
proof (induction old s rule: contains.induct)
  case (2 old c s)
  show ?case
  proof (cases "startswith (c # s) old")
    case True
    then have "c # s = [] @ old @ drop (length old) (c # s)" by (simp add: startswith_split)
    then show ?thesis unfolding first_at_def by (metis less_nat_zero_code list.size(3))
  next
    case False
    with 2 obtain a z where "s = a @ old @ z" "first_at old a z" by auto
    with False have "c # s = (c # a) @ old @ z" "first_at old (c # a) z"
      by (auto simp: first_at_def less_Suc_eq_0_disj)
    then show ?thesis by blast
  qed
qed (simp add: first_at_def)

lemma replace_first_at:
  assumes "first_at old a z" and "old \<noteq> []"
  shows "replace_first old new (a @ old @ z) = a @ new @ z"
    and "count_occurrences old (a @ old @ z) = Suc (count_occurrences old z)"
proof -
  have head: "startswith (old @ z) old" by (simp add: startswith_def)
  obtain c s where cs: "old @ z = c # s" using assms(2) by (cases old) auto
  have "replace_first old new (a @ old @ z) = a @ new @ z
    \<and> count_occurrences old (a @ old @ z) = Suc (count_occurrences old z)"
    using assms(1)
  proof (induction a)
    case Nil
    have "drop (length old) (c # s) = z" by (metis append_eq_conv_conj cs)
    with head assms(2) cs show ?case by simp
  next
    case (Cons x a)
    then have "\<not> startswith (x # a @ old @ z) old" "first_at old a z"
      by (auto simp: first_at_def less_Suc_eq_0_disj)
    with Cons.IH show ?case by simp
  qed
  then show "replace_first old new (a @ old @ z) = a @ new @ z"
    and "count_occurrences old (a @ old @ z) = Suc (count_occurrences old z)" by auto
qed

subsection \<open>Properties\<close>

text \<open>
  C34: A patch that leaves the text of a file as it is publishes exactly the bytes of the original, whether
  the file uses LF, CRLF or both: the line endings that were removed for matching come back.
\<close>

theorem line_endings_survive:
  assumes "snap_before s = Some b" and "logical_text b = Inr t" and "new_content change = Some t"
  shows "published_bytes s change = Inr (pre_content b)"
  using assms by (rule published_bytes_same)

theorem line_endings_survive_witness:
  "published_bytes \<lparr>snap_uri = [], real_path = [],
      snap_before = Some \<lparr>pre_content = [97, 13, 10, 98, 13, 10],
        pre_stat = \<lparr>st_dev = 0, st_ino = 0, st_mode = 0, st_size = 6, st_mtime_ns = 0, st_ctime_ns = 0\<rparr>\<rparr>\<rparr>
    \<lparr>change_kind = UPDATE, old_content = None, new_content = Some [97, 10, 98, 10], change_move_path = None\<rparr>
    = Inr [97, 13, 10, 98, 13, 10]"
proof -
  let ?b = "\<lparr>pre_content = [97, 13, 10, 98, 13, 10],
    pre_stat = \<lparr>st_dev = 0, st_ino = 0, st_mode = 0, st_size = 6, st_mtime_ns = 0, st_ctime_ns = 0\<rparr>\<rparr>"
  have "utf8_decode [97, 13, 10, 98, 13, 10] = Some [97, 13, 10, 98, 13, 10]"
    by (rule utf8_round_trip_lemma) (simp add: utf8_encode_char_def)
  then have "logical_text ?b = Inr [97, 10, 98, 10]"
    by (simp add: logical_text_def decode_def line_ending_def crlf_def startswith_def)
  from line_endings_survive [OF _ this, of "\<lparr>snap_uri = [], real_path = [], snap_before = Some ?b\<rparr>"
      "\<lparr>change_kind = UPDATE, old_content = None, new_content = Some [97, 10, 98, 10], change_move_path = None\<rparr>"]
  show ?thesis by simp
qed

text \<open>
  C35: an exact edit of one occurrence succeeds exactly when the old string is not empty, differs from the new one and occurs
  once; it then replaces its first occurrence and nothing else. (Two places that overlap count as one, and
  the first is taken.)
\<close>

theorem exact_edit_replaces_one:
  "edit_text old new False (Some b) = Inr bytes \<longleftrightarrow>
    old \<noteq> [] \<and> old \<noteq> new \<and>
    (\<exists>a z. utf8_decode (pre_content b) = Some (a @ old @ z) \<and> first_at old a z \<and> \<not> contains old z
      \<and> utf8_encode (a @ new @ z) = Some bytes)"
proof (cases "old = [] \<or> old = new \<or> utf8_decode (pre_content b) = None")
  case True
  then show ?thesis by (auto simp: edit_text_def decode_def)
next
  case False
  then obtain s where s: "utf8_decode (pre_content b) = Some s" and old: "old \<noteq> []" "old \<noteq> new" by auto
  show ?thesis
  proof (cases "contains old s")
    case True
    then obtain a z where az: "s = a @ old @ z" "first_at old a z" using contains_first by blast
    have unique: "replace_first old new s = a' @ new @ z'" if "s = a' @ old @ z'" "first_at old a' z'" for a' z'
      using that old replace_first_at(1) by metis
    have count: "count_occurrences old s = Suc (count_occurrences old z')" if "s = a' @ old @ z'" "first_at old a' z'" for a' z'
      using that old replace_first_at(2) by metis
    have "edit_text old new False (Some b) = Inr bytes \<longleftrightarrow>
        count_occurrences old s = 1 \<and> utf8_encode (replace_first old new s) = Some bytes"
      using s old by (auto simp: edit_text_def decode_def encode_def Let_def split: option.splits)
    also have "\<dots> \<longleftrightarrow> (\<exists>a z. s = a @ old @ z \<and> first_at old a z \<and> \<not> contains old z \<and> utf8_encode (a @ new @ z) = Some bytes)"
      using az unique count count_zero [OF old(1)] by (metis One_nat_def Suc_inject)
    finally show ?thesis using s old by auto
  next
    case no: False
    then have "count_occurrences old s = 0" using count_zero old by blast
    then have "edit_text old new False (Some b) \<noteq> Inr bytes" using s old by (simp add: edit_text_def decode_def Let_def)
    moreover have "s \<noteq> a @ old @ z" for a z
      using no old replace_first_at(2) count_zero
      by (metis contains_append contains_self)
    ultimately show ?thesis using s by auto
  qed
qed

end
