(* ===== verification/Py_Json.thy ===== *)
theory Py_Json
  imports Complex_Main Py_Prelude
begin

section \<open>JSON values with Python's dynamic semantics\<close>

text \<open>
  The state trees and payloads of the backend are JSON values held as Python objects. A value is a
  \<open>json\<close>; a \<^verbatim>\<open>dict\<close> is an association list in insertion order. A finite \<^verbatim>\<open>float\<close> is the
  rational it denotes. Truth value, equality, \<^verbatim>\<open>str()\<close>, \<^verbatim>\<open>int()\<close>, iteration and hashing follow the
  language. Two library functions need data that is not in the repository (the Unicode database, the
  shortest decimal of a double) and are the parameters collected in \<open>py_runtime\<close>: the \<^verbatim>\<open>repr\<close> of
  floats and containers, and the parsing of a \<^verbatim>\<open>str\<close> by \<^verbatim>\<open>int()\<close>.
\<close>

datatype json =
    JNull
  | JBool bool
  | JInt int
  | JFloat rat
  | JStr ustr
  | JArr "json list"
  | JObj "(ustr \<times> json) list"

type_synonym obj = "(ustr \<times> json) list"

record py_runtime =
  repr_of :: "json \<Rightarrow> ustr"
  int_of_str :: "ustr \<Rightarrow> int option"

datatype py_error =
    MessageStreamError string
  | KeyErr ustr
  | TypeErr
  | ValueErr
  | AttributeErr

subsection \<open>Dictionaries\<close>

definition jget :: "ustr \<Rightarrow> obj \<Rightarrow> json" where
  "jget k d = (case map_of d k of None \<Rightarrow> JNull | Some v \<Rightarrow> v)"

definition jget_or :: "ustr \<Rightarrow> json \<Rightarrow> obj \<Rightarrow> json" where
  "jget_or k dflt d = (case map_of d k of None \<Rightarrow> dflt | Some v \<Rightarrow> v)"

definition has_key :: "ustr \<Rightarrow> obj \<Rightarrow> bool" where
  "has_key k d \<longleftrightarrow> k \<in> fst ` set d"

abbreviation jset :: "ustr \<Rightarrow> json \<Rightarrow> obj \<Rightarrow> obj" where
  "jset \<equiv> al_set"

text \<open>\<^verbatim>\<open>d.update(e)\<close> and \<^verbatim>\<open>{**d, **e}\<close>.\<close>

definition dict_update :: "obj \<Rightarrow> obj \<Rightarrow> obj" where
  "dict_update d e = foldl (\<lambda>acc (k, v). jset k v acc) d e"

lemma jget_jset [simp]: "jget k (jset k' v d) = (if k = k' then v else jget k d)"
  by (simp add: jget_def)

lemma jget_or_jset [simp]: "jget_or k x (jset k' v d) = (if k = k' then v else jget_or k x d)"
  by (simp add: jget_or_def)

lemma has_key_jset [simp]: "has_key k (jset k' v d) \<longleftrightarrow> k = k' \<or> has_key k d"
  by (simp add: has_key_def)

lemma has_key_iff: "has_key k d \<longleftrightarrow> map_of d k \<noteq> None"
  by (simp add: has_key_def map_of_eq_None_iff)

lemma map_of_dict_update: "map_of (dict_update d e) = map_of d ++ map_of (rev e)"
  unfolding dict_update_def
  by (induction e arbitrary: d) (auto simp: fun_eq_iff map_add_def split: option.splits)

lemma map_of_rev_distinct: "distinct (map fst e) \<Longrightarrow> map_of (rev e) = map_of e"
proof (rule ext)
  fix k
  assume "distinct (map fst e)"
  then have "map_of (rev e) k = Some v \<longleftrightarrow> map_of e k = Some v" for v
    by (simp add: rev_map [symmetric])
  then show "map_of (rev e) k = map_of e k" by (metis option.exhaust)
qed

lemma jget_dict_update:
  "distinct (map fst e) \<Longrightarrow> jget k (dict_update d e) = (if has_key k e then jget k e else jget k d)"
  by (cases "map_of e k")
    (simp_all add: jget_def has_key_iff map_of_dict_update map_of_rev_distinct map_add_def
      del: map_of_eq_Some_iff)

subsection \<open>Truth value, type tests, conversions\<close>

definition truthy :: "json \<Rightarrow> bool" where
  "truthy v = (case v of
     JNull \<Rightarrow> False | JBool b \<Rightarrow> b | JInt i \<Rightarrow> i \<noteq> 0 | JFloat r \<Rightarrow> r \<noteq> 0
   | JStr s \<Rightarrow> s \<noteq> [] | JArr xs \<Rightarrow> xs \<noteq> [] | JObj d \<Rightarrow> d \<noteq> [])"

text \<open>\<^verbatim>\<open>a or b\<close>.\<close>

definition py_or :: "json \<Rightarrow> json \<Rightarrow> json" where
  "py_or a b = (if truthy a then a else b)"

lemma py_or_simps [simp]:
  "py_or JNull b = b" "py_or (JStr s) b = (if s = [] then b else JStr s)"
  by (simp_all add: py_or_def truthy_def)

fun is_str :: "json \<Rightarrow> bool" where
  "is_str (JStr s) = True"
| "is_str _ = False"

definition nonempty_str :: "json \<Rightarrow> ustr option" where
  "nonempty_str v = (case v of JStr s \<Rightarrow> if s = [] then None else Some s | _ \<Rightarrow> None)"

lemma nonempty_str_Some [simp]: "nonempty_str v = Some s \<longleftrightarrow> v = JStr s \<and> s \<noteq> []"
  by (auto simp: nonempty_str_def split: json.splits)

lemma nonempty_str_JStr [simp]: "nonempty_str (JStr s) = (if s = [] then None else Some s)"
  by (simp add: nonempty_str_def)

text \<open>An \<^verbatim>\<open>int\<close> that is not a \<^verbatim>\<open>bool\<close>.\<close>

fun plain_int :: "json \<Rightarrow> int option" where
  "plain_int (JInt i) = Some i"
| "plain_int _ = None"

lemma plain_int_Some [simp]: "plain_int v = Some i \<longleftrightarrow> v = JInt i"
  by (cases v) auto

fun nat_digits :: "nat \<Rightarrow> ustr" where
  "nat_digits n = (if n < 10 then [48 + n] else nat_digits (n div 10) @ [48 + n mod 10])"

declare nat_digits.simps [simp del]

definition int_str :: "int \<Rightarrow> ustr" where
  "int_str i = (if i < 0 then 45 # nat_digits (nat (- i)) else nat_digits (nat i))"

text \<open>\<^verbatim>\<open>str(v)\<close>.\<close>

definition py_str :: "py_runtime \<Rightarrow> json \<Rightarrow> ustr" where
  "py_str rt v = (case v of
     JStr s \<Rightarrow> s
   | JNull \<Rightarrow> u ''None''
   | JBool b \<Rightarrow> u (if b then ''True'' else ''False'')
   | JInt i \<Rightarrow> int_str i
   | _ \<Rightarrow> repr_of rt v)"

lemma py_str_JStr [simp]: "py_str rt (JStr s) = s"
  by (simp add: py_str_def)

text \<open>\<^verbatim>\<open>int(v)\<close>.\<close>

definition py_int :: "py_runtime \<Rightarrow> json \<Rightarrow> py_error + int" where
  "py_int rt v = (case v of
     JBool b \<Rightarrow> Inr (if b then 1 else 0)
   | JInt i \<Rightarrow> Inr i
   | JFloat r \<Rightarrow> Inr (if 0 \<le> r then \<lfloor>r\<rfloor> else - \<lfloor>- r\<rfloor>)
   | JStr s \<Rightarrow> (case int_of_str rt s of None \<Rightarrow> Inl ValueErr | Some i \<Rightarrow> Inr i)
   | _ \<Rightarrow> Inl TypeErr)"

subsection \<open>Equality\<close>

text \<open>Numbers compare by value across \<^verbatim>\<open>bool\<close>, \<^verbatim>\<open>int\<close> and \<^verbatim>\<open>float\<close>; dictionaries without regard to order.\<close>

fun num_value :: "json \<Rightarrow> rat option" where
  "num_value (JBool b) = Some (if b then 1 else 0)"
| "num_value (JInt i) = Some (of_int i)"
| "num_value (JFloat r) = Some r"
| "num_value _ = None"

lemma json_size_obj [termination_simp]:
  "(k, v) \<in> set d \<Longrightarrow> size v \<le> size_list (size_prod (\<lambda>_. 0) size) d"
  by (induction d) auto

function py_eq :: "json \<Rightarrow> json \<Rightarrow> bool" where
  "py_eq a b =
     (case (a, b) of
        (JNull, JNull) \<Rightarrow> True
      | (JStr s, JStr t) \<Rightarrow> s = t
      | (JArr xs, JArr ys) \<Rightarrow> length xs = length ys \<and> (\<forall>(x, y) \<in> set (zip xs ys). py_eq x y)
      | (JObj d, JObj e) \<Rightarrow>
          length d = length e
          \<and> (\<forall>(k, v) \<in> set d. case map_of e k of None \<Rightarrow> False | Some w \<Rightarrow> py_eq v w)
      | _ \<Rightarrow> num_value a \<noteq> None \<and> num_value a = num_value b)"
  by pat_completeness auto
termination
  by (relation "measure (\<lambda>(a, b). size a)")
    (auto simp: set_zip less_Suc_eq_le json_size_obj intro: size_list_estimation' [OF nth_mem order_refl])

declare py_eq.simps [simp del]

lemma py_eq_JStr [simp]: "py_eq (JStr s) v \<longleftrightarrow> v = JStr s" "py_eq v (JStr s) \<longleftrightarrow> v = JStr s"
  by (cases v; auto simp: py_eq.simps)+

lemma py_eq_JNull [simp]: "py_eq JNull v \<longleftrightarrow> v = JNull" "py_eq v JNull \<longleftrightarrow> v = JNull"
  by (cases v; auto simp: py_eq.simps)+

text \<open>Only hashable values can be tested against a set literal.\<close>

definition in_str_set :: "json \<Rightarrow> ustr list \<Rightarrow> py_error + bool" where
  "in_str_set v names = (case v of
     JArr _ \<Rightarrow> Inl TypeErr
   | JObj _ \<Rightarrow> Inl TypeErr
   | JStr s \<Rightarrow> Inr (s \<in> set names)
   | _ \<Rightarrow> Inr False)"

subsection \<open>Copying\<close>

fun clone_json_tree :: "json \<Rightarrow> json" where
  "clone_json_tree (JObj d) = JObj (map (\<lambda>(k, v). (k, clone_json_tree v)) d)"
| "clone_json_tree (JArr xs) = JArr (map clone_json_tree xs)"
| "clone_json_tree v = v"

lemma clone_json_tree_id [simp]: "clone_json_tree v = v"
  by (induction v rule: clone_json_tree.induct) (auto intro: map_idI)

end
