(* ===== verification/Message_Stream_Projection.thy ===== *)
theory Message_Stream_Projection
  imports Py_Json
begin

section \<open>Message stream: the deterministic projection\<close>

text \<open>
  \<^verbatim>\<open>app/domain/message_stream/projection.py\<close>: the function that folds one event into the state tree of
  a turn, used by the commit path and by replay alike. The state, the event and its payload are
  dictionaries of JSON values; every in-place update of the source is a functional update here, which
  is the same because \<^verbatim>\<open>apply_event\<close> works on a private copy. An exception of any kind aborts the whole
  event and leaves the caller's state as it was.
\<close>

abbreviation js :: "string \<Rightarrow> json" where
  "js s \<equiv> JStr (u s)"

definition MESSAGE_STREAM_BLOCK_TEXT_MAX_CHARS :: nat where
  "MESSAGE_STREAM_BLOCK_TEXT_MAX_CHARS = 256 * 1024"

definition MESSAGE_STREAM_TOOL_TEXT_MAX_CHARS :: nat where
  "MESSAGE_STREAM_TOOL_TEXT_MAX_CHARS = 64 * 1024"

text \<open>The marker, as code points.\<close>

definition MESSAGE_STREAM_TEXT_TRUNCATION_MARKER :: ustr where
  "MESSAGE_STREAM_TEXT_TRUNCATION_MARKER = 
    [10, 10, 8230, 28040, 24687, 27969, 23637, 31034, 24050, 25130, 26029, 65307, 84, 117, 114, 110, 32,
     23436, 25104, 21518, 21487, 20174, 26435, 23041, 21382, 21490, 35814, 24773, 35835, 21462,
     25345, 20037, 21270, 20869, 23481, 8230, 10, 10]"

definition bounded_stream_text :: "ustr \<Rightarrow> nat \<Rightarrow> ustr" where
  "bounded_stream_text value max_chars =
     (if length value \<le> max_chars then value
      else let marker = MESSAGE_STREAM_TEXT_TRUNCATION_MARKER;
               retained_chars = max_chars - length marker;
               head_chars = retained_chars div 2;
               tail_chars = retained_chars - head_chars
           in take head_chars value @ marker @ drop (length value - tail_chars) value)"

subsection \<open>Entity lists\<close>

text \<open>\<^verbatim>\<open>for x in v\<close>: the elements a Python iteration yields.\<close>

definition py_iter :: "json \<Rightarrow> py_error + json list" where
  "py_iter v = (case v of
     JArr xs \<Rightarrow> Inr xs
   | JStr s \<Rightarrow> Inr (map (\<lambda>c. JStr [c]) s)
   | JObj d \<Rightarrow> Inr (map (\<lambda>e. JStr (fst e)) d)
   | _ \<Rightarrow> Inl TypeErr)"

text \<open>The elements of \<^verbatim>\<open>state.get(key, [])\<close>.\<close>

definition entity_list :: "ustr \<Rightarrow> obj \<Rightarrow> py_error + json list" where
  "entity_list key st = (case map_of st key of None \<Rightarrow> Inr [] | Some v \<Rightarrow> py_iter v)"

text \<open>The first \<^verbatim>\<open>dict\<close> of a list that satisfies a test, and its replacement.\<close>

fun find_first :: "(obj \<Rightarrow> bool) \<Rightarrow> json list \<Rightarrow> obj option" where
  "find_first p [] = None"
| "find_first p (JObj d # xs) = (if p d then Some d else find_first p xs)"
| "find_first p (x # xs) = find_first p xs"

fun update_first :: "(obj \<Rightarrow> bool) \<Rightarrow> (obj \<Rightarrow> obj) \<Rightarrow> json list \<Rightarrow> json list option" where
  "update_first p f [] = None"
| "update_first p f (JObj d # xs) =
     (if p d then Some (JObj (f d) # xs) else map_option (\<lambda>ys. JObj d # ys) (update_first p f xs))"
| "update_first p f (x # xs) = map_option (\<lambda>ys. x # ys) (update_first p f xs)"

definition find_entity :: "ustr \<Rightarrow> ustr \<Rightarrow> ustr \<Rightarrow> obj \<Rightarrow> py_error + obj option" where
  "find_entity key id_key ident st =
     bind_res (entity_list key st) (\<lambda>xs. Inr (find_first (\<lambda>d. jget id_key d = JStr ident) xs))"

definition update_entity :: "ustr \<Rightarrow> ustr \<Rightarrow> ustr \<Rightarrow> (obj \<Rightarrow> obj) \<Rightarrow> obj \<Rightarrow> py_error + obj" where
  "update_entity key id_key ident f st =
     bind_res (entity_list key st) (\<lambda>xs.
       Inr (case update_first (\<lambda>d. jget id_key d = JStr ident) f xs of
              None \<Rightarrow> st
            | Some ys \<Rightarrow> jset key (JArr ys) st))"

text \<open>\<^verbatim>\<open>state.setdefault(key, []).append(d)\<close>.\<close>

definition append_entity :: "ustr \<Rightarrow> obj \<Rightarrow> obj \<Rightarrow> py_error + obj" where
  "append_entity key d st =
     (case map_of st key of
        None \<Rightarrow> Inr (jset key (JArr [JObj d]) st)
      | Some (JArr xs) \<Rightarrow> Inr (jset key (JArr (xs @ [JObj d])) st)
      | Some _ \<Rightarrow> Inl AttributeErr)"

text \<open>The loop \<^verbatim>\<open>for x in state.get(key, [])\<close> that rewrites every \<^verbatim>\<open>dict\<close> it meets.\<close>

definition each_entity :: "ustr \<Rightarrow> (obj \<Rightarrow> py_error + obj) \<Rightarrow> obj \<Rightarrow> py_error + obj" where
  "each_entity key f st =
     (case map_of st key of
        None \<Rightarrow> Inr st
      | Some (JArr xs) \<Rightarrow>
          bind_res (map_res (\<lambda>x. case x of JObj d \<Rightarrow> bind_res (f d) (\<lambda>d'. Inr (JObj d')) | _ \<Rightarrow> Inr x) xs)
            (\<lambda>ys. Inr (jset key (JArr ys) st))
      | Some v \<Rightarrow> bind_res (py_iter v) (\<lambda>_. Inr st))"

subsection \<open>Validation and copying\<close>

definition validate_event_payload :: "ustr \<Rightarrow> obj \<Rightarrow> py_error + unit" where
  "validate_event_payload event_type payload =
     (if event_type = u ''stream.completed'' \<and> has_key (u ''auto_closed_blocks'') payload
      then Inl (MessageStreamError ''auto_closed_blocks'') else Inr ())"

text \<open>
  \<^verbatim>\<open>_copy_state_for_block_delta\<close>: on values the copies are the identity; what remains is that a missing
  \<^verbatim>\<open>blocks\<close> list is created.
\<close>

definition copy_state_for_block_delta :: "obj \<Rightarrow> obj" where
  "copy_state_for_block_delta st =
     (case map_of st (u ''blocks'') of
        None \<Rightarrow> jset (u ''blocks'') (JArr []) st
      | Some (JArr xs) \<Rightarrow> jset (u ''blocks'') (JArr (map clone_json_tree xs)) st
      | Some _ \<Rightarrow> map (\<lambda>(k, v). (k, clone_json_tree v)) st)"

subsection \<open>Upserts\<close>

text \<open>The pattern of the upserts: change the first entity with the identifier, else append a new one.\<close>

definition upsert_entity :: "ustr \<Rightarrow> ustr \<Rightarrow> ustr \<Rightarrow> (obj \<Rightarrow> obj) \<Rightarrow> obj \<Rightarrow> obj \<Rightarrow> py_error + obj" where
  "upsert_entity key id_key ident f new st =
     bind_res (find_entity key id_key ident st) (\<lambda>found.
     if found \<noteq> None then update_entity key id_key ident f st else append_entity key new st)"

text \<open>What an existing tool call takes over from the payload: an empty name or empty arguments do not
  overwrite known ones.\<close>

definition incoming_tool_call :: "obj \<Rightarrow> obj \<Rightarrow> obj" where
  "incoming_tool_call payload call =
     (let incoming =
            (if nonempty_str (jget (u ''tool_name'') call) \<noteq> None
                \<and> \<not> truthy (jget (u ''tool_name'') payload)
             then al_del (u ''tool_name'') payload else payload)
      in if (case jget (u ''arguments'') call of JObj d \<Rightarrow> d \<noteq> [] | _ \<Rightarrow> False)
            \<and> jget (u ''arguments'') incoming \<in> {JObj [], JStr [], JNull}
         then al_del (u ''arguments'') incoming else incoming)"

definition upsert_tool_call :: "obj \<Rightarrow> obj \<Rightarrow> py_error + obj" where
  "upsert_tool_call st payload =
     (case nonempty_str (jget (u ''tool_call_id'') payload) of
        None \<Rightarrow> Inl (MessageStreamError ''tool_call_id'')
      | Some ident \<Rightarrow>
          upsert_entity (u ''tool_calls'') (u ''tool_call_id'') ident
            (\<lambda>call. dict_update call (incoming_tool_call payload call)) payload st)"

definition upsert_model_call :: "obj \<Rightarrow> obj \<Rightarrow> string \<Rightarrow> py_error + obj" where
  "upsert_model_call st payload status =
     (case nonempty_str (jget (u ''model_call_id'') payload) of
        None \<Rightarrow> Inr st
      | Some ident \<Rightarrow>
          upsert_entity (u ''model_calls'') (u ''model_call_id'') ident
            (\<lambda>d. jset (u ''status'') (js status) (dict_update d payload))
            (jset (u ''status'') (js status) payload) st)"

definition set_active_state :: "obj \<Rightarrow> obj \<Rightarrow> obj" where
  "set_active_state active st =
     jset (u ''active_state'') (JObj (filter (\<lambda>e. snd e \<noteq> JNull) active)) st"

definition find_block :: "json \<Rightarrow> obj \<Rightarrow> py_error + obj option" where
  "find_block block_id st =
     (case block_id of
        JStr ident \<Rightarrow> find_entity (u ''blocks'') (u ''block_id'') ident st
      | _ \<Rightarrow> Inr None)"

definition new_block ::
    "py_runtime \<Rightarrow> ustr \<Rightarrow> obj \<Rightarrow> string \<Rightarrow> json \<Rightarrow> py_error + obj" where
  "new_block rt ident payload status model_call_id =
     bind_res (py_int rt (py_or (jget (u ''block_index'') payload) (JInt 0))) (\<lambda>block_index.
     Inr ([(u ''block_id'', JStr ident),
           (u ''block_index'', JInt block_index),
           (u ''carrier_type'', JStr (py_str rt (py_or (jget (u ''carrier_type'') payload) (js ''text'')))),
           (u ''status'', js status),
           (u ''text'', JStr []),
           (u ''items'', JArr []),
           (u ''redacted'', JBool (truthy (jget_or (u ''redacted'') (JBool False) payload))),
           (u ''projection'', JStr (py_str rt (py_or (jget (u ''projection'') payload) (js ''streaming''))))]
          @ (case nonempty_str model_call_id of
               None \<Rightarrow> [] | Some m \<Rightarrow> [(u ''model_call_id'', JStr m)])))"

text \<open>\<^verbatim>\<open>_upsert_block\<close> returns the block object; its callers then change that object in place, so the
  model returns its identifier and they use \<open>update_entity\<close>.\<close>

definition upsert_block ::
    "py_runtime \<Rightarrow> obj \<Rightarrow> obj \<Rightarrow> string \<Rightarrow> json \<Rightarrow> py_error + (ustr \<times> obj)" where
  "upsert_block rt st payload status model_call_id =
     (case nonempty_str (jget (u ''block_id'') payload) of
        None \<Rightarrow> Inl (MessageStreamError ''block_id'')
      | Some ident \<Rightarrow>
          bind_res (find_block (JStr ident) st) (\<lambda>found.
          bind_res
            (if found = None
             then bind_res (new_block rt ident payload status model_call_id) (\<lambda>b.
                    append_entity (u ''blocks'') b st)
             else update_entity (u ''blocks'') (u ''block_id'') ident (jset (u ''status'') (js status)) st)
            (\<lambda>st'. Inr (ident, st'))))"

text \<open>The changes of \<^verbatim>\<open>_apply_block_delta\<close> to the block: appended text, structured items, redaction.\<close>

definition delta_items :: "ustr \<Rightarrow> obj \<Rightarrow> obj \<Rightarrow> py_error + obj" where
  "delta_items operation payload block =
     (case jget (u ''item'') payload of
        JObj item \<Rightarrow>
          bind_res
            (case jget (u ''id'') item of
               JStr item_id \<Rightarrow> bind_res (find_entity (u ''items'') (u ''id'') item_id block) (\<lambda>r. Inr (r \<noteq> None))
             | _ \<Rightarrow> Inr False)
            (\<lambda>found.
               if found
               then update_entity (u ''items'') (u ''id'')
                      (case jget (u ''id'') item of JStr item_id \<Rightarrow> item_id | _ \<Rightarrow> [])
                      (\<lambda>existing. if operation = u ''item_patch'' then dict_update existing item else item) block
               else append_entity (u ''items'') item block)
      | _ \<Rightarrow> Inl (MessageStreamError ''item''))"

definition delta_block :: "py_runtime \<Rightarrow> obj \<Rightarrow> obj \<Rightarrow> py_error + obj" where
  "delta_block rt payload block0 =
     (let operation = py_str rt (py_or (jget (u ''operation'') payload) (js ''append''));
          block1 =
            (case jget (u ''text'') payload of
               JStr s \<Rightarrow>
                 if operation = u ''append''
                 then jset (u ''text'')
                        (JStr (bounded_stream_text
                           (py_str rt (py_or (jget (u ''text'') block0) (JStr [])) @ s)
                           MESSAGE_STREAM_BLOCK_TEXT_MAX_CHARS)) block0
                 else block0
             | _ \<Rightarrow> block0)
      in bind_res
           (if operation \<in> {u ''item_upsert'', u ''item_patch''} then delta_items operation payload block1
            else Inr block1)
           (\<lambda>block2.
              Inr (if truthy (jget_or (u ''redacted'') (JBool False) payload)
                   then jset (u ''redacted'') (JBool True) block2 else block2)))"

definition apply_block_delta ::
    "py_runtime \<Rightarrow> obj \<Rightarrow> obj \<Rightarrow> json \<Rightarrow> py_error + obj" where
  "apply_block_delta rt st payload model_call_id =
     bind_res (upsert_block rt st payload ''running'' model_call_id) (\<lambda>(ident, st1).
     bind_res (find_block (JStr ident) st1) (\<lambda>found.
     case found of
       None \<Rightarrow> Inr st1
     | Some block \<Rightarrow>
         bind_res (delta_block rt payload block) (\<lambda>block'.
           update_entity (u ''blocks'') (u ''block_id'') ident (\<lambda>_. block') st1)))"

definition bound_field :: "ustr \<Rightarrow> obj \<Rightarrow> obj" where
  "bound_field name d =
     (case jget name d of
        JStr s \<Rightarrow> jset name (JStr (bounded_stream_text s MESSAGE_STREAM_TOOL_TEXT_MAX_CHARS)) d
      | _ \<Rightarrow> d)"

definition upsert_tool :: "obj \<Rightarrow> obj \<Rightarrow> ustr \<Rightarrow> py_error + obj" where
  "upsert_tool st payload status =
     (case nonempty_str (jget (u ''tool_execution_id'') payload) of
        None \<Rightarrow> Inl (MessageStreamError ''tool_execution_id'')
      | Some ident \<Rightarrow>
          let bounded_payload = bound_field (u ''error'') (bound_field (u ''result'') payload) in
          upsert_entity (u ''tool_executions'') (u ''tool_execution_id'') ident
            (\<lambda>d. jset (u ''status'') (JStr status) (dict_update d bounded_payload))
            (jset (u ''status'') (JStr status) bounded_payload) st)"

subsection \<open>Terminal convergence\<close>

definition mark_running_tools_unknown :: "obj \<Rightarrow> py_error + obj" where
  "mark_running_tools_unknown =
     each_entity (u ''tool_executions'') (\<lambda>d.
       Inr (if jget (u ''status'') d = js ''running''
            then jset (u ''completion_reason'') (js ''execution_lost'')
                   (jset (u ''outcome'') (js ''outcome_unknown'')
                     (jset (u ''status'') (js ''completed'') d))
            else d))"

definition finish_running_activities :: "string \<Rightarrow> string \<Rightarrow> string \<Rightarrow> obj \<Rightarrow> py_error + obj" where
  "finish_running_activities terminal_status outcome completion_reason =
     each_entity (u ''activities'') (\<lambda>d.
       bind_res (in_str_set (jget (u ''status'') d) [u ''running'', u ''waiting'', u ''stopping'']) (\<lambda>running.
       if \<not> running then Inr d
       else bind_res
         (if outcome = ''user_interrupt''
          then bind_res (in_str_set (jget (u ''side_effect_policy'') d) [u ''none'', u ''read_only''])
                 (\<lambda>harmless. Inr (\<not> harmless))
          else Inr False) (\<lambda>unknown.
       let resolved_status = (if unknown then ''failed'' else terminal_status);
           resolved_outcome = (if unknown then ''outcome_unknown'' else outcome);
           d' = jset (u ''completion_reason'') (js completion_reason)
                  (jset (u ''outcome'') (js resolved_outcome)
                    (jset (u ''status'') (js resolved_status) d))
       in Inr (if resolved_status = ''failed'' then jset (u ''resumable'') (JBool False) d' else d'))))"

definition finish_running_blocks :: "string \<Rightarrow> obj \<Rightarrow> py_error + obj" where
  "finish_running_blocks status =
     each_entity (u ''blocks'') (\<lambda>d.
       Inr (if jget (u ''status'') d = js ''running''
            then jset (u ''partial'') (JBool True)
                   (jset (u ''completion_reason'')
                      (js (if status = ''interrupted'' then ''user_interrupt'' else ''execution_lost''))
                     (jset (u ''status'') (js status) d))
            else d))"

definition finish_running_model_calls :: "string \<Rightarrow> obj \<Rightarrow> py_error + obj" where
  "finish_running_model_calls outcome =
     each_entity (u ''model_calls'') (\<lambda>d.
       Inr (if jget (u ''status'') d = js ''running''
            then jset (u ''completion_reason'') (js outcome)
                   (jset (u ''retryable'') (JBool False)
                     (jset (u ''outcome'') (js outcome)
                       (jset (u ''status'') (js ''failed'') d)))
            else d))"

definition finish_running_tool_calls :: "string \<Rightarrow> obj \<Rightarrow> py_error + obj" where
  "finish_running_tool_calls reason =
     each_entity (u ''tool_calls'') (\<lambda>d.
       bind_res (in_str_set (jget (u ''status'') d) [u ''accumulating'', u ''streaming'', u ''running'']) (\<lambda>running.
       if \<not> running then Inr d
       else
         let arguments_complete = (jget (u ''arguments_complete'') d = JBool True)
         in Inr (jset (u ''completion_reason'') (js reason)
                  (jset (u ''status'')
                    (js (if reason = ''user_interrupt'' \<and> arguments_complete then ''cancelled''
                         else ''incomplete'')) d))))"

subsection \<open>Entity life cycle\<close>

definition event_timestamp :: "obj \<Rightarrow> ustr option" where
  "event_timestamp event =
     (case nonempty_str (jget (u ''emitted_at'') event) of
        Some s \<Rightarrow> Some s
      | None \<Rightarrow>
          (case jget (u ''payload'') event of
             JObj payload \<Rightarrow> nonempty_str (jget (u ''updated_at'') payload)
           | _ \<Rightarrow> None))"

definition stamp :: "ustr \<Rightarrow> ustr option \<Rightarrow> obj \<Rightarrow> obj" where
  "stamp key ts d = (case ts of None \<Rightarrow> d | Some s \<Rightarrow> jset key (JStr s) d)"

text \<open>One sequence number of an entity with its time stamp: written when there is no integer yet or when
  the stored one passes the test.\<close>

definition mark_seq :: "ustr \<Rightarrow> ustr \<Rightarrow> (int \<Rightarrow> bool) \<Rightarrow> int \<Rightarrow> ustr option \<Rightarrow> obj \<Rightarrow> obj" where
  "mark_seq seq_key at_key replaces event_seq ts entity =
     (if (case plain_int (jget seq_key entity) of None \<Rightarrow> True | Some n \<Rightarrow> replaces n)
      then stamp at_key ts (jset seq_key (JInt event_seq) entity) else entity)"

definition mark_entity_lifecycle :: "obj \<Rightarrow> bool \<Rightarrow> obj \<Rightarrow> py_error + obj" where
  "mark_entity_lifecycle event completed entity =
     (case plain_int (jget (u ''event_seq'') event) of
        None \<Rightarrow> Inl (MessageStreamError ''event_seq'')
      | Some event_seq \<Rightarrow>
          let ts = event_timestamp event;
              e1 = mark_seq (u ''started_seq'') (u ''started_at'') (\<lambda>n. n \<le> 0) event_seq ts entity;
              e2 = mark_seq (u ''last_event_seq'') (u ''updated_at'') (\<lambda>n. event_seq \<ge> n) event_seq ts e1
          in Inr (if completed
                  then mark_seq (u ''completed_seq'') (u ''completed_at'') (\<lambda>n. event_seq \<ge> n) event_seq ts e2
                  else e2))"

text \<open>Mark the first entity with the identifier, when there is one.\<close>

definition mark_first :: "ustr \<Rightarrow> ustr \<Rightarrow> json \<Rightarrow> obj \<Rightarrow> bool \<Rightarrow> obj \<Rightarrow> py_error + obj" where
  "mark_first key id_key ident event completed st =
     (case ident of
        JStr i \<Rightarrow>
          bind_res (find_entity key id_key i st) (\<lambda>found.
          case found of
            None \<Rightarrow> Inr st
          | Some e \<Rightarrow>
              bind_res (mark_entity_lifecycle event completed e) (\<lambda>e'.
                update_entity key id_key i (\<lambda>_. e') st))
      | _ \<Rightarrow> Inr st)"

definition mark_nonempty :: "ustr \<Rightarrow> ustr \<Rightarrow> json \<Rightarrow> obj \<Rightarrow> bool \<Rightarrow> obj \<Rightarrow> py_error + obj" where
  "mark_nonempty key id_key ident event completed st =
     (if nonempty_str ident = None then Inr st else mark_first key id_key ident event completed st)"

definition mark_unfinished :: "ustr \<Rightarrow> obj \<Rightarrow> obj \<Rightarrow> py_error + obj" where
  "mark_unfinished key event =
     each_entity key (\<lambda>d. if has_key (u ''completed_seq'') d then Inr d
                          else mark_entity_lifecycle event True d)"

definition completing_types :: "ustr list" where
  "completing_types = map u [''model.completed'', ''model.failed'', ''block.completed'',
     ''tool_call.completed'', ''tool.completed'', ''activity.completed'', ''activity.failed'']"

definition mark_event_lifecycle :: "py_runtime \<Rightarrow> obj \<Rightarrow> obj \<Rightarrow> py_error + obj" where
  "mark_event_lifecycle rt event st =
     (let event_type = py_str rt (py_or (jget (u ''type'') event) (JStr [])) in
      case jget (u ''payload'') event of
        JObj payload \<Rightarrow>
          (let completed = (event_type \<in> set completing_types);
               ident = (\<lambda>k. py_or (jget k payload) (jget k event))
           in if event_type \<in> {u ''model.started'', u ''model.completed'', u ''model.failed''}
              then mark_nonempty (u ''model_calls'') (u ''model_call_id'') (ident (u ''model_call_id'')) event completed st
              else if event_type \<in> {u ''block.started'', u ''block.delta'', u ''block.completed''}
              then mark_first (u ''blocks'') (u ''block_id'') (ident (u ''block_id'')) event completed st
              else if event_type \<in> {u ''tool_call'', u ''tool_call.delta'', u ''tool_call.completed''}
              then mark_nonempty (u ''tool_calls'') (u ''tool_call_id'') (ident (u ''tool_call_id'')) event completed st
              else if event_type \<in> {u ''tool.started'', u ''tool.completed''}
              then mark_nonempty (u ''tool_executions'') (u ''tool_execution_id'')
                     (ident (u ''tool_execution_id'')) event completed st
              else if startswith event_type (u ''activity.'')
              then mark_nonempty (u ''activities'') (u ''activity_id'') (jget (u ''activity_id'') payload) event completed st
              else if event_type \<in> {u ''stream.interrupted'', u ''stream.failed''}
              then bind_res (mark_unfinished (u ''model_calls'') event st) (\<lambda>st1.
                   bind_res (mark_unfinished (u ''blocks'') event st1) (\<lambda>st2.
                   bind_res (mark_unfinished (u ''tool_calls'') event st2) (\<lambda>st3.
                   bind_res (mark_unfinished (u ''tool_executions'') event st3) (\<lambda>st4.
                   mark_unfinished (u ''activities'') event st4))))
              else Inr st)
      | _ \<Rightarrow> Inr st)"

fun backfill_lifecycle_metadata :: "py_runtime \<Rightarrow> obj \<Rightarrow> obj list \<Rightarrow> py_error + obj" where
  "backfill_lifecycle_metadata rt st [] = Inr st"
| "backfill_lifecycle_metadata rt st (event # events) =
     bind_res (mark_event_lifecycle rt event st) (\<lambda>st'. backfill_lifecycle_metadata rt st' events)"

subsection \<open>Active state\<close>

definition set_terminal_active_state :: "py_runtime \<Rightarrow> string \<Rightarrow> obj \<Rightarrow> obj \<Rightarrow> obj" where
  "set_terminal_active_state rt status payload st =
     (let previous = jget (u ''active_state'') st;
          previous_get = (\<lambda>k. case previous of JObj d \<Rightarrow> jget k d | _ \<Rightarrow> JNull)
      in set_active_state
           [(u ''kind'', js ''terminal''),
            (u ''phase'', js status),
            (u ''entity_id'', JStr (py_str rt (py_or (jget (u ''turn_stream_id'') st) (JStr [])))),
            (u ''status'', js status),
            (u ''last_kind'', previous_get (u ''kind'')),
            (u ''last_phase'', previous_get (u ''phase'')),
            (u ''reason'', py_or (py_or (jget (u ''completion_reason'') payload) (jget (u ''code'') payload)) (js status))]
           st)"

definition activity_status :: "py_runtime \<Rightarrow> ustr \<Rightarrow> obj \<Rightarrow> obj \<Rightarrow> obj" where
  "activity_status rt event_type payload activity =
     (if event_type = u ''activity.started'' then jset (u ''status'') (js ''running'') activity
      else if event_type = u ''activity.updated''
      then jset (u ''status'')
             (JStr (py_str rt (py_or (py_or (jget (u ''status'') payload) (jget (u ''status'') activity)) (js ''running''))))
             activity
      else if event_type = u ''activity.completed'' then jset (u ''status'') (js ''completed'') activity
      else if event_type = u ''activity.failed''
      then jset (u ''status'') (JStr (py_str rt (py_or (jget (u ''status'') payload) (js ''failed'')))) activity
      else activity)"

text \<open>An event type such as \<^verbatim>\<open>activity.x\<close> sets no status; \<^verbatim>\<open>activity["status"]\<close> then raises a
  \<^verbatim>\<open>KeyError\<close> when neither the entity nor the payload has one.\<close>

definition apply_activity_event :: "py_runtime \<Rightarrow> ustr \<Rightarrow> obj \<Rightarrow> obj \<Rightarrow> py_error + obj" where
  "apply_activity_event rt event_type payload st =
     (case nonempty_str (jget (u ''activity_id'') payload) of
        None \<Rightarrow> Inl (MessageStreamError ''activity_id'')
      | Some ident \<Rightarrow>
          bind_res (find_entity (u ''activities'') (u ''activity_id'') ident st) (\<lambda>found.
          let activity0 = (case found of None \<Rightarrow> [(u ''activity_id'', JStr ident)] | Some d \<Rightarrow> d);
              activity = activity_status rt event_type payload (dict_update activity0 payload) in
          bind_res
            (if found = None then append_entity (u ''activities'') activity st
             else update_entity (u ''activities'') (u ''activity_id'') ident (\<lambda>_. activity) st) (\<lambda>st1.
          if \<not> has_key (u ''status'') activity then Inl (KeyErr (u ''status''))
          else Inr (set_active_state
            [(u ''kind'', js ''activity''),
             (u ''phase'', jget (u ''status'') activity),
             (u ''entity_id'', JStr ident),
             (u ''activity_id'', JStr ident),
             (u ''activity_kind'', jget (u ''kind'') activity),
             (u ''status'', jget (u ''status'') activity),
             (u ''detail_ref'', jget (u ''detail_ref'') activity)] st1))))"

subsection \<open>One event\<close>

text \<open>The branches of \<^verbatim>\<open>apply_event\<close>, in the order of the source.\<close>

definition apply_model_started :: "py_runtime \<Rightarrow> obj \<Rightarrow> obj \<Rightarrow> py_error + obj" where
  "apply_model_started rt payload st =
     bind_res (py_int rt (py_or (jget (u ''attempt'') payload) (JInt 0))) (\<lambda>attempt.
     bind_res
       (upsert_model_call
          (jset (u ''agent_loop_status'') (js ''model_running'')
            (jset (u ''current_attempt'') (JInt attempt)
              (jset (u ''current_model_call_id'') (jget (u ''model_call_id'') payload) st)))
          payload ''running'') (\<lambda>st1.
     Inr (set_active_state
       [(u ''kind'', js ''model_output''),
        (u ''phase'', js ''reasoning''),
        (u ''entity_id'', JStr (py_str rt (py_or (jget (u ''model_call_id'') payload) (JStr [])))),
        (u ''status'', js ''running'')] st1)))"

definition apply_model_finished :: "ustr \<Rightarrow> obj \<Rightarrow> obj \<Rightarrow> py_error + obj" where
  "apply_model_finished event_type payload st =
     bind_res
       (upsert_model_call (jset (u ''agent_loop_status'') (js ''validating'') st) payload
          (if event_type = u ''model.completed'' then ''completed'' else ''failed'')) (\<lambda>st1.
     Inr (if event_type = u ''model.failed'' then jset (u ''failure'') (JObj payload) st1 else st1))"

definition apply_model_retrying :: "obj \<Rightarrow> py_error + obj" where
  "apply_model_retrying st =
     (let st1 = jset (u ''agent_loop_status'') (js ''retrying'') st;
          current = jget (u ''current_model_call_id'') st1
      in each_entity (u ''blocks'') (\<lambda>d.
           Inr (if py_eq (jget (u ''model_call_id'') d) current
                then jset (u ''projection'') (js ''intermediate'') d else d)) st1)"

definition reasoning_carriers :: "ustr list" where
  "reasoning_carriers = map u [''reasoning'', ''reasoning_content'', ''reasoning_items'', ''thinking'',
     ''redacted_thinking'']"

definition apply_block_started :: "py_runtime \<Rightarrow> obj \<Rightarrow> obj \<Rightarrow> obj \<Rightarrow> py_error + obj" where
  "apply_block_started rt event payload st =
     bind_res (upsert_block rt st payload ''running'' (jget (u ''model_call_id'') event)) (\<lambda>(_, st1).
     let carrier_type = py_str rt (py_or (jget (u ''carrier_type'') payload) (js ''text''));
         phase = (if carrier_type \<in> set reasoning_carriers then ''reasoning'' else ''text'')
     in Inr (set_active_state
       [(u ''kind'', js ''model_output''),
        (u ''phase'', js phase),
        (u ''entity_id'', JStr (py_str rt (py_or (jget (u ''block_id'') payload) (JStr [])))),
        (u ''block_id'', jget (u ''block_id'') payload),
        (u ''carrier_type'', JStr carrier_type),
        (u ''status'', js ''running'')] st1))"

definition apply_block_completed :: "py_runtime \<Rightarrow> obj \<Rightarrow> obj \<Rightarrow> py_error + obj" where
  "apply_block_completed rt payload st =
     (case jget (u ''block_id'') payload of
        JStr ident \<Rightarrow>
          update_entity (u ''blocks'') (u ''block_id'') ident (\<lambda>d.
            jset (u ''partial'') (JBool (truthy (jget_or (u ''partial'') (JBool False) payload)))
              (jset (u ''completion_reason'')
                 (JStr (py_str rt (py_or (jget (u ''completion_reason'') payload) (js ''upstream_completed''))))
                (jset (u ''status'')
                   (JStr (py_str rt (py_or (jget (u ''status'') payload) (js ''completed'')))) d))) st
      | _ \<Rightarrow> Inr st)"

definition tool_call_active :: "py_runtime \<Rightarrow> string \<Rightarrow> string \<Rightarrow> obj \<Rightarrow> obj" where
  "tool_call_active rt phase dflt payload =
     [(u ''kind'', js ''tool_call''),
      (u ''phase'', js phase),
      (u ''entity_id'', JStr (py_str rt (py_or (jget (u ''tool_call_id'') payload) (JStr [])))),
      (u ''tool_call_id'', jget (u ''tool_call_id'') payload),
      (u ''tool_invocation_id'', jget (u ''tool_invocation_id'') payload),
      (u ''tool_attempt_id'', jget (u ''tool_attempt_id'') payload),
      (u ''status'', JStr (py_str rt (py_or (jget (u ''status'') payload) (js dflt))))]"

definition apply_tool_call :: "py_runtime \<Rightarrow> obj \<Rightarrow> obj \<Rightarrow> py_error + obj" where
  "apply_tool_call rt payload st =
     bind_res (upsert_tool_call st payload) (\<lambda>st1.
     Inr (set_active_state (tool_call_active rt ''accumulating'' ''running'' payload) st1))"

definition apply_tool_call_completed :: "py_runtime \<Rightarrow> obj \<Rightarrow> obj \<Rightarrow> py_error + obj" where
  "apply_tool_call_completed rt payload st =
     bind_res (upsert_tool_call st payload) (\<lambda>st1.
     bind_res
       (case jget (u ''tool_call_id'') payload of
          JStr ident \<Rightarrow>
            update_entity (u ''tool_calls'') (u ''tool_call_id'') ident (\<lambda>d.
              jset (u ''completion_reason'')
                 (JStr (py_str rt (py_or (jget (u ''completion_reason'') payload) (js ''execution_lost''))))
                (jset (u ''status'')
                   (JStr (py_str rt (py_or (jget (u ''status'') payload) (js ''incomplete'')))) d)) st1
        | _ \<Rightarrow> Inr st1) (\<lambda>st2.
     Inr (set_active_state (tool_call_active rt ''stopping'' ''incomplete'' payload) st2)))"

definition tool_active :: "py_runtime \<Rightarrow> string \<Rightarrow> ustr \<Rightarrow> obj \<Rightarrow> obj" where
  "tool_active rt phase status payload =
     [(u ''kind'', js ''tool_execution''),
      (u ''phase'', js phase),
      (u ''entity_id'', JStr (py_str rt (py_or (jget (u ''tool_execution_id'') payload) (JStr [])))),
      (u ''tool_execution_id'', jget (u ''tool_execution_id'') payload),
      (u ''tool_call_id'', jget (u ''tool_call_id'') payload),
      (u ''tool_invocation_id'', jget (u ''tool_invocation_id'') payload),
      (u ''tool_attempt_id'', jget (u ''tool_attempt_id'') payload),
      (u ''status'', JStr status)]"

definition apply_tool_started :: "py_runtime \<Rightarrow> obj \<Rightarrow> obj \<Rightarrow> py_error + obj" where
  "apply_tool_started rt payload st =
     bind_res (upsert_tool st payload (u ''running'')) (\<lambda>st1.
     Inr (set_active_state (tool_active rt ''running'' (u ''running'') payload)
            (jset (u ''agent_loop_status'') (js ''tool_running'') st1)))"

definition apply_tool_completed :: "py_runtime \<Rightarrow> obj \<Rightarrow> obj \<Rightarrow> py_error + obj" where
  "apply_tool_completed rt payload st =
     (let status0 = py_str rt (py_or (jget (u ''status'') payload) (js ''completed''));
          tool_status = (if status0 = u ''outcome_unknown'' then u ''completed'' else status0)
      in bind_res (upsert_tool st payload tool_status) (\<lambda>st1.
         Inr (set_active_state (tool_active rt ''stopping'' tool_status payload) st1)))"

definition apply_interrupt_requested :: "py_runtime \<Rightarrow> obj \<Rightarrow> obj \<Rightarrow> obj" where
  "apply_interrupt_requested rt payload st =
     (let previous = jget (u ''active_state'') st;
          previous_get = (\<lambda>k. case previous of JObj d \<Rightarrow> jget k d | _ \<Rightarrow> JNull)
      in jset (u ''active_state'')
           (JObj [(u ''kind'', js ''interrupting''),
                  (u ''phase'', js ''stopping''),
                  (u ''entity_id'', JStr (py_str rt (py_or (jget (u ''interrupt_request_id'') payload) (JStr [])))),
                  (u ''status'', js ''stopping''),
                  (u ''last_kind'', previous_get (u ''kind'')),
                  (u ''last_phase'', previous_get (u ''phase'')),
                  (u ''reason'', jget (u ''reason'') payload)])
           (jset (u ''stream_status'') (js ''interrupting'')
             (jset (u ''interrupt_state'')
               (JObj [(u ''request_id'', jget (u ''interrupt_request_id'') payload),
                      (u ''status'', js ''requested''),
                      (u ''reason'', jget (u ''reason'') payload)]) st)))"

definition apply_interrupt_rejected :: "obj \<Rightarrow> obj \<Rightarrow> obj" where
  "apply_interrupt_rejected payload st =
     (if jget (u ''stream_status'') st \<noteq> js ''interrupting''
      then jset (u ''interrupt_state'')
             (JObj [(u ''request_id'', jget (u ''interrupt_request_id'') payload),
                    (u ''status'', js ''rejected''),
                    (u ''reason'', jget (u ''reason'') payload)]) st
      else st)"

definition apply_stream_completed :: "py_runtime \<Rightarrow> obj \<Rightarrow> obj \<Rightarrow> obj" where
  "apply_stream_completed rt payload st =
     set_terminal_active_state rt ''completed'' payload
       (jset (u ''resumable'') (JBool False)
         (jset (u ''agent_loop_status'') (js ''completed'')
           (jset (u ''stream_status'') (js ''completed'') st)))"

text \<open>The five convergence passes shared by the two abnormal ends of a stream.\<close>

definition converge ::
    "string \<Rightarrow> string \<Rightarrow> string \<Rightarrow> obj \<Rightarrow> py_error + obj" where
  "converge reason block_status activity_terminal st =
     bind_res (finish_running_model_calls reason st) (\<lambda>st1.
     bind_res (finish_running_blocks block_status st1) (\<lambda>st2.
     bind_res (finish_running_tool_calls reason st2) (\<lambda>st3.
     bind_res (mark_running_tools_unknown st3) (\<lambda>st4.
     finish_running_activities activity_terminal reason reason st4))))"

definition confirm_interrupt :: "obj \<Rightarrow> obj \<Rightarrow> py_error + obj" where
  "confirm_interrupt payload st =
     (case jget (u ''interrupt_state'') st of
        JNull \<Rightarrow>
          Inr (jset (u ''interrupt_state'')
            (JObj [(u ''request_id'', jget (u ''interrupt_request_id'') payload),
                   (u ''status'', js ''confirmed'')]) st)
      | JObj d \<Rightarrow> Inr (jset (u ''interrupt_state'') (JObj (jset (u ''status'') (js ''confirmed'') d)) st)
      | _ \<Rightarrow> Inl TypeErr)"

definition apply_stream_interrupted :: "py_runtime \<Rightarrow> obj \<Rightarrow> obj \<Rightarrow> py_error + obj" where
  "apply_stream_interrupted rt payload st =
     bind_res
       (converge ''user_interrupt'' ''interrupted'' ''completed''
         (jset (u ''resumable'') (JBool False)
           (jset (u ''agent_loop_status'') (js ''interrupted'')
             (jset (u ''stream_status'') (js ''interrupted'') st)))) (\<lambda>st1.
     confirm_interrupt payload (set_terminal_active_state rt ''interrupted'' payload st1))"

definition apply_stream_failed :: "py_runtime \<Rightarrow> obj \<Rightarrow> obj \<Rightarrow> py_error + obj" where
  "apply_stream_failed rt payload st =
     (let resumable = JBool (truthy (jget_or (u ''resumable'') (JBool False) payload))
      in bind_res
           (converge ''execution_lost'' ''failed'' ''failed''
             (jset (u ''resumable'') resumable
               (jset (u ''failure'') (clone_json_tree (JObj payload))
                 (jset (u ''agent_loop_status'') (js ''failed'')
                   (jset (u ''stream_status'') (js ''failed'') st))))) (\<lambda>st1.
         Inr (set_terminal_active_state rt ''failed'' payload
           (jset (u ''recovery'')
             (JObj [(u ''status'', js (if jget (u ''code'') payload = js ''execution_lost''
                                       then ''execution_lost'' else ''failed'')),
                    (u ''code'', jget (u ''code'') payload),
                    (u ''message'', jget (u ''message'') payload),
                    (u ''resumable'', resumable)]) st1))))"

definition dispatch_event :: "py_runtime \<Rightarrow> ustr \<Rightarrow> obj \<Rightarrow> obj \<Rightarrow> obj \<Rightarrow> py_error + obj" where
  "dispatch_event rt event_type event payload st =
     (if event_type = u ''stream.opened''
      then Inr (jset (u ''active_state'') JNull (jset (u ''stream_status'') (js ''open'') st))
      else if event_type = u ''model.started'' then apply_model_started rt payload st
      else if event_type \<in> {u ''model.completed'', u ''model.failed''} then apply_model_finished event_type payload st
      else if event_type = u ''model.retrying'' then apply_model_retrying st
      else if event_type = u ''block.started'' then apply_block_started rt event payload st
      else if event_type = u ''block.delta''
      then apply_block_delta rt st payload (jget (u ''model_call_id'') event)
      else if event_type = u ''block.completed'' then apply_block_completed rt payload st
      else if event_type \<in> {u ''tool_call'', u ''tool_call.delta''} then apply_tool_call rt payload st
      else if event_type = u ''tool_call.completed'' then apply_tool_call_completed rt payload st
      else if event_type = u ''tool.started'' then apply_tool_started rt payload st
      else if event_type = u ''tool.completed'' then apply_tool_completed rt payload st
      else if startswith event_type (u ''activity.'') then apply_activity_event rt event_type payload st
      else if event_type = u ''interrupt.requested'' then Inr (apply_interrupt_requested rt payload st)
      else if event_type = u ''interrupt.rejected'' then Inr (apply_interrupt_rejected payload st)
      else if event_type = u ''stream.completed'' then Inr (apply_stream_completed rt payload st)
      else if event_type = u ''stream.interrupted'' then apply_stream_interrupted rt payload st
      else if event_type = u ''stream.failed'' then apply_stream_failed rt payload st
      else Inr st)"

definition source_state :: "ustr \<Rightarrow> obj \<Rightarrow> obj \<Rightarrow> obj" where
  "source_state event_type payload st =
     (if event_type = u ''stream.snapshot''
      then (case jget_or (u ''snapshot'') (JObj payload) payload of JObj d \<Rightarrow> d | _ \<Rightarrow> st)
      else if event_type = u ''block.delta'' then copy_state_for_block_delta st
      else st)"

definition apply_event :: "py_runtime \<Rightarrow> obj \<Rightarrow> obj \<Rightarrow> py_error + obj" where
  "apply_event rt st event =
     (case map_of event (u ''type'') of
        None \<Rightarrow> Inl (KeyErr (u ''type''))
      | Some ty \<Rightarrow>
          let event_type = py_str rt ty in
          (case jget (u ''payload'') event of
             JObj payload \<Rightarrow>
               bind_res (validate_event_payload event_type payload) (\<lambda>_.
               bind_res (dispatch_event rt event_type event payload (source_state event_type payload st)) (\<lambda>st1.
               mark_event_lifecycle rt event st1))
           | _ \<Rightarrow> Inl (MessageStreamError ''payload'')))"

text \<open>Replay of an event log.\<close>

fun replay :: "py_runtime \<Rightarrow> obj \<Rightarrow> obj list \<Rightarrow> py_error + obj" where
  "replay rt st [] = Inr st"
| "replay rt st (event # events) = bind_res (apply_event rt st event) (\<lambda>st'. replay rt st' events)"
end
