(* ===== verification/Message_Stream_Convergence.thy ===== *)
theory Message_Stream_Convergence
  imports Message_Stream_Projection
begin

section \<open>Message stream: entity tables and terminal convergence\<close>

text \<open>
  Facts about the lists of entities in the state (what an update, an append or a pass over a list does to
  the dictionaries in it, and that it touches no other key), the life cycle marks, and the proof that the
  two abnormal ends of a stream leave no entity running.
\<close>

subsection \<open>Entity tables\<close>

text \<open>The list stored under a key, when there is one, and the dictionaries in it.\<close>

definition entities :: "ustr \<Rightarrow> obj \<Rightarrow> json list" where
  "entities key st = (case map_of st key of Some (JArr xs) \<Rightarrow> xs | _ \<Rightarrow> [])"

definition entity_dicts :: "ustr \<Rightarrow> obj \<Rightarrow> obj set" where
  "entity_dicts key st = {d. JObj d \<in> set (entities key st)}"

lemma entities_jset [simp]:
  "entities key (jset key' v st) =
     (if key = key' then (case v of JArr xs \<Rightarrow> xs | _ \<Rightarrow> []) else entities key st)"
  by (simp add: entities_def)

lemma entity_dicts_jset_other [simp]: "key \<noteq> key' \<Longrightarrow> entity_dicts key (jset key' v st) = entity_dicts key st"
  by (simp add: entity_dicts_def)

lemma find_first_strs:
  "find_first p (map (\<lambda>x. JStr (h x)) xs) = None"
  by (induction xs) auto

lemma update_first_strs:
  "update_first p f (map (\<lambda>x. JStr (h x)) xs) = None"
  by (induction xs) auto

lemma find_entity_cases:
  "find_entity key id_key i st = Inr r \<Longrightarrow> r = find_first (\<lambda>d. jget id_key d = JStr i) (entities key st)"
  by (auto simp: find_entity_def entity_list_def py_iter_def entities_def find_first_strs
      split: option.splits json.splits)

lemma update_entity_cases:
  assumes "update_entity key id_key i f st = Inr st'"
  shows "st' = (case update_first (\<lambda>d. jget id_key d = JStr i) f (entities key st) of
                  None \<Rightarrow> st | Some ys \<Rightarrow> jset key (JArr ys) st)"
  using assms
  by (auto simp: update_entity_def entity_list_def py_iter_def entities_def update_first_strs
      split: option.splits json.splits)

lemma append_entity_cases:
  "append_entity key d st = Inr st' \<Longrightarrow> st' = jset key (JArr (entities key st @ [JObj d])) st"
  by (auto simp: append_entity_def entities_def split: option.splits json.splits)

lemma find_first_mem: "find_first p xs = Some d \<Longrightarrow> JObj d \<in> set xs \<and> p d"
  by (induction p xs rule: find_first.induct) (auto split: if_splits)

lemma update_first_Some_iff: "update_first p f xs = None \<longleftrightarrow> find_first p xs = None"
  by (induction p f xs rule: update_first.induct) auto

lemma update_first_mem:
  "update_first p f xs = Some ys \<Longrightarrow> JObj d' \<in> set ys \<Longrightarrow>
   JObj d' \<in> set xs \<or> (\<exists>d. find_first p xs = Some d \<and> d' = f d)"
  by (induction p f xs arbitrary: ys rule: update_first.induct) (auto split: if_splits)

text \<open>What each kind of update does to the dictionaries of the table it works on.\<close>

lemma update_entity_dicts:
  assumes "update_entity key id_key i f st = Inr st'" and "d' \<in> entity_dicts key st'"
  shows "d' \<in> entity_dicts key st \<or> (\<exists>d. d \<in> entity_dicts key st \<and> jget id_key d = JStr i \<and> d' = f d)"
  using assms(2) update_entity_cases [OF assms(1)]
  by (auto simp: entity_dicts_def split: option.splits dest!: update_first_mem find_first_mem)

lemma append_entity_dicts:
  "append_entity key d st = Inr st' \<Longrightarrow> entity_dicts key st' = insert d (entity_dicts key st)"
  by (auto simp: entity_dicts_def dest!: append_entity_cases)

lemma map_res_dicts:
  "map_res (\<lambda>x. case x of JObj d \<Rightarrow> bind_res (f d) (\<lambda>d'. Inr (JObj d')) | _ \<Rightarrow> Inr x) xs = Inr ys \<Longrightarrow>
   JObj d' \<in> set ys \<Longrightarrow> \<exists>d. JObj d \<in> set xs \<and> f d = Inr d'"
  by (induction xs arbitrary: ys) (auto split: json.splits, blast+)

lemma each_entity_dicts:
  assumes "each_entity key f st = Inr st'" and "d' \<in> entity_dicts key st'"
  shows "\<exists>d\<in>entity_dicts key st. f d = Inr d'"
  using assms
  by (auto simp: each_entity_def entity_dicts_def entities_def split: option.splits json.splits
      dest!: map_res_dicts)

text \<open>The operations change no other key.\<close>

lemma entity_ops_frame:
  "update_entity key id_key i f st = Inr st' \<Longrightarrow> k \<noteq> key \<Longrightarrow> map_of st' k = map_of st k"
  "append_entity key d st = Inr st' \<Longrightarrow> k \<noteq> key \<Longrightarrow> map_of st' k = map_of st k"
  "each_entity key g st = Inr st' \<Longrightarrow> k \<noteq> key \<Longrightarrow> map_of st' k = map_of st k"
  by (auto simp: each_entity_def py_iter_def split: option.splits json.splits
      dest!: update_entity_cases append_entity_cases)

lemma entities_frame: "map_of st' k = map_of st k \<Longrightarrow> entities k st' = entities k st"
  by (simp add: entities_def)

lemmas entity_ops_entities = entity_ops_frame [THEN entities_frame]

lemmas entity_dicts_frame = entity_ops_entities [THEN arg_cong [where f = "\<lambda>xs. {d. JObj d \<in> set xs}"],
    folded entity_dicts_def]


subsection \<open>Terminal convergence\<close>

text \<open>The statuses that mean an entity is still at work, per table.\<close>

definition running_statuses :: "(ustr \<times> ustr list) list" where
  "running_statuses =
     [(u ''model_calls'', [u ''running'']),
      (u ''blocks'', [u ''running'']),
      (u ''tool_calls'', [u ''accumulating'', u ''streaming'', u ''running'']),
      (u ''tool_executions'', [u ''running'']),
      (u ''activities'', [u ''running'', u ''waiting'', u ''stopping''])]"

definition str_in :: "json \<Rightarrow> ustr list \<Rightarrow> bool" where
  "str_in v names \<longleftrightarrow> (\<exists>s\<in>set names. v = JStr s)"

lemma str_in_simps [simp]: "str_in (JStr s) names \<longleftrightarrow> s \<in> set names" "str_in v [s] \<longleftrightarrow> v = JStr s"
  by (auto simp: str_in_def)

definition still_running :: "ustr \<Rightarrow> obj \<Rightarrow> bool" where
  "still_running key d \<longleftrightarrow>
     (case map_of running_statuses key of
        None \<Rightarrow> False
      | Some names \<Rightarrow> str_in (jget (u ''status'') d) names)"

definition settled :: "ustr \<Rightarrow> obj \<Rightarrow> bool" where
  "settled key st \<longleftrightarrow> (\<forall>d\<in>entity_dicts key st. \<not> still_running key d)"

fun hashable :: "json \<Rightarrow> bool" where
  "hashable (JArr xs) = False"
| "hashable (JObj d) = False"
| "hashable v = True"

lemma in_str_set_eq: "in_str_set v names = (if hashable v then Inr (str_in v names) else Inl TypeErr)"
  by (cases v) (auto simp: in_str_set_def str_in_def)

lemma settled_frame: "map_of st' k = map_of st k \<Longrightarrow> settled k st' = settled k st"
  by (simp add: settled_def entity_dicts_def entities_def)

lemma each_entity_settles:
  assumes "each_entity key f st = Inr st'" and "\<And>d d'. f d = Inr d' \<Longrightarrow> \<not> still_running key d'"
  shows "settled key st'"
  using each_entity_dicts [OF assms(1)] assms(2) by (auto simp: settled_def)

lemmas settling = still_running_def running_statuses_def Let_def

lemma finish_model_calls_settles:
  "finish_running_model_calls o1 st = Inr st' \<Longrightarrow> settled (u ''model_calls'') st'"
  unfolding finish_running_model_calls_def
  by (erule each_entity_settles) (auto simp: settling)

lemma finish_blocks_settles:
  "b \<noteq> ''running'' \<Longrightarrow> finish_running_blocks b st = Inr st' \<Longrightarrow> settled (u ''blocks'') st'"
  unfolding finish_running_blocks_def
  by (erule each_entity_settles) (auto simp: settling split: if_split_asm)

lemma in_str_set_cases:
  obtains "in_str_set v names = Inl TypeErr"
  | "in_str_set v names = Inr True" "str_in v names"
  | "in_str_set v names = Inr False" "\<not> str_in v names"
  by (cases v) (auto simp: in_str_set_def str_in_def)

lemma finish_tool_calls_settles:
  assumes "finish_running_tool_calls r st = Inr st'"
  shows "settled (u ''tool_calls'') st'"
  using assms unfolding finish_running_tool_calls_def
proof (rule each_entity_settles, goal_cases)
  case (1 d d')
  show ?case
    by (rule in_str_set_cases [of "jget (u ''status'') d" "[u ''accumulating'', u ''streaming'', u ''running'']"])
      (use 1 in \<open>auto simp: settling split: if_split_asm\<close>)
qed

lemma mark_tools_settles:
  "mark_running_tools_unknown st = Inr st' \<Longrightarrow> settled (u ''tool_executions'') st'"
  unfolding mark_running_tools_unknown_def
  by (erule each_entity_settles) (auto simp: settling)

lemma finish_activities_settles:
  assumes "t \<in> {''completed'', ''failed''}" and "finish_running_activities t o2 r st = Inr st'"
  shows "settled (u ''activities'') st'"
  using assms(2) unfolding finish_running_activities_def
proof (rule each_entity_settles, goal_cases)
  case (1 d d')
  have "jget (u ''status'') (if b then jset (u ''resumable'') (JBool False) e else e) = jget (u ''status'') e" for b e
    by simp
  with 1 assms(1) show ?case
    by (cases rule: in_str_set_cases [of "jget (u ''status'') d" "[u ''running'', u ''waiting'', u ''stopping'']"])
      (auto simp: settling simp del: if_split split: if_split_asm)
qed

lemmas finish_settles = finish_model_calls_settles finish_blocks_settles finish_tool_calls_settles
  mark_tools_settles finish_activities_settles

text \<open>Every pass leaves the other tables alone, so that after all five every table is settled.\<close>

lemma finish_frame:
  "finish_running_model_calls o1 st = Inr st' \<Longrightarrow> k \<noteq> u ''model_calls'' \<Longrightarrow> map_of st' k = map_of st k"
  "finish_running_blocks b st = Inr st' \<Longrightarrow> k \<noteq> u ''blocks'' \<Longrightarrow> map_of st' k = map_of st k"
  "finish_running_tool_calls r st = Inr st' \<Longrightarrow> k \<noteq> u ''tool_calls'' \<Longrightarrow> map_of st' k = map_of st k"
  "mark_running_tools_unknown st = Inr st' \<Longrightarrow> k \<noteq> u ''tool_executions'' \<Longrightarrow> map_of st' k = map_of st k"
  "finish_running_activities t o2 r st = Inr st' \<Longrightarrow> k \<noteq> u ''activities'' \<Longrightarrow> map_of st' k = map_of st k"
  unfolding finish_running_model_calls_def finish_running_blocks_def finish_running_tool_calls_def
    mark_running_tools_unknown_def finish_running_activities_def
  by (simp_all add: entity_ops_frame)

definition tables :: "ustr set" where
  "tables = {u ''model_calls'', u ''blocks'', u ''tool_calls'', u ''tool_executions'', u ''activities''}"

lemma converge_settles:
  assumes "converge reason b t st = Inr st'" and "b \<noteq> ''running''" and "t \<in> {''completed'', ''failed''}"
  shows "\<forall>key\<in>tables. settled key st'" and "k \<notin> tables \<Longrightarrow> map_of st' k = map_of st k"
proof -
  from assms(1) obtain s1 s2 s3 s4 where
    1: "finish_running_model_calls reason st = Inr s1" and 2: "finish_running_blocks b s1 = Inr s2"
    and 3: "finish_running_tool_calls reason s2 = Inr s3" and 4: "mark_running_tools_unknown s3 = Inr s4"
    and 5: "finish_running_activities t reason reason s4 = Inr st'"
    by (auto simp: converge_def)
  note fr = finish_frame(1) [OF 1] finish_frame(2) [OF 2] finish_frame(3) [OF 3] finish_frame(4) [OF 4]
    finish_frame(5) [OF 5]
  have "settled (u ''model_calls'') st'"
    using finish_settles(1) [OF 1] by (rule iffD1 [OF settled_frame, rotated]) (simp add: fr(2-5))
  moreover have "settled (u ''blocks'') st'"
    using finish_settles(2) [OF assms(2) 2] by (rule iffD1 [OF settled_frame, rotated]) (simp add: fr(3-5))
  moreover have "settled (u ''tool_calls'') st'"
    using finish_settles(3) [OF 3] by (rule iffD1 [OF settled_frame, rotated]) (simp add: fr(4-5))
  moreover have "settled (u ''tool_executions'') st'"
    using finish_settles(4) [OF 4] by (rule iffD1 [OF settled_frame, rotated]) (simp add: fr(5))
  ultimately show "\<forall>key\<in>tables. settled key st'"
    using finish_settles(5) [OF assms(3) 5] by (simp add: tables_def)
  show "k \<notin> tables \<Longrightarrow> map_of st' k = map_of st k"
    by (simp add: tables_def fr)
qed

subsection \<open>Life cycle marks\<close>

text \<open>The keys a life cycle mark may write.\<close>

definition lifecycle_keys :: "ustr set" where
  "lifecycle_keys = {u ''started_seq'', u ''started_at'', u ''last_event_seq'', u ''updated_at'',
     u ''completed_seq'', u ''completed_at''}"

lemma jget_stamp [simp]: "k \<noteq> key \<Longrightarrow> jget k (stamp key ts d) = jget k d"
  by (simp add: stamp_def split: option.split)

lemma has_key_stamp: "has_key k d \<Longrightarrow> has_key k (stamp key ts d)"
  by (simp add: stamp_def split: option.split)

lemma jget_mark_seq:
  "jget k (mark_seq s a replaces n ts d) =
     (if k = a then (if (case plain_int (jget s d) of None \<Rightarrow> True | Some m \<Rightarrow> replaces m)
                     then jget a (stamp a ts (jset s (JInt n) d)) else jget a d)
      else if k = s then (case plain_int (jget s d) of
                            None \<Rightarrow> JInt n | Some m \<Rightarrow> if replaces m then JInt n else JInt m)
      else jget k d)"
  by (auto simp: mark_seq_def split: option.split)

lemma mark_frame:
  assumes "mark_entity_lifecycle event completed e = Inr e'" and "k \<notin> lifecycle_keys"
  shows "jget k e' = jget k e"
  using assms
  by (auto simp: mark_entity_lifecycle_def lifecycle_keys_def Let_def jget_mark_seq split: option.split_asm)

lemma mark_Inr:
  assumes "mark_entity_lifecycle event completed e = Inr e'"
  obtains n where "jget (u ''event_seq'') event = JInt n"
  using assms by (auto simp: mark_entity_lifecycle_def split: option.split_asm)

lemma mark_started:
  assumes "mark_entity_lifecycle event completed e = Inr e'" and "jget (u ''event_seq'') event = JInt n"
  shows "jget (u ''started_seq'') e' =
    (case plain_int (jget (u ''started_seq'') e) of
       Some m \<Rightarrow> if 0 < m then JInt m else JInt n | None \<Rightarrow> JInt n)"
  using assms by (auto simp: mark_entity_lifecycle_def Let_def jget_mark_seq split: option.split)

lemma mark_last:
  assumes "mark_entity_lifecycle event completed e = Inr e'" and "jget (u ''event_seq'') event = JInt n"
  shows "jget (u ''last_event_seq'') e' =
    (case plain_int (jget (u ''last_event_seq'') e) of Some m \<Rightarrow> JInt (max m n) | None \<Rightarrow> JInt n)"
  using assms by (auto simp: mark_entity_lifecycle_def Let_def jget_mark_seq max_def split: option.split)

lemma mark_completed_seq:
  assumes "mark_entity_lifecycle event completed e = Inr e'" and "jget (u ''event_seq'') event = JInt n"
  shows "jget (u ''completed_seq'') e' =
    (if completed
     then (case plain_int (jget (u ''completed_seq'') e) of Some m \<Rightarrow> JInt (max m n) | None \<Rightarrow> JInt n)
     else jget (u ''completed_seq'') e)"
  using assms by (auto simp: mark_entity_lifecycle_def Let_def jget_mark_seq max_def split: option.split)

lemma mark_completed:
  assumes "mark_entity_lifecycle event True e = Inr e'"
  shows "has_key (u ''completed_seq'') e'"
proof -
  from assms obtain n where n: "jget (u ''event_seq'') event = JInt n" by (rule mark_Inr)
  have "jget (u ''completed_seq'') e' \<noteq> JNull"
    by (simp add: mark_completed_seq [OF assms n] split: option.split)
  then show ?thesis by (auto simp: jget_def has_key_iff split: option.split_asm)
qed

lemma still_running_cong: "jget (u ''status'') d = jget (u ''status'') e \<Longrightarrow> still_running key d = still_running key e"
  unfolding still_running_def by (simp cong: option.case_cong)

lemma lifecycle_not_status [simp]: "u ''status'' \<notin> lifecycle_keys"
  by (simp add: lifecycle_keys_def)

definition closed_table :: "ustr \<Rightarrow> obj \<Rightarrow> bool" where
  "closed_table key st \<longleftrightarrow>
     (\<forall>d\<in>entity_dicts key st. \<not> still_running key d \<and> has_key (u ''completed_seq'') d)"

lemma closed_table_frame: "map_of st' k = map_of st k \<Longrightarrow> closed_table k st' = closed_table k st"
  by (simp add: closed_table_def entity_dicts_def entities_def)

lemma mark_unfinished_closes:
  assumes "mark_unfinished key event st = Inr st'" and "settled key st"
  shows "closed_table key st'"
  unfolding closed_table_def
proof
  fix d' assume "d' \<in> entity_dicts key st'"
  with assms(1) obtain d where d: "d \<in> entity_dicts key st"
    "(if has_key (u ''completed_seq'') d then Inr d else mark_entity_lifecycle event True d) = Inr d'"
    unfolding mark_unfinished_def by (auto dest!: each_entity_dicts)
  then have "jget (u ''status'') d' = jget (u ''status'') d" "has_key (u ''completed_seq'') d'"
    by (auto split: if_split_asm dest: mark_completed intro: mark_frame)
  with d(1) assms(2) show "\<not> still_running key d' \<and> has_key (u ''completed_seq'') d'"
    by (auto simp: settled_def dest: still_running_cong)
qed

lemma mark_unfinished_frame:
  "mark_unfinished key event st = Inr st' \<Longrightarrow> k \<noteq> key \<Longrightarrow> map_of st' k = map_of st k"
  unfolding mark_unfinished_def by (rule entity_ops_frame(3))

text \<open>The terminal branch of the life cycle pass.\<close>

definition mark_terminal :: "obj \<Rightarrow> obj \<Rightarrow> py_error + obj" where
  "mark_terminal event st =
     bind_res (mark_unfinished (u ''model_calls'') event st) (\<lambda>st1.
     bind_res (mark_unfinished (u ''blocks'') event st1) (\<lambda>st2.
     bind_res (mark_unfinished (u ''tool_calls'') event st2) (\<lambda>st3.
     bind_res (mark_unfinished (u ''tool_executions'') event st3) (\<lambda>st4.
     mark_unfinished (u ''activities'') event st4))))"

lemma mark_event_terminal:
  assumes "jget (u ''type'') event = js t" and "t \<in> {''stream.interrupted'', ''stream.failed''}"
    and "jget (u ''payload'') event = JObj payload"
  shows "mark_event_lifecycle rt event st = mark_terminal event st"
proof -
  have "\<not> startswith (u t) (u ''activity.'')"
    using assms(2) by (auto simp: startswith_def u_def)
  with assms show ?thesis
    by (auto simp: mark_event_lifecycle_def mark_terminal_def py_or_def truthy_def)
qed

lemma mark_terminal_closes:
  assumes "mark_terminal event st = Inr st'" and s: "\<forall>key\<in>tables. settled key st"
  shows "\<forall>key\<in>tables. closed_table key st'" and "k \<notin> tables \<Longrightarrow> map_of st' k = map_of st k"
proof -
  from assms(1) obtain s1 s2 s3 s4 where
    1: "mark_unfinished (u ''model_calls'') event st = Inr s1" and 2: "mark_unfinished (u ''blocks'') event s1 = Inr s2"
    and 3: "mark_unfinished (u ''tool_calls'') event s2 = Inr s3"
    and 4: "mark_unfinished (u ''tool_executions'') event s3 = Inr s4"
    and 5: "mark_unfinished (u ''activities'') event s4 = Inr st'"
    by (auto simp: mark_terminal_def)
  note fr = mark_unfinished_frame [OF 1] mark_unfinished_frame [OF 2] mark_unfinished_frame [OF 3]
    mark_unfinished_frame [OF 4] mark_unfinished_frame [OF 5]
  have t: "settled (u ''model_calls'') st" "settled (u ''blocks'') s1" "settled (u ''tool_calls'') s2"
    "settled (u ''tool_executions'') s3" "settled (u ''activities'') s4"
    using s by (simp_all add: tables_def settled_def entity_dicts_def entities_def fr(1-4))
  note c = mark_unfinished_closes [OF 1 t(1)] mark_unfinished_closes [OF 2 t(2)] mark_unfinished_closes [OF 3 t(3)]
    mark_unfinished_closes [OF 4 t(4)] mark_unfinished_closes [OF 5 t(5)]
  show "\<forall>key\<in>tables. closed_table key st'"
    using c by (simp add: tables_def closed_table_def entity_dicts_def entities_def fr(2-5))
  show "k \<notin> tables \<Longrightarrow> map_of st' k = map_of st k"
    by (simp add: tables_def fr)
qed

lemma settled_outside: "key \<in> tables \<Longrightarrow> k \<notin> tables \<Longrightarrow> settled key (jset k v st) = settled key st"
  by (rule settled_frame) auto

lemma tables_literals [simp]:
  "u ''active_state'' \<notin> tables" "u ''interrupt_state'' \<notin> tables" "u ''recovery'' \<notin> tables"
  "u ''stream_status'' \<notin> tables" "u ''agent_loop_status'' \<notin> tables" "u ''resumable'' \<notin> tables"
  "u ''failure'' \<notin> tables" "u ''current_model_call_id'' \<notin> tables" "u ''current_attempt'' \<notin> tables"
  by (simp_all add: tables_def)

lemma apply_stream_interrupted_settles:
  assumes "apply_stream_interrupted rt payload st = Inr st'"
  shows "(\<forall>key\<in>tables. settled key st') \<and> jget (u ''stream_status'') st' = js ''interrupted''"
proof -
  let ?st0 = "jset (u ''resumable'') (JBool False) (jset (u ''agent_loop_status'') (js ''interrupted'')
    (jset (u ''stream_status'') (js ''interrupted'') st))"
  from assms obtain s1 where c: "converge ''user_interrupt'' ''interrupted'' ''completed'' ?st0 = Inr s1"
    and i: "confirm_interrupt payload (set_terminal_active_state rt ''interrupted'' payload s1) = Inr st'"
    by (auto simp: apply_stream_interrupted_def)
  have "\<forall>key\<in>tables. settled key s1" "jget (u ''stream_status'') s1 = js ''interrupted''"
    using converge_settles [OF c] by (simp_all add: jget_def)
  with i show ?thesis
    by (auto simp: confirm_interrupt_def set_terminal_active_state_def set_active_state_def Let_def
        settled_outside split: json.split_asm)
qed

lemma apply_stream_failed_settles:
  assumes "apply_stream_failed rt payload st = Inr st'"
  shows "(\<forall>key\<in>tables. settled key st') \<and> jget (u ''stream_status'') st' = js ''failed''"
proof -
  let ?st0 = "jset (u ''resumable'') (JBool (truthy (jget_or (u ''resumable'') (JBool False) payload)))
    (jset (u ''failure'') (clone_json_tree (JObj payload)) (jset (u ''agent_loop_status'') (js ''failed'')
      (jset (u ''stream_status'') (js ''failed'') st)))"
  from assms obtain s1 where c: "converge ''execution_lost'' ''failed'' ''failed'' ?st0 = Inr s1"
    and i: "\<exists>r. st' = set_terminal_active_state rt ''failed'' payload (jset (u ''recovery'') r s1)"
    by (auto simp: apply_stream_failed_def Let_def)
  have "\<forall>key\<in>tables. settled key s1" "jget (u ''stream_status'') s1 = js ''failed''"
    using converge_settles [OF c] by (simp_all add: jget_def)
  with i show ?thesis
    by (auto simp: set_terminal_active_state_def set_active_state_def Let_def settled_outside)
qed

lemma jget_Some: "jget k d = v \<Longrightarrow> v \<noteq> JNull \<Longrightarrow> map_of d k = Some v"
  by (auto simp: jget_def split: option.split_asm)

lemma dispatch_terminal:
  "dispatch_event rt (u ''stream.interrupted'') event payload st = apply_stream_interrupted rt payload st"
  "dispatch_event rt (u ''stream.failed'') event payload st = apply_stream_failed rt payload st"
  by (simp_all add: dispatch_event_def startswith_def) (simp_all add: u_def)

text \<open>
  C24: after \<^verbatim>\<open>stream.interrupted\<close> or \<^verbatim>\<open>stream.failed\<close> was applied, no model call, block, tool call, tool
  execution or activity is in a running status, each of them carries the sequence number of its completion,
  and the stream status is the terminal one.
\<close>

theorem terminal_event_closes_every_entity:
  assumes "apply_event rt st event = Inr st'"
    and "jget (u ''type'') event = js t" and "t \<in> {''stream.interrupted'', ''stream.failed''}"
  shows "(\<forall>key\<in>tables. closed_table key st')
    \<and> jget (u ''stream_status'') st' = js (if t = ''stream.interrupted'' then ''interrupted'' else ''failed'')"
proof -
  from jget_Some [OF assms(2)] assms(1) obtain payload st1 where
    p: "jget (u ''payload'') event = JObj payload"
    and d: "dispatch_event rt (u t) event payload (source_state (u t) payload st) = Inr st1"
    and m: "mark_event_lifecycle rt event st1 = Inr st'"
    by (auto simp: apply_event_def Let_def split: json.split_asm)
  from d assms(3) have s: "\<forall>key\<in>tables. settled key st1"
    and q: "jget (u ''stream_status'') st1 = js (if t = ''stream.interrupted'' then ''interrupted'' else ''failed'')"
    by (auto simp: dispatch_terminal dest!: apply_stream_interrupted_settles apply_stream_failed_settles)
  from m have "mark_terminal event st1 = Inr st'"
    by (simp add: mark_event_terminal [OF assms(2,3) p])
  from mark_terminal_closes [OF this s] q show ?thesis
    by (simp add: jget_def)
qed

text \<open>A runtime and a state for the concrete instances.\<close>

definition sample_runtime :: py_runtime where
  "sample_runtime = \<lparr>repr_of = (\<lambda>_. []), int_of_str = (\<lambda>_. None)\<rparr>"

definition sample_state :: obj where
  "sample_state =
     [(u ''blocks'', JArr [JObj [(u ''block_id'', js ''b1''), (u ''status'', js ''running''), (u ''text'', js ''ab'')]]),
      (u ''activities'', JArr [JObj [(u ''activity_id'', js ''a1''), (u ''status'', js ''waiting'')]])]"

definition sample_event :: "string \<Rightarrow> obj \<Rightarrow> obj" where
  "sample_event ty payload = [(u ''type'', js ty), (u ''event_seq'', JInt 7), (u ''payload'', JObj payload)]"

theorem terminal_event_closes_every_entity_witness:
  "\<exists>st'. apply_event sample_runtime sample_state (sample_event ''stream.interrupted'' []) = Inr st'
     \<and> (\<forall>key\<in>tables. closed_table key st')"
proof -
  have "\<not> isl (apply_event sample_runtime sample_state (sample_event ''stream.interrupted'' []))"
    by code_simp
  then obtain st' where "apply_event sample_runtime sample_state (sample_event ''stream.interrupted'' []) = Inr st'"
    by (cases "apply_event sample_runtime sample_state (sample_event ''stream.interrupted'' [])") auto
  with terminal_event_closes_every_entity [OF this] show ?thesis
    by (simp add: sample_event_def jget_def)
qed

end
