(* ===== verification/Message_Stream_Growth.thy ===== *)
theory Message_Stream_Growth
  imports Message_Stream_Convergence
begin

section \<open>Message stream: entities are never dropped or duplicated\<close>

text \<open>
  The identifiers of each of the five tables only grow: every branch of the projection either leaves them
  as they are or appends a fresh one. The tables are interpretations of \<^verbatim>\<open>append_only\<close>, which carries the
  result over any replay.
\<close>

subsection \<open>Tables only grow\<close>

definition table_ids :: "(ustr \<times> ustr) set" where
  "table_ids = {(u ''model_calls'', u ''model_call_id''), (u ''blocks'', u ''block_id''),
     (u ''tool_calls'', u ''tool_call_id''), (u ''tool_executions'', u ''tool_execution_id''),
     (u ''activities'', u ''activity_id'')}"

fun id_of :: "ustr \<Rightarrow> json \<Rightarrow> ustr option" where
  "id_of id_key (JObj d) = (case jget id_key d of JStr s \<Rightarrow> Some s | _ \<Rightarrow> None)"
| "id_of id_key _ = None"

definition ids :: "ustr \<times> ustr \<Rightarrow> obj \<Rightarrow> ustr list" where
  "ids t st = List.map_filter (id_of (snd t)) (entities (fst t) st)"

definition grows :: "ustr \<times> ustr \<Rightarrow> obj \<Rightarrow> obj \<Rightarrow> bool" where
  "grows t st st' \<longleftrightarrow> (\<exists>new. ids t st' = ids t st @ new \<and> distinct new \<and> set new \<inter> set (ids t st) = {})"

lemma grows_refl [simp]: "grows t st st"
  by (simp add: grows_def)

lemma grows_same: "ids t st' = ids t st \<Longrightarrow> grows t st st'"
  by (simp add: grows_def)

lemma grows_trans: "grows t a b \<Longrightarrow> grows t b c \<Longrightarrow> grows t a c"
  unfolding grows_def by (fastforce simp: Int_Un_distrib)

lemma grows_frame: "map_of st' (fst t) = map_of st (fst t) \<Longrightarrow> grows t st st'"
  by (rule grows_same) (simp add: ids_def entities_def)

lemma table_ids_tables: "(key, id_key) \<in> table_ids \<Longrightarrow> key \<in> tables"
  by (auto simp: table_ids_def tables_def)

lemma table_ids_fun: "(key, i) \<in> table_ids \<Longrightarrow> (key, j) \<in> table_ids \<Longrightarrow> i = j"
  by (auto simp: table_ids_def)

lemma grows_jset: "t \<in> table_ids \<Longrightarrow> k \<notin> tables \<Longrightarrow> grows t st (jset k v st)"
  by (rule grows_frame) (use table_ids_tables in \<open>cases t, auto\<close>)

lemma grows_jset_after: "t \<in> table_ids \<Longrightarrow> k \<notin> tables \<Longrightarrow> grows t st (jset k v st') = grows t st st'"
  using table_ids_tables [of "fst t" "snd t"] by (auto simp: grows_def ids_def entities_def)

lemma grows_jset_before: "t \<in> table_ids \<Longrightarrow> k \<notin> tables \<Longrightarrow> grows t (jset k v st) st' = grows t st st'"
  using table_ids_tables [of "fst t" "snd t"] by (auto simp: grows_def ids_def entities_def)

lemma map_filter_simps [simp]:
  "List.map_filter f [] = []"
  "List.map_filter f (x # xs) = (case f x of None \<Rightarrow> List.map_filter f xs | Some y \<Rightarrow> y # List.map_filter f xs)"
  "List.map_filter f (xs @ ys) = List.map_filter f xs @ List.map_filter f ys"
  by (auto simp: List.map_filter_def split: option.split)

lemma update_first_ids:
  assumes "\<And>d. jget id_key d = JStr i \<Longrightarrow> jget id_key (f d) = JStr i"
  shows "update_first (\<lambda>d. jget id_key d = JStr i) f xs = Some ys \<Longrightarrow>
    List.map_filter (id_of id_key) ys = List.map_filter (id_of id_key) xs"
proof (induction xs arbitrary: ys)
  case (Cons x xs)
  then show ?case
    by (cases x) (auto simp: assms split: if_split_asm option.split json.split)
qed simp

lemma find_first_None_ids:
  "find_first (\<lambda>d. jget id_key d = JStr i) xs = None \<Longrightarrow> i \<notin> set (List.map_filter (id_of id_key) xs)"
  by (induction "\<lambda>d. jget id_key d = JStr i" xs rule: find_first.induct)
    (auto split: if_split_asm option.split json.split_asm)

lemma update_grows:
  assumes "update_entity key id_key i f st = Inr st'" and "(key, id_key) \<in> table_ids" and "t \<in> table_ids"
    and "\<And>d. jget id_key d = JStr i \<Longrightarrow> jget id_key (f d) = JStr i"
  shows "grows t st st'"
proof (cases "fst t = key")
  case True
  with assms(2,3) have t: "t = (key, id_key)" using table_ids_fun by (cases t) auto
  show ?thesis
    using update_entity_cases [OF assms(1)] update_first_ids [OF assms(4)]
    by (intro grows_same) (auto simp: t ids_def split: option.split_asm)
next
  case False
  then show ?thesis using entity_ops_frame(1) [OF assms(1)] by (intro grows_frame) auto
qed

lemma append_grows:
  assumes "append_entity key d st = Inr st'" and "(key, id_key) \<in> table_ids" and "t \<in> table_ids"
    and "find_entity key id_key i st = Inr None" and "jget id_key d = JStr i"
  shows "grows t st st'"
proof (cases "fst t = key")
  case True
  with assms(2,3) have t: "t = (key, id_key)" using table_ids_fun by (cases t) auto
  from find_first_None_ids find_entity_cases [OF assms(4)] have "i \<notin> set (ids t st)"
    by (simp add: t ids_def)
  with append_entity_cases [OF assms(1)] assms(5) show ?thesis
    by (simp add: grows_def t ids_def)
next
  case False
  then show ?thesis using entity_ops_frame(2) [OF assms(1)] by (intro grows_frame) auto
qed

lemma map_res_ids:
  assumes "\<And>d d'. f d = Inr d' \<Longrightarrow> jget id_key d' = jget id_key d"
  shows "map_res (\<lambda>x. case x of JObj d \<Rightarrow> bind_res (f d) (\<lambda>d'. Inr (JObj d')) | _ \<Rightarrow> Inr x) xs = Inr ys \<Longrightarrow>
   List.map_filter (id_of id_key) ys = List.map_filter (id_of id_key) xs"
  by (induction xs arbitrary: ys) (auto split: json.splits dest!: assms cong: option.case_cong)

lemma each_grows:
  assumes "each_entity key f st = Inr st'" and "(key, id_key) \<in> table_ids" and "t \<in> table_ids"
    and "\<And>d d'. f d = Inr d' \<Longrightarrow> jget id_key d' = jget id_key d"
  shows "grows t st st'"
proof (cases "fst t = key")
  case True
  with assms(2,3) have t: "t = (key, id_key)" using table_ids_fun by (cases t) auto
  from assms(1) show ?thesis
    unfolding each_entity_def
    by (intro grows_same)
      (auto simp: t ids_def entities_def split: option.split_asm json.split_asm dest!: map_res_ids [OF assms(4), rotated])
next
  case False
  then show ?thesis using entity_ops_frame(3) [OF assms(1)] by (intro grows_frame) auto
qed

lemma table_ids_mem [simp]:
  "(u ''model_calls'', u ''model_call_id'') \<in> table_ids" "(u ''blocks'', u ''block_id'') \<in> table_ids"
  "(u ''tool_calls'', u ''tool_call_id'') \<in> table_ids"
  "(u ''tool_executions'', u ''tool_execution_id'') \<in> table_ids"
  "(u ''activities'', u ''activity_id'') \<in> table_ids"
  by (simp_all add: table_ids_def)

lemma jget_update_same:
  assumes "distinct (map fst e)" and "jget k e = v" and "v \<noteq> JNull"
  shows "jget k (dict_update d e) = v"
  using assms jget_Some [OF assms(2,3)] by (simp add: jget_dict_update has_key_iff del: map_of_eq_Some_iff)

lemma jget_al_del [simp]: "jget k (al_del k' d) = (if k = k' then JNull else jget k d)"
  by (simp add: jget_def)

lemma find_entity_id:
  "find_entity key id_key i st = Inr (Some d) \<Longrightarrow> d \<in> entity_dicts key st \<and> jget id_key d = JStr i"
  by (drule find_entity_cases, drule sym, drule find_first_mem) (simp add: entity_dicts_def)

lemma upsert_grows:
  assumes "upsert_entity key id_key i f new st = Inr st'" and "(key, id_key) \<in> table_ids" and "t \<in> table_ids"
    and "\<And>d. jget id_key d = JStr i \<Longrightarrow> jget id_key (f d) = JStr i" and "jget id_key new = JStr i"
  shows "grows t st st'"
  using assms(1) unfolding upsert_entity_def
  by (auto split: if_split_asm intro: update_grows [OF _ assms(2,3)] append_grows [OF _ assms(2,3)] assms(4,5))

lemma upsert_model_call_grows:
  assumes "upsert_model_call st payload status = Inr st'" and "distinct (map fst payload)" and "t \<in> table_ids"
  shows "grows t st st'"
proof (cases "nonempty_str (jget (u ''model_call_id'') payload)")
  case (Some i)
  then have i: "jget (u ''model_call_id'') payload = JStr i" by simp
  from assms(1) Some show ?thesis
    by (auto simp: upsert_model_call_def i jget_update_same [OF assms(2) i]
        intro: upsert_grows [OF _ table_ids_mem(1) assms(3)])
qed (use assms in \<open>simp add: upsert_model_call_def\<close>)

lemma incoming_tool_call_keys:
  "distinct (map fst p) \<Longrightarrow> distinct (map fst (incoming_tool_call p c))"
  "k \<notin> {u ''tool_name'', u ''arguments''} \<Longrightarrow> jget k (incoming_tool_call p c) = jget k p"
  by (simp_all add: incoming_tool_call_def Let_def)

lemma upsert_tool_call_grows:
  assumes "upsert_tool_call st payload = Inr st'" and "distinct (map fst payload)" and "t \<in> table_ids"
  shows "grows t st st'"
proof -
  from assms(1) obtain i where i: "jget (u ''tool_call_id'') payload = JStr i" "i \<noteq> []"
    by (auto simp: upsert_tool_call_def split: option.split_asm)
  have "jget (u ''tool_call_id'') (dict_update d (incoming_tool_call payload c)) = JStr i" for d c
    by (rule jget_update_same) (simp_all add: incoming_tool_call_keys assms(2) i)
  with assms(1) i show ?thesis
    by (auto simp: upsert_tool_call_def intro: upsert_grows [OF _ table_ids_mem(3) assms(3)])
qed

lemma bound_field_keys [simp]:
  "distinct (map fst d) \<Longrightarrow> distinct (map fst (bound_field k d))"
  "k \<noteq> k' \<Longrightarrow> jget k (bound_field k' d) = jget k d"
  by (auto simp: bound_field_def split: json.split)

lemma upsert_tool_grows:
  assumes "upsert_tool st payload status = Inr st'" and "distinct (map fst payload)" and "t \<in> table_ids"
  shows "grows t st st'"
proof -
  let ?p = "bound_field (u ''error'') (bound_field (u ''result'') payload)"
  from assms(1) obtain i where i: "jget (u ''tool_execution_id'') payload = JStr i" "i \<noteq> []"
    by (auto simp: upsert_tool_def split: option.split_asm)
  then have p: "jget (u ''tool_execution_id'') ?p = JStr i" "distinct (map fst ?p)" using assms(2) by simp_all
  from assms(1) i show ?thesis
    by (auto simp: upsert_tool_def Let_def p jget_update_same [OF p(2,1)]
        intro: upsert_grows [OF _ table_ids_mem(4) assms(3)])
qed

lemma new_block_id: "new_block rt i payload status m = Inr b \<Longrightarrow> jget (u ''block_id'') b = JStr i"
  by (auto simp: new_block_def jget_def)

lemma upsert_block_grows:
  assumes "upsert_block rt st payload status m = Inr (i, st')" and "t \<in> table_ids"
  shows "grows t st st' \<and> jget (u ''block_id'') payload = JStr i"
proof -
  from assms(1) have "jget (u ''block_id'') payload = JStr i"
    by (auto simp: upsert_block_def split: option.split_asm)
  with assms show ?thesis
    by (auto simp: upsert_block_def find_block_def split: option.split_asm if_split_asm dest: new_block_id
        intro: update_grows [OF _ table_ids_mem(2)] append_grows [OF _ table_ids_mem(2)])
qed

text \<open>A delta changes text, items and redaction of the block, never its identity.\<close>

lemma entity_ops_jget:
  "update_entity key id_key i f st = Inr st' \<Longrightarrow> k \<noteq> key \<Longrightarrow> jget k st' = jget k st"
  "append_entity key d st = Inr st' \<Longrightarrow> k \<noteq> key \<Longrightarrow> jget k st' = jget k st"
  "each_entity key g st = Inr st' \<Longrightarrow> k \<noteq> key \<Longrightarrow> jget k st' = jget k st"
  by (simp_all add: jget_def entity_ops_frame)

lemma delta_items_frame:
  "delta_items op payload b = Inr b' \<Longrightarrow> k \<noteq> u ''items'' \<Longrightarrow> jget k b' = jget k b"
  by (auto simp: delta_items_def split: json.split_asm if_split_asm dest: entity_ops_jget)

lemma delta_block_frame:
  assumes "delta_block rt payload b = Inr b'" and "k \<notin> {u ''text'', u ''items'', u ''redacted''}"
  shows "jget k b' = jget k b"
proof -
  define op where "op = py_str rt (py_or (jget (u ''operation'') payload) (js ''append''))"
  define b1 where "b1 = (case jget (u ''text'') payload of
    JStr s \<Rightarrow> if op = u ''append'' then jset (u ''text'') (JStr (bounded_stream_text
        (py_str rt (py_or (jget (u ''text'') b) (JStr [])) @ s) MESSAGE_STREAM_BLOCK_TEXT_MAX_CHARS)) b else b
    | _ \<Rightarrow> b)"
  have b1: "jget k b1 = jget k b" using assms(2) by (simp add: b1_def split: json.split)
  from assms(1) obtain b2 where
    "(if op \<in> {u ''item_upsert'', u ''item_patch''} then delta_items op payload b1 else Inr b1) = Inr b2"
    "b' = (if truthy (jget_or (u ''redacted'') (JBool False) payload) then jset (u ''redacted'') (JBool True) b2 else b2)"
    unfolding delta_block_def Let_def op_def [symmetric] b1_def [symmetric] by auto
  with assms(2) b1 show ?thesis by (auto simp: delta_items_frame split: if_split_asm)
qed

lemma apply_block_delta_grows:
  assumes "apply_block_delta rt st payload m = Inr st'" and "t \<in> table_ids"
  shows "grows t st st'"
proof -
  from assms(1) obtain i st1 where u: "upsert_block rt st payload ''running'' m = Inr (i, st1)"
    by (auto simp: apply_block_delta_def)
  with assms(1) obtain found where f: "find_entity (u ''blocks'') (u ''block_id'') i st1 = Inr found"
    by (auto simp: apply_block_delta_def find_block_def)
  have "grows t st1 st'"
  proof (cases found)
    case (Some b)
    with f u assms(1) obtain b' where d: "delta_block rt payload b = Inr b'"
      and upd: "update_entity (u ''blocks'') (u ''block_id'') i (\<lambda>_. b') st1 = Inr st'"
      by (auto simp: apply_block_delta_def find_block_def)
    from f Some have "jget (u ''block_id'') b = JStr i" by (simp add: find_entity_id)
    with delta_block_frame [OF d] have "jget (u ''block_id'') b' = JStr i" by simp
    then show ?thesis by (intro update_grows [OF upd table_ids_mem(2) assms(2)])
  qed (use f u assms(1) in \<open>auto simp: apply_block_delta_def find_block_def\<close>)
  with upsert_block_grows [OF u assms(2)] show ?thesis by (blast intro: grows_trans)
qed

lemma grows_set_active [simp]: "t \<in> table_ids \<Longrightarrow> grows t st (set_active_state a st') = grows t st st'"
  by (simp add: set_active_state_def grows_jset_after)

lemma activity_status_frame: "k \<noteq> u ''status'' \<Longrightarrow> jget k (activity_status rt ty p a) = jget k a"
  by (simp add: activity_status_def)

lemma apply_activity_event_grows:
  assumes "apply_activity_event rt ty payload st = Inr st'" and "distinct (map fst payload)" and "t \<in> table_ids"
  shows "grows t st st'"
proof -
  from assms(1) obtain i where i: "jget (u ''activity_id'') payload = JStr i" "i \<noteq> []"
    by (auto simp: apply_activity_event_def split: option.split_asm)
  have a: "jget (u ''activity_id'') (activity_status rt ty payload (dict_update a0 payload)) = JStr i" for a0
    by (simp add: activity_status_frame jget_update_same [OF assms(2) i(1)])
  from assms(1) i obtain found st1 where
    f: "find_entity (u ''activities'') (u ''activity_id'') i st = Inr found"
    by (auto simp: apply_activity_event_def split: option.split_asm)
  show ?thesis
  proof (cases found)
    case None
    with f assms(1) i obtain a0 b st1 where "st' = set_active_state b st1"
      "append_entity (u ''activities'') (activity_status rt ty payload (dict_update a0 payload)) st = Inr st1"
      by (auto simp: apply_activity_event_def Let_def split: if_split_asm)
    with f None a assms(3) show ?thesis by (auto intro: append_grows [OF _ table_ids_mem(5)])
  next
    case (Some a0)
    with f assms(1) i obtain b st1 where "st' = set_active_state b st1"
      "update_entity (u ''activities'') (u ''activity_id'') i
         (\<lambda>_. activity_status rt ty payload (dict_update a0 payload)) st = Inr st1"
      by (auto simp: apply_activity_event_def Let_def split: if_split_asm)
    with a assms(3) show ?thesis by (auto intro: update_grows [OF _ table_ids_mem(5)])
  qed
qed

lemma finish_grows:
  assumes t: "t \<in> table_ids"
  shows "finish_running_model_calls o1 st = Inr st' \<Longrightarrow> grows t st st'"
    and "finish_running_blocks b st = Inr st' \<Longrightarrow> grows t st st'"
    and "finish_running_tool_calls r st = Inr st' \<Longrightarrow> grows t st st'"
    and "mark_running_tools_unknown st = Inr st' \<Longrightarrow> grows t st st'"
  unfolding finish_running_model_calls_def finish_running_blocks_def finish_running_tool_calls_def
    mark_running_tools_unknown_def
  by (erule each_grows [OF _ table_ids_mem(1) t] each_grows [OF _ table_ids_mem(2) t]
      each_grows [OF _ table_ids_mem(3) t] each_grows [OF _ table_ids_mem(4) t];
      auto simp: Let_def split: if_split_asm)+

lemma finish_activities_grows:
  assumes "finish_running_activities ts o1 r st = Inr st'" and "t \<in> table_ids"
  shows "grows t st st'"
  using assms(1) unfolding finish_running_activities_def
proof (rule each_grows [OF _ table_ids_mem(5) assms(2)], goal_cases)
  case (1 d d')
  have keep: "jget (u ''activity_id'') (if b then jset (u ''resumable'') v e else e) = jget (u ''activity_id'') e" for b v e
    by simp
  from 1 show ?case
    by (cases rule: in_str_set_cases [of "jget (u ''status'') d" "[u ''running'', u ''waiting'', u ''stopping'']"])
      (auto simp: Let_def keep split: if_split_asm)
qed

lemma grows_trans5:
  "grows t a b \<Longrightarrow> grows t b c \<Longrightarrow> grows t c d \<Longrightarrow> grows t d e \<Longrightarrow> grows t e f \<Longrightarrow> grows t a f"
  by (meson grows_trans)

lemma converge_grows:
  assumes "converge r b a st = Inr st'" and t: "t \<in> table_ids"
  shows "grows t st st'"
  using assms(1) unfolding converge_def
  by (auto intro: grows_trans5 [OF finish_grows(1) [OF t] finish_grows(2) [OF t] finish_grows(3) [OF t]
        finish_grows(4) [OF t] finish_activities_grows [OF _ t]])

lemma mark_id: "mark_entity_lifecycle event c e = Inr e' \<Longrightarrow> (key, id_key) \<in> table_ids \<Longrightarrow> jget id_key e' = jget id_key e"
  by (erule mark_frame) (auto simp: table_ids_def lifecycle_keys_def)

lemma mark_first_grows:
  assumes "mark_first key id_key v event c st = Inr st'" and k: "(key, id_key) \<in> table_ids" and "t \<in> table_ids"
  shows "grows t st st'"
proof (cases v)
  case (JStr i)
  with assms(1) obtain found where f: "find_entity key id_key i st = Inr found"
    by (auto simp: mark_first_def)
  show ?thesis
  proof (cases found)
    case (Some e)
    with f assms(1) JStr obtain e' where e': "mark_entity_lifecycle event c e = Inr e'"
      and upd: "update_entity key id_key i (\<lambda>_. e') st = Inr st'"
      by (auto simp: mark_first_def)
    from f Some mark_id [OF e' k] have "jget id_key e' = JStr i" by (simp add: find_entity_id)
    then show ?thesis by (intro update_grows [OF upd k assms(3)])
  qed (use f assms(1) JStr in \<open>simp add: mark_first_def\<close>)
qed (use assms(1) in \<open>auto simp: mark_first_def\<close>)

lemma mark_nonempty_grows:
  "mark_nonempty key id_key v event c st = Inr st' \<Longrightarrow> (key, id_key) \<in> table_ids \<Longrightarrow> t \<in> table_ids \<Longrightarrow> grows t st st'"
  by (auto simp: mark_nonempty_def split: if_split_asm intro: mark_first_grows)

lemma mark_unfinished_grows:
  assumes "mark_unfinished key event st = Inr st'" and k: "(key, id_key) \<in> table_ids" and "t \<in> table_ids"
  shows "grows t st st'"
  using assms(1) unfolding mark_unfinished_def
  by (rule each_grows [OF _ k assms(3)]) (auto split: if_split_asm dest: mark_id [OF _ k])

lemma mark_terminal_grows:
  assumes "mark_terminal event st = Inr st'" and t: "t \<in> table_ids"
  shows "grows t st st'"
  using assms(1) unfolding mark_terminal_def
  by (auto intro: grows_trans5 [OF mark_unfinished_grows [OF _ table_ids_mem(1) t]
        mark_unfinished_grows [OF _ table_ids_mem(2) t] mark_unfinished_grows [OF _ table_ids_mem(3) t]
        mark_unfinished_grows [OF _ table_ids_mem(4) t] mark_unfinished_grows [OF _ table_ids_mem(5) t]])

lemma mark_event_lifecycle_grows:
  assumes "mark_event_lifecycle rt event st = Inr st'" and t: "t \<in> table_ids"
  shows "grows t st st'"
  using assms(1) mark_terminal_grows [OF _ t]
  unfolding mark_event_lifecycle_def mark_terminal_def [symmetric] Let_def
  by (auto split: json.split_asm if_split_asm
      intro: mark_nonempty_grows [OF _ table_ids_mem(1) t] mark_first_grows [OF _ table_ids_mem(2) t]
        mark_nonempty_grows [OF _ table_ids_mem(3) t] mark_nonempty_grows [OF _ table_ids_mem(4) t]
        mark_nonempty_grows [OF _ table_ids_mem(5) t])

text \<open>The branches of the dispatch.\<close>

lemma jset_grows_cong:
  "t \<in> table_ids \<Longrightarrow> k \<notin> tables \<Longrightarrow> grows t (jset k v st) st' \<Longrightarrow> grows t st st'"
  by (simp add: grows_jset_before)

lemma dispatch_model_grows:
  assumes d: "distinct (map fst payload)" and t: "t \<in> table_ids"
  shows "apply_model_started rt payload st = Inr st' \<Longrightarrow> grows t st st'"
    and "apply_model_finished ty payload st = Inr st' \<Longrightarrow> grows t st st'"
    and "apply_model_retrying st = Inr st' \<Longrightarrow> grows t st st'"
proof -
  show "grows t st st'" if "apply_model_started rt payload st = Inr st'"
    using that t by (auto simp: apply_model_started_def grows_jset_before dest!: upsert_model_call_grows [OF _ d t])
  show "grows t st st'" if "apply_model_finished ty payload st = Inr st'"
    using that t by (auto simp: apply_model_finished_def grows_jset_before grows_jset_after
        dest!: upsert_model_call_grows [OF _ d t])
  show "grows t st st'" if "apply_model_retrying st = Inr st'"
  proof -
    from that have "grows t (jset (u ''agent_loop_status'') (js ''retrying'') st) st'"
      unfolding apply_model_retrying_def Let_def by (rule each_grows [OF _ table_ids_mem(2) t]) auto
    then show ?thesis using t by (simp add: grows_jset_before)
  qed
qed

lemma dispatch_block_grows:
  assumes t: "t \<in> table_ids"
  shows "apply_block_started rt event payload st = Inr st' \<Longrightarrow> grows t st st'"
    and "apply_block_completed rt payload st = Inr st' \<Longrightarrow> grows t st st'"
  using t
  by (auto simp: apply_block_started_def apply_block_completed_def Let_def split: json.split_asm
      dest!: upsert_block_grows [OF _ t] intro: update_grows [OF _ table_ids_mem(2) t])

lemma dispatch_tool_grows:
  assumes d: "distinct (map fst payload)" and t: "t \<in> table_ids"
  shows "apply_tool_call rt payload st = Inr st' \<Longrightarrow> grows t st st'"
    and "apply_tool_started rt payload st = Inr st' \<Longrightarrow> grows t st st'"
    and "apply_tool_completed rt payload st = Inr st' \<Longrightarrow> grows t st st'"
  using t
  by (auto simp: apply_tool_call_def apply_tool_started_def apply_tool_completed_def Let_def grows_jset_after
      dest!: upsert_tool_call_grows [OF _ d t] upsert_tool_grows [OF _ d t])

lemma apply_tool_call_completed_grows:
  assumes "apply_tool_call_completed rt payload st = Inr st'" and d: "distinct (map fst payload)" and t: "t \<in> table_ids"
  shows "grows t st st'"
proof -
  from assms(1) obtain st1 where st1: "upsert_tool_call st payload = Inr st1"
    by (auto simp: apply_tool_call_completed_def)
  then obtain i where i: "jget (u ''tool_call_id'') payload = JStr i"
    by (auto simp: upsert_tool_call_def split: option.split_asm)
  from assms(1) st1 i obtain a f x where st': "st' = set_active_state a x"
    and upd: "update_entity (u ''tool_calls'') (u ''tool_call_id'') i f st1 = Inr x"
    and f: "\<And>d. jget (u ''tool_call_id'') (f d) = jget (u ''tool_call_id'') d"
    by (auto simp: apply_tool_call_completed_def)
  have "grows t st1 x" by (rule update_grows [OF upd table_ids_mem(3) t]) (simp add: f)
  then have "grows t st1 st'" using t by (simp add: st')
  with upsert_tool_call_grows [OF st1 d t] show ?thesis by (rule grows_trans)
qed

lemma grows_set_terminal [simp]:
  "t \<in> table_ids \<Longrightarrow> grows t st (set_terminal_active_state rt s p st') = grows t st st'"
  unfolding set_terminal_active_state_def Let_def by simp

lemma grows_set_terminal_before [simp]:
  "t \<in> table_ids \<Longrightarrow> grows t (set_terminal_active_state rt s p st) st' = grows t st st'"
  unfolding set_terminal_active_state_def set_active_state_def Let_def by (simp add: grows_jset_before)

lemma dispatch_end_grows:
  assumes t: "t \<in> table_ids"
  shows "apply_stream_interrupted rt payload st = Inr st' \<Longrightarrow> grows t st st'"
    and "apply_stream_failed rt payload st = Inr st' \<Longrightarrow> grows t st st'"
proof -
  have confirm: "grows t st1 st2" if "confirm_interrupt payload st1 = Inr st2" for st1 st2
    using that t by (auto simp: confirm_interrupt_def grows_jset split: json.split_asm)
  show "grows t st st'" if "apply_stream_interrupted rt payload st = Inr st'"
    using that t unfolding apply_stream_interrupted_def
    by (auto simp: grows_jset_before dest!: converge_grows [OF _ t] confirm intro: grows_trans)
  show "grows t st st'" if "apply_stream_failed rt payload st = Inr st'"
    using that t unfolding apply_stream_failed_def Let_def
    by (auto simp: grows_jset_before grows_jset_after dest!: converge_grows [OF _ t])
qed

lemma dispatch_interrupt_grows:
  assumes t: "t \<in> table_ids"
  shows "grows t st (apply_interrupt_requested rt payload st)"
    and "grows t st (apply_interrupt_rejected payload st)"
    and "grows t st (apply_stream_completed rt payload st)"
  using t unfolding apply_interrupt_requested_def apply_interrupt_rejected_def apply_stream_completed_def Let_def
  by (simp_all add: grows_jset_after)

lemma dispatch_event_grows:
  assumes "dispatch_event rt ty event payload st = Inr st'" and d: "distinct (map fst payload)" and t: "t \<in> table_ids"
  shows "grows t st st'"
  using assms(1) t
  unfolding dispatch_event_def
  by (auto simp: grows_jset_after dispatch_interrupt_grows split: if_split_asm
      intro: dispatch_model_grows [OF d t] dispatch_block_grows [OF t] dispatch_tool_grows [OF d t]
        apply_tool_call_completed_grows [OF _ d t] dispatch_end_grows [OF t] apply_block_delta_grows [OF _ t]
        apply_activity_event_grows [OF _ d t])

subsection \<open>Steps of the projection\<close>

text \<open>An event as it arrives: its payload, when it is an object, has each key once, as a \<^verbatim>\<open>dict\<close> has.
  A snapshot event replaces the whole state and is treated apart.\<close>

definition plain_event :: "py_runtime \<Rightarrow> obj \<Rightarrow> bool" where
  "plain_event rt event \<longleftrightarrow>
     py_str rt (jget (u ''type'') event) \<noteq> u ''stream.snapshot''
     \<and> (case jget (u ''payload'') event of JObj p \<Rightarrow> distinct (map fst p) | _ \<Rightarrow> True)"

lemma apply_event_Inr:
  assumes "apply_event rt st event = Inr st'"
  obtains ty payload st1 where "map_of event (u ''type'') = Some ty" "jget (u ''payload'') event = JObj payload"
    "validate_event_payload (py_str rt ty) payload = Inr ()"
    "dispatch_event rt (py_str rt ty) event payload (source_state (py_str rt ty) payload st) = Inr st1"
    "mark_event_lifecycle rt event st1 = Inr st'"
  using assms by (auto simp: apply_event_def Let_def split: option.split_asm json.split_asm)

lemma source_entities:
  assumes "ty \<noteq> u ''stream.snapshot''"
  shows "entities key (source_state ty payload st) = entities key st"
proof -
  have "map (\<lambda>(k, v). (k, clone_json_tree v)) st = st" by (rule map_idI) auto
  then have "entities key (copy_state_for_block_delta st) = entities key st"
    by (auto simp: copy_state_for_block_delta_def entities_def map_idI split: option.split json.split)
  with assms show ?thesis by (simp add: source_state_def)
qed

lemma source_state_grows:
  "ty \<noteq> u ''stream.snapshot'' \<Longrightarrow> grows t st (source_state ty payload st)"
  by (intro grows_same) (simp add: ids_def source_entities)

lemma apply_event_grows:
  assumes "apply_event rt st event = Inr st'" and "plain_event rt event" and t: "t \<in> table_ids"
  shows "grows t st st'"
  using assms(1)
proof (rule apply_event_Inr)
  fix ty payload st1
  assume a: "map_of event (u ''type'') = Some ty" "jget (u ''payload'') event = JObj payload"
    "dispatch_event rt (py_str rt ty) event payload (source_state (py_str rt ty) payload st) = Inr st1"
    "mark_event_lifecycle rt event st1 = Inr st'"
  then have p: "py_str rt ty \<noteq> u ''stream.snapshot''" "distinct (map fst payload)"
    using assms(2) by (simp_all add: plain_event_def jget_def)
  from grows_trans [OF source_state_grows [OF p(1)] dispatch_event_grows [OF a(3) p(2) t]]
    mark_event_lifecycle_grows [OF a(4) t] show ?thesis
    by (rule grows_trans)
qed

inductive stream_step :: "py_runtime \<Rightarrow> obj \<Rightarrow> obj \<Rightarrow> bool" for rt where
  stream_step: "apply_event rt st event = Inr st' \<Longrightarrow> plain_event rt event \<Longrightarrow> stream_step rt st st'"

lemma stream_step_appends:
  "stream_step rt st st' \<Longrightarrow> t \<in> table_ids \<Longrightarrow>
   \<exists>new. ids t st' = ids t st @ new \<and> distinct new \<and> set new \<inter> set (ids t st) = {}"
  by (induction rule: stream_step.induct) (simp add: apply_event_grows grows_def [symmetric])

interpretation model_calls: append_only "ids (u ''model_calls'', u ''model_call_id'')" "stream_step rt" for rt
  by unfold_locales (erule stream_step_appends, simp)

interpretation blocks: append_only "ids (u ''blocks'', u ''block_id'')" "stream_step rt" for rt
  by unfold_locales (erule stream_step_appends, simp)

interpretation tool_calls: append_only "ids (u ''tool_calls'', u ''tool_call_id'')" "stream_step rt" for rt
  by unfold_locales (erule stream_step_appends, simp)

interpretation tool_executions:
  append_only "ids (u ''tool_executions'', u ''tool_execution_id'')" "stream_step rt" for rt
  by unfold_locales (erule stream_step_appends, simp)

interpretation activities: append_only "ids (u ''activities'', u ''activity_id'')" "stream_step rt" for rt
  by unfold_locales (erule stream_step_appends, simp)

lemma replay_steps:
  "replay rt st events = Inr st' \<Longrightarrow> \<forall>e\<in>set events. plain_event rt e \<Longrightarrow> (stream_step rt)\<^sup>*\<^sup>* st st'"
  by (induction events arbitrary: st) (auto intro: converse_rtranclp_into_rtranclp stream_step)

text \<open>
  C25: replaying any number of events that are not snapshots, on a state in which no identifier of a table
  occurs twice, keeps every entity of the table in its position; new entities are appended and no identifier
  ever occurs twice. (A snapshot replaces the whole state.)
\<close>

theorem replay_never_drops_entities:
  assumes "replay rt st events = Inr st'" and "\<forall>e\<in>set events. plain_event rt e" and "t \<in> table_ids"
    and "distinct (ids t st)"
  shows "\<exists>new. ids t st' = ids t st @ new \<and> distinct (ids t st')"
proof -
  note r = replay_steps [OF assms(1,2)]
  from assms(3,4) show ?thesis
    using model_calls.reachable_ids [OF r] blocks.reachable_ids [OF r] tool_calls.reachable_ids [OF r]
      tool_executions.reachable_ids [OF r] activities.reachable_ids [OF r]
    unfolding table_ids_def by blast
qed

theorem replay_never_drops_entities_witness:
  "\<exists>st' new. replay sample_runtime sample_state
       [sample_event ''block.started'' [(u ''block_id'', js ''b2'')]] = Inr st'
     \<and> ids (u ''blocks'', u ''block_id'') st' = ids (u ''blocks'', u ''block_id'') sample_state @ new"
proof -
  let ?es = "[sample_event ''block.started'' [(u ''block_id'', js ''b2'')]]"
  have "\<not> isl (replay sample_runtime sample_state ?es)" by code_simp
  then obtain st' where r: "replay sample_runtime sample_state ?es = Inr st'"
    by (cases "replay sample_runtime sample_state ?es") auto
  have "\<forall>e\<in>set ?es. plain_event sample_runtime e"
    by (simp add: plain_event_def sample_event_def jget_def)
  moreover have "distinct (ids (u ''blocks'', u ''block_id'') sample_state)"
    by (simp add: ids_def entities_def sample_state_def jget_def)
  ultimately show ?thesis
    using replay_never_drops_entities [OF r _ table_ids_mem(2)] r by blast
qed

end
