(* ===== verification/Message_Stream_Bounds.thy ===== *)
theory Message_Stream_Bounds
  imports Message_Stream_Growth "HOL-Library.Code_Target_Nat"
begin

section \<open>Message stream: bounded texts\<close>

text \<open>
  The text of a block and the result and error texts of a tool execution stay within the limits of the
  display, whatever events arrive.
\<close>

subsection \<open>Bounded texts\<close>

lemma bounded_length:
  assumes "length MESSAGE_STREAM_TEXT_TRUNCATION_MARKER \<le> n"
  shows "length (bounded_stream_text v n) = min (length v) n"
proof (cases "length v \<le> n")
  case False
  let ?k = "n - length MESSAGE_STREAM_TEXT_TRUNCATION_MARKER"
  have "?k div 2 + (?k - ?k div 2) = ?k" "?k div 2 \<le> length v" using False by simp_all
  then show ?thesis using False assms
    by (simp add: bounded_stream_text_def Let_def min_def)
qed (simp add: bounded_stream_text_def)

lemma marker_length: "length MESSAGE_STREAM_TEXT_TRUNCATION_MARKER = 38"
  by (simp add: MESSAGE_STREAM_TEXT_TRUNCATION_MARKER_def)

lemma bounded_limits [simp]:
  "length (bounded_stream_text v MESSAGE_STREAM_BLOCK_TEXT_MAX_CHARS) \<le> MESSAGE_STREAM_BLOCK_TEXT_MAX_CHARS"
  "length (bounded_stream_text v MESSAGE_STREAM_TOOL_TEXT_MAX_CHARS) \<le> MESSAGE_STREAM_TOOL_TEXT_MAX_CHARS"
  by (simp_all add: bounded_length marker_length MESSAGE_STREAM_BLOCK_TEXT_MAX_CHARS_def
      MESSAGE_STREAM_TOOL_TEXT_MAX_CHARS_def)

definition text_within :: "nat \<Rightarrow> json \<Rightarrow> bool" where
  "text_within n v \<longleftrightarrow> (\<forall>s. v = JStr s \<longrightarrow> length s \<le> n)"

lemma text_within_simps [simp]:
  "text_within n (JStr s) \<longleftrightarrow> length s \<le> n" "text_within n JNull"
  by (simp_all add: text_within_def)

definition entity_bounded :: "ustr \<Rightarrow> obj \<Rightarrow> bool" where
  "entity_bounded key d \<longleftrightarrow>
     (key = u ''blocks'' \<longrightarrow> text_within MESSAGE_STREAM_BLOCK_TEXT_MAX_CHARS (jget (u ''text'') d))
     \<and> (key = u ''tool_executions'' \<longrightarrow>
          text_within MESSAGE_STREAM_TOOL_TEXT_MAX_CHARS (jget (u ''result'') d)
          \<and> text_within MESSAGE_STREAM_TOOL_TEXT_MAX_CHARS (jget (u ''error'') d))"

definition texts_bounded :: "obj \<Rightarrow> bool" where
  "texts_bounded st \<longleftrightarrow> (\<forall>key. \<forall>d\<in>entity_dicts key st. entity_bounded key d)"

lemma texts_bounded_jset [simp]: "k \<notin> tables \<Longrightarrow> texts_bounded (jset k v st) = texts_bounded st"
proof -
  assume k: "k \<notin> tables"
  have "entity_bounded k d" for d using k by (auto simp: entity_bounded_def tables_def)
  then have "(\<forall>d\<in>entity_dicts key (jset k v st). entity_bounded key d) = (\<forall>d\<in>entity_dicts key st. entity_bounded key d)" for key
    by (cases "key = k") auto
  then show ?thesis by (simp add: texts_bounded_def)
qed

lemma texts_bounded_other:
  assumes "\<And>k. k \<noteq> key \<Longrightarrow> map_of st' k = map_of st k" and "texts_bounded st"
    and "\<And>d. d \<in> entity_dicts key st' \<Longrightarrow> entity_bounded key d"
  shows "texts_bounded st'"
  unfolding texts_bounded_def
proof (intro allI ballI)
  fix k d
  assume "d \<in> entity_dicts k st'"
  with assms show "entity_bounded k d"
    by (cases "k = key") (auto simp: texts_bounded_def entity_dicts_def entities_def)
qed

lemma update_bounded:
  assumes "update_entity key id_key i f st = Inr st'" and "texts_bounded st"
    and "\<And>d. d \<in> entity_dicts key st \<Longrightarrow> jget id_key d = JStr i \<Longrightarrow> entity_bounded key (f d)"
  shows "texts_bounded st'"
  using entity_ops_frame(1) [OF assms(1)] assms(2)
proof (rule texts_bounded_other)
  fix d' assume "d' \<in> entity_dicts key st'"
  with update_entity_dicts [OF assms(1) this] assms(2,3) show "entity_bounded key d'"
    by (auto simp: texts_bounded_def)
qed

lemma append_bounded:
  assumes "append_entity key d st = Inr st'" and "texts_bounded st" and "entity_bounded key d"
  shows "texts_bounded st'"
  using entity_ops_frame(2) [OF assms(1)] assms(2)
  by (rule texts_bounded_other) (use append_entity_dicts [OF assms(1)] assms(2,3) in \<open>auto simp: texts_bounded_def\<close>)

lemma each_bounded:
  assumes "each_entity key f st = Inr st'" and "texts_bounded st"
    and "\<And>d d'. f d = Inr d' \<Longrightarrow> entity_bounded key d \<Longrightarrow> entity_bounded key d'"
  shows "texts_bounded st'"
  using entity_ops_frame(3) [OF assms(1)] assms(2)
proof (rule texts_bounded_other)
  fix d' assume "d' \<in> entity_dicts key st'"
  with each_entity_dicts [OF assms(1) this] assms(2,3) show "entity_bounded key d'"
    by (auto simp: texts_bounded_def)
qed

text \<open>Rewriting keys other than the bounded ones is harmless.\<close>

lemma entity_bounded_jset [simp]:
  "k \<notin> {u ''text'', u ''result'', u ''error''} \<Longrightarrow> entity_bounded key (jset k v d) = entity_bounded key d"
  by (auto simp: entity_bounded_def)

lemma entity_bounded_cong:
  "(\<And>k. k \<in> {u ''text'', u ''result'', u ''error''} \<Longrightarrow> jget k d' = jget k d) \<Longrightarrow>
   entity_bounded key d' = entity_bounded key d"
  by (simp add: entity_bounded_def)

lemma entity_bounded_free: "key \<notin> {u ''blocks'', u ''tool_executions''} \<Longrightarrow> entity_bounded key d"
  by (auto simp: entity_bounded_def)

lemma mark_bounded:
  "mark_entity_lifecycle event c e = Inr e' \<Longrightarrow> entity_bounded key e' = entity_bounded key e"
  by (rule entity_bounded_cong, erule mark_frame) (auto simp: lifecycle_keys_def)

lemma upsert_bounded:
  assumes "upsert_entity key id_key i f new st = Inr st'" and "texts_bounded st"
    and "\<And>d. entity_bounded key d \<Longrightarrow> entity_bounded key (f d)" and "entity_bounded key new"
  shows "texts_bounded st'"
  using assms(1) unfolding upsert_entity_def
  by (auto split: if_split_asm intro!: assms(3,4) elim!: update_bounded [OF _ assms(2)] append_bounded [OF _ assms(2)])
    (use assms(2) in \<open>auto simp: texts_bounded_def\<close>)

lemma bound_field_within:
  "text_within MESSAGE_STREAM_TOOL_TEXT_MAX_CHARS (jget k (bound_field k d))"
  by (auto simp: bound_field_def text_within_def split: json.split)

lemma upserts_bounded:
  assumes "texts_bounded st"
  shows "upsert_model_call st payload status = Inr st' \<Longrightarrow> texts_bounded st'"
    and "upsert_tool_call st payload = Inr st' \<Longrightarrow> texts_bounded st'"
  unfolding upsert_model_call_def upsert_tool_call_def
  using assms by (auto split: option.split_asm intro: entity_bounded_free elim!: upsert_bounded [OF _ assms])

lemma upsert_tool_bounded:
  assumes "upsert_tool st payload status = Inr st'" and "texts_bounded st" and "distinct (map fst payload)"
  shows "texts_bounded st'"
proof -
  let ?p = "bound_field (u ''error'') (bound_field (u ''result'') payload)"
  have p: "distinct (map fst ?p)" using assms(3) by simp
  have w: "text_within MESSAGE_STREAM_TOOL_TEXT_MAX_CHARS (jget (u ''result'') ?p)"
    "text_within MESSAGE_STREAM_TOOL_TEXT_MAX_CHARS (jget (u ''error'') ?p)"
    using bound_field_within by simp_all
  from assms(1) obtain i where up: "upsert_entity (u ''tool_executions'') (u ''tool_execution_id'') i
      (\<lambda>d. jset (u ''status'') (JStr status) (dict_update d ?p)) (jset (u ''status'') (JStr status) ?p) st = Inr st'"
    by (auto simp: upsert_tool_def Let_def split: option.split_asm)
  show ?thesis
    by (rule upsert_bounded [OF up assms(2)])
      (use w in \<open>simp_all add: entity_bounded_def jget_dict_update [OF p]\<close>)
qed

lemma new_block_bounded: "new_block rt i payload status m = Inr b \<Longrightarrow> entity_bounded (u ''blocks'') b"
  by (auto simp: new_block_def entity_bounded_def jget_def)

lemma upsert_block_bounded:
  assumes "upsert_block rt st payload status m = Inr (i, st')" and "texts_bounded st"
  shows "texts_bounded st'"
  using assms(1) unfolding upsert_block_def
  by (auto split: option.split_asm if_split_asm intro: new_block_bounded
      elim!: update_bounded [OF _ assms(2)] append_bounded [OF _ assms(2)])
    (use assms(2) in \<open>auto simp: texts_bounded_def\<close>)

lemma delta_block_bounded:
  assumes "delta_block rt payload b = Inr b'" and "entity_bounded (u ''blocks'') b"
  shows "entity_bounded (u ''blocks'') b'"
proof -
  define op where "op = py_str rt (py_or (jget (u ''operation'') payload) (js ''append''))"
  define b1 where "b1 = (case jget (u ''text'') payload of
    JStr s \<Rightarrow> if op = u ''append'' then jset (u ''text'') (JStr (bounded_stream_text
        (py_str rt (py_or (jget (u ''text'') b) (JStr [])) @ s) MESSAGE_STREAM_BLOCK_TEXT_MAX_CHARS)) b else b
    | _ \<Rightarrow> b)"
  have b1: "text_within MESSAGE_STREAM_BLOCK_TEXT_MAX_CHARS (jget (u ''text'') b1)"
    using assms(2) by (simp add: b1_def entity_bounded_def split: json.split)
  from assms(1) obtain b2 where
    "(if op \<in> {u ''item_upsert'', u ''item_patch''} then delta_items op payload b1 else Inr b1) = Inr b2"
    "b' = (if truthy (jget_or (u ''redacted'') (JBool False) payload) then jset (u ''redacted'') (JBool True) b2 else b2)"
    unfolding delta_block_def Let_def op_def [symmetric] b1_def [symmetric] by auto
  with b1 show ?thesis by (auto simp: entity_bounded_def delta_items_frame split: if_split_asm)
qed

lemma apply_block_delta_bounded:
  assumes "apply_block_delta rt st payload m = Inr st'" and "texts_bounded st"
  shows "texts_bounded st'"
proof -
  from assms(1) obtain i st1 where u: "upsert_block rt st payload ''running'' m = Inr (i, st1)"
    by (auto simp: apply_block_delta_def)
  note st1 = upsert_block_bounded [OF u assms(2)]
  from u assms(1) obtain found where f: "find_entity (u ''blocks'') (u ''block_id'') i st1 = Inr found"
    by (auto simp: apply_block_delta_def find_block_def)
  show ?thesis
  proof (cases found)
    case (Some b)
    with f u assms(1) obtain b' where d: "delta_block rt payload b = Inr b'"
      and upd: "update_entity (u ''blocks'') (u ''block_id'') i (\<lambda>_. b') st1 = Inr st'"
      by (auto simp: apply_block_delta_def find_block_def)
    from f Some st1 have "entity_bounded (u ''blocks'') b" by (auto dest: find_entity_id simp: texts_bounded_def)
    with delta_block_bounded [OF d] show ?thesis by (intro update_bounded [OF upd st1])
  qed (use f u assms(1) st1 in \<open>auto simp: apply_block_delta_def find_block_def\<close>)
qed

lemma set_active_bounded [simp]: "texts_bounded (set_active_state a st) = texts_bounded st"
  by (simp add: set_active_state_def)

lemma set_terminal_bounded [simp]: "texts_bounded (set_terminal_active_state rt s p st) = texts_bounded st"
  by (simp add: set_terminal_active_state_def Let_def)

lemma apply_activity_event_bounded:
  assumes "apply_activity_event rt ty payload st = Inr st'" and "texts_bounded st"
  shows "texts_bounded st'"
proof -
  have free: "append_entity (u ''activities'') d st = Inr st1 \<Longrightarrow> texts_bounded st1"
    "update_entity (u ''activities'') (u ''activity_id'') i f st = Inr st1 \<Longrightarrow> texts_bounded st1" for d i f st1
    by (auto intro!: entity_bounded_free elim!: append_bounded [OF _ assms(2)] update_bounded [OF _ assms(2)])
  from assms(1) show ?thesis
    unfolding apply_activity_event_def Let_def
    by (auto split: option.split_asm if_split_asm dest: free)
qed

lemma finish_bounded:
  assumes "texts_bounded st"
  shows "finish_running_model_calls o1 st = Inr st' \<Longrightarrow> texts_bounded st'"
    and "finish_running_blocks b st = Inr st' \<Longrightarrow> texts_bounded st'"
    and "finish_running_tool_calls r st = Inr st' \<Longrightarrow> texts_bounded st'"
    and "mark_running_tools_unknown st = Inr st' \<Longrightarrow> texts_bounded st'"
    and "finish_running_activities ts o1 r st = Inr st' \<Longrightarrow> texts_bounded st'"
  unfolding finish_running_model_calls_def finish_running_blocks_def finish_running_tool_calls_def
    mark_running_tools_unknown_def finish_running_activities_def
  by (erule each_bounded [OF _ assms], (rule entity_bounded_free, simp; fail | auto split: if_split_asm))+

lemma converge_bounded: "converge r b a st = Inr st' \<Longrightarrow> texts_bounded st \<Longrightarrow> texts_bounded st'"
  unfolding converge_def by (auto dest!: finish_bounded [rotated])

lemma mark_first_bounded:
  assumes "mark_first key id_key v event c st = Inr st'" and "texts_bounded st"
  shows "texts_bounded st'"
proof (cases v)
  case (JStr i)
  have upd: "texts_bounded st1" if "find_entity key id_key i st = Inr (Some e)"
    "mark_entity_lifecycle event c e = Inr e'" "update_entity key id_key i (\<lambda>_. e') st = Inr st1" for e e' st1
    using find_entity_id [OF that(1)] assms(2)
    by (intro update_bounded [OF that(3) assms(2)]) (auto simp: mark_bounded [OF that(2)] texts_bounded_def)
  from assms JStr show ?thesis by (auto simp: mark_first_def split: option.split_asm dest: upd)
qed (use assms in \<open>auto simp: mark_first_def\<close>)

lemma mark_nonempty_bounded:
  "mark_nonempty key id_key v event c st = Inr st' \<Longrightarrow> texts_bounded st \<Longrightarrow> texts_bounded st'"
  by (auto simp: mark_nonempty_def split: if_split_asm dest: mark_first_bounded)

lemma mark_unfinished_bounded:
  "mark_unfinished key event st = Inr st' \<Longrightarrow> texts_bounded st \<Longrightarrow> texts_bounded st'"
  unfolding mark_unfinished_def
  by (erule (1) each_bounded) (auto simp: mark_bounded split: if_split_asm)

lemma mark_event_lifecycle_bounded:
  assumes "mark_event_lifecycle rt event st = Inr st'" and "texts_bounded st"
  shows "texts_bounded st'"
  using assms unfolding mark_event_lifecycle_def Let_def
  by (auto split: json.split_asm if_split_asm
      dest!: mark_nonempty_bounded mark_first_bounded mark_unfinished_bounded)

lemma confirm_bounded: "confirm_interrupt payload st = Inr st' \<Longrightarrow> texts_bounded st' = texts_bounded st"
  by (auto simp: confirm_interrupt_def split: json.split_asm)

lemma dispatch_event_bounded:
  assumes "dispatch_event rt ty event payload st = Inr st'" and d: "distinct (map fst payload)" and b: "texts_bounded st"
  shows "texts_bounded st'"
proof -
  have started: "texts_bounded st'" if "apply_model_started rt payload st = Inr st'"
    using that b unfolding apply_model_started_def by (auto dest!: upserts_bounded(1) [rotated])
  have finished: "texts_bounded st'" if "apply_model_finished ty payload st = Inr st'"
    using that b unfolding apply_model_finished_def by (auto dest!: upserts_bounded(1) [rotated])
  have retry: "texts_bounded st'" if "apply_model_retrying st = Inr st'"
    using that b unfolding apply_model_retrying_def Let_def by (auto elim!: each_bounded)
  have block: "texts_bounded st'" if "apply_block_started rt event payload st = Inr st'"
    using that b unfolding apply_block_started_def Let_def by (auto dest!: upsert_block_bounded)
  have blockc: "texts_bounded st'" if "apply_block_completed rt payload st = Inr st'"
    using that b unfolding apply_block_completed_def
    by (auto split: json.split_asm elim!: update_bounded) (auto simp: texts_bounded_def)
  have call: "texts_bounded st'" if "apply_tool_call rt payload st = Inr st'"
    using that b unfolding apply_tool_call_def by (auto dest!: upserts_bounded(2) [rotated])
  have free: "update_entity (u ''tool_calls'') (u ''tool_call_id'') i f st1 = Inr st2 \<Longrightarrow>
    texts_bounded st1 \<Longrightarrow> texts_bounded st2" for i f st1 st2
    by (erule (1) update_bounded) (simp add: entity_bounded_free)
  have callc: "texts_bounded st'" if "apply_tool_call_completed rt payload st = Inr st'"
    using that b unfolding apply_tool_call_completed_def
    by (cases "jget (u ''tool_call_id'') payload") (auto dest!: upserts_bounded(2) [rotated] free)
  have tool: "texts_bounded st'"
    if "apply_tool_started rt payload st = Inr st' \<or> apply_tool_completed rt payload st = Inr st'"
    using that b unfolding apply_tool_started_def apply_tool_completed_def Let_def
    by (auto dest!: upsert_tool_bounded [OF _ _ d])
  have ends: "texts_bounded st'"
    if "apply_stream_interrupted rt payload st = Inr st' \<or> apply_stream_failed rt payload st = Inr st'"
    using that b unfolding apply_stream_interrupted_def apply_stream_failed_def Let_def
    by (auto dest!: converge_bounded confirm_bounded)
  have rest: "texts_bounded (apply_interrupt_requested rt payload st)"
    "texts_bounded (apply_interrupt_rejected payload st)" "texts_bounded (apply_stream_completed rt payload st)"
    using b by (simp_all add: apply_interrupt_requested_def apply_interrupt_rejected_def apply_stream_completed_def Let_def)
  from assms(1) b show ?thesis
    unfolding dispatch_event_def
    by (auto split: if_split_asm simp: rest
        intro: started finished retry block blockc call callc tool ends apply_block_delta_bounded apply_activity_event_bounded)
qed

text \<open>The state that a snapshot event carries.\<close>

definition snapshot_of :: "obj \<Rightarrow> obj" where
  "snapshot_of event = (case jget (u ''payload'') event of
     JObj p \<Rightarrow> (case jget_or (u ''snapshot'') (JObj p) p of JObj d \<Rightarrow> d | _ \<Rightarrow> []) | _ \<Rightarrow> [])"

definition dict_payload :: "obj \<Rightarrow> bool" where
  "dict_payload event \<longleftrightarrow> (case jget (u ''payload'') event of JObj p \<Rightarrow> distinct (map fst p) | _ \<Rightarrow> True)"

text \<open>
  C26: no event makes the text of a block longer than 256 K characters or the result or error text of a
  tool execution longer than 64 K characters: if they are within these limits in the state, and for a snapshot event in
  the state that it carries, they are afterwards. (The payload is a Python \<^verbatim>\<open>dict\<close>: no key occurs twice.)
\<close>

theorem event_keeps_texts_bounded:
  assumes "apply_event rt st event = Inr st'" and "dict_payload event" and "texts_bounded st"
    and "py_str rt (jget (u ''type'') event) = u ''stream.snapshot'' \<longrightarrow> texts_bounded (snapshot_of event)"
  shows "texts_bounded st'"
  using assms(1)
proof (rule apply_event_Inr)
  fix ty payload st1
  assume a: "map_of event (u ''type'') = Some ty" "jget (u ''payload'') event = JObj payload"
    "dispatch_event rt (py_str rt ty) event payload (source_state (py_str rt ty) payload st) = Inr st1"
    "mark_event_lifecycle rt event st1 = Inr st'"
  have p: "distinct (map fst payload)" using assms(2) a(2) by (simp add: dict_payload_def)
  have "texts_bounded (source_state (py_str rt ty) payload st)"
  proof (cases "py_str rt ty = u ''stream.snapshot''")
    case True
    with assms(3,4) a(1,2) show ?thesis
      by (auto simp: source_state_def snapshot_of_def jget_def split: json.splits)
  next
    case False
    with assms(3) show ?thesis by (simp add: texts_bounded_def entity_dicts_def source_entities)
  qed
  from dispatch_event_bounded [OF a(3) p this] show ?thesis
    by (rule mark_event_lifecycle_bounded [OF a(4)])
qed

definition block_texts :: "obj \<Rightarrow> json list" where
  "block_texts st = map (\<lambda>b. case b of JObj d \<Rightarrow> jget (u ''text'') d | _ \<Rightarrow> JNull) (entities (u ''blocks'') st)"

theorem event_keeps_texts_bounded_witness:
  "\<exists>st'. apply_event sample_runtime sample_state
       (sample_event ''block.delta'' [(u ''block_id'', js ''b1''), (u ''text'', js ''cd'')]) = Inr st'
     \<and> block_texts st' = [js ''abcd''] \<and> texts_bounded st'"
proof -
  let ?e = "sample_event ''block.delta'' [(u ''block_id'', js ''b1''), (u ''text'', js ''cd'')]"
  have "(case apply_event sample_runtime sample_state ?e of Inr st' \<Rightarrow> block_texts st' = [js ''abcd''] | Inl _ \<Rightarrow> False)"
    by code_simp
  then obtain st' where r: "apply_event sample_runtime sample_state ?e = Inr st'" "block_texts st' = [js ''abcd'']"
    by (auto split: sum.splits)
  have "texts_bounded sample_state"
    by (auto simp: texts_bounded_def entity_dicts_def entities_def sample_state_def entity_bounded_def jget_def
        MESSAGE_STREAM_BLOCK_TEXT_MAX_CHARS_def u_def split: if_splits)
  moreover have "dict_payload ?e" "py_str sample_runtime (jget (u ''type'') ?e) \<noteq> u ''stream.snapshot''"
    by (simp_all add: dict_payload_def sample_event_def jget_def)
  ultimately show ?thesis using event_keeps_texts_bounded [OF r(1)] r by blast
qed

end
