(* ===== verification/Message_Stream_Replay.thy ===== *)
theory Message_Stream_Replay
  imports Message_Stream_Bounds
begin

section \<open>Message stream: life cycle marks and text deltas\<close>

text \<open>
  Life cycle marks are monotone and idempotent; a text delta extends exactly its block.
\<close>

subsection \<open>Marks are idempotent and monotone\<close>

definition seq_le :: "json \<Rightarrow> json \<Rightarrow> bool" where
  "seq_le v w \<longleftrightarrow> (case plain_int v of None \<Rightarrow> True | Some m \<Rightarrow> (\<exists>n\<ge>m. w = JInt n))"

text \<open>
  Marking an entity with an event keeps its first sequence number once that is positive, and never
  lowers the last and the completing sequence number.
\<close>

theorem lifecycle_marks_monotone:
  assumes "mark_entity_lifecycle event completed e = Inr e'"
  shows "(\<forall>m. jget (u ''started_seq'') e = JInt m \<and> 0 < m \<longrightarrow> jget (u ''started_seq'') e' = JInt m)
    \<and> seq_le (jget (u ''last_event_seq'') e) (jget (u ''last_event_seq'') e')
    \<and> seq_le (jget (u ''completed_seq'') e) (jget (u ''completed_seq'') e')"
proof -
  from assms obtain n where n: "jget (u ''event_seq'') event = JInt n"
    by (auto simp: mark_entity_lifecycle_def split: option.split_asm)
  show ?thesis
    by (simp add: mark_started [OF assms n] mark_last [OF assms n] mark_completed_seq [OF assms n] seq_le_def
        split: option.split)
qed

theorem lifecycle_marks_monotone_witness:
  "jget (u ''started_seq'') (al_set (u ''last_event_seq'') (JInt 7) [(u ''started_seq'', JInt 3)]) = JInt 3"
  using lifecycle_marks_monotone [of "sample_event ''block.delta'' []" False "[(u ''started_seq'', JInt 3)]"
      "al_set (u ''last_event_seq'') (JInt 7) [(u ''started_seq'', JInt 3)]"]
  by (simp add: mark_entity_lifecycle_def mark_seq_def stamp_def event_timestamp_def sample_event_def jget_def
      nonempty_str_def)

lemma jset_same [simp]: "map_of d k = Some v \<Longrightarrow> jset k v d = d"
  by (induction d) (auto split: if_split_asm)

definition seq_done :: "ustr \<Rightarrow> ustr \<Rightarrow> (int \<Rightarrow> bool) \<Rightarrow> int \<Rightarrow> ustr option \<Rightarrow> obj \<Rightarrow> bool" where
  "seq_done s a replaces n ts d \<longleftrightarrow>
     (\<exists>m. map_of d s = Some (JInt m) \<and> \<not> replaces m)
     \<or> (map_of d s = Some (JInt n) \<and> (\<forall>t. ts = Some t \<longrightarrow> map_of d a = Some (JStr t)))"

lemma mark_seq_fixed: "seq_done s a replaces n ts d \<Longrightarrow> mark_seq s a replaces n ts d = d"
  by (auto simp: seq_done_def mark_seq_def jget_def stamp_def split: option.split)

lemma mark_seq_done: "s \<noteq> a \<Longrightarrow> seq_done s a replaces n ts (mark_seq s a replaces n ts d)"
  by (auto simp: seq_done_def mark_seq_def stamp_def split: option.split dest: jget_Some)

lemma mark_seq_other:
  "seq_done s a replaces n ts d \<Longrightarrow> {s, a} \<inter> {s', a'} = {} \<Longrightarrow> seq_done s a replaces n ts (mark_seq s' a' replaces' n' ts' d)"
  by (auto simp: seq_done_def mark_seq_def stamp_def split: option.split)

lemma mark_idempotent:
  assumes "mark_entity_lifecycle event c e = Inr e'"
  shows "mark_entity_lifecycle event c e' = Inr e'"
proof -
  from assms obtain n where n: "jget (u ''event_seq'') event = JInt n" by (rule mark_Inr)
  with assms show ?thesis
    by (auto simp: mark_entity_lifecycle_def Let_def mark_seq_fixed mark_seq_done mark_seq_other)
qed

lemma update_first_same:
  "find_first p xs = Some d \<Longrightarrow> f d = d \<Longrightarrow> update_first p f xs = Some xs"
  by (induction p xs rule: find_first.induct) (auto split: if_split_asm)

lemma find_after_update:
  "update_first p f xs = Some ys \<Longrightarrow> find_first p xs = Some d \<Longrightarrow> p (f d) \<Longrightarrow> find_first p ys = Some (f d)"
  by (induction p f xs arbitrary: ys rule: update_first.induct) (auto split: if_split_asm)

lemma find_entity_Some_list:
  assumes "find_entity key id_key i st = Inr (Some d)"
  shows "map_of st key = Some (JArr (entities key st))"
    and "find_first (\<lambda>d. jget id_key d = JStr i) (entities key st) = Some d"
proof -
  from find_entity_cases [OF assms] show f: "find_first (\<lambda>d. jget id_key d = JStr i) (entities key st) = Some d" by simp
  then have "entities key st \<noteq> []" by auto
  then show "map_of st key = Some (JArr (entities key st))"
    by (auto simp: entities_def split: option.split_asm json.split_asm)
qed

lemma find_entity_list:
  "map_of st key = Some (JArr xs) \<Longrightarrow>
   find_entity key id_key i st = Inr (find_first (\<lambda>d. jget id_key d = JStr i) xs)"
  by (simp add: find_entity_def entity_list_def py_iter_def)

lemma update_entity_list:
  "map_of st key = Some (JArr xs) \<Longrightarrow> update_first (\<lambda>d. jget id_key d = JStr i) f xs = Some ys \<Longrightarrow>
   update_entity key id_key i f st = Inr (jset key (JArr ys) st)"
  by (simp add: update_entity_def entity_list_def py_iter_def)

lemma update_first_other:
  assumes "\<And>d. p d \<Longrightarrow> \<not> q d" and "\<And>d. p d \<Longrightarrow> \<not> q (f d)"
  shows "update_first p f xs = Some ys \<Longrightarrow> find_first q ys = find_first q xs"
proof (induction xs arbitrary: ys)
  case (Cons x xs)
  then show ?case by (cases x) (auto simp: assms split: if_split_asm)
qed simp

text \<open>What a lookup returns after an update: the new entity under its identifier, the old one elsewhere.\<close>

lemma find_after_update_entity:
  assumes "find_entity key id_key i st = Inr (Some d)" and "jget id_key e = JStr i"
    and "update_entity key id_key i (\<lambda>_. e) st = Inr st'"
  shows "find_entity key id_key i st' = Inr (Some e)"
    and "j \<noteq> i \<Longrightarrow> find_entity key id_key j st' = find_entity key id_key j st"
    and "k \<noteq> key \<Longrightarrow> map_of st' k = map_of st k"
proof -
  note l = find_entity_Some_list [OF assms(1)]
  then obtain ys where ys: "update_first (\<lambda>d. jget id_key d = JStr i) (\<lambda>_. e) (entities key st) = Some ys"
    using update_first_Some_iff [of "\<lambda>d. jget id_key d = JStr i" "\<lambda>_. e" "entities key st"] by fastforce
  with assms(3) l(1) have st': "st' = jset key (JArr ys) st" by (simp add: update_entity_list)
  then have m: "map_of st' key = Some (JArr ys)" by simp
  show "find_entity key id_key i st' = Inr (Some e)"
    using find_after_update [OF ys l(2)] assms(2) by (simp add: find_entity_list [OF m])
  show "find_entity key id_key j st' = find_entity key id_key j st" if "j \<noteq> i"
    unfolding find_entity_list [OF m] find_entity_list [OF l(1)]
    using that assms(2) by (simp add: update_first_other [OF _ _ ys])
  show "k \<noteq> key \<Longrightarrow> map_of st' k = map_of st k" by (simp add: st')
qed

lemma mark_first_again:
  assumes "mark_first key id_key v event c st = Inr st'" and k: "(key, id_key) \<in> table_ids"
  shows "mark_first key id_key v event c st' = Inr st'"
proof (cases v)
  case (JStr i)
  with assms(1) obtain found where f: "find_entity key id_key i st = Inr found"
    by (auto simp: mark_first_def)
  show ?thesis
  proof (cases found)
    case (Some e)
    with f assms(1) JStr obtain e' where e': "mark_entity_lifecycle event c e = Inr e'"
      and upd: "update_entity key id_key i (\<lambda>_. e') st = Inr st'"
      by (auto simp: mark_first_def)
    from f Some mark_id [OF e' k] have id: "jget id_key e' = JStr i" by (simp add: find_entity_id)
    note f' = find_after_update_entity(1) [OF f [unfolded Some] id upd]
    note l = find_entity_Some_list [OF f']
    have "update_entity key id_key i (\<lambda>_. e') st' = Inr st'"
      by (subst update_entity_list [OF l(1) update_first_same [OF l(2)]]) (simp_all add: l(1))
    with f' JStr show ?thesis by (simp add: mark_first_def mark_idempotent [OF e'])
  qed (use f assms(1) JStr in \<open>simp add: mark_first_def\<close>)
qed (use assms(1) in \<open>auto simp: mark_first_def\<close>)

lemma mark_nonempty_again:
  "mark_nonempty key id_key v event c st = Inr st' \<Longrightarrow> (key, id_key) \<in> table_ids \<Longrightarrow>
   mark_nonempty key id_key v event c st' = Inr st'"
  by (auto simp: mark_nonempty_def mark_first_again split: if_split_asm)

text \<open>A table all of whose entities are complete is left alone by the terminal pass.\<close>

definition all_completed :: "ustr \<Rightarrow> obj \<Rightarrow> bool" where
  "all_completed key st \<longleftrightarrow>
     (case map_of st key of
        None \<Rightarrow> True
      | Some v \<Rightarrow> (\<exists>xs. py_iter v = Inr xs) \<and> (\<forall>d\<in>entity_dicts key st. has_key (u ''completed_seq'') d))"

lemma map_res_id: "(\<And>x. x \<in> set xs \<Longrightarrow> f x = Inr x) \<Longrightarrow> map_res f xs = Inr xs"
  by (induction xs) auto

lemma mark_unfinished_fixed: "all_completed key st \<Longrightarrow> mark_unfinished key event st = Inr st"
proof -
  assume a: "all_completed key st"
  show ?thesis
  proof (cases "\<exists>xs. map_of st key = Some (JArr xs)")
    case True
    then obtain xs where xs: "map_of st key = Some (JArr xs)" by blast
    with a have "map_res (\<lambda>x. case x of
        JObj d \<Rightarrow> bind_res (if has_key (u ''completed_seq'') d then Inr d else mark_entity_lifecycle event True d)
                     (\<lambda>d'. Inr (JObj d'))
      | _ \<Rightarrow> Inr x) xs = Inr xs"
      by (intro map_res_id) (auto simp: all_completed_def entity_dicts_def entities_def split: json.split)
    with xs show ?thesis by (simp add: mark_unfinished_def each_entity_def)
  next
    case False
    with a show ?thesis
      by (auto simp: mark_unfinished_def each_entity_def all_completed_def split: option.split json.split)
  qed
qed

lemma mark_unfinished_completes:
  assumes "mark_unfinished key event st = Inr st'"
  shows "all_completed key st'"
proof -
  have "has_key (u ''completed_seq'') d'" if "d' \<in> entity_dicts key st'" for d'
    using each_entity_dicts [OF assms [unfolded mark_unfinished_def] that]
    by (auto split: if_split_asm dest: mark_completed)
  with assms show ?thesis
    unfolding all_completed_def mark_unfinished_def each_entity_def
    by (auto simp: py_iter_def split: option.split_asm json.split_asm)
qed

lemma all_completed_frame: "map_of st' key = map_of st key \<Longrightarrow> all_completed key st' = all_completed key st"
  unfolding all_completed_def entity_dicts_def entities_def by (simp cong: option.case_cong)

lemma mark_terminal_again:
  assumes "mark_terminal event st = Inr st'"
  shows "mark_terminal event st' = Inr st'"
proof -
  from assms obtain s1 s2 s3 s4 where
    1: "mark_unfinished (u ''model_calls'') event st = Inr s1" and 2: "mark_unfinished (u ''blocks'') event s1 = Inr s2"
    and 3: "mark_unfinished (u ''tool_calls'') event s2 = Inr s3"
    and 4: "mark_unfinished (u ''tool_executions'') event s3 = Inr s4"
    and 5: "mark_unfinished (u ''activities'') event s4 = Inr st'"
    by (auto simp: mark_terminal_def)
  note fr = mark_unfinished_frame [OF 2] mark_unfinished_frame [OF 3] mark_unfinished_frame [OF 4] mark_unfinished_frame [OF 5]
  have "all_completed (u ''model_calls'') st'" "all_completed (u ''blocks'') st'" "all_completed (u ''tool_calls'') st'"
    "all_completed (u ''tool_executions'') st'"
    using all_completed_frame [of st' "u ''model_calls''" s1] all_completed_frame [of st' "u ''blocks''" s2]
      all_completed_frame [of st' "u ''tool_calls''" s3] all_completed_frame [of st' "u ''tool_executions''" s4]
      mark_unfinished_completes [OF 1] mark_unfinished_completes [OF 2] mark_unfinished_completes [OF 3]
      mark_unfinished_completes [OF 4] by (simp_all add: fr)
  with mark_unfinished_completes [OF 5] show ?thesis
    by (simp add: mark_terminal_def mark_unfinished_fixed)
qed

text \<open>The life cycle pass of an event is one of four operations, whatever the state.\<close>

lemma lifecycle_cases:
  obtains
    (one) key id_key v c where "(key, id_key) \<in> table_ids"
      "\<And>st. mark_event_lifecycle rt event st = mark_nonempty key id_key v event c st"
  | (block) v c where "\<And>st. mark_event_lifecycle rt event st = mark_first (u ''blocks'') (u ''block_id'') v event c st"
  | (terminal) "\<And>st. mark_event_lifecycle rt event st = mark_terminal event st"
  | (nothing) "\<And>st. mark_event_lifecycle rt event st = Inr st"
proof (cases "\<exists>payload. jget (u ''payload'') event = JObj payload")
  case True
  then obtain payload where p: "jget (u ''payload'') event = JObj payload" by blast
  let ?ty = "py_str rt (py_or (jget (u ''type'') event) (JStr []))"
  consider (1) "?ty \<in> {u ''model.started'', u ''model.completed'', u ''model.failed''}"
    | (2) "?ty \<in> {u ''block.started'', u ''block.delta'', u ''block.completed''}"
    | (3) "?ty \<in> {u ''tool_call'', u ''tool_call.delta'', u ''tool_call.completed''}"
    | (4) "?ty \<in> {u ''tool.started'', u ''tool.completed''}"
    | (5) "?ty \<notin> {u ''model.started'', u ''model.completed'', u ''model.failed'', u ''block.started'', u ''block.delta'',
        u ''block.completed'', u ''tool_call'', u ''tool_call.delta'', u ''tool_call.completed'', u ''tool.started'',
        u ''tool.completed''}"
    by blast
  then show thesis
  proof cases
    case 1 then show thesis by (intro one [OF table_ids_mem(1)]) (simp add: mark_event_lifecycle_def p Let_def)
  next
    case 2 then show thesis by (intro block) (auto simp: mark_event_lifecycle_def p Let_def)
  next
    case 3 then show thesis by (intro one [OF table_ids_mem(3)]) (auto simp: mark_event_lifecycle_def p Let_def)
  next
    case 4 then show thesis by (intro one [OF table_ids_mem(4)]) (auto simp: mark_event_lifecycle_def p Let_def)
  next
    case 5
    then have m: "mark_event_lifecycle rt event st =
      (if startswith ?ty (u ''activity.'')
       then mark_nonempty (u ''activities'') (u ''activity_id'') (jget (u ''activity_id'') payload) event
              (?ty \<in> set completing_types) st
       else if ?ty \<in> {u ''stream.interrupted'', u ''stream.failed''} then mark_terminal event st else Inr st)" for st
      by (simp add: mark_event_lifecycle_def mark_terminal_def p Let_def)
    consider "startswith ?ty (u ''activity.'')"
      | "\<not> startswith ?ty (u ''activity.'')" "?ty \<in> {u ''stream.interrupted'', u ''stream.failed''}"
      | "\<not> startswith ?ty (u ''activity.'')" "?ty \<notin> {u ''stream.interrupted'', u ''stream.failed''}"
      by blast
    then show thesis
    proof cases
      case 1 then show thesis by (intro one [OF table_ids_mem(5)]) (simp add: m)
    next
      case 2 then show thesis by (intro terminal) (simp add: m)
    next
      case 3
      then have "mark_event_lifecycle rt event st = Inr st" for st by (simp add: m)
      then show thesis by (rule nothing)
    qed
  qed
next
  case False
  then have "mark_event_lifecycle rt event st = Inr st" for st
    by (auto simp: mark_event_lifecycle_def Let_def split: json.split)
  then show thesis by (rule nothing)
qed

text \<open>
  Applying the life cycle pass of an event a second time changes nothing, so backfilling the metadata
  from a log that was already counted is harmless.
\<close>

theorem lifecycle_marks_idempotent:
  assumes "mark_event_lifecycle rt event st = Inr st'"
  shows "mark_event_lifecycle rt event st' = Inr st'"
  using assms mark_nonempty_again mark_first_again [OF _ table_ids_mem(2)] mark_terminal_again
  by (cases rule: lifecycle_cases [of rt event]) auto


theorem lifecycle_marks_idempotent_witness:
  "mark_event_lifecycle sample_runtime (sample_event ''stream.opened'' []) sample_state = Inr sample_state"
  by (rule lifecycle_marks_idempotent [of _ _ sample_state])
    (simp add: mark_event_lifecycle_def sample_event_def jget_def startswith_def, simp add: u_def)

subsection \<open>What a text delta does\<close>

lemma dispatch_delta:
  "dispatch_event rt (u ''block.delta'') event payload st =
     apply_block_delta rt st payload (jget (u ''model_call_id'') event)"
  by (simp add: dispatch_event_def)

lemma mark_event_delta:
  assumes "jget (u ''type'') event = js ''block.delta''" and "jget (u ''payload'') event = JObj payload"
    and "jget (u ''block_id'') payload = JStr i" and "i \<noteq> []"
  shows "mark_event_lifecycle rt event st = mark_first (u ''blocks'') (u ''block_id'') (JStr i) event False st"
  using assms by (simp add: mark_event_lifecycle_def py_or_def truthy_def completing_types_def)

lemma source_state_delta_find:
  assumes "find_entity (u ''blocks'') (u ''block_id'') i st = Inr (Some b)"
  shows "source_state (u ''block.delta'') payload st = st"
  using find_entity_Some_list(1) [OF assms]
  by (simp add: source_state_def copy_state_for_block_delta_def map_idI)

lemma upsert_existing_block:
  assumes "find_entity (u ''blocks'') (u ''block_id'') i st = Inr (Some b)"
    and "jget (u ''block_id'') payload = JStr i" and "i \<noteq> []"
  shows "upsert_block rt st payload status m =
    bind_res (update_entity (u ''blocks'') (u ''block_id'') i (jset (u ''status'') (js status)) st) (\<lambda>st'. Inr (i, st'))"
  using assms by (simp add: upsert_block_def find_block_def)

lemma update_first_found:
  "find_first p xs = Some d \<Longrightarrow> update_first p f xs = update_first p (\<lambda>_. f d) xs"
  by (induction p xs rule: find_first.induct) (auto split: if_split_asm)

lemma update_entity_found:
  assumes "find_entity key id_key i st = Inr (Some d)"
  shows "update_entity key id_key i f st = update_entity key id_key i (\<lambda>_. f d) st"
proof -
  note l = find_entity_Some_list [OF assms]
  note eq = update_first_found [OF l(2), of f]
  show ?thesis by (simp add: update_entity_def entity_list_def py_iter_def l(1) eq)
qed

text \<open>
  A text delta for an existing block appends its text to that block, within the bound, and marks it
  running; every other block and every other part of the state stay as they are.
\<close>

theorem text_delta_extends_its_block:
  assumes "apply_event rt st event = Inr st'"
    and "jget (u ''type'') event = js ''block.delta''" and "jget (u ''payload'') event = JObj payload"
    and "jget (u ''block_id'') payload = JStr i" and "i \<noteq> []"
    and "jget (u ''text'') payload = JStr s" and "jget (u ''operation'') payload \<in> {JNull, js ''append''}"
    and "find_entity (u ''blocks'') (u ''block_id'') i st = Inr (Some b)" and "jget (u ''text'') b = JStr t"
  shows "(\<exists>b'. find_entity (u ''blocks'') (u ''block_id'') i st' = Inr (Some b')
      \<and> jget (u ''text'') b' = JStr (bounded_stream_text (t @ s) MESSAGE_STREAM_BLOCK_TEXT_MAX_CHARS)
      \<and> jget (u ''status'') b' = js ''running'')
    \<and> (\<forall>j. j \<noteq> i \<longrightarrow> find_entity (u ''blocks'') (u ''block_id'') j st' = find_entity (u ''blocks'') (u ''block_id'') j st)
    \<and> (\<forall>k. k \<noteq> u ''blocks'' \<longrightarrow> map_of st' k = map_of st k)"
proof -
  let ?find = "\<lambda>j st. find_entity (u ''blocks'') (u ''block_id'') j st"
  let ?upd = "\<lambda>e st. update_entity (u ''blocks'') (u ''block_id'') i (\<lambda>_. e) st"
  let ?b1 = "jset (u ''status'') (js ''running'') b"
  from jget_Some [OF assms(2)] have ty: "map_of event (u ''type'') = Some (js ''block.delta'')" by simp
  from assms(1) obtain st1 where
    d: "apply_block_delta rt st payload (jget (u ''model_call_id'') event) = Inr st1"
    and mk: "mark_first (u ''blocks'') (u ''block_id'') (JStr i) event False st1 = Inr st'"
    by (rule apply_event_Inr)
      (clarsimp simp: ty assms(3) source_state_delta_find [OF assms(8)] dispatch_delta mark_event_delta [OF assms(2-5)])
  have idb: "jget (u ''block_id'') b = JStr i" using find_entity_id [OF assms(8)] by simp
  note fnd = update_entity_found [OF assms(8), of "jset (u ''status'') (js ''running'')"]
  from d obtain s1 where u1: "?upd ?b1 st = Inr s1"
    by (auto simp: apply_block_delta_def upsert_existing_block [OF assms(8,4,5)] fnd)
  note f1 = find_after_update_entity [OF assms(8) _ u1]
  have fb: "?find i s1 = Inr (Some ?b1)" using f1(1) idb by simp
  from d u1 fb obtain b2 where b2: "delta_block rt payload ?b1 = Inr b2" and u2: "?upd b2 s1 = Inr st1"
    by (auto simp: apply_block_delta_def upsert_existing_block [OF assms(8,4,5)] fnd
        find_block_def)
  have t2: "jget (u ''text'') b2 = JStr (bounded_stream_text (t @ s) MESSAGE_STREAM_BLOCK_TEXT_MAX_CHARS)"
    "jget (u ''status'') b2 = js ''running''" "jget (u ''block_id'') b2 = JStr i"
    using b2 assms(6,7,9) idb delta_block_frame [OF b2] by (auto simp: delta_block_def Let_def)
  note f2 = find_after_update_entity [OF fb t2(3) u2]
  from mk f2(1) obtain b3 where b3: "mark_entity_lifecycle event False b2 = Inr b3" and u3: "?upd b3 st1 = Inr st'"
    by (auto simp: mark_first_def)
  have t3: "jget k b3 = jget k b2" if "k \<in> {u ''text'', u ''status'', u ''block_id''}" for k
    using that by (intro mark_frame [OF b3]) (auto simp: lifecycle_keys_def)
  note f3 = find_after_update_entity [OF f2(1) _ u3]
  show ?thesis
    using f1 f2 f3 idb t2 t3 by auto
qed

theorem text_delta_extends_its_block_witness:
  "\<exists>st' b'. apply_event sample_runtime sample_state
       (sample_event ''block.delta'' [(u ''block_id'', js ''b1''), (u ''text'', js ''c'')]) = Inr st'
     \<and> find_entity (u ''blocks'') (u ''block_id'') (u ''b1'') st' = Inr (Some b')
     \<and> jget (u ''text'') b' = js ''abc''"
proof -
  let ?p = "[(u ''block_id'', js ''b1''), (u ''text'', js ''c'')]"
  let ?e = "sample_event ''block.delta'' ?p"
  let ?b = "[(u ''block_id'', js ''b1''), (u ''status'', js ''running''), (u ''text'', js ''ab'')]"
  have "\<exists>st'. apply_event sample_runtime sample_state ?e = Inr st'"
    by (simp add: apply_event_def sample_event_def jget_def validate_event_payload_def dispatch_delta
        source_state_def copy_state_for_block_delta_def sample_state_def apply_block_delta_def upsert_block_def
        find_block_def find_entity_def update_entity_def entity_list_def py_iter_def delta_block_def
        mark_event_lifecycle_def mark_first_def mark_entity_lifecycle_def completing_types_def py_or_def truthy_def
        jget_or_def Let_def)
  then obtain st' where r: "apply_event sample_runtime sample_state ?e = Inr st'" by blast
  have f: "find_entity (u ''blocks'') (u ''block_id'') (u ''b1'') sample_state = Inr (Some ?b)"
    by (simp add: find_entity_def entity_list_def py_iter_def sample_state_def jget_def)
  have t: "bounded_stream_text (u ''ab'' @ u ''c'') MESSAGE_STREAM_BLOCK_TEXT_MAX_CHARS = u ''abc''"
    by (simp add: bounded_stream_text_def MESSAGE_STREAM_BLOCK_TEXT_MAX_CHARS_def u_def)
  show ?thesis
    using text_delta_extends_its_block [OF r _ _ _ _ _ _ f, of ?p "u ''c''" "u ''ab''"] r t
    by (auto simp: sample_event_def jget_def)
qed

end
