(* ===== verification/Resource_Uri.thy ===== *)
theory Resource_Uri
  imports Utf8_Quote
begin

section \<open>Resource URIs: grammar and construction\<close>

text \<open>
  \<^verbatim>\<open>app/core/resource_uri.py\<close> and \<^verbatim>\<open>validate_session_id\<close> of \<^verbatim>\<open>app/core/identifier.py\<close>. A URI is a
  code point list; every rejection is a value of \<open>uri_error\<close> whose constructor carries the reason code
  of the source. \<^verbatim>\<open>str.lower\<close> is only applied to ASCII text, or compared with a word whose letters no
  other character lowers to, so lowering the ASCII capitals is what it does here.
\<close>

datatype reason_code =
    empty_uri | unknown_scheme | scheme_case_error | userinfo_rejected | query_rejected
  | fragment_rejected | backslash_rejected | control_char_rejected | invalid_percent_encoding
  | invalid_path_encoding | non_ascii_rejected | empty_segment | dot_segment | invalid_character
  | case_error | unknown_scope | unknown_resource_kind | malformed_path

datatype uri_error = GrammarError reason_code | UriValueError

definition SCHEME :: ustr where "SCHEME = u ''boxteam://''"

definition SCOPE_KEYWORDS :: "ustr list" where
  "SCOPE_KEYWORDS = map u [''workspace'', ''user'', ''gateway'', ''inline'']"

definition RESOURCE_KINDS :: "ustr list" where
  "RESOURCE_KINDS = map u [''agent-spec'', ''skills'', ''config'', ''session'', ''workspace'', ''folder'',
     ''files'', ''attachments'']"

definition name_char :: "nat \<Rightarrow> bool" where
  "name_char c \<longleftrightarrow> (65 \<le> c \<and> c \<le> 90) \<or> (97 \<le> c \<and> c \<le> 122) \<or> (48 \<le> c \<and> c \<le> 57) \<or> c = 95 \<or> c = 45"

definition lower_hex :: "nat \<Rightarrow> bool" where
  "lower_hex c \<longleftrightarrow> (48 \<le> c \<and> c \<le> 57) \<or> (97 \<le> c \<and> c \<le> 102)"

definition lower_ascii :: "ustr \<Rightarrow> ustr" where
  "lower_ascii s = map (\<lambda>c. if 65 \<le> c \<and> c \<le> 90 then c + 32 else c) s"

subsection \<open>Identifier patterns\<close>

text \<open>\<^verbatim>\<open>[0-9a-f]{12}7[0-9a-f]{3}[89ab][0-9a-f]{15}\<close>\<close>

definition is_directory_id :: "ustr \<Rightarrow> bool" where
  "is_directory_id s \<longleftrightarrow> length s = 32 \<and> list_all lower_hex s \<and> s ! 12 = 55 \<and> s ! 16 \<in> set (u ''89ab'')"

definition is_gateway_id :: "ustr \<Rightarrow> bool" where
  "is_gateway_id s \<longleftrightarrow> startswith s (u ''gateway_'') \<and> length s = 40 \<and> list_all lower_hex (drop 8 s)"

definition is_attachment_id :: "ustr \<Rightarrow> bool" where
  "is_attachment_id s \<longleftrightarrow> startswith s (u ''att_'') \<and> length s = 36 \<and> list_all lower_hex (drop 4 s)"

definition is_tool_result_id :: "ustr \<Rightarrow> bool" where
  "is_tool_result_id s \<longleftrightarrow> startswith s (u ''tool_'') \<and> length s = 33 \<and> list_all lower_hex (take 24 (drop 5 s))
     \<and> drop 29 s = u ''.txt''"

definition session_artifact_kinds :: "ustr list" where
  "session_artifact_kinds = map u [''attachments'', ''tool-results'']"

definition artifact_id_matches :: "ustr \<Rightarrow> ustr \<Rightarrow> bool" where
  "artifact_id_matches artifact_kind s =
     (if artifact_kind = u ''attachments'' then is_attachment_id s else is_tool_result_id s)"

definition validate_uuid_payload :: "ustr \<Rightarrow> uri_error + unit" where
  "validate_uuid_payload payload =
     bind_res (require (payload ! 12 = 55) UriValueError) (\<lambda>_.
     require (payload ! 16 \<in> set (u ''89ab'')) UriValueError)"

definition validate_session_id :: "ustr \<Rightarrow> uri_error + unit" where
  "validate_session_id v =
     bind_res (require (startswith v (u ''ses_'') \<and> length v = 36 \<and> list_all lower_hex (drop 4 v)) UriValueError)
       (\<lambda>_. validate_uuid_payload (drop 4 v))"

definition validate_thread_id :: "ustr \<Rightarrow> uri_error + unit" where
  "validate_thread_id v =
     bind_res (require (startswith v (u ''thr_'') \<and> length v = 36 \<and> list_all lower_hex (drop 4 v)) UriValueError)
       (\<lambda>_. validate_uuid_payload (drop 4 v))"

subsection \<open>Segments\<close>

record parsed_uri =
  uri_scope :: ustr
  uri_scope_id :: ustr
  uri_kind :: ustr
  uri_logical_name :: ustr
  uri_display :: ustr
  uri_authority :: "ustr option"
  uri_tails :: "ustr list"
  uri_artifact :: "ustr option"

text \<open>\<^verbatim>\<open>attachment_id\<close>: the element access is within range for every URI the parser returns.\<close>

definition attachment_id :: "parsed_uri \<Rightarrow> ustr option" where
  "attachment_id p =
     (if uri_kind p = u ''attachments'' then Some (uri_tails p ! 0)
      else if uri_artifact p = Some (u ''attachments'') then Some (uri_tails p ! 2)
      else None)"

definition has_control_char :: "ustr \<Rightarrow> bool" where
  "has_control_char s \<longleftrightarrow> (\<exists>c\<in>set s. c < 0x20 \<or> (0x7F \<le> c \<and> c \<le> 0x9F))"

definition reject_identity_escape :: "ustr \<Rightarrow> uri_error + unit" where
  "reject_identity_escape segment = require (37 \<notin> set segment) (GrammarError invalid_percent_encoding)"

definition validate_dynamic_segment :: "ustr \<Rightarrow> uri_error + unit" where
  "validate_dynamic_segment segment =
     bind_res (reject_identity_escape segment) (\<lambda>_.
     bind_res (require (segment \<noteq> []) (GrammarError empty_segment)) (\<lambda>_.
     bind_res (require (segment \<notin> {u ''.'', u ''..''}) (GrammarError dot_segment)) (\<lambda>_.
     require (list_all name_char segment) (GrammarError invalid_character))))"

definition encode_file_segment :: "ustr \<Rightarrow> uri_error + ustr" where
  "encode_file_segment segment =
     bind_res (require (segment \<noteq> []) (GrammarError empty_segment)) (\<lambda>_.
     bind_res (require (segment \<notin> {u ''.'', u ''..''}) (GrammarError dot_segment)) (\<lambda>_.
     bind_res (require (47 \<notin> set segment) (GrammarError invalid_character)) (\<lambda>_.
     bind_res (require (92 \<notin> set segment) (GrammarError backslash_rejected)) (\<lambda>_.
     bind_res (require (\<not> has_control_char segment) (GrammarError control_char_rejected)) (\<lambda>_.
     case quote segment of None \<Rightarrow> Inl (GrammarError invalid_path_encoding) | Some q \<Rightarrow> Inr q)))))"

definition decode_file_segment :: "ustr \<Rightarrow> uri_error + ustr" where
  "decode_file_segment segment =
     bind_res (require (\<not> invalid_percent_escape segment) (GrammarError invalid_percent_encoding)) (\<lambda>_.
     case unquote segment of None \<Rightarrow> Inl (GrammarError invalid_path_encoding) | Some s \<Rightarrow> Inr s)"

definition parse_scope :: "ustr \<Rightarrow> uri_error + ustr" where
  "parse_scope segment =
     bind_res (reject_identity_escape segment) (\<lambda>_.
     if segment \<in> set SCOPE_KEYWORDS then Inr segment
     else if lower_ascii segment \<in> set SCOPE_KEYWORDS then Inl (GrammarError case_error)
     else Inl (GrammarError unknown_scope))"

definition parse_kind :: "ustr \<Rightarrow> uri_error + ustr" where
  "parse_kind segment =
     bind_res (reject_identity_escape segment) (\<lambda>_.
     if segment \<in> set RESOURCE_KINDS then Inr segment
     else if lower_ascii segment \<in> set RESOURCE_KINDS then Inl (GrammarError case_error)
     else Inl (GrammarError unknown_resource_kind))"

definition expect_fixed_segment :: "ustr \<Rightarrow> ustr \<Rightarrow> uri_error + unit" where
  "expect_fixed_segment segment expected =
     bind_res (reject_identity_escape segment) (\<lambda>_.
     if segment = expected then Inr ()
     else if lower_ascii segment = lower_ascii expected then Inl (GrammarError case_error)
     else Inl (GrammarError malformed_path))"

definition validate_directory_root :: "ustr \<Rightarrow> ustr \<Rightarrow> ustr \<Rightarrow> ustr \<Rightarrow> uri_error + unit" where
  "validate_directory_root sc sid kd root =
     (if kd = u ''skills'' then validate_dynamic_segment root
      else if kd = u ''attachments'' then
        bind_res (require (sc = u ''workspace'') (GrammarError malformed_path)) (\<lambda>_.
        bind_res (validate_dynamic_segment root) (\<lambda>_.
        require (is_attachment_id root) (GrammarError invalid_character)))
      else if sc = u ''workspace'' then expect_fixed_segment root (u ''root'')
      else if sc = u ''gateway'' then
        bind_res (validate_dynamic_segment root) (\<lambda>_.
        require (is_gateway_id sid \<and> is_directory_id root) (GrammarError invalid_character))
      else Inl (GrammarError malformed_path))"

subsection \<open>Parsing\<close>

definition sep :: nat where "sep = 47"

text \<open>The checks on the whole text, before it is split.\<close>

definition check_uri_text :: "ustr \<Rightarrow> uri_error + unit" where
  "check_uri_text uri =
     bind_res (require (uri \<noteq> []) (GrammarError empty_uri)) (\<lambda>_.
     bind_res (require (92 \<notin> set uri) (GrammarError backslash_rejected)) (\<lambda>_.
     bind_res (require (63 \<notin> set uri) (GrammarError query_rejected)) (\<lambda>_.
     bind_res (require (35 \<notin> set uri) (GrammarError fragment_rejected)) (\<lambda>_.
     bind_res (require (\<not> has_control_char uri) (GrammarError control_char_rejected)) (\<lambda>_.
     bind_res (require (\<forall>c\<in>set uri. c < 128) (GrammarError non_ascii_rejected)) (\<lambda>_.
     bind_res (require (32 \<notin> set uri) (GrammarError invalid_character)) (\<lambda>_.
     if \<not> startswith uri SCHEME
     then (if startswith (lower_ascii uri) SCHEME then Inl (GrammarError scheme_case_error)
           else Inl (GrammarError unknown_scheme))
     else Inr ())))))))"

text \<open>The optional gateway authority: the authority, the remaining segments and the URI text.\<close>

definition split_authority ::
    "ustr option \<Rightarrow> ustr \<Rightarrow> ustr list \<Rightarrow> uri_error + (ustr option \<times> ustr list \<times> ustr)" where
  "split_authority local_gateway_id uri segments =
     (if length segments > 1 \<and> lower_ascii (segments ! 0) \<notin> set SCOPE_KEYWORDS
         \<and> segments ! 1 \<in> set SCOPE_KEYWORDS
      then bind_res (validate_dynamic_segment (segments ! 0)) (\<lambda>_.
        if local_gateway_id = Some (segments ! 0)
        then Inr (None, tl segments, SCHEME @ join [sep] (tl segments))
        else Inr (Some (segments ! 0), tl segments, uri))
      else Inr (None, segments, uri))"

definition parse_directory ::
    "ustr \<Rightarrow> ustr list \<Rightarrow> ustr \<Rightarrow> ustr list \<Rightarrow> ustr option \<Rightarrow> uri_error + parsed_uri" where
  "parse_directory sc body kd tails authority =
     bind_res (require (tails \<noteq> []) (GrammarError malformed_path)) (\<lambda>_.
     bind_res (validate_directory_root sc (body ! 0) kd (hd tails)) (\<lambda>_.
     bind_res (map_res decode_file_segment (tl tails)) (\<lambda>children.
     bind_res (map_res encode_file_segment children) (\<lambda>encoded.
     Inr \<lparr>uri_scope = sc, uri_scope_id = body ! 0, uri_kind = kd, uri_logical_name = hd tails,
          uri_display = SCHEME @ join [sep]
            ((case authority of None \<Rightarrow> [] | Some a \<Rightarrow> [a]) @ sc # take 3 body @ hd tails # encoded),
          uri_authority = authority, uri_tails = hd tails # children, uri_artifact = None\<rparr>))))"

definition parse_artifact ::
    "ustr \<Rightarrow> ustr list \<Rightarrow> ustr \<Rightarrow> ustr list \<Rightarrow> ustr \<Rightarrow> ustr option \<Rightarrow> uri_error + parsed_uri" where
  "parse_artifact sc body kd tails uri authority =
     bind_res (map_res reject_identity_escape tails) (\<lambda>_.
     bind_res (require (sc = u ''workspace'' \<and> length tails = 3) (GrammarError malformed_path)) (\<lambda>_.
     let artifact_kind = lower_ascii (tails ! 1) in
     bind_res (expect_fixed_segment (tails ! 1) artifact_kind) (\<lambda>_.
     bind_res (validate_dynamic_segment (tails ! 0)) (\<lambda>_.
     bind_res (case validate_session_id (tails ! 0) of
                 Inl _ \<Rightarrow> Inl (GrammarError invalid_character) | Inr _ \<Rightarrow> Inr ()) (\<lambda>_.
     bind_res (require (tails ! 2 \<notin> {u ''.'', u ''..''}) (GrammarError dot_segment)) (\<lambda>_.
     bind_res (require (artifact_id_matches artifact_kind (tails ! 2)) (GrammarError invalid_character)) (\<lambda>_.
     Inr \<lparr>uri_scope = sc, uri_scope_id = body ! 0, uri_kind = kd, uri_logical_name = join [sep] tails,
          uri_display = uri, uri_authority = authority, uri_tails = tails,
          uri_artifact = Some (if artifact_kind = u ''attachments'' then u ''attachments''
                               else u ''tool-results'')\<rparr>)))))))"

text \<open>The branches on the kind, after \<^verbatim>\<open>scope/id/resources/kind\<close> was read.\<close>

definition parse_resource_body ::
    "ustr \<Rightarrow> ustr list \<Rightarrow> ustr \<Rightarrow> ustr list \<Rightarrow> ustr \<Rightarrow> ustr option \<Rightarrow> uri_error + parsed_uri" where
  "parse_resource_body sc body kd tails uri authority =
     (let parsed = (\<lambda>name.
            Inr \<lparr>uri_scope = sc, uri_scope_id = body ! 0, uri_kind = kd, uri_logical_name = name,
                 uri_display = uri, uri_authority = authority, uri_tails = tails, uri_artifact = None\<rparr>)
      in if kd = u ''workspace'' then Inl (GrammarError malformed_path)
         else if kd = u ''folder'' then
           bind_res (require (sc = u ''workspace'' \<and> length tails = 1) (GrammarError malformed_path)) (\<lambda>_.
           bind_res (validate_dynamic_segment (tails ! 0)) (\<lambda>_. parsed (tails ! 0)))
         else if kd \<in> {u ''skills'', u ''files'', u ''attachments''} then parse_directory sc body kd tails authority
         else if kd = u ''agent-spec'' then
           bind_res (require (length tails = 2) (GrammarError malformed_path)) (\<lambda>_.
           bind_res (expect_fixed_segment (tails ! 0) (u ''root'')) (\<lambda>_.
           bind_res (expect_fixed_segment (tails ! 1) (u ''AGENTS.md'')) (\<lambda>_.
           parsed (u ''root/AGENTS.md''))))
         else if kd = u ''session'' \<and> length tails \<ge> 2 \<and> lower_ascii (tails ! 1) \<in> set session_artifact_kinds
         then parse_artifact sc body kd tails uri authority
         else
           bind_res (require (\<not> (tails = [] \<and> (kd = u ''config'' \<or> (kd = u ''session'' \<and> sc \<noteq> u ''workspace''))))
             (GrammarError malformed_path)) (\<lambda>_.
           bind_res (map_res validate_dynamic_segment tails) (\<lambda>_. parsed (join [sep] tails))))"

definition parse_segments ::
    "ustr option \<Rightarrow> ustr list \<Rightarrow> ustr \<Rightarrow> uri_error + parsed_uri" where
  "parse_segments authority segments uri =
     bind_res (parse_scope (hd segments)) (\<lambda>sc.
     let body = tl segments in
     if sc = u ''workspace'' \<and> length body = 1 then
       bind_res (validate_dynamic_segment (body ! 0)) (\<lambda>_.
       Inr \<lparr>uri_scope = sc, uri_scope_id = body ! 0, uri_kind = u ''workspace'', uri_logical_name = body ! 0,
            uri_display = uri, uri_authority = authority, uri_tails = [], uri_artifact = None\<rparr>)
     else
       bind_res (require (length body \<ge> 3) (GrammarError malformed_path)) (\<lambda>_.
       bind_res (validate_dynamic_segment (body ! 0)) (\<lambda>_.
       bind_res (expect_fixed_segment (body ! 1) (u ''resources'')) (\<lambda>_.
       bind_res (parse_kind (body ! 2)) (\<lambda>kd.
       parse_resource_body sc body kd (drop 3 body) uri authority)))))"

definition parse_resource_uri :: "ustr \<Rightarrow> ustr option \<Rightarrow> uri_error + parsed_uri" where
  "parse_resource_uri uri local_gateway_id =
     bind_res (check_uri_text uri) (\<lambda>_.
     let segments = split_on sep (drop (length SCHEME) uri) in
     bind_res (require (64 \<notin> set (hd segments)) (GrammarError userinfo_rejected)) (\<lambda>_.
     bind_res (require ([] \<notin> set segments) (GrammarError empty_segment)) (\<lambda>_.
     bind_res (split_authority local_gateway_id uri segments) (\<lambda>(authority, segs, uri').
     parse_segments authority segs uri'))))"

definition parse_session_thread_uri ::
    "ustr \<Rightarrow> ustr option \<Rightarrow> uri_error + (parsed_uri \<times> ustr \<times> ustr option)" where
  "parse_session_thread_uri uri local_gateway_id =
     bind_res (parse_resource_uri uri local_gateway_id) (\<lambda>p.
     if uri_scope p \<noteq> u ''workspace'' \<or> uri_kind p \<noteq> u ''session'' then Inl (GrammarError malformed_path)
     else let tails = uri_tails p in
       if length tails = 1 then Inr (p, tails ! 0, None)
       else if length tails = 3 \<and> tails ! 1 = u ''threads'' then Inr (p, tails ! 0, Some (tails ! 2))
       else Inl (GrammarError malformed_path))"

subsection \<open>Construction\<close>

definition encode_tails :: "ustr \<Rightarrow> ustr \<Rightarrow> ustr \<Rightarrow> ustr list \<Rightarrow> uri_error + ustr list" where
  "encode_tails sc sid kd tails =
     (if kd \<in> {u ''skills'', u ''files'', u ''attachments''} \<and> tails \<noteq> []
      then bind_res (validate_directory_root sc sid kd (hd tails)) (\<lambda>_.
           bind_res (map_res encode_file_segment (tl tails)) (\<lambda>encoded. Inr (hd tails # encoded)))
      else Inr tails)"

definition resource_display_uri ::
    "ustr \<Rightarrow> ustr \<Rightarrow> ustr \<Rightarrow> ustr list \<Rightarrow> ustr option \<Rightarrow> uri_error + ustr" where
  "resource_display_uri sc sid kd tails authority =
     bind_res (require (sc \<in> set SCOPE_KEYWORDS) (GrammarError unknown_scope)) (\<lambda>_.
     bind_res (require (kd \<in> set RESOURCE_KINDS) (GrammarError unknown_resource_kind)) (\<lambda>_.
     bind_res (validate_dynamic_segment sid) (\<lambda>_.
     bind_res (case authority of None \<Rightarrow> Inr () | Some a \<Rightarrow> validate_dynamic_segment a) (\<lambda>_.
     bind_res (require (\<forall>s\<in>set tails. sep \<notin> set s) (GrammarError invalid_character)) (\<lambda>_.
     bind_res (encode_tails sc sid kd tails) (\<lambda>encoded.
     let prefix = (case authority of None \<Rightarrow> [] | Some a \<Rightarrow> [a]) in
     bind_res
       (if kd = u ''workspace'' then
          bind_res (require (sc = u ''workspace'' \<and> encoded = []) (GrammarError malformed_path)) (\<lambda>_.
          Inr (SCHEME @ join [sep] (prefix @ [sc, sid])))
        else Inr (SCHEME @ join [sep] (prefix @ [sc, sid, u ''resources'', kd] @ encoded))) (\<lambda>uri.
     bind_res (parse_resource_uri uri None) (\<lambda>p. Inr (uri_display p)))))))))"

definition thread_resource_uri :: "ustr \<Rightarrow> ustr \<Rightarrow> ustr \<Rightarrow> ustr option \<Rightarrow> uri_error + ustr" where
  "thread_resource_uri workspace_id session_id thread_id authority =
     resource_display_uri (u ''workspace'') workspace_id (u ''session'')
       [session_id, u ''threads'', thread_id] authority"

definition file_uri_root :: "ustr \<Rightarrow> uri_error + ustr" where
  "file_uri_root uri =
     bind_res (parse_resource_uri uri None) (\<lambda>p.
     if uri_kind p \<notin> {u ''files'', u ''attachments''} then Inl UriValueError
     else resource_display_uri (uri_scope p) (uri_scope_id p) (uri_kind p) (take 1 (uri_tails p)) (uri_authority p))"

definition file_uri_child :: "ustr \<Rightarrow> ustr list \<Rightarrow> uri_error + ustr" where
  "file_uri_child uri parts =
     bind_res (parse_resource_uri uri None) (\<lambda>p.
     if uri_kind p \<notin> {u ''files'', u ''attachments''} then Inl UriValueError
     else resource_display_uri (uri_scope p) (uri_scope_id p) (uri_kind p) (uri_tails p @ parts) (uri_authority p))"

definition session_artifact_uri :: "ustr \<Rightarrow> ustr \<Rightarrow> ustr \<Rightarrow> ustr \<Rightarrow> ustr option \<Rightarrow> uri_error + ustr" where
  "session_artifact_uri workspace_id session_id artifact_kind artifact_id authority =
     resource_display_uri (u ''workspace'') workspace_id (u ''session'')
       [session_id, artifact_kind, artifact_id] authority"

definition parse_session_artifact_uri :: "ustr \<Rightarrow> ustr option \<Rightarrow> uri_error + parsed_uri" where
  "parse_session_artifact_uri uri local_gateway_id =
     bind_res (parse_resource_uri uri local_gateway_id) (\<lambda>p.
     if uri_artifact p = None then Inl (GrammarError malformed_path) else Inr p)"

definition parse_attachment_uri :: "ustr \<Rightarrow> ustr option \<Rightarrow> bool \<Rightarrow> uri_error + parsed_uri" where
  "parse_attachment_uri uri local_gateway_id require_file =
     bind_res (parse_resource_uri uri local_gateway_id) (\<lambda>p.
     if attachment_id p = None then Inl (GrammarError malformed_path)
     else if require_file \<and> uri_kind p = u ''attachments'' \<and> length (uri_tails p) = 1
     then Inl (GrammarError malformed_path)
     else Inr p)"

definition workspace_agent_spec_display_uri :: "ustr \<Rightarrow> uri_error + ustr" where
  "workspace_agent_spec_display_uri workspace_id =
     resource_display_uri (u ''workspace'') workspace_id (u ''agent-spec'') [u ''root'', u ''AGENTS.md''] None"

definition skill_display_uri :: "ustr \<Rightarrow> ustr \<Rightarrow> ustr \<Rightarrow> uri_error + ustr" where
  "skill_display_uri sc sid skill_name =
     bind_res (validate_dynamic_segment skill_name) (\<lambda>_.
     resource_display_uri sc sid (u ''skills'') [skill_name, u ''SKILL.md''] None)"

end
