(* ===== verification/Resource_Uri_Correct.thy ===== *)
theory Resource_Uri_Correct
  imports Resource_Uri
begin

section \<open>Resource URIs: canonical form and round trips\<close>

text \<open>
  The codec of file segments as an interpretation of \<^verbatim>\<open>segment_codec\<close>, the texts that are put together
  from segments, and the proofs that display URIs are canonical and that construction and parsing are
  inverse to each other.
\<close>

subsection \<open>Interface: a segment codec\<close>

text \<open>
  What the grammar relies on: decoding an encoded segment gives the segment back. Then encoding is
  injective and re-encoding a decoded text is a normal form.
\<close>

locale segment_codec =
  fixes encode :: "'a \<Rightarrow> 'e + 'b" and decode :: "'b \<Rightarrow> 'e + 'a"
  assumes decode_encode: "encode s = Inr e \<Longrightarrow> decode e = Inr s"
begin

lemma encode_inj: "encode s = Inr e \<Longrightarrow> encode t = Inr e \<Longrightarrow> s = t"
  by (metis decode_encode sum.inject(2))

lemma decode_encode_list: "map_res encode ss = Inr es \<Longrightarrow> map_res decode es = Inr ss"
  by (induction ss arbitrary: es) (auto simp: decode_encode)

lemma renormalize:
  "map_res decode xs = Inr ss \<Longrightarrow> map_res encode ss = Inr es \<Longrightarrow>
   map_res decode es = Inr ss \<and> map_res encode ss = Inr es"
  by (simp add: decode_encode_list)

end

interpretation file_segments: segment_codec encode_file_segment decode_file_segment
  by unfold_locales
    (auto simp: encode_file_segment_def decode_file_segment_def unquote_quote split: option.split_asm)

lemma encode_file_segment_chars:
  assumes "encode_file_segment s = Inr e"
  shows "e \<noteq> [] \<and> (\<forall>c\<in>set e. quoted_char c)"
proof -
  from assms have "quote s = Some e" "s \<noteq> []"
    by (auto simp: encode_file_segment_def split: option.split_asm)
  with quote_chars quote_not_Nil show ?thesis by blast
qed

subsection \<open>Texts made of segments\<close>

text \<open>The characters a segment of an accepted URI can have.\<close>

definition seg_char :: "nat \<Rightarrow> bool" where
  "seg_char c \<longleftrightarrow> 32 < c \<and> c < 127 \<and> c \<notin> {92, 63, 35, 47}"

definition good_segments :: "ustr list \<Rightarrow> bool" where
  "good_segments segs \<longleftrightarrow> segs \<noteq> [] \<and> [] \<notin> set segs \<and> (\<forall>s\<in>set segs. \<forall>c\<in>set s. seg_char c) \<and> 64 \<notin> set (hd segs)"

definition uri_text :: "ustr list \<Rightarrow> ustr" where
  "uri_text segs = SCHEME @ join [sep] segs"

lemma set_join: "set (join [d] xs) \<subseteq> insert d (\<Union> (set ` set xs))"
  by (induction "[d]" xs rule: join.induct) auto

lemma set_join_parts: "x \<in> set xs \<Longrightarrow> set x \<subseteq> set (join [d] xs)"
  by (induction "[d]" xs rule: join.induct) auto

lemma SCHEME_chars: "c \<in> set SCHEME \<Longrightarrow> 32 < c \<and> c < 127 \<and> c \<notin> {92, 63, 35}"
  by (auto simp: SCHEME_def u_def)

lemma check_uri_text_iff:
  "check_uri_text uri = Inr () \<longleftrightarrow>
     startswith uri SCHEME \<and> (\<forall>c\<in>set uri. 32 < c \<and> c < 127 \<and> c \<notin> {92, 63, 35})"
proof -
  have nil: "startswith [] SCHEME \<longleftrightarrow> False" by (simp add: startswith_def SCHEME_def)
  have "(92 \<notin> set uri \<and> 63 \<notin> set uri \<and> 35 \<notin> set uri \<and> \<not> has_control_char uri \<and> (\<forall>c\<in>set uri. c < 128) \<and> 32 \<notin> set uri)
    \<longleftrightarrow> (\<forall>c\<in>set uri. 32 < c \<and> c < 127 \<and> c \<notin> {92, 63, 35})"
  proof -
    have "(c \<noteq> 92 \<and> c \<noteq> 63 \<and> c \<noteq> 35 \<and> \<not> (c < 32 \<or> (127 \<le> c \<and> c \<le> 159)) \<and> c < 128 \<and> c \<noteq> 32)
      \<longleftrightarrow> (32 < c \<and> c < 127 \<and> c \<notin> {92, 63, 35})" for c :: nat by auto
    then show ?thesis unfolding has_control_char_def by (auto; blast)
  qed
  with nil show ?thesis
    unfolding check_uri_text_def by (cases "uri = []") auto
qed

lemma good_text:
  assumes "good_segments segs"
  shows "check_uri_text (uri_text segs) = Inr ()"
    and "split_on sep (drop (length SCHEME) (uri_text segs)) = segs"
proof -
  have "32 < c \<and> c < 127 \<and> c \<notin> {92, 63, 35}" if "c \<in> set (uri_text segs)" for c
  proof -
    from that set_join [of sep segs] consider "c \<in> set SCHEME" | "c = sep" | "c \<in> \<Union> (set ` set segs)"
      by (auto simp: uri_text_def)
    then show ?thesis
      using assms SCHEME_chars by cases (auto simp: good_segments_def seg_char_def sep_def)
  qed
  then show "check_uri_text (uri_text segs) = Inr ()"
    unfolding check_uri_text_iff by (simp add: uri_text_def startswith_def)
  show "split_on sep (drop (length SCHEME) (uri_text segs)) = segs"
    using assms by (auto simp: uri_text_def good_segments_def seg_char_def sep_def intro!: split_on_join)
qed

lemma parse_good_text:
  assumes "good_segments segs"
  shows "parse_resource_uri (uri_text segs) lg =
    bind_res (split_authority lg (uri_text segs) segs) (\<lambda>(authority, segs', uri'). parse_segments authority segs' uri')"
  using assms by (simp add: parse_resource_uri_def good_text good_segments_def require_def)

lemma parse_text_good:
  assumes "parse_resource_uri uri lg = Inr p"
  obtains segs where "good_segments segs" "uri = uri_text segs"
proof -
  let ?segs = "split_on sep (drop (length SCHEME) uri)"
  from assms have c: "check_uri_text uri = Inr ()" and "64 \<notin> set (hd ?segs)" "[] \<notin> set ?segs"
    by (auto simp: parse_resource_uri_def Let_def)
  moreover have uri: "uri = uri_text ?segs"
    using c by (simp add: check_uri_text_iff uri_text_def startswith_def) (metis append_take_drop_id)
  moreover have "seg_char x" if "s \<in> set ?segs" "x \<in> set s" for s x
  proof -
    from that have "x \<noteq> sep" using split_on_parts by blast
    moreover from that have "x \<in> set uri"
      using set_join_parts [of s ?segs sep] by (auto dest: in_set_dropD)
    ultimately show ?thesis using c by (auto simp: check_uri_text_iff seg_char_def sep_def)
  qed
  ultimately show thesis by (intro that [of ?segs]) (auto simp: good_segments_def)
qed

lemma lower_keyword: "s \<in> set SCOPE_KEYWORDS \<Longrightarrow> lower_ascii s = s"
  by (auto simp: SCOPE_KEYWORDS_def lower_ascii_def u_def)

abbreviation prefix_of :: "ustr option \<Rightarrow> ustr list" where
  "prefix_of authority \<equiv> (case authority of None \<Rightarrow> [] | Some a \<Rightarrow> [a])"

text \<open>Splitting off the authority yields a text that splits in the same way.\<close>

definition has_authority :: "ustr list \<Rightarrow> bool" where
  "has_authority segs \<longleftrightarrow> length segs > 1 \<and> lower_ascii (segs ! 0) \<notin> set SCOPE_KEYWORDS
     \<and> segs ! 1 \<in> set SCOPE_KEYWORDS"

lemma has_authority_Nil [simp]: "\<not> has_authority []"
  by (simp add: has_authority_def)

lemma has_authority_tl: "has_authority segs \<Longrightarrow> \<not> has_authority (tl segs)"
  by (auto simp: has_authority_def nth_tl lower_keyword)

lemma has_authority_take: "take 2 xs = take 2 ys \<Longrightarrow> has_authority xs = has_authority ys"
  unfolding has_authority_def
  by (cases xs rule: remdups_adj.cases; cases ys rule: remdups_adj.cases) auto

lemma split_authority_stable:
  assumes "split_authority lg (uri_text segs) segs = Inr (authority, segs', uri')" and "good_segments segs"
  shows "uri' = uri_text (prefix_of authority @ segs')" and "good_segments (prefix_of authority @ segs')"
    and "segs' \<noteq> []"
    and "take 2 xs = take 2 segs' \<Longrightarrow> split_authority lg uri (prefix_of authority @ xs) = Inr (authority, xs, uri)"
proof -
  note def = split_authority_def [folded has_authority_def]
  consider (none) "\<not> has_authority segs" "authority = None" "segs' = segs" "uri' = uri_text segs"
    | (local) "has_authority segs" "authority = None" "segs' = tl segs" "uri' = uri_text (tl segs)"
    | (other) a where "has_authority segs" "authority = Some a" "segs = a # segs'" "uri' = uri_text segs" "lg \<noteq> Some a"
        "validate_dynamic_segment a = Inr ()"
    using assms(1) by (cases segs) (auto simp: def uri_text_def split: if_split_asm)
  then have "uri' = uri_text (prefix_of authority @ segs') \<and> good_segments (prefix_of authority @ segs') \<and> segs' \<noteq> []
    \<and> (take 2 xs = take 2 segs' \<longrightarrow> split_authority lg uri (prefix_of authority @ xs) = Inr (authority, xs, uri))"
  proof cases
    case none
    with assms(2) has_authority_take [of xs segs] show ?thesis
      by (auto simp: def good_segments_def)
  next
    case local
    then have "\<not> has_authority (tl segs)" "tl segs \<noteq> []"
      using has_authority_tl by (blast, cases segs) (auto simp: has_authority_def)
    moreover have "good_segments (tl segs)"
    proof -
      from local have "tl segs \<noteq> []" "hd (tl segs) \<in> set SCOPE_KEYWORDS"
        by (cases segs; cases "tl segs"; auto simp: has_authority_def)+
      then have "64 \<notin> set (hd (tl segs))" by (auto simp: SCOPE_KEYWORDS_def u_def)
      with assms(2) \<open>tl segs \<noteq> []\<close> show ?thesis by (auto simp: good_segments_def dest: list.set_sel(2))
    qed
    ultimately show ?thesis
      using local has_authority_take [of xs "tl segs"] by (auto simp: def)
  next
    case other
    then have "segs' \<noteq> []" "hd segs' \<in> set SCOPE_KEYWORDS" "lower_ascii a \<notin> set SCOPE_KEYWORDS"
      by (cases segs'; auto simp: has_authority_def)+
    moreover have "has_authority (a # xs)" if "take 2 xs = take 2 segs'"
      using that other(1,3) by (cases xs; cases segs') (auto simp: has_authority_def)
    ultimately show ?thesis
      using other assms(2) by (auto simp: def)
  qed
  then show "uri' = uri_text (prefix_of authority @ segs')" "good_segments (prefix_of authority @ segs')" "segs' \<noteq> []"
    "take 2 xs = take 2 segs' \<Longrightarrow> split_authority lg uri (prefix_of authority @ xs) = Inr (authority, xs, uri)"
    by auto
qed

subsection \<open>The display URI is canonical\<close>

lemma seg_char_quoted: "quoted_char c \<Longrightarrow> seg_char c \<and> c \<noteq> 64"
  by (auto simp: quoted_char_def unreserved_def seg_char_def)

text \<open>A parsed body either keeps the text or, for the directory kinds, replaces the children by their
  canonical encoding; parsing that text gives the same result.\<close>

lemma parse_body_cases:
  assumes "parse_resource_body sc body kd tails uri authority = Inr p"
  obtains "uri_display p = uri" "uri_authority p = authority" "uri_scope p = sc" "uri_scope_id p = body ! 0"
      "uri_kind p = kd" "uri_tails p = tails" "kd \<notin> {u ''skills'', u ''files'', u ''attachments''}"
  | "parse_directory sc body kd tails authority = Inr p" "kd \<in> {u ''skills'', u ''files'', u ''attachments''}"
  using assms
  by (auto simp: parse_resource_body_def parse_artifact_def Let_def split: if_split_asm)

lemma parse_body_directory:
  "kd \<in> {u ''skills'', u ''files'', u ''attachments''} \<Longrightarrow>
   parse_resource_body sc body kd tails uri authority = parse_directory sc body kd tails authority"
  by (auto simp: parse_resource_body_def Let_def)

lemma parse_directory_canonical:
  assumes "parse_directory sc body kd tails authority = Inr p"
  obtains children encoded where "map_res encode_file_segment children = Inr encoded"
    "uri_tails p = hd tails # children" "tails \<noteq> []" "uri_scope p = sc" "uri_scope_id p = body ! 0" "uri_kind p = kd"
    "uri_authority p = authority"
    "uri_display p = uri_text (prefix_of authority @ sc # take 3 body @ hd tails # encoded)"
    "\<And>body'. take 3 body' = take 3 body \<Longrightarrow> body \<noteq> [] \<Longrightarrow> body' \<noteq> [] \<Longrightarrow>
       parse_directory sc body' kd (hd tails # encoded) authority = Inr p"
proof -
  from assms obtain children encoded where
    a: "tails \<noteq> []" "validate_directory_root sc (body ! 0) kd (hd tails) = Inr ()"
    "map_res decode_file_segment (tl tails) = Inr children" "map_res encode_file_segment children = Inr encoded"
    and p: "p = \<lparr>uri_scope = sc, uri_scope_id = body ! 0, uri_kind = kd, uri_logical_name = hd tails,
          uri_display = SCHEME @ join [sep] (prefix_of authority @ sc # take 3 body @ hd tails # encoded),
          uri_authority = authority, uri_tails = hd tails # children, uri_artifact = None\<rparr>"
    by (auto simp: parse_directory_def)
  have "parse_directory sc body' kd (hd tails # encoded) authority = Inr p"
    if "take 3 body' = take 3 body" "body \<noteq> []" "body' \<noteq> []" for body'
  proof -
    from that have "body' ! 0 = body ! 0" by (cases body; cases body') auto
    with a file_segments.renormalize [OF a(3,4)] that(1) show ?thesis
      by (simp add: parse_directory_def p)
  qed
  with a p show thesis by (intro that [of children encoded]) (simp_all add: uri_text_def)
qed

lemma map_res_encode_chars:
  "map_res encode_file_segment cs = Inr es \<Longrightarrow> e \<in> set es \<Longrightarrow> e \<noteq> [] \<and> (\<forall>c\<in>set e. quoted_char c)"
proof (induction cs arbitrary: es)
  case (Cons a cs)
  then obtain b bs where "encode_file_segment a = Inr b" "map_res encode_file_segment cs = Inr bs" "es = b # bs" by auto
  with Cons encode_file_segment_chars [of a b] show ?case by auto
qed simp

lemma parse_segments_stable:
  assumes "parse_segments authority segs uri = Inr p" and "segs \<noteq> []" and "good_segments (prefix_of authority @ segs)"
    and "uri = uri_text (prefix_of authority @ segs)"
  obtains segs' where "uri_display p = uri_text (prefix_of authority @ segs')" "take 2 segs' = take 2 segs"
    "good_segments (prefix_of authority @ segs')" "parse_segments authority segs' (uri_display p) = Inr p"
proof (cases "uri_display p = uri")
  case True
  with assms show thesis by (intro that [of segs]) simp_all
next
  case False
  from assms(1) obtain sc where sc: "parse_scope (hd segs) = Inr sc" by (auto simp: parse_segments_def)
  then have hd: "hd segs = sc" by (auto simp: parse_scope_def split: if_split_asm)
  let ?body = "tl segs"
  from assms(1) sc False obtain kd where
    len: "\<not> (sc = u ''workspace'' \<and> length ?body = 1)" "length ?body \<ge> 3"
    and v: "validate_dynamic_segment (?body ! 0) = Inr ()" "expect_fixed_segment (?body ! 1) (u ''resources'') = Inr ()"
      "parse_kind (?body ! 2) = Inr kd"
    and b: "parse_resource_body sc ?body kd (drop 3 ?body) uri authority = Inr p"
    by (auto simp: parse_segments_def Let_def split: if_split_asm)
  from b False have dir: "parse_directory sc ?body kd (drop 3 ?body) authority = Inr p"
    and kd: "kd \<in> {u ''skills'', u ''files'', u ''attachments''}"
    by (auto elim: parse_body_cases)
  from dir obtain children encoded where
    e: "map_res encode_file_segment children = Inr encoded" "drop 3 ?body \<noteq> []"
    and disp: "uri_display p = uri_text (prefix_of authority @ sc # take 3 ?body @ hd (drop 3 ?body) # encoded)"
    and again: "\<And>body'. take 3 body' = take 3 ?body \<Longrightarrow> ?body \<noteq> [] \<Longrightarrow> body' \<noteq> [] \<Longrightarrow>
       parse_directory sc body' kd (hd (drop 3 ?body) # encoded) authority = Inr p"
    by (elim parse_directory_canonical) blast
  let ?body' = "take 3 ?body @ hd (drop 3 ?body) # encoded"
  have nth: "?body' ! i = ?body ! i" if "i < 3" for i using that len(2) by (simp add: nth_append)
  have l3: "length (take 3 ?body) = 3" using len(2) by simp
  have drop3: "drop 3 ?body' = hd (drop 3 ?body) # encoded" using l3 by simp
  have ne: "?body \<noteq> []" using len(2) by (cases ?body) (simp_all del: length_tl)
  have "parse_segments authority (sc # ?body') (uri_display p) = Inr p"
    using ne sc hd len(2) l3 v kd again [of ?body']
    by (auto simp: parse_segments_def Let_def nth drop3 parse_body_directory require_def)
  moreover have "take 2 (sc # ?body') = take 2 segs"
    using hd assms(2) len(2) by (cases segs; cases ?body) auto
  moreover have "good_segments (prefix_of authority @ sc # ?body')"
  proof -
    have "set ?body \<subseteq> set segs" by (cases segs) auto
    then have sub: "set (take 3 ?body) \<subseteq> set segs" "hd (drop 3 ?body) \<in> set segs"
      using set_take_subset [of 3 ?body] set_drop_subset [of 3 ?body] hd_in_set [OF e(2)] by blast+
    have sub3: "sc \<in> set segs" using hd hd_in_set [OF assms(2)] by simp
    have enc: "x \<noteq> [] \<and> (\<forall>c\<in>set x. seg_char c)" if "x \<in> set encoded" for x
      using map_res_encode_chars [OF e(1) that] seg_char_quoted by blast
    have "hd (prefix_of authority @ sc # ?body') = hd (prefix_of authority @ segs)"
      using hd assms(2) by (auto split: option.split)
    moreover have "x \<noteq> [] \<and> (\<forall>c\<in>set x. seg_char c)" if "x \<in> set (prefix_of authority @ sc # ?body')" for x
      using that assms(3) sub sub3 enc by (auto simp: good_segments_def)
    ultimately show ?thesis using assms(3) by (auto simp: good_segments_def)
  qed
  ultimately show thesis using disp by (intro that [of "sc # ?body'"]) simp_all
qed

lemma display_uri_lemma:
  assumes "parse_resource_uri uri lg = Inr p"
  shows "parse_resource_uri (uri_display p) lg = Inr p"
proof -
  from assms obtain segs where g: "good_segments segs" and uri: "uri = uri_text segs" by (rule parse_text_good)
  from assms obtain authority segs1 uri1 where
    sp: "split_authority lg (uri_text segs) segs = Inr (authority, segs1, uri1)"
    and ps: "parse_segments authority segs1 uri1 = Inr p"
    unfolding uri parse_good_text [OF g] by auto
  note st = split_authority_stable [OF sp g]
  from ps st(3,2,1) obtain segs2 where
    s2: "uri_display p = uri_text (prefix_of authority @ segs2)" "take 2 segs2 = take 2 segs1"
    "good_segments (prefix_of authority @ segs2)" "parse_segments authority segs2 (uri_display p) = Inr p"
    by (rule parse_segments_stable)
  show ?thesis
    unfolding s2(1) parse_good_text [OF s2(3)] st(4) [OF s2(2)] using s2(1,4) by simp
qed


subsection \<open>Construction and parsing are inverse\<close>

lemma name_seg: "validate_dynamic_segment s = Inr () \<Longrightarrow> s \<noteq> [] \<and> (\<forall>c\<in>set s. seg_char c \<and> c \<noteq> 64)"
  by (auto simp: validate_dynamic_segment_def list_all_iff name_char_def seg_char_def)

lemma keyword_segs:
  "s \<in> set SCOPE_KEYWORDS \<Longrightarrow> sep \<notin> set s" "s \<in> set RESOURCE_KINDS \<Longrightarrow> sep \<notin> set s"
  "sep \<notin> set (u ''resources'')"
  by (auto simp: SCOPE_KEYWORDS_def RESOURCE_KINDS_def u_def sep_def)

lemma parse_split:
  assumes "parse_resource_uri (uri_text segs) lg = Inr p" and "\<forall>s\<in>set segs. sep \<notin> set s" and "segs \<noteq> []"
  shows "good_segments segs"
proof -
  from assms(1) obtain segs' where g: "good_segments segs'" and eq: "uri_text segs = uri_text segs'"
    by (rule parse_text_good)
  then have j: "join [sep] segs = join [sep] segs'" by (simp add: uri_text_def)
  have "split_on sep (join [sep] segs) = segs" using assms(2,3) by (intro split_on_join) auto
  moreover have "split_on sep (join [sep] segs') = segs'"
    using g by (intro split_on_join) (auto simp: good_segments_def seg_char_def sep_def)
  ultimately have "segs = segs'" unfolding j by (rule subst)
  with g show ?thesis by simp
qed

text \<open>An authority that is itself a scope keyword is never accepted in front of a scope.\<close>

lemma parse_kind_resources: "parse_kind (u ''resources'') \<noteq> Inr k"
  by (simp add: parse_kind_def RESOURCE_KINDS_def)

lemma keyword_authority_rejected:
  "parse_segments x (a # sc # sid # u ''resources'' # rest) uri \<noteq> Inr p"
  "parse_segments x [a, sc, sid] uri \<noteq> Inr p"
  by (simp_all add: parse_segments_def numeral_2_eq_2 parse_kind_resources)

lemma parse_segments_fields:
  assumes "parse_segments authority (sc # sid # u ''resources'' # kd # tails) uri = Inr p"
  shows "uri_authority p = authority \<and> uri_scope p = sc \<and> uri_scope_id p = sid \<and> uri_kind p = kd
    \<and> (if kd \<in> {u ''skills'', u ''files'', u ''attachments''}
       then tails \<noteq> [] \<and> (\<exists>cs. map_res decode_file_segment (tl tails) = Inr cs \<and> uri_tails p = hd tails # cs)
       else uri_tails p = tails)"
proof -
  from assms have b: "parse_resource_body sc (sid # u ''resources'' # kd # tails) kd tails uri authority = Inr p"
    by (auto simp: parse_segments_def Let_def parse_scope_def parse_kind_def numeral_2_eq_2 numeral_3_eq_3
        split: if_split_asm)
  then show ?thesis
    by (cases rule: parse_body_cases) (auto simp: parse_directory_def)
qed

lemma parse_segments_workspace_fields:
  "parse_segments authority [sc, sid] uri = Inr p \<Longrightarrow> sc = u ''workspace'' \<and> uri_authority p = authority
     \<and> uri_scope p = sc \<and> uri_scope_id p = sid \<and> uri_kind p = u ''workspace'' \<and> uri_tails p = []"
  by (auto simp: parse_segments_def Let_def parse_scope_def split: if_split_asm)

lemma encode_tails_sep:
  assumes "encode_tails sc sid kd tails = Inr encoded" and "\<forall>s\<in>set tails. sep \<notin> set s" and "e \<in> set encoded"
  shows "sep \<notin> set e"
proof -
  have "sep \<notin> set e" if "map_res encode_file_segment (tl tails) = Inr es" "e \<in> set es" for es
    using map_res_encode_chars [OF that] seg_char_quoted by (auto simp: seg_char_def sep_def)
  with assms show ?thesis by (auto simp: encode_tails_def split: if_split_asm)
qed

lemmas split_authority_folded = split_authority_def [folded has_authority_def]

lemma built_uri_fields:
  assumes "parse_resource_uri (uri_text (prefix_of authority @ segs)) None = Inr p"
    and "good_segments (prefix_of authority @ segs)"
    and "segs = sc # sid # u ''resources'' # rest \<or> segs = [sc, sid]" and "sc \<in> set SCOPE_KEYWORDS"
  shows "\<exists>uri. parse_segments authority segs uri = Inr p"
proof (cases authority)
  case None
  have "\<not> has_authority segs" using assms(3,4) by (auto simp: has_authority_def lower_keyword)
  with None assms(1,2) show ?thesis by (auto simp: parse_good_text split_authority_folded)
next
  case (Some a)
  show ?thesis
  proof (cases "has_authority (a # segs)")
    case True
    with Some assms(1,2) show ?thesis by (auto simp: parse_good_text split_authority_folded)
  next
    case False
    with Some assms(1,2) have "parse_segments None (a # segs) (uri_text (a # segs)) = Inr p"
      by (auto simp: parse_good_text split_authority_folded)
    with assms(3) show ?thesis by (auto simp: keyword_authority_rejected)
  qed
qed

lemma built_uri_lemma:
  assumes "resource_display_uri sc sid kd tails authority = Inr uri"
  shows "\<exists>p. parse_resource_uri uri None = Inr p \<and> uri_display p = uri \<and> uri_scope p = sc \<and> uri_scope_id p = sid
    \<and> uri_kind p = kd \<and> uri_tails p = tails \<and> uri_authority p = authority"
proof -
  from assms obtain encoded uri0 p x y where
    sc: "sc \<in> set SCOPE_KEYWORDS" and kd: "kd \<in> set RESOURCE_KINDS" and sid: "validate_dynamic_segment sid = Inr x"
    and au: "(case authority of None \<Rightarrow> Inr () | Some a \<Rightarrow> validate_dynamic_segment a) = Inr y"
    and tl: "\<forall>s\<in>set tails. sep \<notin> set s" and en: "encode_tails sc sid kd tails = Inr encoded"
    and u0: "(if kd = u ''workspace''
        then bind_res (require (sc = u ''workspace'' \<and> encoded = []) (GrammarError malformed_path))
          (\<lambda>_. Inr (SCHEME @ join [sep] (prefix_of authority @ [sc, sid])))
        else Inr (SCHEME @ join [sep] (prefix_of authority @ [sc, sid, u ''resources'', kd] @ encoded))) = Inr uri0"
    and p: "parse_resource_uri uri0 None = Inr p" "uri = uri_display p"
    unfolding resource_display_uri_def Let_def bind_res_eq_Inr require_eq_Inr sum.inject by blast
  define segs where "segs = (if kd = u ''workspace'' then [sc, sid] else [sc, sid, u ''resources'', kd] @ encoded)"
  have uri0: "uri0 = uri_text (prefix_of authority @ segs)" using u0 by (auto simp: segs_def uri_text_def split: if_split_asm)
  have "sep \<notin> set s" if "s \<in> set (prefix_of authority @ segs)" for s
  proof -
    have nm: "sep \<notin> set s" if "validate_dynamic_segment s = Inr ()" for s
      using name_seg [OF that] by (auto simp: seg_char_def sep_def)
    from that consider "authority = Some s" | "s = sc" | "s = sid" | "s = u ''resources''" | "s = kd" | "s \<in> set encoded"
      by (auto simp: segs_def split: option.split_asm if_split_asm)
    then show ?thesis
      using nm au sid keyword_segs sc kd encode_tails_sep [OF en tl] by cases auto
  qed
  then have g: "good_segments (prefix_of authority @ segs)"
    using parse_split [OF p(1) [unfolded uri0]] by (simp add: segs_def)
  have "segs = sc # sid # u ''resources'' # (kd # encoded) \<or> segs = [sc, sid]" by (simp add: segs_def)
  from built_uri_fields [OF p(1) [unfolded uri0] g this sc] obtain uri1 where
    ps: "parse_segments authority segs uri1 = Inr p" by blast
  have "uri_scope p = sc \<and> uri_scope_id p = sid \<and> uri_kind p = kd \<and> uri_tails p = tails \<and> uri_authority p = authority"
  proof (cases "kd = u ''workspace''")
    case True
    with u0 en have "tails = []" by (auto simp: encode_tails_def split: if_split_asm)
    with True ps parse_segments_workspace_fields show ?thesis by (auto simp: segs_def)
  next
    case False
    with ps have "parse_segments authority (sc # sid # u ''resources'' # kd # encoded) uri1 = Inr p"
      by (simp add: segs_def)
    from parse_segments_fields [OF this] en show ?thesis
      by (auto simp: encode_tails_def split: if_split_asm dest!: file_segments.decode_encode_list)
  qed
  with display_uri_lemma [OF p(1)] p(2) show ?thesis by auto
qed


text \<open>
  The display URI of a parsed resource is canonical: parsing it again, with the same local gateway,
  gives the same resource with the same display URI.
\<close>

theorem display_uri_canonical:
  assumes "parse_resource_uri uri local_gateway_id = Inr p"
  shows "parse_resource_uri (uri_display p) local_gateway_id = Inr p"
  using assms by (rule display_uri_lemma)

theorem display_uri_canonical_witness:
  "\<exists>p. parse_resource_uri (u ''boxteam://gw/workspace/w1'') (Some (u ''gw'')) = Inr p
     \<and> parse_resource_uri (uri_display p) (Some (u ''gw'')) = Inr p"
proof -
  have "\<not> isl (parse_resource_uri (u ''boxteam://gw/workspace/w1'') (Some (u ''gw'')))" by code_simp
  then obtain p where "parse_resource_uri (u ''boxteam://gw/workspace/w1'') (Some (u ''gw'')) = Inr p"
    by (cases "parse_resource_uri (u ''boxteam://gw/workspace/w1'') (Some (u ''gw''))") auto
  with display_uri_canonical [OF this] show ?thesis by blast
qed

text \<open>
  C28: a URI built from scope, identifier, kind, unencoded tail segments and gateway parses back to exactly
  these, and is its own display form.
\<close>

theorem built_uri_round_trip:
  assumes "resource_display_uri sc sid kd tails authority = Inr uri"
  shows "\<exists>p. parse_resource_uri uri None = Inr p \<and> uri_display p = uri \<and> uri_scope p = sc \<and> uri_scope_id p = sid
    \<and> uri_kind p = kd \<and> uri_tails p = tails \<and> uri_authority p = authority"
  using assms by (rule built_uri_lemma)

theorem built_uri_round_trip_witness:
  "\<exists>uri p. resource_display_uri (u ''workspace'') (u ''w1'') (u ''files'') [u ''root'', u ''a b''] None = Inr uri
     \<and> parse_resource_uri uri None = Inr p \<and> uri_tails p = [u ''root'', u ''a b'']"
proof -
  let ?r = "resource_display_uri (u ''workspace'') (u ''w1'') (u ''files'') [u ''root'', u ''a b''] None"
  have "\<not> isl ?r" by code_simp
  then obtain uri where "?r = Inr uri" by (cases ?r) auto
  with built_uri_round_trip [OF this] show ?thesis by blast
qed

text \<open>
  C29: the URI of a child extends its parent by exactly the given parts: scope, identifier, kind and gateway
  are the parent's and the parent's segments are a prefix, so no part can lead out of the parent.
\<close>

theorem child_uri_extends_parent:
  assumes "file_uri_child uri parts = Inr child"
  shows "\<exists>p q. parse_resource_uri uri None = Inr p \<and> parse_resource_uri child None = Inr q
    \<and> uri_tails q = uri_tails p @ parts \<and> uri_scope q = uri_scope p \<and> uri_scope_id q = uri_scope_id p
    \<and> uri_kind q = uri_kind p \<and> uri_authority q = uri_authority p"
proof -
  from assms obtain p where p: "parse_resource_uri uri None = Inr p"
    and r: "resource_display_uri (uri_scope p) (uri_scope_id p) (uri_kind p) (uri_tails p @ parts) (uri_authority p) = Inr child"
    by (auto simp: file_uri_child_def split: if_split_asm)
  from built_uri_lemma [OF r] p show ?thesis by blast
qed

theorem child_uri_extends_parent_witness:
  "\<exists>child q. file_uri_child (u ''boxteam://workspace/w1/resources/files/root'') [u ''a b''] = Inr child
     \<and> parse_resource_uri child None = Inr q"
proof -
  let ?r = "file_uri_child (u ''boxteam://workspace/w1/resources/files/root'') [u ''a b'']"
  have "\<not> isl ?r" by code_simp
  then obtain child where "?r = Inr child" by (cases ?r) auto
  with child_uri_extends_parent [OF this] show ?thesis by blast
qed

end
