(* ===== verification/Sqlite_Table.thy ===== *)
theory Sqlite_Table
  imports Py_Prelude "HOL-Library.List_Lexorder"
begin

section \<open>Tables, statements and transactions\<close>

text \<open>
  The persistent stores of the backend are SQLite tables. A table is the list of its rows in \<^verbatim>\<open>rowid\<close>
  order: an \<^verbatim>\<open>INSERT\<close> takes the next larger \<^verbatim>\<open>rowid\<close> and therefore appends. A statement that would
  break a \<^verbatim>\<open>CHECK\<close>, \<^verbatim>\<open>PRIMARY KEY\<close> or \<^verbatim>\<open>UNIQUE\<close> constraint of the schema raises
  \<^verbatim>\<open>sqlite3.IntegrityError\<close> and changes nothing. Text columns compare byte-wise in UTF-8, which is the
  lexicographic order of the code points. Every exception is a value of \<open>control_error\<close>; the string is
  the condition that the message of the source describes. Parameters have their annotated types, and
  texts are sequences of Unicode scalar values of a length that fits a column: others are refused by the driver.
  The counters that a statement itself increments do not reach 64 bit.
\<close>

datatype control_error =
    Key_Error string
  | Runtime_Error string
  | Value_Error string
  | Type_Error string
  | Overflow_Error
  | Integrity_Error
  | Operational_Error

subsection \<open>Statements\<close>

text \<open>A Python \<^verbatim>\<open>int\<close> as a column value: 64 bit, otherwise \<^verbatim>\<open>sqlite3\<close> raises \<^verbatim>\<open>OverflowError\<close> when it binds
  the parameter, before the statement runs.\<close>

definition sql_int :: "int \<Rightarrow> control_error + unit" where
  "sql_int i = require (- (2 ^ 63) \<le> i \<and> i < 2 ^ 63) Overflow_Error"

definition sql_int_opt :: "int option \<Rightarrow> control_error + unit" where
  "sql_int_opt i = (case i of None \<Rightarrow> Inr () | Some j \<Rightarrow> sql_int j)"

text \<open>\<^verbatim>\<open>INSERT\<close>: \<open>chk\<close> is the row constraint, \<open>clash\<close> the uniqueness constraints.\<close>

definition sql_insert ::
    "('r \<Rightarrow> bool) \<Rightarrow> ('r \<Rightarrow> 'r \<Rightarrow> bool) \<Rightarrow> 'r \<Rightarrow> 'r list \<Rightarrow> control_error + 'r list" where
  "sql_insert chk clash r t =
     (if chk r \<and> \<not> list_ex (clash r) t then Inr (t @ [r]) else Inl Integrity_Error)"

text \<open>
  \<^verbatim>\<open>UPDATE t SET \<dots> WHERE sel\<close> with its \<^verbatim>\<open>rowcount\<close>. No statement of the modelled stores assigns a
  column of a uniqueness constraint.
\<close>

definition sql_update ::
    "('r \<Rightarrow> bool) \<Rightarrow> ('r \<Rightarrow> bool) \<Rightarrow> ('r \<Rightarrow> 'r) \<Rightarrow> 'r list \<Rightarrow> control_error + (nat \<times> 'r list)" where
  "sql_update chk sel f t =
     (if list_all (\<lambda>r. sel r \<longrightarrow> chk (f r)) t
      then Inr (length (filter sel t), map (\<lambda>r. if sel r then f r else r) t)
      else Inl Integrity_Error)"

text \<open>\<^verbatim>\<open>SELECT \<dots> WHERE sel\<close> followed by \<^verbatim>\<open>fetchone()\<close>.\<close>

definition select_one :: "('r \<Rightarrow> bool) \<Rightarrow> 'r list \<Rightarrow> 'r option" where
  "select_one sel t = List.find sel t"

text \<open>\<^verbatim>\<open>DELETE FROM t WHERE sel\<close>.\<close>

definition sql_delete :: "('r \<Rightarrow> bool) \<Rightarrow> 'r list \<Rightarrow> 'r list" where
  "sql_delete sel t = filter (\<lambda>r. \<not> sel r) t"

text \<open>\<^verbatim>\<open>ORDER BY\<close> is stable in the \<^verbatim>\<open>rowid\<close> order.\<close>

definition order_by :: "('r \<Rightarrow> 'k :: linorder) \<Rightarrow> 'r list \<Rightarrow> 'r list" where
  "order_by k t = sort_key k t"

text \<open>\<^verbatim>\<open>length(trim(x)) > 0\<close>: \<^verbatim>\<open>trim\<close> removes spaces, \<^verbatim>\<open>length\<close> stops at the first NUL.\<close>

definition sql_trim :: "ustr \<Rightarrow> ustr" where
  "sql_trim s = rev (dropWhile (\<lambda>c. c = 32) (rev (dropWhile (\<lambda>c. c = 32) s)))"

definition sql_length :: "ustr \<Rightarrow> nat" where
  "sql_length s = length (takeWhile (\<lambda>c. c \<noteq> 0) s)"

lemma sql_insert_eq_Inr:
  "sql_insert chk clash r t = Inr t' \<longleftrightarrow> chk r \<and> (\<forall>r'\<in>set t. \<not> clash r r') \<and> t' = t @ [r]"
  by (auto simp: sql_insert_def list_ex_iff)

lemma sql_update_eq_Inr:
  "sql_update chk sel f t = Inr (n, t') \<longleftrightarrow>
     (\<forall>r\<in>set t. sel r \<longrightarrow> chk (f r)) \<and> n = length (filter sel t)
     \<and> t' = map (\<lambda>r. if sel r then f r else r) t"
  by (auto simp: sql_update_def list_all_iff)

lemma sql_int_eq_Inr [simp]: "sql_int i = Inr x \<longleftrightarrow> - (2 ^ 63) \<le> i \<and> i < 2 ^ 63"
  by (simp add: sql_int_def)

lemma sql_int_then: "bind_res (sql_int i) k = Inr r \<Longrightarrow> k () = Inr r"
  by (simp only: bind_res_eq_Inr) auto

lemma select_one_Some: "select_one sel t = Some r \<Longrightarrow> r \<in> set t \<and> sel r"
  by (auto simp: select_one_def find_Some_iff in_set_conv_nth)

lemma select_one_None [simp]: "select_one sel t = None \<longleftrightarrow> (\<forall>r\<in>set t. \<not> sel r)"
  by (auto simp: select_one_def find_None_iff)

lemma select_one_append:
  "select_one sel (t @ t') = (case select_one sel t of None \<Rightarrow> select_one sel t' | Some r \<Rightarrow> Some r)"
  by (induction t) (auto simp: select_one_def)

lemma select_one_singleton: "select_one sel [r] = (if sel r then Some r else None)"
  by (simp add: select_one_def)

lemma select_one_snoc: "select_one sel t = None \<Longrightarrow> sel r \<Longrightarrow> select_one sel (t @ [r]) = Some r"
  by (simp only: select_one_append select_one_singleton) simp

text \<open>Looking up a row by a key that identifies it.\<close>

lemma select_one_unique:
  assumes "distinct (map key t)" and "r \<in> set t"
  shows "select_one (\<lambda>x. key x = key r) t = Some r"
  using assms by (induction t) (auto simp: select_one_def rev_image_eqI)

lemma select_one_key_iff:
  assumes "distinct (map key t)"
  shows "select_one (\<lambda>x. key x = k) t = Some r \<longleftrightarrow> r \<in> set t \<and> key r = k"
  using assms select_one_Some [of "\<lambda>x. key x = k" t r] select_one_unique [of key t r] by auto

text \<open>An \<^verbatim>\<open>UPDATE\<close> by key that leaves the keys alone changes exactly the looked-up row.\<close>

lemma select_one_update:
  assumes "\<And>x. sel x \<Longrightarrow> key (f x) = key x"
  shows "select_one (\<lambda>x. key x = k) (map (\<lambda>x. if sel x then f x else x) t)
    = map_option (\<lambda>x. if sel x then f x else x) (select_one (\<lambda>x. key x = k) t)"
  using assms by (induction t) (auto simp: select_one_def)

lemma map_key_update:
  assumes "\<And>x. sel x \<Longrightarrow> key (f x) = key x"
  shows "map key (map (\<lambda>x. if sel x then f x else x) t) = map key t"
  using assms by (induction t) auto

lemma updated_row:
  assumes "y \<in> set (map (\<lambda>x. if sel x then f x else x) t)"
  obtains x where "x \<in> set t" "sel x" "y = f x" | "y \<in> set t" "\<not> sel y"
  using assms by (auto split: if_splits)

text \<open>The row count of an update by key.\<close>

lemma length_filter_unique:
  assumes "distinct (map key t)"
  shows "length (filter (\<lambda>x. key x = k \<and> P x) t)
    = (case select_one (\<lambda>x. key x = k) t of None \<Rightarrow> 0 | Some r \<Rightarrow> if P r then 1 else 0)"
  using assms
proof (induction t)
  case (Cons r t)
  show ?case
  proof (cases "key r = k")
    case True
    with Cons.prems have "\<forall>x\<in>set t. key x \<noteq> k" by (force simp: image_iff)
    then have "filter (\<lambda>x. key x = k \<and> P x) t = []" by (auto simp: filter_empty_conv)
    with True show ?thesis by (simp add: select_one_def)
  qed (use Cons in \<open>auto simp: select_one_def\<close>)
qed (simp add: select_one_def)

lemma set_sql_delete [simp]: "set (sql_delete sel t) = {r \<in> set t. \<not> sel r}"
  by (auto simp: sql_delete_def)

lemma distinct_sql_delete: "distinct (map key t) \<Longrightarrow> distinct (map key (sql_delete sel t))"
  by (simp add: sql_delete_def distinct_map_filter)

lemma set_order_by [simp]: "set (order_by k t) = set t"
  by (simp add: order_by_def)

lemma sorted_order_by: "sorted (map k (order_by k t))"
  by (simp add: order_by_def)

subsection \<open>Interface: step relations that respect a preorder\<close>

text \<open>
  The histories of a store: if every single step relates the states before and after, and the relation
  is reflexive and transitive, then so does every sequence of steps.
\<close>

locale step_order =
  fixes step :: "'s \<Rightarrow> 's \<Rightarrow> bool" and rel :: "'s \<Rightarrow> 's \<Rightarrow> bool"
  assumes rel_refl: "rel s s"
    and rel_trans: "rel s t \<Longrightarrow> rel t v \<Longrightarrow> rel s v"
    and rel_step: "step s t \<Longrightarrow> rel s t"
begin

lemma steps_rel: "step\<^sup>*\<^sup>* s t \<Longrightarrow> rel s t"
  by (induction rule: rtranclp_induct) (auto intro: rel_refl rel_step rel_trans)

end

text \<open>Invariants of the reachable states, the same way.\<close>

locale step_invariant =
  fixes step :: "'s \<Rightarrow> 's \<Rightarrow> bool" and inv :: "'s \<Rightarrow> bool"
  assumes inv_step: "step s t \<Longrightarrow> inv s \<Longrightarrow> inv t"
begin

lemma steps_inv: "step\<^sup>*\<^sup>* s t \<Longrightarrow> inv s \<Longrightarrow> inv t"
  by (induction rule: rtranclp_induct) (auto intro: inv_step)

end

subsection \<open>Rows that move\<close>

text \<open>A table in which some rows made a transition.\<close>

definition rows_moved :: "('r \<Rightarrow> 'r \<Rightarrow> bool) \<Rightarrow> 'r list \<Rightarrow> 'r list \<Rightarrow> bool" where
  "rows_moved move t t' \<longleftrightarrow> list_all2 (\<lambda>r r'. r' = r \<or> move r r') t t'"

lemma rows_moved_update:
  assumes "\<And>x. x \<in> set t \<Longrightarrow> sel x \<Longrightarrow> move x (f x)"
  shows "rows_moved move t (map (\<lambda>x. if sel x then f x else x) t)"
  using assms by (auto simp: rows_moved_def list_all2_map2 intro: list_all2_refl [THEN list_all2_mono]
      simp: list_all2_same)

lemma rows_moved_refl: "rows_moved move t t"
  by (simp add: rows_moved_def list_all2_same)

lemma rows_moved_map:
  assumes "rows_moved move t t'" and "\<And>r r'. move r r' \<Longrightarrow> k r' = k r"
  shows "map k t' = map k t"
  using assms(1) unfolding rows_moved_def
  by (induction rule: list_all2_induct) (auto dest: assms(2))

lemma rows_moved_forward:
  assumes "rows_moved move t t'" and "r \<in> set t"
  obtains r' where "r' \<in> set t'" "r' = r \<or> move r r'"
proof -
  from assms have "\<exists>r'\<in>set t'. r' = r \<or> move r r'"
    unfolding rows_moved_def by (induction rule: list_all2_induct) auto
  then show thesis using that by blast
qed

lemma rows_moved_backward:
  assumes "rows_moved move t t'" and "r' \<in> set t'"
  obtains r where "r \<in> set t" "r' = r \<or> move r r'"
proof -
  from assms have "\<exists>r\<in>set t. r' = r \<or> move r r'"
    unfolding rows_moved_def by (induction rule: list_all2_induct) auto
  then show thesis using that by blast
qed

lemma rows_moved_all:
  assumes "rows_moved move t t'" and "\<forall>r\<in>set t. P r" and "\<And>r r'. move r r' \<Longrightarrow> P r \<Longrightarrow> P r'"
  shows "\<forall>r\<in>set t'. P r"
  using assms by (metis rows_moved_backward)

end
