(* ===== verification/Session_Control.thy ===== *)
theory Session_Control
  imports Sqlite_Table Resource_Uri Py_Json
begin

section \<open>The session control store: connection, fence and thread catalog\<close>

text \<open>
  \<^verbatim>\<open>app/core/session_control_store/__init__.py\<close> (connection and transactions),
  \<^verbatim>\<open>app/core/session_control_primitives.py\<close> and
  \<^verbatim>\<open>app/core/session_control_thread_catalog/thread_catalog.py\<close>. The clock, fresh identifiers and the
  database seen after another process wrote are arguments of the operations.
\<close>

subsection \<open>Dates\<close>

text \<open>
  \<^verbatim>\<open>datetime\<close>: the fields and the UTC offset in microseconds, \<open>None\<close> for a naive value; \<^verbatim>\<open>isoformat()\<close>
  as the standard library prints it.
\<close>

record py_datetime =
  dt_year :: nat
  dt_month :: nat
  dt_day :: nat
  dt_hour :: nat
  dt_minute :: nat
  dt_second :: nat
  dt_microsecond :: nat
  dt_utcoffset :: "int option"

definition zpad :: "nat \<Rightarrow> nat \<Rightarrow> ustr" where
  "zpad w n = replicate (w - length (nat_digits n)) 48 @ nat_digits n"

definition format_offset :: "int option \<Rightarrow> ustr" where
  "format_offset off = (case off of None \<Rightarrow> [] | Some d \<Rightarrow>
     (let m = nat (abs d); hh = m div 3600000000; mm = m mod 3600000000 div 60000000;
          ss = m mod 60000000 div 1000000; us = m mod 1000000
      in u (if d < 0 then ''-'' else ''+'') @ zpad 2 hh @ u '':'' @ zpad 2 mm
         @ (if ss \<noteq> 0 \<or> us \<noteq> 0 then u '':'' @ zpad 2 ss else [])
         @ (if us \<noteq> 0 then u ''.'' @ zpad 6 us else [])))"

definition isoformat :: "py_datetime \<Rightarrow> ustr" where
  "isoformat d = zpad 4 (dt_year d) @ u ''-'' @ zpad 2 (dt_month d) @ u ''-'' @ zpad 2 (dt_day d) @ u ''T''
     @ zpad 2 (dt_hour d) @ u '':'' @ zpad 2 (dt_minute d) @ u '':'' @ zpad 2 (dt_second d)
     @ (if dt_microsecond d \<noteq> 0 then u ''.'' @ zpad 6 (dt_microsecond d) else [])
     @ format_offset (dt_utcoffset d)"

text \<open>The proleptic Gregorian calendar: month lengths and the date of an ordinal day.\<close>

definition is_leap :: "nat \<Rightarrow> bool" where
  "is_leap y \<longleftrightarrow> y mod 4 = 0 \<and> (y mod 100 \<noteq> 0 \<or> y mod 400 = 0)"

definition days_in_month :: "nat \<Rightarrow> nat \<Rightarrow> nat" where
  "days_in_month y m = (if m = 2 then (if is_leap y then 29 else 28)
     else if m \<in> {4, 6, 9, 11} then 30 else 31)"

function month_day :: "nat \<Rightarrow> nat \<Rightarrow> nat \<Rightarrow> nat \<times> nat" where
  "month_day y m n =
     (if n < days_in_month y m then (m, n + 1) else month_day y (m + 1) (n - days_in_month y m))"
  by pat_completeness auto
termination
  by (relation "measure (\<lambda>(y, m, n). n)") (auto simp: days_in_month_def)

declare month_day.simps [simp del]

text \<open>\<^verbatim>\<open>date.fromordinal(n + 1)\<close>.\<close>

definition date_of_days :: "nat \<Rightarrow> nat \<times> nat \<times> nat" where
  "date_of_days n =
     (let n400 = n div 146097; r400 = n mod 146097; n100 = r400 div 36524; r100 = r400 mod 36524;
          n4 = r100 div 1461; r4 = r100 mod 1461; n1 = r4 div 365;
          y = 400 * n400 + 100 * n100 + 4 * n4 + n1 + 1
      in if n1 = 4 \<or> n100 = 4 then (y - 1, 12, 31) else (y, month_day y 1 (r4 mod 365)))"

subsection \<open>Identifiers, hashes and locators\<close>

definition is_sha256_hex :: "ustr \<Rightarrow> bool" where
  "is_sha256_hex s \<longleftrightarrow> length s = 64 \<and> list_all lower_hex s"

definition check_thread_id :: "ustr \<Rightarrow> control_error + unit" where
  "check_thread_id v = (case validate_thread_id v of Inl _ \<Rightarrow> Inl (Value_Error ''thread_id'') | Inr _ \<Rightarrow> Inr ())"

definition check_session_id :: "ustr \<Rightarrow> control_error + unit" where
  "check_session_id v = (case validate_session_id v of Inl _ \<Rightarrow> Inl (Value_Error ''session_id'') | Inr _ \<Rightarrow> Inr ())"

definition validate_claim_fields :: "ustr \<Rightarrow> int \<Rightarrow> control_error + unit" where
  "validate_claim_fields claim_owner claim_generation =
     bind_res (require (claim_owner \<noteq> []) (Value_Error ''claim_owner'')) (\<lambda>_.
     require (\<not> claim_generation < 1) (Value_Error ''claim_generation''))"

definition validate_thread_creation_key :: "ustr \<Rightarrow> control_error + unit" where
  "validate_thread_creation_key idempotency_key =
     bind_res (require (idempotency_key \<noteq> []) (Value_Error ''empty idempotency_key'')) (\<lambda>_.
     require (idempotency_key \<notin> {u ''.'', u ''..''} \<and> 47 \<notin> set idempotency_key
       \<and> 92 \<notin> set idempotency_key \<and> 0 \<notin> set idempotency_key) (Value_Error ''idempotency_key not a path segment''))"

definition hex_value :: "ustr \<Rightarrow> nat" where
  "hex_value s = foldl (\<lambda>acc c. 16 * acc + (if c < 58 then c - 48 else c - 87)) 0 s"

text \<open>
  The date of the 48 bit millisecond time stamp at the head of a UUIDv7 payload. Adding the interval to
  the epoch overflows after the year 9999.
\<close>

definition uuid7_embedded_utc_date :: "ustr \<Rightarrow> control_error + (nat \<times> nat \<times> nat)" where
  "uuid7_embedded_utc_date payload =
     (let n = 719162 + hex_value (take 12 payload) div 86400000
      in if 3652058 < n then Inl Overflow_Error else Inr (date_of_days n))"

text \<open>
  \<^verbatim>\<open>int(text)\<close> for a group that matched \<^verbatim>\<open>\d{n}\<close>: \<open>digit_of\<close> is the decimal digit value of a character in
  the Unicode database of the runtime.
\<close>

definition digits_value :: "(nat \<Rightarrow> nat option) \<Rightarrow> ustr \<Rightarrow> nat option" where
  "digits_value digit_of s = foldl (\<lambda>acc c. case (acc, digit_of c) of
     (Some a, Some d) \<Rightarrow> Some (10 * a + d) | _ \<Rightarrow> None) (Some 0) s"

definition match_thread_locator ::
    "(nat \<Rightarrow> nat option) \<Rightarrow> ustr \<Rightarrow> (nat \<times> nat \<times> nat \<times> ustr) option" where
  "match_thread_locator digit_of v =
     (let y = slice 8 12 v; m = slice 13 15 v; d = slice 16 18 v; tid = drop 19 v
      in if length v = 55 \<and> take 8 v = u ''threads/'' \<and> v ! 12 = 47 \<and> v ! 15 = 47 \<and> v ! 18 = 47
            \<and> startswith tid (u ''thr_'') \<and> list_all lower_hex (drop 4 tid)
         then (case (digits_value digit_of y, digits_value digit_of m, digits_value digit_of d) of
                 (Some y', Some m', Some d') \<Rightarrow> Some (y', m', d', tid) | _ \<Rightarrow> None)
         else None)"

definition validate_thread_relative_locator ::
    "(nat \<Rightarrow> nat option) \<Rightarrow> ustr \<Rightarrow> control_error + unit" where
  "validate_thread_relative_locator digit_of v =
     (case match_thread_locator digit_of v of
        None \<Rightarrow> Inl (Value_Error ''locator form'')
      | Some (y, m, d, thread_id) \<Rightarrow>
          bind_res (check_thread_id thread_id) (\<lambda>_.
          bind_res (require (1 \<le> m \<and> m \<le> 12) (Value_Error ''locator month'')) (\<lambda>_.
          bind_res (require (1 \<le> d \<and> d \<le> days_in_month y m) (Value_Error ''locator day'')) (\<lambda>_.
          bind_res (require (1 \<le> y) (Value_Error ''date year'')) (\<lambda>_.
          bind_res (uuid7_embedded_utc_date (drop 4 thread_id)) (\<lambda>embedded.
          require ((y, m, d) = embedded) (Value_Error ''locator date'')))))))"

subsection \<open>Rows\<close>

record fence_row =
  f_state :: string
  f_generation :: int

record graph_binding =
  graph_id :: ustr
  graph_revision :: int
  graph_schema_hash :: ustr
  capability_profile_hash :: ustr

record thread_row =
  t_thread_id :: ustr
  t_kind :: string
  t_created_at :: ustr
  t_graph_id :: "ustr option"
  t_graph_revision :: "int option"
  t_graph_schema_hash :: "ustr option"
  t_capability_profile_hash :: "ustr option"

record operation_lease =
  lease_id :: ustr
  operation_kind :: string
  operation_identity :: ustr
  preimage_hash :: ustr
  captured_generation :: int
  holder_generation :: int
  fencing_token :: int
  lease_state :: string
  lease_revision :: int
  recovery_ref :: "ustr option"
  lease_created_at :: ustr
  lease_updated_at :: ustr

record outbox_record =
  o_send_operation_id :: ustr
  o_session_id :: ustr
  o_source_gateway_id :: ustr
  o_source_workspace_id :: ustr
  o_source_thread_id :: ustr
  o_communication_id :: ustr
  o_target_gateway_id :: ustr
  o_target_workspace_id :: ustr
  o_target_session_id :: ustr
  o_target_thread_id :: ustr
  o_kind :: string
  o_reply_to :: "ustr option"
  o_payload_hash :: ustr
  o_content :: ustr
  o_delivery_policy :: ustr
  o_request_id :: ustr
  o_target_ref :: ustr
  o_state :: string
  o_latest_receipt :: "ustr option"
  o_abort_reason :: "ustr option"
  o_created_at :: ustr
  o_updated_at :: ustr

record inbox_record =
  i_communication_id :: ustr
  i_session_id :: ustr
  i_source_gateway_id :: ustr
  i_source_workspace_id :: ustr
  i_source_session_id :: ustr
  i_source_thread_id :: ustr
  i_target_gateway_id :: ustr
  i_target_workspace_id :: ustr
  i_target_thread_id :: ustr
  i_kind :: string
  i_reply_to :: "ustr option"
  i_payload_hash :: ustr
  i_content :: ustr
  i_delivery_policy :: ustr
  i_request_id :: ustr
  i_admission_id :: ustr
  i_wakeup_key :: ustr
  i_state :: string
  i_job_id :: "ustr option"
  i_execution_id :: "ustr option"
  i_turn_id :: "ustr option"
  i_claim_owner :: "ustr option"
  i_claim_generation :: "int option"
  i_last_error :: "ustr option"
  i_terminal_outcome :: "ustr option"
  i_created_at :: ustr
  i_updated_at :: ustr

text \<open>The creation of child threads: the creation record, the intent to execute, the slots of the owner.\<close>

record creation_record =
  c_key :: ustr
  c_state :: string
  c_preimage_hash :: ustr
  c_delegation_id :: "ustr option"
  c_child_thread_id :: ustr
  c_final_relative_locator :: ustr
  c_staging_locator :: ustr
  c_artifact_manifest :: "ustr option"
  c_artifact_manifest_hash :: "ustr option"
  c_graph_binding :: ustr
  c_capability_profile :: ustr
  c_task_seed :: "ustr option"
  c_task_reference :: "ustr option"
  c_owner_generation :: int
  c_catalog_revision :: nat
  c_collaboration_revision :: "int option"
  c_membership_preimage_hash :: "ustr option"
  c_initial_state :: string
  c_admission_intent :: "ustr option"
  c_abort_reason :: "ustr option"
  c_child_created_at :: ustr
  c_record_created_at :: ustr
  c_record_updated_at :: ustr
  c_purpose :: string
  c_request_intent_json :: "ustr option"
  c_fork_delivery_request_id :: "ustr option"
  c_fork_completion_json :: "ustr option"

record execution_intent =
  e_admission_key :: ustr
  e_session_id :: ustr
  e_thread_id :: ustr
  e_creation_key :: ustr
  e_initial_state :: string
  e_state :: string
  e_execution_binding_id :: ustr
  e_job_id :: ustr
  e_binding_preimage_hash :: ustr
  e_claim_owner :: "ustr option"
  e_claim_generation :: "int option"
  e_last_error :: "ustr option"
  e_created_at :: ustr
  e_updated_at :: ustr

record owner_binding_row =
  b_thread_id :: ustr
  b_final_relative_locator :: ustr
  b_prefix_epoch :: int
  b_prefix_epoch_reason :: string
  b_stable_prefix_hash :: "ustr option"
  b_stable_prefix_length :: "int option"
  b_resource_activation_snapshot_ref :: "ustr option"
  b_assembly_parent_ref :: "ustr option"
  b_mutation_provenance :: "ustr option"
  b_attachment_refs :: ustr
  b_variant_refs :: ustr
  b_resource_refs :: ustr
  b_source_revision_refs :: ustr
  b_tracking_registrations :: ustr
  b_selection_provenance :: ustr
  b_revision :: int
  b_created_at :: ustr
  b_updated_at :: ustr

text \<open>Collaboration: the members of a session, and the events that fan out to them.\<close>

record collaboration_member =
  m_delegation_id :: ustr
  m_creation_key :: ustr
  m_membership_preimage_hash :: ustr
  m_registered_revision :: int
  m_coordinator_session_id :: ustr
  m_coordinator_thread_id :: ustr
  m_child_thread_id :: ustr
  m_role :: ustr
  m_subagent_type :: ustr
  m_title :: ustr
  m_task_seed :: ustr
  m_state :: string
  m_registered_at :: ustr
  m_updated_at :: ustr

record collaboration_fanout =
  fo_revision :: int
  fo_session_id :: ustr
  fo_event_hash :: ustr
  fo_payload_json :: ustr
  fo_lease_id :: ustr
  fo_wakeup_json :: "ustr option"
  fo_wakeup_receipt_json :: "ustr option"
  fo_state :: string
  fo_created_at :: ustr

record collaboration_delivery =
  dl_revision :: int
  dl_recipient :: ustr
  dl_state :: string
  dl_error :: "ustr option"

record collaboration_board =
  bd_team_id :: ustr
  bd_version :: int
  bd_board_json :: ustr

text \<open>One table per SQL table; \<open>collaboration_ledger\<close> is the revision in its only row.\<close>

record control_db =
  fence :: "fence_row option"
  thread_catalog :: "thread_row list"
  operation_leases :: "operation_lease list"
  communication_outbox :: "outbox_record list"
  communication_inbox :: "inbox_record list"
  creation_records :: "creation_record list"
  execution_intents :: "execution_intent list"
  owner_bindings :: "owner_binding_row list"
  collaboration_ledger :: "int option"
  collaboration_members :: "collaboration_member list"
  collaboration_fanouts :: "collaboration_fanout list"
  collaboration_deliveries :: "collaboration_delivery list"
  collaboration_boards :: "collaboration_board list"

subsection \<open>Connection and transactions\<close>

text \<open>
  \<open>write_locked\<close>: another process holds the write lock for longer than the busy timeout. After a commit
  the source hands the new fan-outs to a call-back, if one is bound; the model has none bound.
\<close>

record control_store =
  db :: control_db
  closed :: bool
  read_only :: bool
  in_transaction :: bool
  write_locked :: bool

type_synonym 'a store_op = "control_store \<Rightarrow> (control_error + 'a) \<times> control_store"

definition close :: "control_store \<Rightarrow> control_store" where
  "close s = s\<lparr>closed := True\<rparr>"

definition ensure_open :: "control_store \<Rightarrow> control_error + unit" where
  "ensure_open s = require (\<not> closed s) (Runtime_Error ''store closed'')"

definition begin_immediate :: "control_store \<Rightarrow> control_error + unit" where
  "begin_immediate s =
     bind_res (ensure_open s) (\<lambda>_.
     bind_res (require (\<not> read_only s) (Runtime_Error ''read only'')) (\<lambda>_.
     bind_res (require (\<not> in_transaction s) (Runtime_Error ''nested transaction'')) (\<lambda>_.
     require (\<not> write_locked s) (Runtime_Error ''write lock busy''))))"

text \<open>The body works on the database of the transaction: its result is committed, or rolled back on a raise.\<close>

definition write_transaction :: "(control_db \<Rightarrow> control_error + ('a \<times> control_db)) \<Rightarrow> 'a store_op" where
  "write_transaction body s =
     (case begin_immediate s of
        Inl e \<Rightarrow> (Inl e, s)
      | Inr _ \<Rightarrow> (case body (db s) of Inl e \<Rightarrow> (Inl e, s) | Inr (x, d) \<Rightarrow> (Inr x, s\<lparr>db := d\<rparr>)))"

text \<open>A bare \<^verbatim>\<open>execute("BEGIN IMMEDIATE")\<close>.\<close>

definition raw_begin :: "control_store \<Rightarrow> control_error + unit" where
  "raw_begin s = require (\<not> in_transaction s \<and> \<not> write_locked s \<and> \<not> read_only s) Operational_Error"

definition raw_transaction :: "(control_db \<Rightarrow> control_error + ('a \<times> control_db)) \<Rightarrow> 'a store_op" where
  "raw_transaction body s =
     (case raw_begin s of
        Inl e \<Rightarrow> (Inl e, s)
      | Inr _ \<Rightarrow> (case body (db s) of Inl e \<Rightarrow> (Inl e, s) | Inr (x, d) \<Rightarrow> (Inr x, s\<lparr>db := d\<rparr>)))"

text \<open>The checks that precede the transaction of a method.\<close>

definition checked :: "(control_error + 'b) \<Rightarrow> ('b \<Rightarrow> 'a store_op) \<Rightarrow> 'a store_op" where
  "checked r k s = (case r of Inl e \<Rightarrow> (Inl e, s) | Inr x \<Rightarrow> k x s)"

text \<open>A method without a transaction of its own.\<close>

definition read_op :: "(control_db \<Rightarrow> control_error + 'a) \<Rightarrow> 'a store_op" where
  "read_op f s = (case ensure_open s of Inl e \<Rightarrow> (Inl e, s) | Inr _ \<Rightarrow> (f (db s), s))"

subsection \<open>The lifecycle fence\<close>

definition FENCE_STATES :: "string list" where
  "FENCE_STATES = [''active'', ''deleting'']"

definition fetch_fence_row :: "control_db \<Rightarrow> fence_row option" where
  "fetch_fence_row d = fence d"

definition read_fence_row :: "control_db \<Rightarrow> control_error + fence_row" where
  "read_fence_row d =
     (case fetch_fence_row d of None \<Rightarrow> Inl (Key_Error ''lifecycle fence'') | Some r \<Rightarrow> Inr r)"

definition initialize_fence_body :: "string \<Rightarrow> int \<Rightarrow> control_db \<Rightarrow> control_error + (unit \<times> control_db)" where
  "initialize_fence_body state generation d =
     (case fetch_fence_row d of
        None \<Rightarrow> bind_res (sql_int generation) (\<lambda>_.
          Inr ((), d\<lparr>fence := Some \<lparr>f_state = state, f_generation = generation\<rparr>\<rparr>))
      | Some row \<Rightarrow>
          if f_state row \<noteq> state \<or> f_generation row \<noteq> generation
          then Inl (Runtime_Error ''fence differs'') else Inr ((), d))"

definition initialize_fence :: "string \<Rightarrow> int \<Rightarrow> unit store_op" where
  "initialize_fence state generation s =
     checked (bind_res (require (state \<in> set FENCE_STATES) (Value_Error ''fence state'')) (\<lambda>_.
              bind_res (require (\<not> generation < 0) (Value_Error ''fence generation'')) (\<lambda>_.
              ensure_open s)))
       (\<lambda>_. raw_transaction (initialize_fence_body state generation)) s"

text \<open>
  The state is read before the write transaction begins: \<open>others\<close> is what other processes write in
  between.
\<close>

definition cas_fence_body :: "int \<Rightarrow> string \<Rightarrow> control_db \<Rightarrow> control_error + (bool \<times> control_db)" where
  "cas_fence_body expected_generation new_state d =
     bind_res (read_fence_row d) (\<lambda>row.
     if f_state row = ''active'' \<and> new_state = ''deleting'' \<and> f_generation row = expected_generation
     then bind_res (sql_int (f_generation row + 1)) (\<lambda>_.
          Inr (True, d\<lparr>fence := Some \<lparr>f_state = new_state, f_generation = f_generation row + 1\<rparr>\<rparr>))
     else Inr (False, d))"

definition cas_fence_transition :: "(control_db \<Rightarrow> control_db) \<Rightarrow> int \<Rightarrow> string \<Rightarrow> bool store_op" where
  "cas_fence_transition others expected_generation new_state s =
     checked (bind_res (require (new_state \<in> set FENCE_STATES) (Value_Error ''fence state'')) (\<lambda>_.
              bind_res (ensure_open s) (\<lambda>_. read_fence_row (db s))))
       (\<lambda>row s.
          if f_state row \<noteq> ''active'' \<or> new_state \<noteq> ''deleting'' then (Inr False, s)
          else if f_generation row \<noteq> expected_generation then (Inr False, s)
          else raw_transaction (cas_fence_body expected_generation new_state) (s\<lparr>db := others (db s)\<rparr>)) s"

definition get_fence :: "(string \<times> int) store_op" where
  "get_fence = read_op (\<lambda>d. bind_res (read_fence_row d) (\<lambda>row. Inr (f_state row, f_generation row)))"

subsection \<open>The thread catalog\<close>

definition is_sha256_digest :: "ustr \<Rightarrow> bool" where
  "is_sha256_digest s \<longleftrightarrow> startswith s (u ''sha256:'') \<and> length s = 71 \<and> list_all lower_hex (drop 7 s)"

definition make_graph_binding :: "ustr \<Rightarrow> int \<Rightarrow> ustr \<Rightarrow> ustr \<Rightarrow> control_error + graph_binding" where
  "make_graph_binding gid revision schema profile =
     bind_res (require (strip gid \<noteq> []) (Value_Error ''graph_id'')) (\<lambda>_.
     bind_res (require (\<not> revision < 1) (Value_Error ''graph_revision'')) (\<lambda>_.
     bind_res (require (is_sha256_digest schema) (Value_Error ''graph_schema_hash'')) (\<lambda>_.
     bind_res (require (is_sha256_digest profile) (Value_Error ''capability_profile_hash'')) (\<lambda>_.
     Inr \<lparr>graph_id = gid, graph_revision = revision, graph_schema_hash = schema,
          capability_profile_hash = profile\<rparr>))))"

definition thread_row_check :: "thread_row \<Rightarrow> bool" where
  "thread_row_check r \<longleftrightarrow> t_kind r \<in> {''main'', ''child''}
     \<and> (case t_graph_revision r of None \<Rightarrow> True | Some n \<Rightarrow> 1 \<le> n)"

definition thread_row_clash :: "thread_row \<Rightarrow> thread_row \<Rightarrow> bool" where
  "thread_row_clash r r' \<longleftrightarrow> t_thread_id r = t_thread_id r'"

definition main_rows :: "control_db \<Rightarrow> thread_row list" where
  "main_rows d = filter (\<lambda>r. t_kind r = ''main'') (thread_catalog d)"

definition graph_binding_record_from_row :: "thread_row \<Rightarrow> control_error + graph_binding option" where
  "graph_binding_record_from_row row =
     (case (t_graph_id row, t_graph_revision row, t_graph_schema_hash row, t_capability_profile_hash row) of
        (None, None, None, None) \<Rightarrow> Inr None
      | (Some a, Some b, Some c, Some e) \<Rightarrow>
          (case make_graph_binding a b c e of
             Inl _ \<Rightarrow> Inl (Runtime_Error ''invalid GraphBinding'') | Inr g \<Rightarrow> Inr (Some g))
      | _ \<Rightarrow> Inl (Runtime_Error ''incomplete GraphBinding''))"

definition new_thread_row :: "ustr \<Rightarrow> string \<Rightarrow> ustr \<Rightarrow> graph_binding \<Rightarrow> thread_row" where
  "new_thread_row tid kind created g =
     \<lparr>t_thread_id = tid, t_kind = kind, t_created_at = created, t_graph_id = Some (graph_id g),
      t_graph_revision = Some (graph_revision g), t_graph_schema_hash = Some (graph_schema_hash g),
      t_capability_profile_hash = Some (capability_profile_hash g)\<rparr>"

definition initialize_main_thread_body ::
    "ustr \<Rightarrow> ustr \<Rightarrow> graph_binding \<Rightarrow> control_db \<Rightarrow> control_error + (unit \<times> control_db)" where
  "initialize_main_thread_body thread_id created_at_text binding d =
     (case main_rows d of
        [] \<Rightarrow>
          bind_res (sql_int (graph_revision binding)) (\<lambda>_.
          bind_res (sql_insert thread_row_check thread_row_clash
                      (new_thread_row thread_id ''main'' created_at_text binding) (thread_catalog d))
            (\<lambda>t. Inr ((), d\<lparr>thread_catalog := t\<rparr>)))
      | existing # others \<Rightarrow>
          bind_res (require (others = []) (Runtime_Error ''several main rows'')) (\<lambda>_.
          bind_res (require (t_thread_id existing = thread_id \<and> t_kind existing = ''main'')
                      (Runtime_Error ''main row differs'')) (\<lambda>_.
          bind_res (graph_binding_record_from_row existing) (\<lambda>g.
          if g \<noteq> None \<and> g \<noteq> Some binding then Inl (Runtime_Error ''GraphBinding differs'')
          else Inr ((), d)))))"

definition initialize_main_thread :: "ustr \<Rightarrow> py_datetime \<Rightarrow> graph_binding \<Rightarrow> unit store_op" where
  "initialize_main_thread thread_id created_at binding s =
     checked (bind_res (check_thread_id thread_id) (\<lambda>_.
              bind_res (require (dt_utcoffset created_at \<noteq> None) (Value_Error ''naive created_at'')) (\<lambda>_.
              ensure_open s)))
       (\<lambda>_. raw_transaction (initialize_main_thread_body thread_id (isoformat created_at) binding)) s"

definition get_thread_graph_binding :: "ustr \<Rightarrow> graph_binding option store_op" where
  "get_thread_graph_binding thread_id =
     checked (check_thread_id thread_id) (\<lambda>_. read_op (\<lambda>d.
       case select_one (\<lambda>r. t_thread_id r = thread_id) (thread_catalog d) of
         None \<Rightarrow> Inl (Key_Error ''thread'')
       | Some row \<Rightarrow> graph_binding_record_from_row row))"

definition main_thread_of :: "control_db \<Rightarrow> control_error + thread_row" where
  "main_thread_of d =
     (case main_rows d of
        [] \<Rightarrow> Inl (Key_Error ''main row'')
      | r # others \<Rightarrow> if others \<noteq> [] then Inl (Runtime_Error ''several main rows'') else Inr r)"

definition get_main_thread :: "thread_row store_op" where
  "get_main_thread = read_op main_thread_of"

definition verify_matches_catalog_main_thread :: "ustr \<Rightarrow> unit store_op" where
  "verify_matches_catalog_main_thread main_thread_id s =
     checked (check_thread_id main_thread_id) (\<lambda>_.
       read_op (\<lambda>d. bind_res (main_thread_of d) (\<lambda>row.
         require (t_thread_id row = main_thread_id) (Runtime_Error ''main thread differs'')))) s"

definition get_thread_catalog_revision :: "nat store_op" where
  "get_thread_catalog_revision = read_op (\<lambda>d. Inr (length (thread_catalog d)))"

definition list_child_thread_rows :: "(ustr \<times> ustr) list store_op" where
  "list_child_thread_rows = read_op (\<lambda>d.
     Inr (map (\<lambda>r. (t_thread_id r, t_created_at r))
       (order_by (\<lambda>r. [t_created_at r, t_thread_id r])
         (filter (\<lambda>r. t_kind r = ''child'') (thread_catalog d)))))"

end
