(* ===== verification/Operation_Lease.thy ===== *)
theory Operation_Lease
  imports Session_Control
begin

section \<open>Operation leases\<close>

text \<open>
  \<^verbatim>\<open>app/core/session_control_operation_lease/operation_lease.py\<close> and the closed sets of
  \<^verbatim>\<open>app/core/session_lifecycle_gate.py\<close>. An operation holds a lease with a fencing token: every
  transition is a compare-and-swap on the token, a recovery owner that takes over gets the next token.
  \<open>now\<close> is the clock reading and \<open>new_id\<close> the identifier that \<^verbatim>\<open>create_prefixed_id("lease")\<close> returns. A
  method may run in a transaction of its own (\<open>None\<close>) or join the caller's: then the argument says whether
  the connection is the store's own.
\<close>

definition LEASE_TERMINAL_STATES :: "string list" where
  "LEASE_TERMINAL_STATES = [''completed'', ''cancelled'', ''failed'']"

definition LEASE_STATES :: "string list" where
  "LEASE_STATES = [''active'', ''settling'', ''completed'', ''cancelled'', ''failed'']"

definition LEASE_KINDS :: "string list" where
  "LEASE_KINDS = [''thread_creation'', ''board_migration'', ''collaboration_fanout'', ''runtime_owner'',
     ''execution'', ''context_control'', ''communication_source'', ''communication_target'',
     ''federated_call'', ''remote_observation'', ''attachment'', ''fork_retention'',
     ''session_catalog_mutation'']"

text \<open>The constraints of the table.\<close>

definition lease_check :: "operation_lease \<Rightarrow> bool" where
  "lease_check l \<longleftrightarrow> operation_kind l \<in> set LEASE_KINDS \<and> 1 \<le> holder_generation l \<and> 1 \<le> fencing_token l
     \<and> lease_state l \<in> set LEASE_STATES \<and> 1 \<le> lease_revision l"

definition lease_clash :: "operation_lease \<Rightarrow> operation_lease \<Rightarrow> bool" where
  "lease_clash l l' \<longleftrightarrow> lease_id l = lease_id l'
     \<or> (captured_generation l = captured_generation l' \<and> operation_identity l = operation_identity l')"

definition same_operation :: "int \<Rightarrow> ustr \<Rightarrow> operation_lease \<Rightarrow> bool" where
  "same_operation generation identity l \<longleftrightarrow>
     captured_generation l = generation \<and> operation_identity l = identity"

definition lease_transaction ::
    "bool option \<Rightarrow> (control_db \<Rightarrow> control_error + ('a \<times> control_db)) \<Rightarrow> 'a store_op" where
  "lease_transaction transaction_connection body s =
     (case transaction_connection of
        None \<Rightarrow> write_transaction body s
      | Some own \<Rightarrow>
          if \<not> own \<or> \<not> in_transaction s then (Inl (Value_Error ''not the open transaction''), s)
          else (case body (db s) of Inl e \<Rightarrow> (Inl e, s) | Inr (x, d) \<Rightarrow> (Inr x, s\<lparr>db := d\<rparr>)))"

subsection \<open>Admission\<close>

definition create_or_get_lease_body ::
    "ustr \<Rightarrow> ustr \<Rightarrow> string \<Rightarrow> ustr \<Rightarrow> ustr \<Rightarrow> int option \<Rightarrow> ustr option \<Rightarrow> control_db
       \<Rightarrow> control_error + (operation_lease \<times> control_db)" where
  "create_or_get_lease_body now new_id kind identity preimage expected_generation ref d =
     bind_res (read_fence_row d) (\<lambda>row.
     bind_res (require (f_state row = ''active'') (Runtime_Error ''fence not active'')) (\<lambda>_.
     bind_res (require (expected_generation = None \<or> expected_generation = Some (f_generation row))
                 (Value_Error ''expected_generation'')) (\<lambda>_.
     case select_one (same_operation (f_generation row) identity) (operation_leases d) of
       Some l \<Rightarrow>
         if preimage_hash l \<noteq> preimage then Inl (Runtime_Error ''preimage conflict'') else Inr (l, d)
     | None \<Rightarrow>
         let l = \<lparr>lease_id = new_id, operation_kind = kind, operation_identity = identity,
                  preimage_hash = preimage, captured_generation = f_generation row, holder_generation = 1,
                  fencing_token = 1, lease_state = ''active'', lease_revision = 1, recovery_ref = ref,
                  lease_created_at = now, lease_updated_at = now\<rparr>
         in bind_res (sql_insert lease_check lease_clash l (operation_leases d)) (\<lambda>t.
            Inr (l, d\<lparr>operation_leases := t\<rparr>)))))"

definition create_or_get_lease ::
    "ustr \<Rightarrow> ustr \<Rightarrow> string \<Rightarrow> ustr \<Rightarrow> ustr \<Rightarrow> int option \<Rightarrow> ustr option \<Rightarrow> bool option
       \<Rightarrow> operation_lease store_op" where
  "create_or_get_lease now new_id kind identity preimage expected_generation ref tx =
     checked (bind_res (require (kind \<in> set LEASE_KINDS) (Value_Error ''operation_kind'')) (\<lambda>_.
              bind_res (require (identity \<noteq> []) (Value_Error ''operation_identity'')) (\<lambda>_.
              bind_res (require (is_sha256_hex preimage) (Value_Error ''preimage_hash'')) (\<lambda>_.
              require (ref \<noteq> Some []) (Value_Error ''recovery_ref'')))))
       (\<lambda>_. lease_transaction tx
          (create_or_get_lease_body now new_id kind identity preimage expected_generation ref))"

subsection \<open>Transitions by compare-and-swap\<close>

definition lease_row_or_raise :: "ustr \<Rightarrow> control_db \<Rightarrow> control_error + operation_lease" where
  "lease_row_or_raise lid d =
     (case select_one (\<lambda>l. lease_id l = lid) (operation_leases d) of
        None \<Rightarrow> Inl (Key_Error ''operation lease'') | Some l \<Rightarrow> Inr l)"

text \<open>
  The update statement and what follows it: the row count must be one, otherwise the missing row or the
  failed comparison is reported; then the row is read back.
\<close>

definition lease_cas ::
    "ustr \<Rightarrow> (operation_lease \<Rightarrow> bool) \<Rightarrow> (operation_lease \<Rightarrow> operation_lease) \<Rightarrow> string \<Rightarrow> control_db
       \<Rightarrow> control_error + (operation_lease \<times> control_db)" where
  "lease_cas lid guard f failure d =
     bind_res (sql_update lease_check (\<lambda>l. lease_id l = lid \<and> guard l) f (operation_leases d)) (\<lambda>(n, t).
     if n \<noteq> 1 then bind_res (lease_row_or_raise lid d) (\<lambda>_. Inl (Runtime_Error failure))
     else bind_res (lease_row_or_raise lid (d\<lparr>operation_leases := t\<rparr>)) (\<lambda>l.
          Inr (l, d\<lparr>operation_leases := t\<rparr>)))"

definition mark_lease_settling_body ::
    "ustr \<Rightarrow> ustr \<Rightarrow> int \<Rightarrow> control_db \<Rightarrow> control_error + (operation_lease \<times> control_db)" where
  "mark_lease_settling_body now lid expected_token d =
     bind_res (sql_int expected_token) (\<lambda>_.
     lease_cas lid (\<lambda>l. lease_state l = ''active'' \<and> fencing_token l = expected_token)
       (\<lambda>l. l\<lparr>lease_state := ''settling'', lease_revision := lease_revision l + 1, lease_updated_at := now\<rparr>)
       ''settling CAS'' d)"

definition mark_lease_settling :: "ustr \<Rightarrow> ustr \<Rightarrow> int \<Rightarrow> bool option \<Rightarrow> operation_lease store_op" where
  "mark_lease_settling now lid expected_token tx =
     lease_transaction tx (mark_lease_settling_body now lid expected_token)"

definition settle_lease_body ::
    "ustr \<Rightarrow> ustr \<Rightarrow> int \<Rightarrow> string \<Rightarrow> control_db \<Rightarrow> control_error + (operation_lease \<times> control_db)" where
  "settle_lease_body now lid expected_token outcome d =
     bind_res (sql_int expected_token) (\<lambda>_.
     lease_cas lid (\<lambda>l. lease_state l = ''settling'' \<and> fencing_token l = expected_token)
       (\<lambda>l. l\<lparr>lease_state := outcome, lease_revision := lease_revision l + 1, lease_updated_at := now\<rparr>)
       ''settle CAS'' d)"

definition settle_lease :: "ustr \<Rightarrow> ustr \<Rightarrow> int \<Rightarrow> string \<Rightarrow> bool option \<Rightarrow> operation_lease store_op" where
  "settle_lease now lid expected_token outcome tx =
     checked (require (outcome \<in> set LEASE_TERMINAL_STATES) (Value_Error ''outcome''))
       (\<lambda>_. lease_transaction tx (settle_lease_body now lid expected_token outcome))"

definition takeover_lease_body ::
    "ustr \<Rightarrow> ustr \<Rightarrow> int \<Rightarrow> control_db \<Rightarrow> control_error + (operation_lease \<times> control_db)" where
  "takeover_lease_body now lid expected_token d =
     bind_res (sql_int expected_token) (\<lambda>_.
     lease_cas lid (\<lambda>l. fencing_token l = expected_token \<and> lease_state l \<in> {''active'', ''settling''})
       (\<lambda>l. l\<lparr>lease_state := ''active'', fencing_token := fencing_token l + 1,
             holder_generation := holder_generation l + 1, lease_revision := lease_revision l + 1,
             lease_updated_at := now\<rparr>)
       ''takeover CAS'' d)"

definition takeover_lease :: "ustr \<Rightarrow> ustr \<Rightarrow> int \<Rightarrow> operation_lease store_op" where
  "takeover_lease now lid expected_token = write_transaction (takeover_lease_body now lid expected_token)"

subsection \<open>Reading\<close>

definition get_lease :: "ustr \<Rightarrow> operation_lease store_op" where
  "get_lease lid = read_op (lease_row_or_raise lid)"

definition find_lease_by_operation :: "ustr \<Rightarrow> operation_lease option store_op" where
  "find_lease_by_operation identity = read_op (\<lambda>d.
     Inr (select_one (\<lambda>l. operation_identity l = identity) (rev (operation_leases d))))"

definition list_non_terminal_leases :: "operation_lease list store_op" where
  "list_non_terminal_leases = read_op (\<lambda>d.
     Inr (order_by lease_created_at
       (filter (\<lambda>l. lease_state l \<in> {''active'', ''settling''}) (operation_leases d))))"

definition verify_lease_token :: "ustr \<Rightarrow> int \<Rightarrow> bool store_op" where
  "verify_lease_token lid token = read_op (\<lambda>d.
     Inr (case select_one (\<lambda>l. lease_id l = lid) (operation_leases d) of
            None \<Rightarrow> False
          | Some l \<Rightarrow> lease_state l \<in> {''active'', ''settling''} \<and> fencing_token l = token))"

definition assert_lease_current :: "operation_lease \<Rightarrow> operation_lease store_op" where
  "assert_lease_current l = read_op (\<lambda>d.
     bind_res (lease_row_or_raise (lease_id l) d) (\<lambda>c.
     if (operation_kind c, operation_identity c, preimage_hash c, captured_generation c, holder_generation c,
         fencing_token c, recovery_ref c, lease_created_at c)
        \<noteq> (operation_kind l, operation_identity l, preimage_hash l, captured_generation l,
            holder_generation l, fencing_token l, recovery_ref l, lease_created_at l)
        \<or> lease_state c \<notin> {''settling'', ''completed''}
     then Inl (Runtime_Error ''lease proof expired'') else Inr c))"

subsection \<open>Clean-up\<close>

text \<open>
  Runs in the write transaction of the caller; \<open>in_tx\<close> is \<^verbatim>\<open>connection.in_transaction\<close>. A lease that a
  fan-out refers to is protected by the foreign key.
\<close>

definition deletable :: "string \<Rightarrow> control_db \<Rightarrow> ustr \<Rightarrow> bool" where
  "deletable kind d identity \<longleftrightarrow>
     (let rows = filter (\<lambda>l. operation_identity l = identity) (operation_leases d)
      in rows \<noteq> [] \<and> \<not> list_ex (\<lambda>l. operation_kind l \<noteq> kind \<or> lease_state l \<notin> set LEASE_TERMINAL_STATES) rows)"

definition delete_terminal_leases ::
    "bool \<Rightarrow> ustr list \<Rightarrow> string \<Rightarrow> control_db \<Rightarrow> control_error + control_db" where
  "delete_terminal_leases in_tx identities kind d =
     bind_res (require in_tx (Runtime_Error ''no write transaction'')) (\<lambda>_.
     bind_res (require (list_all (deletable kind d) identities) (Runtime_Error ''lease not terminal'')) (\<lambda>_.
     bind_res (require (\<not> list_ex (\<lambda>l. operation_identity l \<in> set identities
                 \<and> list_ex (\<lambda>f. fo_lease_id f = lease_id l) (collaboration_fanouts d)) (operation_leases d)) Integrity_Error) (\<lambda>_.
     Inr (d\<lparr>operation_leases :=
       foldl (\<lambda>t identity. sql_delete (\<lambda>l. operation_identity l = identity) t) (operation_leases d) identities\<rparr>))))"

subsection \<open>What the compare-and-swap does\<close>

lemma lease_cas_Inr:
  assumes "lease_cas lid guard f failure d = Inr (l, d')"
  defines "t \<equiv> map (\<lambda>x. if lease_id x = lid \<and> guard x then f x else x) (operation_leases d)"
  shows "\<forall>x\<in>set (operation_leases d). lease_id x = lid \<and> guard x \<longrightarrow> lease_check (f x)"
    and "length (filter (\<lambda>x. lease_id x = lid \<and> guard x) (operation_leases d)) = 1"
    and "select_one (\<lambda>x. lease_id x = lid) t = Some l" and "d' = d\<lparr>operation_leases := t\<rparr>"
proof -
  from assms(1) obtain n t' where upd: "sql_update lease_check (\<lambda>l. lease_id l = lid \<and> guard l) f (operation_leases d) = Inr (n, t')"
    and rest: "(if n \<noteq> 1 then bind_res (lease_row_or_raise lid d) (\<lambda>_. Inl (Runtime_Error failure))
      else bind_res (lease_row_or_raise lid (d\<lparr>operation_leases := t'\<rparr>)) (\<lambda>l. Inr (l, d\<lparr>operation_leases := t'\<rparr>))) = Inr (l, d')"
    unfolding lease_cas_def by auto
  from upd show "\<forall>x\<in>set (operation_leases d). lease_id x = lid \<and> guard x \<longrightarrow> lease_check (f x)"
    unfolding sql_update_eq_Inr by blast
  from rest have n: "n = 1" by (cases "n = 1") (simp_all add: bind_res_def split: sum.splits)
  with upd show "length (filter (\<lambda>x. lease_id x = lid \<and> guard x) (operation_leases d)) = 1"
    unfolding sql_update_eq_Inr by simp
  from upd have t': "t' = t" unfolding sql_update_eq_Inr t_def by blast
  from rest n t' show "select_one (\<lambda>x. lease_id x = lid) t = Some l" "d' = d\<lparr>operation_leases := t\<rparr>"
    by (auto simp: lease_row_or_raise_def split: option.splits)
qed

text \<open>With unique identifiers: the row satisfied the guard and is now its image.\<close>

lemma lease_cas_succeeds:
  assumes keep: "\<And>l. lease_id (f l) = lease_id l"
    and uniq: "distinct (map lease_id (operation_leases d))"
    and res: "lease_cas lid guard f failure d = Inr (l, d')"
  obtains l0 where "l0 \<in> set (operation_leases d)" "lease_id l0 = lid" "guard l0" "l = f l0"
    "lease_check (f l0)"
    "d' = d\<lparr>operation_leases := map (\<lambda>x. if x = l0 then f l0 else x) (operation_leases d)\<rparr>"
proof -
  let ?sel = "\<lambda>x. lease_id x = lid \<and> guard x"
  from res have chk: "\<forall>x\<in>set (operation_leases d). ?sel x \<longrightarrow> lease_check (f x)"
    and one: "length (filter ?sel (operation_leases d)) = 1"
    and l: "select_one (\<lambda>x. lease_id x = lid) (map (\<lambda>x. if ?sel x then f x else x) (operation_leases d)) = Some l"
    and d': "d' = d\<lparr>operation_leases := map (\<lambda>x. if ?sel x then f x else x) (operation_leases d)\<rparr>"
    using lease_cas_Inr [OF res] by blast+
  from one uniq obtain l0 where l0: "select_one (\<lambda>x. lease_id x = lid) (operation_leases d) = Some l0" "guard l0"
    by (auto simp: length_filter_unique split: option.splits if_splits)
  then have mem: "l0 \<in> set (operation_leases d)" "lease_id l0 = lid"
    using select_one_Some by fastforce+
  have "l = f l0"
    using l l0 mem unfolding select_one_update [where key = lease_id, OF keep] by auto
  moreover have "?sel x \<longleftrightarrow> x = l0" if "x \<in> set (operation_leases d)" for x
    using that mem l0(2) uniq by (auto simp: distinct_map inj_on_def)
  then have "map (\<lambda>x. if ?sel x then f x else x) (operation_leases d)
    = map (\<lambda>x. if x = l0 then f l0 else x) (operation_leases d)"
    by (intro map_cong) auto
  ultimately show thesis using that [of l0] mem l0(2) chk d' by simp
qed

text \<open>A guard that the row does not meet is reported, and nothing changes.\<close>

lemma lease_cas_refused:
  assumes uniq: "distinct (map lease_id (operation_leases d))"
    and row: "select_one (\<lambda>x. lease_id x = lid) (operation_leases d) = Some l" and "\<not> guard l"
  shows "lease_cas lid guard f failure d = Inl (Runtime_Error failure)"
proof -
  have none: "filter (\<lambda>x. lease_id x = lid \<and> guard x) (operation_leases d) = []"
    using assms(3) length_filter_unique [OF uniq, of lid guard] row by simp
  then have "\<forall>x\<in>set (operation_leases d). \<not> (lease_id x = lid \<and> guard x)"
    by (simp add: filter_empty_conv)
  with none show ?thesis
    by (auto simp: lease_cas_def sql_update_def list_all_iff lease_row_or_raise_def row)
qed

end
