(* ===== verification/Py_Json_Text.thy ===== *)
theory Py_Json_Text
  imports Py_Json Utf8_Quote "HOL-Library.List_Lexorder"
begin

section \<open>JSON texts\<close>

text \<open>
  \<^verbatim>\<open>json.loads\<close> and \<^verbatim>\<open>json.dumps(\<dots>, ensure_ascii=False, sort_keys=True, separators=(",", ":"))\<close>, the form
  in which the stores keep structured columns. Reading follows the scanner of the standard library in its
  strict mode: \<open>None\<close> is the \<^verbatim>\<open>ValueError\<close> it raises. The value of a literal with a fraction or an exponent
  (and of \<^verbatim>\<open>NaN\<close>, \<^verbatim>\<open>Infinity\<close>) and the shortest decimal of a \<^verbatim>\<open>float\<close> are the parameters in \<open>float_codec\<close>.
  The reader recurses with a fuel of twice the length of the text; \<open>scan_value_fuel\<close> shows that more makes no
  difference.
\<close>

record float_codec =
  float_value :: "ustr \<Rightarrow> json"
  float_text :: "rat \<Rightarrow> ustr"

subsection \<open>Writing\<close>

definition hex_lower :: "nat \<Rightarrow> nat" where
  "hex_lower d = (if d < 10 then 48 + d else 87 + d)"

definition escape_char :: "nat \<Rightarrow> ustr" where
  "escape_char c =
     (if c = 34 then [92, 34] else if c = 92 then [92, 92] else if c = 8 then [92, 98]
      else if c = 12 then [92, 102] else if c = 10 then [92, 110] else if c = 13 then [92, 114]
      else if c = 9 then [92, 116] else if c < 32 then [92, 117, 48, 48, hex_lower (c div 16), hex_lower (c mod 16)]
      else [c])"

definition json_string :: "ustr \<Rightarrow> ustr" where
  "json_string s = [34] @ concat (map escape_char s) @ [34]"

fun json_text :: "float_codec \<Rightarrow> json \<Rightarrow> ustr" where
  "json_text fc JNull = u ''null''"
| "json_text fc (JBool b) = u (if b then ''true'' else ''false'')"
| "json_text fc (JInt i) = int_str i"
| "json_text fc (JFloat r) = float_text fc r"
| "json_text fc (JStr s) = json_string s"
| "json_text fc (JArr xs) = [91] @ join [44] (map (json_text fc) xs) @ [93]"
| "json_text fc (JObj d) =
     [123] @ join [44] (map (\<lambda>(k, v). json_string k @ [58] @ json_text fc v) (sort_key fst d)) @ [125]"

text \<open>
  The interpreter refuses to print or read an integer of more than 4300 digits; \<open>printable\<close> values have none.
\<close>

definition MAX_STR_DIGITS :: nat where
  "MAX_STR_DIGITS = 4300"

fun printable :: "json \<Rightarrow> bool" where
  "printable (JInt i) = (length (nat_digits (nat \<bar>i\<bar>)) \<le> MAX_STR_DIGITS)"
| "printable (JArr xs) = list_all printable xs"
| "printable (JObj d) = list_all (\<lambda>(k, v). printable v) d"
| "printable _ = True"

subsection \<open>Reading\<close>

definition json_space :: "nat \<Rightarrow> bool" where
  "json_space c \<longleftrightarrow> c = 32 \<or> c = 9 \<or> c = 10 \<or> c = 13"

abbreviation skip_ws :: "ustr \<Rightarrow> ustr" where
  "skip_ws \<equiv> dropWhile json_space"

definition ascii_digit :: "nat \<Rightarrow> bool" where
  "ascii_digit c \<longleftrightarrow> 48 \<le> c \<and> c \<le> 57"

definition digits_nat :: "ustr \<Rightarrow> nat" where
  "digits_nat s = foldl (\<lambda>n c. 10 * n + (c - 48)) 0 s"

text \<open>The optional sign, the integer part, the fraction and the exponent of a number.\<close>

definition integer_part :: "ustr \<Rightarrow> ustr" where
  "integer_part s = (if take 1 s = [48] then [48] else takeWhile ascii_digit s)"

definition fraction_part :: "ustr \<Rightarrow> ustr" where
  "fraction_part s = (if take 1 s = [46] \<and> takeWhile ascii_digit (tl s) \<noteq> []
     then 46 # takeWhile ascii_digit (tl s) else [])"

definition exponent_part :: "ustr \<Rightarrow> ustr" where
  "exponent_part s =
     (let sign = take 1 (tl s) in
      let mark = (if sign = [43] \<or> sign = [45] then take 2 s else take 1 s) in
      let ds = takeWhile ascii_digit (drop (length mark) s) in
      if (take 1 s = [101] \<or> take 1 s = [69]) \<and> ds \<noteq> [] then mark @ ds else [])"

definition scan_number :: "float_codec \<Rightarrow> ustr \<Rightarrow> (json \<times> ustr) option" where
  "scan_number fc s =
     (let sign = takeWhile (\<lambda>c. c = 45) (take 1 s) in
      let s1 = drop (length sign) s in
      let ip = integer_part s1 in
      let s2 = drop (length ip) s1 in
      let fp = fraction_part s2 in
      let s3 = drop (length fp) s2 in
      let ep = exponent_part s3 in
      let rest = drop (length ep) s3 in
      if ip = [] then None
      else if fp = [] \<and> ep = []
      then (if length ip \<le> MAX_STR_DIGITS
            then Some (JInt (if sign = [] then int (digits_nat ip) else - int (digits_nat ip)), rest) else None)
      else Some (float_value fc (sign @ ip @ fp @ ep), rest))"

definition hex4 :: "ustr \<Rightarrow> nat option" where
  "hex4 s = (case map Utf8_Quote.hex_value (take 4 s) of
     [Some a, Some b, Some c, Some d] \<Rightarrow> Some (4096 * a + 256 * b + 16 * c + d)
   | _ \<Rightarrow> None)"

text \<open>
  One character of a string after its backslash, and what follows it. Two escapes that form a surrogate pair
  are one character.
\<close>

definition scan_escape :: "ustr \<Rightarrow> (nat \<times> ustr) option" where
  "scan_escape s = (case s of
     [] \<Rightarrow> None
   | e # t \<Rightarrow>
       if e = 34 \<or> e = 92 \<or> e = 47 then Some (e, t)
       else if e = 98 then Some (8, t) else if e = 102 then Some (12, t) else if e = 110 then Some (10, t)
       else if e = 114 then Some (13, t) else if e = 116 then Some (9, t)
       else if e = 117 then
         (case hex4 t of
            None \<Rightarrow> None
          | Some c \<Rightarrow>
              let t' = drop 4 t in
              if 55296 \<le> c \<and> c \<le> 56319 \<and> take 2 t' = [92, 117] then
                (case hex4 (drop 2 t') of
                   None \<Rightarrow> None
                 | Some c2 \<Rightarrow>
                     if 56320 \<le> c2 \<and> c2 \<le> 57343
                     then Some (65536 + 1024 * (c - 55296) + (c2 - 56320), drop 6 t') else Some (c, t'))
              else Some (c, t'))
       else None)"

lemma scan_escape_shorter: "scan_escape s = Some (c, r) \<Longrightarrow> length r < length s"
  by (auto simp: scan_escape_def Let_def split: list.splits if_splits option.splits)

function scan_string :: "ustr \<Rightarrow> (ustr \<times> ustr) option" where
  "scan_string s = (case s of
     [] \<Rightarrow> None
   | c # t \<Rightarrow>
       if c = 34 then Some ([], t)
       else if c < 32 then None
       else if c = 92 then
         (case scan_escape t of None \<Rightarrow> None | Some (x, r) \<Rightarrow> map_option (\<lambda>(y, r'). (x # y, r')) (scan_string r))
       else map_option (\<lambda>(y, r'). (c # y, r')) (scan_string t))"
  by pat_completeness auto
termination
  by (relation "measure length") (auto dest: scan_escape_shorter)

declare scan_string.simps [simp del]

text \<open>The words of the grammar with their values.\<close>

definition scan_word :: "float_codec \<Rightarrow> ustr \<Rightarrow> (json \<times> ustr) option" where
  "scan_word fc s =
     (if startswith s (u ''null'') then Some (JNull, drop 4 s)
      else if startswith s (u ''true'') then Some (JBool True, drop 4 s)
      else if startswith s (u ''false'') then Some (JBool False, drop 5 s)
      else if startswith s (u ''NaN'') then Some (float_value fc (u ''NaN''), drop 3 s)
      else if startswith s (u ''Infinity'') then Some (float_value fc (u ''Infinity''), drop 8 s)
      else if startswith s (u ''-Infinity'') then Some (float_value fc (u ''-Infinity''), drop 9 s)
      else scan_number fc s)"

fun scan_value :: "float_codec \<Rightarrow> nat \<Rightarrow> ustr \<Rightarrow> (json \<times> ustr) option"
  and scan_items :: "float_codec \<Rightarrow> nat \<Rightarrow> ustr \<Rightarrow> (json list \<times> ustr) option"
  and scan_members :: "float_codec \<Rightarrow> nat \<Rightarrow> obj \<Rightarrow> ustr \<Rightarrow> (obj \<times> ustr) option" where
  "scan_value fc 0 s = None"
| "scan_value fc (Suc n) s =
     (if take 1 s = [34] then map_option (\<lambda>(x, r). (JStr x, r)) (scan_string (tl s))
      else if take 1 s = [91] then
        (let t = skip_ws (tl s) in
         if take 1 t = [93] then Some (JArr [], tl t)
         else map_option (\<lambda>(xs, r). (JArr xs, r)) (scan_items fc n t))
      else if take 1 s = [123] then
        (let t = skip_ws (tl s) in
         if take 1 t = [125] then Some (JObj [], tl t)
         else map_option (\<lambda>(d, r). (JObj d, r)) (scan_members fc n [] t))
      else scan_word fc s)"
| "scan_items fc 0 s = None"
| "scan_items fc (Suc n) s =
     (case scan_value fc n s of
        None \<Rightarrow> None
      | Some (v, r) \<Rightarrow>
          (let t = skip_ws r in
           if take 1 t = [93] then Some ([v], tl t)
           else if take 1 t = [44] then map_option (\<lambda>(vs, r'). (v # vs, r')) (scan_items fc n (skip_ws (tl t)))
           else None))"
| "scan_members fc 0 acc s = None"
| "scan_members fc (Suc n) acc s =
     (if take 1 s \<noteq> [34] then None
      else case scan_string (tl s) of
        None \<Rightarrow> None
      | Some (k, r) \<Rightarrow>
          (let t = skip_ws r in
           if take 1 t \<noteq> [58] then None
           else case scan_value fc n (skip_ws (tl t)) of
             None \<Rightarrow> None
           | Some (v, r') \<Rightarrow>
               (let t' = skip_ws r' in
                if take 1 t' = [125] then Some (jset k v acc, tl t')
                else if take 1 t' = [44] then scan_members fc n (jset k v acc) (skip_ws (tl t'))
                else None)))"

definition json_loads :: "float_codec \<Rightarrow> ustr \<Rightarrow> json option" where
  "json_loads fc s =
     (if startswith s [65279] then None
      else case scan_value fc (2 * length s + 2) (skip_ws s) of
        None \<Rightarrow> None
      | Some (v, r) \<Rightarrow> if skip_ws r = [] then Some v else None)"

subsection \<open>The fuel is enough\<close>

lemma skip_ws_length: "length (skip_ws s) \<le> length s"
  by (rule length_dropWhile_le)

lemma take1_eq: "take (Suc 0) s = [c] \<longleftrightarrow> (\<exists>t. s = c # t)"
  by (cases s) auto

lemma scan_string_simps [simp]:
  "scan_string [] = None"
  "scan_string (c # t) =
     (if c = 34 then Some ([], t) else if c < 32 then None
      else if c = 92 then
        (case scan_escape t of None \<Rightarrow> None | Some (x, r) \<Rightarrow> map_option (\<lambda>(y, r'). (x # y, r')) (scan_string r))
      else map_option (\<lambda>(y, r'). (c # y, r')) (scan_string t))"
  by (subst scan_string.simps, simp)+

lemma scan_string_shorter: "scan_string s = Some (x, r) \<Longrightarrow> length r < length s"
proof (induction s arbitrary: x rule: measure_induct_rule [where f = length])
  case (less s)
  then show ?case
  proof (cases s)
    case (Cons c t)
    show ?thesis
    proof (cases "c = 92")
      case True
      with less.prems Cons obtain y r1 z where e: "scan_escape t = Some (y, r1)" "scan_string r1 = Some (z, r)"
        by (auto split: option.splits)
      with less.IH [OF _ e(2)] Cons scan_escape_shorter [OF e(1)] show ?thesis by simp
    next
      case False
      with less.prems Cons less.IH [of t] show ?thesis
        by (auto split: if_splits option.splits simp: less_Suc_eq)
    qed
  qed simp
qed

lemma scan_number_shorter:
  assumes "scan_number fc s = Some (v, r)"
  shows "length r < length s"
proof -
  define sign where "sign = takeWhile (\<lambda>c. c = 45) (take 1 s)"
  define t where "t = drop (length sign) s"
  define ip where "ip = integer_part t"
  define fp where "fp = fraction_part (drop (length ip) t)"
  define ep where "ep = exponent_part (drop (length fp) (drop (length ip) t))"
  note defs = scan_number_def [of fc s, folded sign_def, unfolded Let_def, folded t_def, folded ip_def,
      folded fp_def, folded ep_def]
  from assms have ip: "ip \<noteq> []" and r: "r = drop (length ep) (drop (length fp) (drop (length ip) t))"
    unfolding defs by (auto split: if_splits)
  from ip have "t \<noteq> []" by (auto simp: ip_def integer_part_def)
  with ip r have "length r < length t" by (cases ip) auto
  then show ?thesis by (simp add: t_def)
qed

lemma scan_word_shorter: "scan_word fc s = Some (v, r) \<Longrightarrow> length r < length s"
  by (cases s) (auto simp: scan_word_def startswith_def split: if_splits dest: scan_number_shorter)

lemma tail_shorter: "take (Suc 0) (skip_ws r) = [c] \<Longrightarrow> length (skip_ws (tl (skip_ws r))) < length r"
  using skip_ws_length [of r] skip_ws_length [of "tl (skip_ws r)"] by (cases "skip_ws r") auto

lemma tail_shorter': "take (Suc 0) (skip_ws r) = [c] \<Longrightarrow> length (tl (skip_ws r)) < length r"
  using skip_ws_length [of r] by (cases "skip_ws r") auto

lemma scan_shorter:
  "scan_value fc n s = Some (v, r) \<Longrightarrow> length r < length s"
  "scan_items fc n s = Some (vs, r) \<Longrightarrow> length r < length s"
  "scan_members fc n acc s = Some (d, r) \<Longrightarrow> length r < length s"
proof (induction fc n s and fc n s and fc n acc s arbitrary: v r and vs r and d r
    rule: scan_value_scan_items_scan_members.induct)
  case (2 fc n s)
  have t: "length (skip_ws (tl s)) < length s" if "s \<noteq> []"
    using that skip_ws_length [of "tl s"] by (cases s) auto
  show ?case
  proof (cases "take 1 s = [34] \<or> take 1 s = [91] \<or> take 1 s = [123]")
    case True
    then have "s \<noteq> []" by auto
    with True 2 t show ?thesis
      by (auto simp: Let_def take1_eq split: if_splits dest!: scan_string_shorter) fastforce+
  next
    case False
    with 2 show ?thesis by (auto dest: scan_word_shorter)
  qed
next
  case (4 fc n s)
  from 4(3) obtain v1 r1 where v: "scan_value fc n s = Some (v1, r1)" by (auto split: option.splits)
  with 4(1) have "length r1 < length s" by blast
  moreover have "length r < length r1"
    using 4(2) [OF v refl refl] 4(3) v tail_shorter [of r1 44] tail_shorter' [of r1 93]
    by (fastforce simp: Let_def split: if_splits)
  ultimately show ?case by simp
next
  case (6 fc n acc s)
  from 6(3) obtain k r1 where s: "take 1 s = [34]" and k: "scan_string (tl s) = Some (k, r1)"
    by (auto split: option.splits if_splits)
  with 6(3) obtain v1 r2 where t: "take 1 (skip_ws r1) = [58]"
    and v: "scan_value fc n (skip_ws (tl (skip_ws r1))) = Some (v1, r2)"
    by (auto simp: Let_def split: option.splits if_splits)
  from k s have "length r1 < length s" by (auto simp: take1_eq dest!: scan_string_shorter)
  moreover have "length r2 < length r1"
    using 6(1) [OF _ k refl refl _ v] s t tail_shorter [of r1 58] by simp
  moreover have "length r < length r2"
    using 6(2) [OF _ k refl refl _ v refl refl] 6(3) s k t v tail_shorter [of r2 44] tail_shorter' [of r2 125]
    by (fastforce simp: Let_def split: if_splits)
  ultimately show ?case by simp
qed auto

lemma scan_fuel:
  "2 * length s < n \<Longrightarrow> scan_value fc (Suc n) s = scan_value fc n s"
  "2 * length s + 1 < n \<Longrightarrow> scan_items fc (Suc n) s = scan_items fc n s"
  "2 * length s + 1 < n \<Longrightarrow> scan_members fc (Suc n) acc s = scan_members fc n acc s"
proof (induction fc n s and fc n s and fc n acc s rule: scan_value_scan_items_scan_members.induct)
  case (2 fc n s)
  have "length (skip_ws (tl s)) < length s" if "s \<noteq> []"
    using that skip_ws_length [of "tl s"] by (cases s) auto
  with 2 have "scan_items fc (Suc n) (skip_ws (tl s)) = scan_items fc n (skip_ws (tl s))"
    if "take 1 s = [91]" "take 1 (skip_ws (tl s)) \<noteq> [93]" using that by (cases s) auto
  moreover have "scan_members fc (Suc n) [] (skip_ws (tl s)) = scan_members fc n [] (skip_ws (tl s))"
    if "take 1 s = [123]" "take 1 (skip_ws (tl s)) \<noteq> [125]"
    using that 2 skip_ws_length [of "tl s"] by (cases s) auto
  ultimately show ?case unfolding scan_value.simps(2) [of fc "Suc n"] scan_value.simps(2) [of fc n] Let_def
    by (auto simp del: scan_items.simps scan_members.simps)
next
  case (4 fc n s)
  have eq: "scan_value fc (Suc n) s = scan_value fc n s" using 4 by simp
  show ?case
  proof (cases "scan_value fc n s")
    case None
    with eq show ?thesis unfolding scan_items.simps(2) [of fc "Suc n"] scan_items.simps(2) [of fc n] by simp
  next
    case (Some x)
    obtain v r where x: "x = (v, r)" by (cases x)
    have "scan_items fc (Suc n) (skip_ws (tl (skip_ws r))) = scan_items fc n (skip_ws (tl (skip_ws r)))"
      if "take 1 (skip_ws r) = [44]"
      using 4(2) [OF Some x [symmetric] refl] that scan_shorter(1) [OF Some [unfolded x]] tail_shorter [of r 44] 4(3) by simp
    with Some x eq show ?thesis unfolding scan_items.simps(2) [of fc "Suc n"] scan_items.simps(2) [of fc n]
      by (simp add: Let_def del: scan_items.simps scan_value.simps)
  qed
next
  case (6 fc n acc s)
  show ?case
  proof (cases "take 1 s = [34] \<and> (\<exists>k r. scan_string (tl s) = Some (k, r) \<and> take 1 (skip_ws r) = [58])")
    case False
    then show ?thesis unfolding scan_members.simps(2) [of fc "Suc n"] scan_members.simps(2) [of fc n] Let_def
      by (simp del: scan_members.simps scan_value.simps split: option.splits)
  next
    case True
    then obtain k r where s: "take 1 s = [34]" and k: "scan_string (tl s) = Some (k, r)" and t: "take 1 (skip_ws r) = [58]"
      by blast
    let ?w = "skip_ws (tl (skip_ws r))"
    have len: "length r < length s" using k s by (auto simp: take1_eq dest!: scan_string_shorter)
    have w: "length ?w < length r" using t tail_shorter [of r 58] by simp
    have eq: "scan_value fc (Suc n) ?w = scan_value fc n ?w"
      using 6(1) [OF _ k refl refl] s t len w 6(3) by simp
    show ?thesis
    proof (cases "scan_value fc n ?w")
      case None
      with eq s k t show ?thesis
        unfolding scan_members.simps(2) [of fc "Suc n"] scan_members.simps(2) [of fc n] by (simp del: scan_value.simps)
    next
      case (Some x)
      obtain v r2 where x: "x = (v, r2)" by (cases x)
      have "scan_members fc (Suc n) (jset k v acc) (skip_ws (tl (skip_ws r2)))
          = scan_members fc n (jset k v acc) (skip_ws (tl (skip_ws r2)))" if "take 1 (skip_ws r2) = [44]"
        using 6(2) [OF _ k refl refl _ Some x [symmetric] refl] that s t scan_shorter(1) [OF Some [unfolded x]]
          tail_shorter [of r2 44] 6(3) len w by simp
      with Some x eq s k t show ?thesis
        unfolding scan_members.simps(2) [of fc "Suc n"] scan_members.simps(2) [of fc n]
        by (simp add: Let_def del: scan_members.simps scan_value.simps)
    qed
  qed
qed simp_all

lemma scan_value_fuel:
  assumes "2 * length s < n" "n \<le> m"
  shows "scan_value fc m s = scan_value fc n s"
  using assms(2,1) by (induction rule: dec_induct) (simp_all del: scan_value.simps add: scan_fuel)

subsection \<open>What was written is read back\<close>

text \<open>Values without floats whose dictionaries have distinct keys, and the same with all keys in order.\<close>

fun plain :: "json \<Rightarrow> bool" where
  "plain (JFloat r) = False"
| "plain (JArr xs) = list_all plain xs"
| "plain (JObj d) = (distinct (map fst d) \<and> list_all (\<lambda>(k, v). plain v) d)"
| "plain _ = True"

fun sort_json :: "json \<Rightarrow> json" where
  "sort_json (JArr xs) = JArr (map sort_json xs)"
| "sort_json (JObj d) = JObj (map (\<lambda>(k, v). (k, sort_json v)) (sort_key fst d))"
| "sort_json v = v"

lemma escape_hex: "c < 32 \<Longrightarrow> hex4 (48 # 48 # hex_lower (c div 16) # hex_lower (c mod 16) # r) = Some c"
  by (auto simp: hex4_def Utf8_Quote.hex_value_def hex_lower_def)

lemma scan_string_escaped: "scan_string (concat (map escape_char s) @ 34 # r) = Some (s, r)"
proof (induction s)
  case (Cons c s)
  then show ?case
    by (auto simp: escape_char_def scan_escape_def escape_hex Let_def)
qed simp

lemma nat_digits_ascii: "list_all ascii_digit (nat_digits n)"
proof (induction n rule: nat_digits.induct)
  case (1 n)
  have "ascii_digit (48 + n mod 10)" "n < 10 \<Longrightarrow> ascii_digit (48 + n)" by (auto simp: ascii_digit_def)
  with 1 show ?case by (subst nat_digits.simps) auto
qed

lemma digits_nat_snoc: "digits_nat (s @ [c]) = 10 * digits_nat s + (c - 48)"
  by (simp add: digits_nat_def)

lemma digits_nat_digits: "digits_nat (nat_digits n) = n"
proof (induction n rule: nat_digits.induct)
  case (1 n)
  have "digits_nat [48 + n] = n" by (simp add: digits_nat_def)
  with 1 show ?case by (subst nat_digits.simps) (simp add: digits_nat_snoc)
qed

lemma nat_digits_head: "\<exists>c ds. nat_digits n = c # ds \<and> (c = 48 \<longrightarrow> n = 0)"
proof (induction n rule: nat_digits.induct)
  case (1 n)
  show ?case
  proof (cases "n < 10")
    case False
    with 1 show ?thesis by (subst nat_digits.simps) auto
  qed (subst nat_digits.simps, auto)
qed

definition delimited :: "ustr \<Rightarrow> bool" where
  "delimited r \<longleftrightarrow> r = [] \<or> hd r \<in> {44, 93, 125}"

lemma integer_part_digits: "delimited r \<Longrightarrow> integer_part (nat_digits n @ r) = nat_digits n"
proof -
  assume d: "delimited r"
  obtain c ds where n: "nat_digits n = c # ds" "c = 48 \<longrightarrow> n = 0" using nat_digits_head by blast
  have "takeWhile ascii_digit (nat_digits n @ r) = nat_digits n"
    using nat_digits_ascii [of n] d
    by (cases r) (auto simp: takeWhile_append delimited_def list_all_iff ascii_digit_def)
  moreover have "nat_digits 0 = [48]" by (subst nat_digits.simps) simp
  ultimately show ?thesis using n by (auto simp: integer_part_def)
qed

lemma delimited_parts:
  assumes "delimited r"
  shows "fraction_part r = []" "exponent_part r = []"
  using assms by (cases r; auto simp: delimited_def fraction_part_def exponent_part_def Let_def)+

lemma int_str_head:
  obtains c t where "int_str i = c # t" "c = 45 \<or> (48 \<le> c \<and> c \<le> 57)"
proof -
  obtain c ds where n: "nat_digits (nat \<bar>i\<bar>) = c # ds" using nat_digits_head by blast
  with nat_digits_ascii [of "nat \<bar>i\<bar>"] have "48 \<le> c" "c \<le> 57" by (auto simp: ascii_digit_def)
  with n that show thesis by (cases "i < 0") (auto simp: int_str_def)
qed

lemma scan_word_int:
  assumes "delimited r" "printable (JInt i)"
  shows "scan_word fc (int_str i @ r) = Some (JInt i, r)"
proof -
  obtain c ds where n: "nat_digits (nat \<bar>i\<bar>) = c # ds" using nat_digits_head by blast
  with nat_digits_ascii [of "nat \<bar>i\<bar>"] have c: "48 \<le> c" "c \<le> 57" by (auto simp: ascii_digit_def)
  have word: "scan_word fc (int_str i @ r) = scan_number fc (int_str i @ r)"
  proof (cases "i < 0")
    case True
    with n c show ?thesis
      by (auto simp: scan_word_def int_str_def startswith_def ustr_simps)
  next
    case False
    with n c show ?thesis by (auto simp: scan_word_def int_str_def startswith_def ustr_simps)
  qed
  have ne: "nat_digits (nat \<bar>i\<bar>) \<noteq> []" using n by simp
  define sg where "sg = (if i < 0 then [45] else [] :: ustr)"
  have str: "int_str i @ r = sg @ nat_digits (nat \<bar>i\<bar>) @ r" by (simp add: int_str_def sg_def)
  have sign: "takeWhile (\<lambda>c. c = 45) (take 1 (int_str i @ r)) = sg"
    using n c by (auto simp: str sg_def)
  show ?thesis
    unfolding word scan_number_def Let_def sign unfolding str
    using assms ne by (auto simp: integer_part_digits delimited_parts digits_nat_digits sg_def)
qed

lemma scan_value_word:
  "take 1 s \<noteq> [34] \<Longrightarrow> take 1 s \<noteq> [91] \<Longrightarrow> take 1 s \<noteq> [123] \<Longrightarrow> scan_value fc (Suc n) s = scan_word fc s"
  by simp

lemma json_text_head:
  assumes "plain v"
  obtains c t where "json_text fc v = c # t" "\<not> json_space c" "c \<noteq> 93" "c < 128"
proof -
  have "\<exists>c t. json_text fc v = c # t \<and> \<not> json_space c \<and> c \<noteq> 93 \<and> c < 128"
  proof (cases v)
    case (JInt i)
    obtain c t where "int_str i = c # t" "c = 45 \<or> (48 \<le> c \<and> c \<le> 57)" by (rule int_str_head)
    with JInt show ?thesis by (auto simp: json_space_def)
  qed (use assms in \<open>auto simp: json_string_def json_space_def ustr_simps\<close>)
  then show thesis using that by blast
qed

lemma skip_ws_text: "plain v \<Longrightarrow> skip_ws (json_text fc v @ r) = json_text fc v @ r"
  by (rule json_text_head [of v fc]) auto

lemma skip_ws_stop: "\<not> json_space c \<Longrightarrow> skip_ws (c # r) = c # r"
  by simp

lemma items_round_trip:
  assumes "xs \<noteq> []" "2 * length (join [44] (map (json_text fc) xs) @ [93] @ r) + 1 < n"
    and IH: "\<And>v n r. v \<in> set xs \<Longrightarrow> delimited r \<Longrightarrow> 2 * length (json_text fc v @ r) < n \<Longrightarrow>
      scan_value fc n (json_text fc v @ r) = Some (sort_json v, r)"
    and "\<forall>v\<in>set xs. plain v"
  shows "scan_items fc n (join [44] (map (json_text fc) xs) @ [93] @ r) = Some (map sort_json xs, r)"
  using assms
proof (induction xs arbitrary: n)
  case (Cons v xs)
  from Cons.prems(2) obtain k where n: "n = Suc k" by (cases n) auto
  show ?case
  proof (cases "xs = []")
    case Nil: True
    have "scan_value fc k (json_text fc v @ 93 # r) = Some (sort_json v, 93 # r)"
      using Cons.prems n Nil by (intro Cons.prems(3)) (auto simp: delimited_def)
    with Nil n show ?thesis by (simp add: json_space_def)
  next
    case False
    then obtain w ws where xs: "xs = w # ws" by (cases xs) auto
    let ?t = "join [44] (map (json_text fc) xs) @ [93] @ r"
    have j: "join [44] (map (json_text fc) (v # xs)) @ [93] @ r = json_text fc v @ 44 # ?t"
      using xs by simp
    have v: "scan_value fc k (json_text fc v @ 44 # ?t) = Some (sort_json v, 44 # ?t)"
      using Cons.prems(2) n j by (intro Cons.prems(3)) (auto simp: delimited_def)
    have t: "skip_ws ?t = ?t"
      using xs Cons.prems(4) skip_ws_text [of w fc] by (cases ws) auto
    have "scan_items fc k ?t = Some (map sort_json xs, r)"
      using Cons.prems(2,4) n j xs by (intro Cons.IH Cons.prems(3)) auto
    with v t show ?thesis unfolding j n by (simp add: json_space_def)
  qed
qed simp

lemma members_round_trip:
  assumes "d \<noteq> []" "2 * length (join [44] (map (\<lambda>(k, v). json_string k @ [58] @ json_text fc v) d) @ [125] @ r) + 1 < n"
    and IH: "\<And>k v n r. (k, v) \<in> set d \<Longrightarrow> delimited r \<Longrightarrow> 2 * length (json_text fc v @ r) < n \<Longrightarrow>
      scan_value fc n (json_text fc v @ r) = Some (sort_json v, r)"
    and "\<forall>(k, v)\<in>set d. plain v" and "distinct (map fst acc @ map fst d)"
  shows "scan_members fc n acc (join [44] (map (\<lambda>(k, v). json_string k @ [58] @ json_text fc v) d) @ [125] @ r)
    = Some (acc @ map (\<lambda>(k, v). (k, sort_json v)) d, r)"
  using assms
proof (induction d arbitrary: n acc)
  case (Cons kv d)
  obtain k v where kv: "kv = (k, v)" by (cases kv)
  from Cons.prems(2) obtain m where n: "n = Suc m" by (cases n) auto
  have new: "k \<notin> fst ` set acc" using Cons.prems(5) kv by auto
  let ?key = "\<lambda>w. 34 # concat (map escape_char k) @ 34 # 58 # json_text fc v @ w"
  have step: "scan_members fc n acc (?key (c # w)) = (if c = 125 then Some (acc @ [(k, sort_json v)], w)
      else scan_members fc m (acc @ [(k, sort_json v)]) (skip_ws w))"
    if "c = 125 \<or> c = 44" "2 * length (?key (c # w)) + 1 < n" for c w
  proof -
    have "scan_value fc m (json_text fc v @ c # w) = Some (sort_json v, c # w)"
      using that n kv by (intro Cons.prems(3)) (auto simp: delimited_def)
    moreover have "skip_ws (json_text fc v @ c # w) = json_text fc v @ c # w"
      using Cons.prems(4) kv by (intro skip_ws_text) auto
    ultimately show ?thesis using that(1) new
      by (auto simp: n scan_string_escaped skip_ws_stop json_space_def al_set_new)
  qed
  show ?case
  proof (cases "d = []")
    case True
    with step [of 125 r] Cons.prems(2) kv show ?thesis by (simp add: json_string_def)
  next
    case False
    then obtain w ws where d: "d = w # ws" by (cases d) auto
    let ?t = "join [44] (map (\<lambda>(k, v). json_string k @ [58] @ json_text fc v) d) @ [125] @ r"
    have j: "join [44] (map (\<lambda>(k, v). json_string k @ [58] @ json_text fc v) (kv # d)) @ [125] @ r = ?key (44 # ?t)"
      using d kv by (simp add: json_string_def)
    have t: "skip_ws ?t = ?t"
      using d by (cases ws; cases w) (auto simp: json_string_def json_space_def)
    have "scan_members fc m (acc @ [(k, sort_json v)]) ?t
        = Some ((acc @ [(k, sort_json v)]) @ map (\<lambda>(k, v). (k, sort_json v)) d, r)"
    proof (rule Cons.IH)
      show "2 * length ?t + 1 < m" using Cons.prems(2) n unfolding j by simp
      show "distinct (map fst (acc @ [(k, sort_json v)]) @ map fst d)" using Cons.prems(5) kv by simp
    qed (use Cons.prems(3,4) d in auto)
    with step [of 44 ?t] Cons.prems(2) show ?thesis unfolding j t by (simp add: kv)
  qed
qed simp

lemma scan_value_round_trip:
  assumes "plain v" "printable v" "delimited r" "2 * length (json_text fc v @ r) < n"
  shows "scan_value fc n (json_text fc v @ r) = Some (sort_json v, r)"
  using assms
proof (induction v arbitrary: r n)
  case JNull
  then show ?case by (cases n) (auto simp: scan_word_def startswith_def ustr_simps)
next
  case (JBool b)
  then show ?case by (cases n) (auto simp: scan_word_def startswith_def ustr_simps)
next
  case (JInt i)
  obtain c t where "int_str i = c # t" "c = 45 \<or> (48 \<le> c \<and> c \<le> 57)" by (rule int_str_head)
  then have "scan_value fc (Suc k) (int_str i @ r) = scan_word fc (int_str i @ r)" for k
    by (intro scan_value_word) auto
  with JInt show ?case by (cases n) (simp_all add: scan_word_int del: scan_value.simps)
next
  case (JStr s)
  then show ?case by (cases n) (auto simp: json_string_def scan_string_escaped)
next
  case (JArr xs)
  then obtain k where n: "n = Suc k" by (cases n) auto
  show ?case
  proof (cases "xs = []")
    case False
    let ?t = "join [44] (map (json_text fc) xs) @ [93] @ r"
    obtain w ws where xs: "xs = w # ws" using False by (cases xs) auto
    have "plain w" using JArr.prems xs by simp
    then obtain c t where c: "json_text fc w = c # t" "\<not> json_space c" "c \<noteq> 93" by (rule json_text_head)
    have t: "take 1 ?t \<noteq> [93]" "skip_ws ?t = ?t" using xs c by (cases ws; auto)+
    have "scan_items fc k ?t = Some (map sort_json xs, r)"
      using JArr n False by (intro items_round_trip) (auto simp: list_all_iff)
    with t n show ?thesis by simp
  qed (simp add: n json_space_def)
next
  case (JObj d)
  then obtain k where n: "n = Suc k" by (cases n) auto
  show ?case
  proof (cases "d = []")
    case False
    let ?e = "sort_key fst d"
    let ?t = "join [44] (map (\<lambda>(k, v). json_string k @ [58] @ json_text fc v) ?e) @ [125] @ r"
    have "?e \<noteq> []" using False by (metis length_0_conv length_sort)
    then obtain w ws where e: "?e = w # ws" by (cases ?e) auto
    have t: "take 1 ?t \<noteq> [125]" "skip_ws ?t = ?t"
      using e by (cases ws; cases w; auto simp: json_string_def json_space_def)+
    have "scan_members fc k [] ?t = Some ([] @ map (\<lambda>(k, v). (k, sort_json v)) ?e, r)"
    proof (rule members_round_trip)
      show "distinct (map fst [] @ map fst ?e)" using JObj.prems(1) by (simp add: distinct_map)
      show "scan_value fc m (json_text fc w @ q) = Some (sort_json w, q)"
        if "(x, w) \<in> set ?e" "delimited q" "2 * length (json_text fc w @ q) < m" for x w m q
        using that JObj.prems(1,2) by (intro JObj.IH [of "(x, w)"]) (auto simp: list_all_iff)
    qed (use JObj.prems n \<open>?e \<noteq> []\<close> in \<open>auto simp: list_all_iff\<close>)
    with t n show ?thesis by simp
  qed (simp add: n json_space_def)
qed simp

lemma json_round_trip:
  assumes "plain v" "printable v"
  shows "json_loads fc (json_text fc v) = Some (sort_json v)"
proof -
  have "scan_value fc (2 * length (json_text fc v) + 2) (json_text fc v @ []) = Some (sort_json v, [])"
    using assms by (intro scan_value_round_trip) (auto simp: delimited_def)
  moreover have "skip_ws (json_text fc v) = json_text fc v" using skip_ws_text [OF assms(1), of fc "[]"] by simp
  moreover have "\<not> startswith (json_text fc v) [65279]"
    by (rule json_text_head [OF assms(1), of fc]) (auto simp: startswith_def)
  ultimately show ?thesis by (simp add: json_loads_def del: scan_value.simps)
qed

end
