(* ===== verification/Thread_Owner_Binding.thy ===== *)
theory Thread_Owner_Binding
  imports Session_Control Py_Json_Text
begin

section \<open>The owner's slots of a thread\<close>

text \<open>
  \<^verbatim>\<open>app/core/session_control_thread_owner_binding/thread_owner_binding.py\<close>: one row per thread with what its
  owner records about it. List slots are JSON texts that only grow; every update adds one to the revision
  and may be conditional on it. Entries must not carry paths or credentials. \<open>py_library\<close> collects what the
  standard library does beyond the model: decimal texts of floats, \<^verbatim>\<open>repr\<close>, \<^verbatim>\<open>datetime.fromisoformat\<close> (a text
  without offset is read in the local zone, whose offset is then part of the result), SHA-256 and the
  decimal digits of the Unicode database.
\<close>

record py_library =
  lib_floats :: float_codec
  lib_runtime :: py_runtime
  lib_fromisoformat :: "ustr \<Rightarrow> py_datetime option"
  lib_sha256 :: "ustr \<Rightarrow> ustr"
  lib_digit :: "nat \<Rightarrow> nat option"

definition loads :: "py_library \<Rightarrow> ustr \<Rightarrow> json option" where
  "loads lib = json_loads (lib_floats lib)"

definition dumps :: "py_library \<Rightarrow> json \<Rightarrow> control_error + ustr" where
  "dumps lib v = (if printable v then Inr (json_text (lib_floats lib) v) else Inl (Value_Error ''integer digits''))"

subsection \<open>Checks of references and entries\<close>

definition EPOCH_REASONS :: "string list" where
  "EPOCH_REASONS = [''initial'', ''compaction'', ''rewind'', ''toolset_changed'']"

text \<open>
  The characters that a case-insensitive pattern identifies with an ASCII letter: besides the capitals
  the long s, the Kelvin sign and the two Turkish letters.
\<close>

definition fold_case :: "nat \<Rightarrow> nat" where
  "fold_case c = (if 65 \<le> c \<and> c \<le> 90 then c + 32 else if c = 383 then 115 else if c = 8490 then 107
     else if c = 304 \<or> c = 305 then 105 else c)"

definition credential_key :: "ustr \<Rightarrow> bool" where
  "credential_key k \<longleftrightarrow> list_ex (\<lambda>w. contains (u w) (map fold_case k))
     [''password'', ''secret'', ''token'', ''api_key'', ''credential'']"

definition validate_ref_text :: "ustr \<Rightarrow> control_error + unit" where
  "validate_ref_text value =
     bind_res (require (value \<noteq> []) (Value_Error ''empty reference'')) (\<lambda>_.
     bind_res (require (0 \<notin> set value) (Value_Error ''NUL in reference'')) (\<lambda>_.
     bind_res (require (\<not> startswith value (u ''/'')) (Value_Error ''absolute path'')) (\<lambda>_.
     require (\<not> (contains (u ''../'') value \<or> value = u ''..'')) (Value_Error ''relative path''))))"

definition validate_entry_item :: "ustr \<times> json \<Rightarrow> control_error + unit" where
  "validate_entry_item kv = (case kv of (key, item) \<Rightarrow>
     bind_res (require (key \<noteq> []) (Value_Error ''empty key'')) (\<lambda>_.
     bind_res (require (\<not> credential_key key) (Value_Error ''credential key'')) (\<lambda>_.
     case item of
       JStr s \<Rightarrow> validate_ref_text s
     | JBool _ \<Rightarrow> Inr () | JInt _ \<Rightarrow> Inr () | JNull \<Rightarrow> Inr ()
     | _ \<Rightarrow> Inl (Type_Error ''entry value''))))"

definition validate_json_entry :: "json \<Rightarrow> control_error + obj" where
  "validate_json_entry entry = (case entry of
     JObj d \<Rightarrow> bind_res (map_res validate_entry_item d) (\<lambda>_. Inr d)
   | _ \<Rightarrow> Inl (Type_Error ''entry''))"

definition canonical_json_list :: "py_library \<Rightarrow> ustr \<Rightarrow> control_error + obj list" where
  "canonical_json_list lib s = (case loads lib s of
     None \<Rightarrow> Inl (Runtime_Error ''corrupt list slot'')
   | Some (JArr xs) \<Rightarrow> map_res validate_json_entry xs
   | Some _ \<Rightarrow> Inl (Runtime_Error ''list slot not an array''))"

subsection \<open>Rows and their projection\<close>

datatype slot = Attachment | Variant | Resource | Source_Revision | Tracking | Selection

definition append_columns :: "slot list" where
  "append_columns = [Attachment, Variant, Resource, Source_Revision, Tracking, Selection]"

fun slot_text :: "slot \<Rightarrow> owner_binding_row \<Rightarrow> ustr" where
  "slot_text Attachment r = b_attachment_refs r"
| "slot_text Variant r = b_variant_refs r"
| "slot_text Resource r = b_resource_refs r"
| "slot_text Source_Revision r = b_source_revision_refs r"
| "slot_text Tracking r = b_tracking_registrations r"
| "slot_text Selection r = b_selection_provenance r"

fun set_slot :: "slot \<Rightarrow> ustr \<Rightarrow> owner_binding_row \<Rightarrow> owner_binding_row" where
  "set_slot Attachment x r = r\<lparr>b_attachment_refs := x\<rparr>"
| "set_slot Variant x r = r\<lparr>b_variant_refs := x\<rparr>"
| "set_slot Resource x r = r\<lparr>b_resource_refs := x\<rparr>"
| "set_slot Source_Revision x r = r\<lparr>b_source_revision_refs := x\<rparr>"
| "set_slot Tracking x r = r\<lparr>b_tracking_registrations := x\<rparr>"
| "set_slot Selection x r = r\<lparr>b_selection_provenance := x\<rparr>"

text \<open>The projection: the scalar columns as stored, the parsed provenance and list slots.\<close>

record owner_binding =
  ob_row :: owner_binding_row
  ob_mutation_provenance :: "obj option"
  ob_lists :: "obj list list"

definition read_provenance :: "py_library \<Rightarrow> ustr option \<Rightarrow> control_error + obj option" where
  "read_provenance lib raw = (case raw of
     None \<Rightarrow> Inr None
   | Some s \<Rightarrow> (case loads lib s of
       None \<Rightarrow> Inl (Runtime_Error ''corrupt provenance'')
     | Some (JObj d) \<Rightarrow> Inr (Some d)
     | Some _ \<Rightarrow> Inl (Runtime_Error ''provenance not an object'')))"

definition owner_binding_from_row :: "py_library \<Rightarrow> owner_binding_row \<Rightarrow> control_error + owner_binding" where
  "owner_binding_from_row lib row =
     bind_res (read_provenance lib (b_mutation_provenance row)) (\<lambda>provenance.
     bind_res (map_res (\<lambda>sl. canonical_json_list lib (slot_text sl row)) append_columns) (\<lambda>lists.
     Inr \<lparr>ob_row = row, ob_mutation_provenance = provenance, ob_lists = lists\<rparr>))"

definition owner_binding_check :: "owner_binding_row \<Rightarrow> bool" where
  "owner_binding_check r \<longleftrightarrow> 1 \<le> b_prefix_epoch r \<and> b_prefix_epoch_reason r \<in> set EPOCH_REASONS \<and> 1 \<le> b_revision r"

definition owner_binding_clash :: "owner_binding_row \<Rightarrow> owner_binding_row \<Rightarrow> bool" where
  "owner_binding_clash r r' \<longleftrightarrow> b_thread_id r = b_thread_id r'"

definition new_owner_binding_row :: "ustr \<Rightarrow> ustr \<Rightarrow> ustr \<Rightarrow> ustr \<Rightarrow> owner_binding_row" where
  "new_owner_binding_row thread_id locator created updated =
     \<lparr>b_thread_id = thread_id, b_final_relative_locator = locator, b_prefix_epoch = 1,
      b_prefix_epoch_reason = ''initial'', b_stable_prefix_hash = None, b_stable_prefix_length = None,
      b_resource_activation_snapshot_ref = None, b_assembly_parent_ref = None, b_mutation_provenance = None,
      b_attachment_refs = u ''[]'', b_variant_refs = u ''[]'', b_resource_refs = u ''[]'',
      b_source_revision_refs = u ''[]'', b_tracking_registrations = u ''[]'', b_selection_provenance = u ''[]'',
      b_revision = 1, b_created_at = created, b_updated_at = updated\<rparr>"

definition insert_thread_owner_binding_row ::
    "ustr \<Rightarrow> ustr \<Rightarrow> ustr \<Rightarrow> ustr \<Rightarrow> control_db \<Rightarrow> control_error + control_db" where
  "insert_thread_owner_binding_row thread_id locator created updated d =
     bind_res (sql_insert owner_binding_check owner_binding_clash
                 (new_owner_binding_row thread_id locator created updated) (owner_bindings d))
       (\<lambda>t. Inr (d\<lparr>owner_bindings := t\<rparr>))"

definition fetch_owner_binding :: "ustr \<Rightarrow> control_db \<Rightarrow> owner_binding_row option" where
  "fetch_owner_binding thread_id d = select_one (\<lambda>r. b_thread_id r = thread_id) (owner_bindings d)"

subsection \<open>Operations\<close>

definition ensure_owner_binding_body ::
    "py_library \<Rightarrow> ustr \<Rightarrow> ustr \<Rightarrow> ustr \<Rightarrow> control_db \<Rightarrow> control_error + (owner_binding \<times> control_db)" where
  "ensure_owner_binding_body lib now thread_id locator d =
     (case fetch_owner_binding thread_id d of
        Some row \<Rightarrow>
          bind_res (require (b_final_relative_locator row = locator) (Runtime_Error ''locator differs'')) (\<lambda>_.
          bind_res (owner_binding_from_row lib row) (\<lambda>b. Inr (b, d)))
      | None \<Rightarrow>
          bind_res (insert_thread_owner_binding_row thread_id locator now now d) (\<lambda>d'.
          case fetch_owner_binding thread_id d' of
            None \<Rightarrow> Inl (Type_Error ''row'')
          | Some row \<Rightarrow> bind_res (owner_binding_from_row lib row) (\<lambda>b. Inr (b, d'))))"

definition ensure_thread_owner_binding :: "py_library \<Rightarrow> ustr \<Rightarrow> ustr \<Rightarrow> ustr \<Rightarrow> owner_binding store_op" where
  "ensure_thread_owner_binding lib now thread_id locator =
     checked (bind_res (check_thread_id thread_id) (\<lambda>_.
              if locator = [] then Inr () else validate_thread_relative_locator (lib_digit lib) locator))
       (\<lambda>_. write_transaction (ensure_owner_binding_body lib now thread_id locator))"

definition get_thread_owner_binding :: "py_library \<Rightarrow> ustr \<Rightarrow> owner_binding store_op" where
  "get_thread_owner_binding lib thread_id =
     checked (check_thread_id thread_id) (\<lambda>_. read_op (\<lambda>d.
       case fetch_owner_binding thread_id d of
         None \<Rightarrow> Inl (Key_Error ''owner binding'')
       | Some row \<Rightarrow> owner_binding_from_row lib row))"

text \<open>The keyword arguments of an update; \<open>ub_append\<close> holds one entry per list slot.\<close>

record binding_update =
  ub_expected_revision :: "int option"
  ub_prefix_epoch :: "int option"
  ub_prefix_epoch_reason :: "string option"
  ub_stable_prefix_hash :: "ustr option"
  ub_stable_prefix_length :: "int option"
  ub_resource_activation_snapshot_ref :: "ustr option"
  ub_assembly_parent_ref :: "ustr option"
  ub_mutation_provenance :: "obj option"
  ub_append :: "slot \<Rightarrow> obj option"

definition check_epoch :: "binding_update \<Rightarrow> control_error + unit" where
  "check_epoch q =
     bind_res (require ((ub_prefix_epoch q = None) = (ub_prefix_epoch_reason q = None)) (Value_Error ''epoch pair'')) (\<lambda>_.
     case (ub_prefix_epoch q, ub_prefix_epoch_reason q) of
       (Some e, Some reason) \<Rightarrow>
         bind_res (require (\<not> e < 1) (Value_Error ''prefix_epoch'')) (\<lambda>_.
         require (reason \<in> set EPOCH_REASONS) (Value_Error ''prefix_epoch_reason''))
     | _ \<Rightarrow> Inr ())"

definition check_stable_prefix :: "binding_update \<Rightarrow> control_error + unit" where
  "check_stable_prefix q =
     bind_res (require ((ub_stable_prefix_hash q = None) = (ub_stable_prefix_length q = None))
                 (Value_Error ''stable prefix pair'')) (\<lambda>_.
     case (ub_stable_prefix_hash q, ub_stable_prefix_length q) of
       (Some h, Some n) \<Rightarrow>
         bind_res (require (is_sha256_hex h) (Value_Error ''stable_prefix_hash'')) (\<lambda>_.
         require (\<not> n < 0) (Value_Error ''stable_prefix_length''))
     | _ \<Rightarrow> Inr ())"

definition check_ref :: "ustr option \<Rightarrow> control_error + unit" where
  "check_ref v = (case v of None \<Rightarrow> Inr () | Some s \<Rightarrow> validate_ref_text s)"

definition PROVENANCE_KEYS :: "ustr list" where
  "PROVENANCE_KEYS = [u ''actor_kind'', u ''actor_ref'', u ''mutated_at'']"

definition provenance_text :: "py_library \<Rightarrow> obj option \<Rightarrow> control_error + ustr option" where
  "provenance_text lib p = (case p of
     None \<Rightarrow> Inr None
   | Some d \<Rightarrow>
       bind_res (validate_json_entry (JObj d)) (\<lambda>_.
       bind_res (require (set (map fst d) = set PROVENANCE_KEYS) (Value_Error ''provenance keys'')) (\<lambda>_.
       bind_res (require (lib_fromisoformat lib (py_str (lib_runtime lib) (jget (u ''mutated_at'') d)) \<noteq> None)
                   (Value_Error ''mutated_at'')) (\<lambda>_.
       bind_res (dumps lib (JObj d)) (\<lambda>s. Inr (Some s))))))"

definition requested_appends :: "binding_update \<Rightarrow> (slot \<times> obj) list" where
  "requested_appends q = List.map_filter (\<lambda>sl. map_option (Pair sl) (ub_append q sl)) append_columns"

definition check_appends :: "binding_update \<Rightarrow> control_error + unit" where
  "check_appends q = bind_res (map_res (\<lambda>(sl, d). validate_json_entry (JObj d)) (requested_appends q)) (\<lambda>_. Inr ())"

definition check_update_fields :: "py_library \<Rightarrow> binding_update \<Rightarrow> control_error + ustr option" where
  "check_update_fields lib q =
     bind_res (check_epoch q) (\<lambda>_.
     bind_res (check_stable_prefix q) (\<lambda>_.
     bind_res (check_ref (ub_resource_activation_snapshot_ref q)) (\<lambda>_.
     bind_res (check_ref (ub_assembly_parent_ref q)) (\<lambda>_.
     bind_res (provenance_text lib (ub_mutation_provenance q)) (\<lambda>provenance.
     bind_res (check_appends q) (\<lambda>_.
     bind_res (require (ub_prefix_epoch q \<noteq> None \<or> ub_stable_prefix_hash q \<noteq> None
                 \<or> ub_resource_activation_snapshot_ref q \<noteq> None \<or> ub_assembly_parent_ref q \<noteq> None
                 \<or> ub_mutation_provenance q \<noteq> None \<or> requested_appends q \<noteq> []) (Value_Error ''no field'')) (\<lambda>_.
     Inr provenance)))))))"

definition appended_text :: "py_library \<Rightarrow> ustr \<Rightarrow> obj \<Rightarrow> control_error + ustr" where
  "appended_text lib old entry = (case loads lib old of
     None \<Rightarrow> Inl (Value_Error ''corrupt list slot'')
   | Some (JArr xs) \<Rightarrow> dumps lib (JArr (xs @ [JObj entry]))
   | Some _ \<Rightarrow> Inl (Runtime_Error ''list slot not an array''))"

text \<open>The new texts of the list slots, computed from the row that was read.\<close>

definition appended_slots :: "py_library \<Rightarrow> owner_binding_row \<Rightarrow> (slot \<times> obj) list \<Rightarrow> control_error + (slot \<times> ustr) list" where
  "appended_slots lib row = map_res (\<lambda>(sl, entry). bind_res (appended_text lib (slot_text sl row) entry) (\<lambda>s. Inr (sl, s)))"

definition override :: "'a option \<Rightarrow> 'a \<Rightarrow> 'a" where
  "override new old = (case new of None \<Rightarrow> old | Some x \<Rightarrow> x)"

definition override_opt :: "'a option \<Rightarrow> 'a option \<Rightarrow> 'a option" where
  "override_opt new old = (case new of None \<Rightarrow> old | Some x \<Rightarrow> Some x)"

text \<open>The \<^verbatim>\<open>SET\<close> clause.\<close>

definition updated_binding ::
    "ustr \<Rightarrow> binding_update \<Rightarrow> ustr option \<Rightarrow> (slot \<times> ustr) list \<Rightarrow> owner_binding_row \<Rightarrow> owner_binding_row" where
  "updated_binding now q provenance slots row =
     fold (\<lambda>(sl, x). set_slot sl x) slots
       (row\<lparr>b_prefix_epoch := override (ub_prefix_epoch q) (b_prefix_epoch row),
            b_prefix_epoch_reason := override (ub_prefix_epoch_reason q) (b_prefix_epoch_reason row),
            b_stable_prefix_hash := override_opt (ub_stable_prefix_hash q) (b_stable_prefix_hash row),
            b_stable_prefix_length := override_opt (ub_stable_prefix_length q) (b_stable_prefix_length row),
            b_resource_activation_snapshot_ref :=
              override_opt (ub_resource_activation_snapshot_ref q) (b_resource_activation_snapshot_ref row),
            b_assembly_parent_ref := override_opt (ub_assembly_parent_ref q) (b_assembly_parent_ref row),
            b_mutation_provenance := override_opt provenance (b_mutation_provenance row),
            b_revision := b_revision row + 1, b_updated_at := now\<rparr>)"

definition update_owner_binding_body ::
    "py_library \<Rightarrow> ustr \<Rightarrow> ustr \<Rightarrow> binding_update \<Rightarrow> ustr option \<Rightarrow> control_db
       \<Rightarrow> control_error + (owner_binding \<times> control_db)" where
  "update_owner_binding_body lib now thread_id q provenance d =
     (case fetch_owner_binding thread_id d of
        None \<Rightarrow> Inl (Key_Error ''owner binding'')
      | Some row \<Rightarrow>
          bind_res (require (ub_expected_revision q = None \<or> ub_expected_revision q = Some (b_revision row))
                      (Runtime_Error ''revision CAS'')) (\<lambda>_.
          bind_res (appended_slots lib row (requested_appends q)) (\<lambda>slots.
          bind_res (sql_int_opt (ub_prefix_epoch q)) (\<lambda>_.
          bind_res (sql_int_opt (ub_stable_prefix_length q)) (\<lambda>_.
          bind_res (sql_update owner_binding_check (\<lambda>r. b_thread_id r = thread_id)
                      (updated_binding now q provenance slots) (owner_bindings d)) (\<lambda>(n, t).
          case fetch_owner_binding thread_id (d\<lparr>owner_bindings := t\<rparr>) of
            None \<Rightarrow> Inl (Type_Error ''row'')
          | Some row' \<Rightarrow> bind_res (owner_binding_from_row lib row') (\<lambda>b. Inr (b, d\<lparr>owner_bindings := t\<rparr>))))))))"

definition update_thread_owner_binding :: "py_library \<Rightarrow> ustr \<Rightarrow> ustr \<Rightarrow> binding_update \<Rightarrow> owner_binding store_op" where
  "update_thread_owner_binding lib now thread_id q =
     checked (bind_res (check_thread_id thread_id) (\<lambda>_. check_update_fields lib q))
       (\<lambda>provenance. write_transaction (update_owner_binding_body lib now thread_id q provenance))"

end
