(* ===== verification/Collaboration.thy ===== *)
theory Collaboration
  imports Operation_Lease Thread_Owner_Binding
begin

section \<open>Members of a session and the fan-out of their changes\<close>

text \<open>
  \<^verbatim>\<open>app/core/session_control_store/collaboration.py\<close> and \<^verbatim>\<open>collaboration_fanout.py\<close>. A delegated thread is a
  member of its coordinator's session; the ledger revision counts the changes. Every change freezes a
  payload for all recipients, protected by an operation lease. A row that is handed around as a \<^verbatim>\<open>dict\<close> is a
  JSON object. Operations that run inside the caller's transaction map the database to a result and the new
  database; that there is such a transaction (\<^verbatim>\<open>connection.in_transaction\<close>) is then given. Committing boards
  and the call-back after a commit are not modelled.
\<close>

subsection \<open>Helpers\<close>

text \<open>\<^verbatim>\<open>row["k"]\<close> of a dictionary; a lazy \<^verbatim>\<open>or\<close> of comparisons; a method that joins the open transaction.\<close>

definition field :: "string \<Rightarrow> obj \<Rightarrow> control_error + json" where
  "field k row = (case map_of row (u k) of None \<Rightarrow> Inl (Key_Error k) | Some v \<Rightarrow> Inr v)"

definition differs :: "string \<Rightarrow> json \<Rightarrow> obj \<Rightarrow> control_error + bool" where
  "differs k v row = bind_res (field k row) (\<lambda>x. Inr (\<not> py_eq x v))"

fun any_res :: "(control_error + bool) list \<Rightarrow> control_error + bool" where
  "any_res [] = Inr False"
| "any_res (r # rs) = bind_res r (\<lambda>b. if b then Inr True else any_res rs)"

definition joined :: "'a store_op \<Rightarrow> control_db \<Rightarrow> control_error + ('a \<times> control_db)" where
  "joined op d =
     (case op \<lparr>db = d, closed = False, read_only = False, in_transaction = True, write_locked = False\<rparr> of
        (Inl e, _) \<Rightarrow> Inl e | (Inr x, s) \<Rightarrow> Inr (x, db s))"

definition json_opt :: "ustr option \<Rightarrow> json" where
  "json_opt x = (case x of None \<Rightarrow> JNull | Some s \<Rightarrow> JStr s)"

definition json_sha :: "py_library \<Rightarrow> json \<Rightarrow> ustr" where
  "json_sha lib v = lib_sha256 lib (json_text (lib_floats lib) v)"

text \<open>\<^verbatim>\<open>set(v) != names\<close>, for a value that may not be a \<^verbatim>\<open>dict\<close>; then its items.\<close>

definition key_set :: "string list \<Rightarrow> control_error \<Rightarrow> json \<Rightarrow> control_error + obj" where
  "key_set names wrong v = (case v of
     JObj d \<Rightarrow> if set (map fst d) = set (map u names) then Inr d else Inl wrong
   | JStr _ \<Rightarrow> Inl wrong
   | JArr xs \<Rightarrow>
       if list_ex (\<lambda>x. case x of JArr _ \<Rightarrow> True | JObj _ \<Rightarrow> True | _ \<Rightarrow> False) xs
          \<or> set xs = JStr ` set (map u names) then Inl (Type_Error ''payload'') else Inl wrong
   | _ \<Rightarrow> Inl (Type_Error ''payload''))"

subsection \<open>The ledger of members\<close>

record member_input =
  mi_coordinator_session_id :: ustr
  mi_coordinator_thread_id :: ustr
  mi_role :: ustr
  mi_subagent_type :: ustr
  mi_title :: ustr

definition membership_preimage_hash ::
    "py_library \<Rightarrow> ustr \<Rightarrow> ustr \<Rightarrow> ustr \<Rightarrow> ustr \<Rightarrow> ustr \<Rightarrow> ustr \<Rightarrow> member_input \<Rightarrow> int \<Rightarrow> ustr" where
  "membership_preimage_hash lib key preimage delegation child seed reference member revision =
     json_sha lib (JObj
       [(u ''creation_idempotency_key'', JStr key), (u ''creation_preimage_hash'', JStr preimage),
        (u ''delegation_id'', JStr delegation), (u ''child_thread_id'', JStr child),
        (u ''coordinator_session_id'', JStr (mi_coordinator_session_id member)),
        (u ''coordinator_thread_id'', JStr (mi_coordinator_thread_id member)),
        (u ''role'', JStr (mi_role member)), (u ''subagent_type'', JStr (mi_subagent_type member)),
        (u ''title'', JStr (mi_title member)), (u ''task_seed'', JStr seed),
        (u ''task_reference'', JStr reference), (u ''registered_revision'', JInt revision)])"

definition member_check :: "collaboration_member \<Rightarrow> bool" where
  "member_check m \<longleftrightarrow> 0 < m_registered_revision m \<and> m_state m \<in> {''registering'', ''published'', ''cancelled''}"

definition member_clash :: "collaboration_member \<Rightarrow> collaboration_member \<Rightarrow> bool" where
  "member_clash m m' \<longleftrightarrow> m_delegation_id m = m_delegation_id m' \<or> m_creation_key m = m_creation_key m'
     \<or> m_child_thread_id m = m_child_thread_id m'"

definition bump_ledger :: "control_db \<Rightarrow> control_db" where
  "bump_ledger d = d\<lparr>collaboration_ledger := map_option (\<lambda>n. n + 1) (collaboration_ledger d)\<rparr>"

definition prepare_collaboration_member ::
    "py_library \<Rightarrow> ustr \<Rightarrow> ustr \<Rightarrow> ustr \<Rightarrow> ustr \<Rightarrow> ustr \<Rightarrow> ustr \<Rightarrow> ustr \<Rightarrow> member_input \<Rightarrow> control_db
       \<Rightarrow> control_error + ((int \<times> ustr) \<times> control_db)" where
  "prepare_collaboration_member lib now key preimage delegation child seed reference member d =
     bind_res (require (\<not> list_ex (\<lambda>m. m_delegation_id m = delegation \<or> m_creation_key m = key) (collaboration_members d))
                 (Runtime_Error ''member bound to another creation'')) (\<lambda>_.
     let d1 = bump_ledger d in
     case collaboration_ledger d1 of
       None \<Rightarrow> Inl (Type_Error ''ledger row'')
     | Some revision \<Rightarrow>
         let frozen = membership_preimage_hash lib key preimage delegation child seed reference member revision;
             m = \<lparr>m_delegation_id = delegation, m_creation_key = key, m_membership_preimage_hash = frozen,
                  m_registered_revision = revision, m_coordinator_session_id = mi_coordinator_session_id member,
                  m_coordinator_thread_id = mi_coordinator_thread_id member, m_child_thread_id = child,
                  m_role = mi_role member, m_subagent_type = mi_subagent_type member, m_title = mi_title member,
                  m_task_seed = seed, m_state = ''registering'', m_registered_at = now, m_updated_at = now\<rparr>
         in bind_res (sql_insert member_check member_clash m (collaboration_members d1)) (\<lambda>t.
            Inr ((revision, frozen), d1\<lparr>collaboration_members := t\<rparr>)))"

definition member_dict :: "collaboration_member \<Rightarrow> obj" where
  "member_dict m =
     [(u ''delegation_id'', JStr (m_delegation_id m)), (u ''creation_idempotency_key'', JStr (m_creation_key m)),
      (u ''membership_preimage_hash'', JStr (m_membership_preimage_hash m)),
      (u ''registered_revision'', JInt (m_registered_revision m)),
      (u ''coordinator_session_id'', JStr (m_coordinator_session_id m)),
      (u ''coordinator_thread_id'', JStr (m_coordinator_thread_id m)),
      (u ''child_thread_id'', JStr (m_child_thread_id m)), (u ''role'', JStr (m_role m)),
      (u ''subagent_type'', JStr (m_subagent_type m)), (u ''title'', JStr (m_title m)),
      (u ''task_seed'', JStr (m_task_seed m)), (u ''state'', JStr (u (m_state m))),
      (u ''registered_at'', JStr (m_registered_at m)), (u ''updated_at'', JStr (m_updated_at m))]"

definition fetch_creation_record :: "ustr \<Rightarrow> control_db \<Rightarrow> creation_record option" where
  "fetch_creation_record key d = select_one (\<lambda>c. c_key c = key) (creation_records d)"

definition member_states :: "(string \<times> string) list" where
  "member_states = [(''preparing'', ''registering''), (''published'', ''published''), (''aborted'', ''cancelled'')]"

text \<open>
  The frozen membership fields of a creation record, and the comparison of a member with them. The key of the
  creation record is a text: it is the column of a row, or was compared with one.
\<close>

definition frozen_membership :: "creation_record \<Rightarrow> (ustr \<times> ustr \<times> ustr \<times> int \<times> ustr) option" where
  "frozen_membership c =
     (case (c_delegation_id c, c_task_seed c, c_task_reference c, c_collaboration_revision c, c_membership_preimage_hash c) of
        (Some delegation, Some seed, Some reference, Some revision, Some h) \<Rightarrow> Some (delegation, seed, reference, revision, h)
      | _ \<Rightarrow> None)"

definition validate_collaboration_member :: "py_library \<Rightarrow> obj \<Rightarrow> control_db \<Rightarrow> control_error + unit" where
  "validate_collaboration_member lib row d =
     bind_res (field ''creation_idempotency_key'' row) (\<lambda>key.
     case (case key of JStr k \<Rightarrow> fetch_creation_record k d | _ \<Rightarrow> None) of
       None \<Rightarrow> Inl (Runtime_Error ''member without creation'')
     | Some c \<Rightarrow> (case frozen_membership c of
         None \<Rightarrow> Inl (Runtime_Error ''creation without membership'')
       | Some (delegation, seed, reference_text, revision, h) \<Rightarrow>
           bind_res (map_res (\<lambda>k. bind_res (field k row) (\<lambda>v. Inr (py_str (lib_runtime lib) v)))
             [''coordinator_session_id'', ''coordinator_thread_id'', ''role'', ''subagent_type'', ''title'']) (\<lambda>texts.
           let member = \<lparr>mi_coordinator_session_id = texts ! 0, mi_coordinator_thread_id = texts ! 1, mi_role = texts ! 2,
                         mi_subagent_type = texts ! 3, mi_title = texts ! 4\<rparr>
           in (case loads lib reference_text of
             None \<Rightarrow> Inl (Runtime_Error ''corrupt task reference'')
           | Some (JObj reference) \<Rightarrow>
               let expected = membership_preimage_hash lib (c_key c) (c_preimage_hash c) delegation (c_child_thread_id c)
                     seed reference_text member revision
               in bind_res (any_res
                    [differs ''delegation_id'' (JStr delegation) row,
                     differs ''child_thread_id'' (JStr (c_child_thread_id c)) row,
                     differs ''task_seed'' (JStr seed) row,
                     differs ''registered_revision'' (JInt revision) row,
                     differs ''membership_preimage_hash'' (JStr expected) row,
                     Inr (h \<noteq> expected),
                     Inr (\<not> py_eq (jget (u ''parent_session_id'') reference) (JStr (mi_coordinator_session_id member))),
                     Inr (\<not> py_eq (jget (u ''parent_thread_id'') reference) (JStr (mi_coordinator_thread_id member))),
                     bind_res (field ''delegation_id'' row) (\<lambda>x. Inr (\<not> py_eq (jget (u ''delegation_id'') reference) x))])
                  (\<lambda>wrong.
                bind_res (require (\<not> wrong) (Runtime_Error ''membership preimage'')) (\<lambda>_.
                bind_res (differs ''state'' (json_opt (map_option u (map_of member_states (c_state c)))) row) (\<lambda>wrong_state.
                bind_res (require (\<not> wrong_state) (Runtime_Error ''member state'')) (\<lambda>_.
                bind_res (require (case collaboration_ledger d of None \<Rightarrow> False | Some n \<Rightarrow> \<not> n < revision)
                            (Runtime_Error ''ledger revision'')) (\<lambda>_.
                require (list_ex (\<lambda>t. t_thread_id t = mi_coordinator_thread_id member) (thread_catalog d))
                  (Runtime_Error ''parent thread not in catalog''))))))
           | Some _ \<Rightarrow> Inl (Runtime_Error ''task reference not an object'')))))"

definition collaboration_member_of :: "py_library \<Rightarrow> ustr \<Rightarrow> control_db \<Rightarrow> control_error + collaboration_member" where
  "collaboration_member_of lib delegation d =
     bind_res (validate_thread_creation_key delegation) (\<lambda>_.
     case select_one (\<lambda>m. m_delegation_id m = delegation) (collaboration_members d) of
       None \<Rightarrow> Inl (Key_Error ''collaboration member'')
     | Some m \<Rightarrow> bind_res (validate_collaboration_member lib (member_dict m) d) (\<lambda>_. Inr m))"

definition get_collaboration_member :: "py_library \<Rightarrow> ustr \<Rightarrow> collaboration_member store_op" where
  "get_collaboration_member lib delegation =
     checked (validate_thread_creation_key delegation) (\<lambda>_. read_op (collaboration_member_of lib delegation))"

definition ledger_revision :: "control_db \<Rightarrow> control_error + int" where
  "ledger_revision d =
     (case collaboration_ledger d of None \<Rightarrow> Inl (Runtime_Error ''ledger row'') | Some n \<Rightarrow> Inr n)"

definition get_collaboration_ledger_revision :: "int store_op" where
  "get_collaboration_ledger_revision = read_op ledger_revision"

definition ordered_members :: "control_db \<Rightarrow> collaboration_member list" where
  "ordered_members d = order_by (\<lambda>m. [m_registered_at m, m_delegation_id m]) (collaboration_members d)"

definition list_collaboration_members :: "py_library \<Rightarrow> ustr option \<Rightarrow> collaboration_member list store_op" where
  "list_collaboration_members lib coordinator s =
     checked (bind_res (ensure_open s) (\<lambda>_. case coordinator of None \<Rightarrow> Inr () | Some x \<Rightarrow> check_session_id x))
       (\<lambda>_. read_op (\<lambda>d.
          bind_res (require (coordinator = None \<or> list_all (\<lambda>m. Some (m_coordinator_session_id m) = coordinator) (ordered_members d))
                      (Runtime_Error ''member of another session'')) (\<lambda>_.
          map_res (\<lambda>m. bind_res (validate_collaboration_member lib (member_dict m) d) (\<lambda>_. Inr m)) (ordered_members d)))) s"

end
