(* ===== verification/Collaboration_Fanout.thy ===== *)
theory Collaboration_Fanout
  imports Collaboration
begin

section \<open>Freezing and settling the fan-out of a change\<close>

text \<open>
  \<^verbatim>\<open>app/core/session_control_store/collaboration_fanout.py\<close>. A fan-out row holds the frozen payload of one
  ledger revision, its deliveries the state per recipient, and its lease is the right to settle it. Foreign
  keys refer to rows that the same transaction wrote before.
\<close>

subsection \<open>Rows\<close>

definition fanout_check :: "collaboration_fanout \<Rightarrow> bool" where
  "fanout_check f \<longleftrightarrow> fo_state f \<in> {''pending'', ''completed'', ''cancelled''}"

definition fanout_clash :: "collaboration_fanout \<Rightarrow> collaboration_fanout \<Rightarrow> bool" where
  "fanout_clash f f' \<longleftrightarrow> fo_revision f = fo_revision f' \<or> fo_lease_id f = fo_lease_id f'"

definition delivery_check :: "collaboration_delivery \<Rightarrow> bool" where
  "delivery_check x \<longleftrightarrow> dl_state x \<in> {''pending'', ''delivered'', ''recipient_deleted'', ''fence_closed''}"

definition delivery_clash :: "collaboration_delivery \<Rightarrow> collaboration_delivery \<Rightarrow> bool" where
  "delivery_clash x x' \<longleftrightarrow> dl_revision x = dl_revision x' \<and> dl_recipient x = dl_recipient x'"

text \<open>A fan-out with its deliveries in the order of the recipients.\<close>

record fanout_record =
  fr_row :: collaboration_fanout
  fr_recipients :: "collaboration_delivery list"

subsection \<open>Checks\<close>

definition WAKEUP_KEYS :: "string list" where
  "WAKEUP_KEYS = [''target_thread_id'', ''source_id'', ''idempotency_key'', ''content'', ''metadata'']"

definition is_obj :: "json \<Rightarrow> bool" where
  "is_obj v = (case v of JObj _ \<Rightarrow> True | _ \<Rightarrow> False)"

definition validate_wakeup :: "json \<Rightarrow> ustr list \<Rightarrow> control_error + unit" where
  "validate_wakeup wakeup recipients =
     bind_res (key_set WAKEUP_KEYS (Value_Error ''wakeup fields'') wakeup) (\<lambda>w.
     bind_res (require (list_all (\<lambda>k. nonempty_str (jget (u k) w) \<noteq> None)
                 [''target_thread_id'', ''source_id'', ''idempotency_key'', ''content'']) (Value_Error ''wakeup texts'')) (\<lambda>_.
     require (is_obj (jget (u ''metadata'') w) \<and> jget (u ''target_thread_id'') w \<in> JStr ` set recipients)
       (Value_Error ''wakeup target'')))"

definition PAYLOAD_KEYS :: "string list" where
  "PAYLOAD_KEYS = [''session_id'', ''ledger_revision'', ''event_hash'', ''event'', ''members'', ''boards'']"

definition fanout_digest :: "py_library \<Rightarrow> ustr \<Rightarrow> ustr list \<Rightarrow> json \<Rightarrow> ustr" where
  "fanout_digest lib payload recipients wakeup =
     json_sha lib (JObj [(u ''payload'', JStr payload), (u ''recipients'', JArr (map JStr recipients)), (u ''wakeup'', wakeup)])"

definition fanout_identity :: "int \<Rightarrow> ustr" where
  "fanout_identity revision = u ''collaboration:'' @ int_str revision"

definition read_wakeup :: "py_library \<Rightarrow> ustr option \<Rightarrow> control_error + json" where
  "read_wakeup lib raw = (case raw of
     None \<Rightarrow> Inr JNull
   | Some s \<Rightarrow> (case loads lib s of None \<Rightarrow> Inl (Value_Error ''wakeup'') | Some v \<Rightarrow> Inr v))"

definition check_each :: "('a \<Rightarrow> control_error + unit) \<Rightarrow> 'a list \<Rightarrow> control_error + unit" where
  "check_each f xs = bind_res (map_res f xs) (\<lambda>_. Inr ())"

definition validate_fanout :: "py_library \<Rightarrow> fanout_record \<Rightarrow> operation_lease \<Rightarrow> control_error + unit" where
  "validate_fanout lib r lease =
     (let row = fr_row r; revision = fo_revision row; recipients = map dl_recipient (fr_recipients r) in
      bind_res (check_session_id (fo_session_id row)) (\<lambda>_.
      case loads lib (fo_payload_json row) of
        None \<Rightarrow> Inl (Value_Error ''payload'')
      | Some v \<Rightarrow>
          bind_res (key_set PAYLOAD_KEYS (Runtime_Error ''payload fields'') v) (\<lambda>payload.
          bind_res (require (py_eq (jget (u ''session_id'') payload) (JStr (fo_session_id row))
                      \<and> py_eq (jget (u ''ledger_revision'') payload) (JInt revision)
                      \<and> py_eq (jget (u ''event_hash'') payload) (JStr (fo_event_hash row))) (Runtime_Error ''payload owner'')) (\<lambda>_.
          bind_res (require (\<not> revision < 1 \<and> json_sha lib (jget (u ''event'') payload) = fo_event_hash row)
                      (Runtime_Error ''event hash'')) (\<lambda>_.
          bind_res (require (recipients \<noteq> [] \<and> recipients = sort (remdups recipients)) (Runtime_Error ''recipients'')) (\<lambda>_.
          bind_res (check_each check_thread_id recipients) (\<lambda>_.
          bind_res (read_wakeup lib (fo_wakeup_json row)) (\<lambda>wakeup.
          bind_res (if wakeup = JNull then Inr () else validate_wakeup wakeup recipients) (\<lambda>_.
          bind_res (require ((operation_kind lease, operation_identity lease, preimage_hash lease, recovery_ref lease)
                      = (''collaboration_fanout'', fanout_identity revision,
                         fanout_digest lib (fo_payload_json row) recipients wakeup, Some (fanout_identity revision)))
                      (Runtime_Error ''fan-out lease'')) (\<lambda>_.
          bind_res (require (if fo_state row = ''pending'' then lease_state lease \<in> {''active'', ''settling''}
                      else lease_state lease = fo_state row) (Runtime_Error ''fan-out lease state'')) (\<lambda>_.
          bind_res (require (fo_state row = ''pending'' \<or> \<not> list_ex (\<lambda>x. dl_state x = ''pending'') (fr_recipients r))
                      (Runtime_Error ''pending recipient'')) (\<lambda>_.
          require (\<not> (fo_state row = ''completed'' \<and> wakeup \<noteq> JNull \<and> fo_wakeup_receipt_json row = None))
            (Runtime_Error ''wakeup receipt'')))))))))))))"

definition deliveries_of :: "int \<Rightarrow> control_db \<Rightarrow> collaboration_delivery list" where
  "deliveries_of revision d = order_by dl_recipient (filter (\<lambda>x. dl_revision x = revision) (collaboration_deliveries d))"

definition collaboration_fanout_of :: "py_library \<Rightarrow> int \<Rightarrow> control_db \<Rightarrow> control_error + fanout_record" where
  "collaboration_fanout_of lib revision d =
     bind_res (sql_int revision) (\<lambda>_.
     case select_one (\<lambda>f. fo_revision f = revision) (collaboration_fanouts d) of
        None \<Rightarrow> Inl (Key_Error ''collaboration fanout'')
      | Some row \<Rightarrow>
          let r = \<lparr>fr_row = row, fr_recipients = deliveries_of revision d\<rparr>
          in bind_res (lease_row_or_raise (fo_lease_id row) d) (\<lambda>lease.
             bind_res (validate_fanout lib r lease) (\<lambda>_. Inr r)))"

definition get_collaboration_fanout :: "py_library \<Rightarrow> int \<Rightarrow> fanout_record store_op" where
  "get_collaboration_fanout lib revision = read_op (collaboration_fanout_of lib revision)"

definition list_collaboration_fanouts :: "py_library \<Rightarrow> bool \<Rightarrow> fanout_record list store_op" where
  "list_collaboration_fanouts lib pending_only = read_op (\<lambda>d.
     map_res (\<lambda>f. collaboration_fanout_of lib (fo_revision f) d)
       (order_by fo_revision (filter (\<lambda>f. pending_only \<longrightarrow> fo_state f = ''pending'') (collaboration_fanouts d))))"

subsection \<open>Freezing a change\<close>

text \<open>
  The members as dictionaries, each with the state of its execution intent. The row of a cancelled
  member is replaced by the snapshot taken from its registration; a snapshot whose time is not a text cannot be
  sorted among the others.
\<close>

definition live_member :: "control_db \<Rightarrow> collaboration_member \<Rightarrow> obj" where
  "live_member d m = member_dict m @
     [(u ''admission_state'', json_opt (map_option (\<lambda>e. u (e_state e))
        (select_one (\<lambda>e. e_thread_id e = m_child_thread_id m) (execution_intents d))))]"

definition live_members :: "py_library \<Rightarrow> obj option \<Rightarrow> control_db \<Rightarrow> control_error + obj list" where
  "live_members lib snapshot d =
     map_res (\<lambda>row. bind_res (validate_collaboration_member lib row d) (\<lambda>_. Inr row))
       (filter (\<lambda>row. case snapshot of None \<Rightarrow> True
                     | Some x \<Rightarrow> \<not> py_eq (jget (u ''delegation_id'') row) (jget (u ''delegation_id'') x))
         (map (live_member d) (ordered_members d)))"

definition member_event :: "string \<Rightarrow> json \<Rightarrow> json" where
  "member_event kind delegation = JObj [(u ''type'', JStr (u kind)), (u ''delegation_id'', delegation)]"

definition sort_member :: "obj \<Rightarrow> ustr list" where
  "sort_member x = map (\<lambda>k. case jget (u k) x of JStr s \<Rightarrow> s | _ \<Rightarrow> []) [''registered_at'', ''delegation_id'']"

definition frozen_members :: "py_library \<Rightarrow> json \<Rightarrow> obj option \<Rightarrow> control_db \<Rightarrow> control_error + obj list" where
  "frozen_members lib event snapshot d =
     bind_res (live_members lib snapshot d) (\<lambda>members. case snapshot of
       None \<Rightarrow> Inr members
     | Some x \<Rightarrow>
         bind_res (require (py_eq event (member_event ''member.cancelled'' (jget (u ''delegation_id'') x)))
                     (Runtime_Error ''cancellation event'')) (\<lambda>_.
         bind_res (validate_collaboration_member lib x d) (\<lambda>_.
         bind_res (field ''registered_at'' x) (\<lambda>tm.
         bind_res (require (members = [] \<or> is_str tm) (Type_Error ''registered_at'')) (\<lambda>_.
         Inr (sort_key sort_member (members @ [x])))))))"

definition recipients_of :: "py_library \<Rightarrow> ustr \<Rightarrow> obj list \<Rightarrow> control_error + ustr list" where
  "recipients_of lib main members =
     bind_res (map_res (\<lambda>x. field ''child_thread_id'' x)
       (filter (\<lambda>x. jget (u ''state'') x = JStr (u ''published'')) members)) (\<lambda>children.
     Inr (sort (remdups (main # map (py_str (lib_runtime lib)) children))))"

definition check_recipient :: "control_db \<Rightarrow> ustr \<Rightarrow> control_error + unit" where
  "check_recipient d tid =
     bind_res (check_thread_id tid) (\<lambda>_.
     require (list_ex (\<lambda>t. t_thread_id t = tid) (thread_catalog d)) (Runtime_Error ''recipient not in catalog''))"

definition read_boards :: "py_library \<Rightarrow> control_db \<Rightarrow> control_error + json list" where
  "read_boards lib d =
     map_res (\<lambda>b. case loads lib (bd_board_json b) of None \<Rightarrow> Inl (Value_Error ''board'') | Some v \<Rightarrow> Inr v)
       (order_by bd_team_id (collaboration_boards d))"

fun insert_deliveries :: "int \<Rightarrow> ustr list \<Rightarrow> control_db \<Rightarrow> control_error + control_db" where
  "insert_deliveries revision [] d = Inr d"
| "insert_deliveries revision (tid # tids) d =
     bind_res (sql_insert delivery_check delivery_clash
        \<lparr>dl_revision = revision, dl_recipient = tid, dl_state = ''pending'', dl_error = None\<rparr> (collaboration_deliveries d))
       (\<lambda>t. insert_deliveries revision tids (d\<lparr>collaboration_deliveries := t\<rparr>))"

text \<open>\<open>clock\<close> gives the successive clock readings: of the lease and of the fan-out row.\<close>

definition freeze_collaboration_change ::
    "py_library \<Rightarrow> (nat \<Rightarrow> ustr) \<Rightarrow> ustr \<Rightarrow> ustr \<Rightarrow> json \<Rightarrow> json \<Rightarrow> bool \<Rightarrow> obj option \<Rightarrow> control_db
       \<Rightarrow> control_error + (int \<times> control_db)" where
  "freeze_collaboration_change lib clock new_id session_id event wakeup bump_revision snapshot d0 =
     bind_res (read_fence_row d0) (\<lambda>fr.
     bind_res (require (f_state fr = ''active'') (Runtime_Error ''fence closed'')) (\<lambda>_.
     let d = (if bump_revision then bump_ledger d0 else d0) in
     bind_res (ledger_revision d) (\<lambda>revision.
     bind_res (frozen_members lib event snapshot d) (\<lambda>members.
     bind_res (read_boards lib d) (\<lambda>boards.
     bind_res (main_thread_of d) (\<lambda>main.
     bind_res (recipients_of lib (t_thread_id main) members) (\<lambda>recipients.
     bind_res (any_res (map (differs ''coordinator_session_id'' (JStr session_id)) members)) (\<lambda>foreign.
     bind_res (require (\<not> foreign) (Runtime_Error ''member of another session'')) (\<lambda>_.
     bind_res (require (u ''None'' \<notin> set recipients) (Runtime_Error ''member without thread'')) (\<lambda>_.
     bind_res (check_each (check_recipient d) recipients) (\<lambda>_.
     bind_res (if wakeup = JNull then Inr () else validate_wakeup wakeup recipients) (\<lambda>_.
     let event_hash = json_sha lib event in
     bind_res (dumps lib (JObj [(u ''session_id'', JStr session_id), (u ''ledger_revision'', JInt revision),
                 (u ''event_hash'', JStr event_hash), (u ''event'', event), (u ''members'', JArr (map JObj members)),
                 (u ''boards'', JArr boards)])) (\<lambda>payload.
     bind_res (joined (create_or_get_lease (clock 0) new_id ''collaboration_fanout'' (fanout_identity revision)
                 (fanout_digest lib payload recipients wakeup) (Some (f_generation fr)) (Some (fanout_identity revision))
                 (Some True)) d) (\<lambda>(lease, d1).
     bind_res (sql_insert fanout_check fanout_clash
                 \<lparr>fo_revision = revision, fo_session_id = session_id, fo_event_hash = event_hash, fo_payload_json = payload,
                  fo_lease_id = lease_id lease,
                  fo_wakeup_json = (if wakeup = JNull then None else Some (json_text (lib_floats lib) wakeup)),
                  fo_wakeup_receipt_json = None, fo_state = ''pending'', fo_created_at = clock 1\<rparr> (collaboration_fanouts d1)) (\<lambda>t.
     bind_res (insert_deliveries revision recipients (d1\<lparr>collaboration_fanouts := t\<rparr>)) (\<lambda>d2.
     Inr (revision, d2)))))))))))))))))"

definition registered_member_snapshot :: "py_library \<Rightarrow> creation_record \<Rightarrow> control_db \<Rightarrow> control_error + obj" where
  "registered_member_snapshot lib c d =
     (case c_collaboration_revision c of
        None \<Rightarrow> Inl (Runtime_Error ''no registered revision'')
      | Some revision \<Rightarrow>
          bind_res (collaboration_fanout_of lib revision d) (\<lambda>original.
          case loads lib (fo_payload_json (fr_row original)) of
            Some (JObj payload) \<Rightarrow>
              bind_res (field ''event'' payload) (\<lambda>event.
              bind_res (require (py_eq event (member_event ''member.registered'' (json_opt (c_delegation_id c))))
                          (Runtime_Error ''registration event'')) (\<lambda>_.
              bind_res (field ''members'' payload) (\<lambda>members.
              case members of
                JArr xs \<Rightarrow>
                  bind_res (map_res (\<lambda>x. case x of JObj m \<Rightarrow> bind_res (field ''delegation_id'' m) (\<lambda>v. Inr (v, m))
                                        | _ \<Rightarrow> Inl (Type_Error ''member'')) xs) (\<lambda>pairs.
                  case filter (\<lambda>(v, m). py_eq v (json_opt (c_delegation_id c))) pairs of
                    [(v, m)] \<Rightarrow>
                      bind_res (map_res (\<lambda>k. field k m) [''creation_idempotency_key'', ''child_thread_id'',
                          ''membership_preimage_hash'', ''registered_revision'', ''state'', ''coordinator_session_id'']) (\<lambda>fs.
                      bind_res (require (py_eq (JStr (fo_session_id (fr_row original))) (fs ! 5) \<and> py_eq (fs ! 0) (JStr (c_key c))
                          \<and> py_eq (fs ! 1) (JStr (c_child_thread_id c)) \<and> py_eq (fs ! 2) (json_opt (c_membership_preimage_hash c))
                          \<and> py_eq (fs ! 3) (JInt revision) \<and> py_eq (fs ! 4) (JStr (u ''registering'')))
                          (Runtime_Error ''registration snapshot'')) (\<lambda>_.
                      bind_res (validate_collaboration_member lib m d) (\<lambda>_. Inr m)))
                  | _ \<Rightarrow> Inl (Runtime_Error ''no unique snapshot''))
              | _ \<Rightarrow> Inl (Type_Error ''members''))))
          | _ \<Rightarrow> Inl (Type_Error ''payload'')))"

definition freeze_member_cancellation ::
    "py_library \<Rightarrow> (nat \<Rightarrow> ustr) \<Rightarrow> ustr \<Rightarrow> obj \<Rightarrow> control_db \<Rightarrow> control_error + control_db" where
  "freeze_member_cancellation lib clock new_id snapshot d =
     bind_res (validate_collaboration_member lib snapshot d) (\<lambda>_.
     bind_res (read_fence_row d) (\<lambda>fr.
     if f_state fr \<noteq> ''active'' then Inr (bump_ledger d)
     else bind_res (field ''coordinator_session_id'' snapshot) (\<lambda>sid.
          bind_res (freeze_collaboration_change lib clock new_id (py_str (lib_runtime lib) sid)
            (member_event ''member.cancelled'' (jget (u ''delegation_id'') snapshot)) JNull True (Some snapshot) d) (\<lambda>(n, d').
          Inr d'))))"

definition freeze_member_change ::
    "py_library \<Rightarrow> (nat \<Rightarrow> ustr) \<Rightarrow> ustr \<Rightarrow> ustr \<Rightarrow> string \<Rightarrow> bool \<Rightarrow> control_db \<Rightarrow> control_error + control_db" where
  "freeze_member_change lib clock new_id delegation event_type bump_revision d =
     bind_res (collaboration_member_of lib delegation d) (\<lambda>m.
     bind_res (freeze_collaboration_change lib clock new_id (m_coordinator_session_id m)
       (member_event event_type (JStr delegation)) JNull bump_revision None d) (\<lambda>(n, d').
     Inr d'))"

subsection \<open>Settling a fan-out\<close>

definition require_collaboration_token ::
    "py_library \<Rightarrow> int \<Rightarrow> int \<Rightarrow> control_db \<Rightarrow> control_error + (fanout_record \<times> operation_lease)" where
  "require_collaboration_token lib revision token d =
     bind_res (collaboration_fanout_of lib revision d) (\<lambda>r.
     bind_res (lease_row_or_raise (fo_lease_id (fr_row r)) d) (\<lambda>lease.
     bind_res (require (fo_state (fr_row r) = ''pending'' \<and> lease_state lease \<in> {''active'', ''settling''}
                 \<and> fencing_token lease = token) (Runtime_Error ''lease token'')) (\<lambda>_.
     Inr (r, lease))))"

definition update_delivery ::
    "(collaboration_delivery \<Rightarrow> collaboration_delivery) \<Rightarrow> int \<Rightarrow> ustr \<Rightarrow> control_db \<Rightarrow> control_error + (unit \<times> control_db)" where
  "update_delivery f revision tid d =
     bind_res (sql_update delivery_check (\<lambda>x. dl_revision x = revision \<and> dl_recipient x = tid \<and> dl_state x = ''pending'')
                 f (collaboration_deliveries d)) (\<lambda>(n, t).
     bind_res (require (n = 1) (Runtime_Error ''delivery settled'')) (\<lambda>_.
     Inr ((), d\<lparr>collaboration_deliveries := t\<rparr>)))"

definition finish_delivery_body ::
    "py_library \<Rightarrow> int \<Rightarrow> ustr \<Rightarrow> int \<Rightarrow> string \<Rightarrow> ustr option \<Rightarrow> control_db \<Rightarrow> control_error + (unit \<times> control_db)" where
  "finish_delivery_body lib revision tid token outcome err d =
     bind_res (require_collaboration_token lib revision token d) (\<lambda>(r, lease).
     bind_res (if outcome = ''delivered''
               then bind_res (read_fence_row d) (\<lambda>fr.
                    require ((f_state fr, f_generation fr) = (''active'', captured_generation lease)) (Runtime_Error ''generation''))
               else Inr ()) (\<lambda>_.
     update_delivery (\<lambda>x. x\<lparr>dl_state := outcome, dl_error := err\<rparr>) revision tid d))"

definition finish_collaboration_delivery ::
    "py_library \<Rightarrow> int \<Rightarrow> ustr \<Rightarrow> int \<Rightarrow> string \<Rightarrow> ustr option \<Rightarrow> unit store_op" where
  "finish_collaboration_delivery lib revision tid token outcome err =
     checked (require (outcome \<in> {''delivered'', ''recipient_deleted'', ''fence_closed''}) (Value_Error ''outcome''))
       (\<lambda>_. write_transaction (finish_delivery_body lib revision tid token outcome err))"

definition record_collaboration_delivery_failure :: "py_library \<Rightarrow> int \<Rightarrow> ustr \<Rightarrow> int \<Rightarrow> ustr \<Rightarrow> unit store_op" where
  "record_collaboration_delivery_failure lib revision tid token err =
     write_transaction (\<lambda>d.
       bind_res (require_collaboration_token lib revision token d) (\<lambda>_.
       update_delivery (\<lambda>x. x\<lparr>dl_error := Some err\<rparr>) revision tid d))"

definition wakeup_receipt_body ::
    "py_library \<Rightarrow> int \<Rightarrow> int \<Rightarrow> ustr \<Rightarrow> control_db \<Rightarrow> control_error + (unit \<times> control_db)" where
  "wakeup_receipt_body lib revision token receipt_json d =
     bind_res (require_collaboration_token lib revision token d) (\<lambda>(r, lease).
     bind_res (require (fo_wakeup_json (fr_row r) \<noteq> None) (Runtime_Error ''no wakeup'')) (\<lambda>_.
     bind_res (read_fence_row d) (\<lambda>fr.
     bind_res (require ((f_state fr, f_generation fr) = (''active'', captured_generation lease)) (Runtime_Error ''generation'')) (\<lambda>_.
     case loads lib receipt_json of
       None \<Rightarrow> Inl (Value_Error ''receipt'')
     | Some v \<Rightarrow>
         let receipt = json_text (lib_floats lib) v in
         bind_res (require (fo_wakeup_receipt_json (fr_row r) = None \<or> fo_wakeup_receipt_json (fr_row r) = Some receipt)
                     (Runtime_Error ''receipt conflict'')) (\<lambda>_.
         bind_res (sql_update fanout_check (\<lambda>f. fo_revision f = revision) (\<lambda>f. f\<lparr>fo_wakeup_receipt_json := Some receipt\<rparr>)
                     (collaboration_fanouts d)) (\<lambda>(n, t).
         Inr ((), d\<lparr>collaboration_fanouts := t\<rparr>)))))))"

definition record_collaboration_wakeup_receipt :: "py_library \<Rightarrow> int \<Rightarrow> int \<Rightarrow> ustr \<Rightarrow> unit store_op" where
  "record_collaboration_wakeup_receipt lib revision token receipt_json =
     write_transaction (wakeup_receipt_body lib revision token receipt_json)"

definition finish_fanout_body ::
    "py_library \<Rightarrow> (nat \<Rightarrow> ustr) \<Rightarrow> int \<Rightarrow> int \<Rightarrow> bool \<Rightarrow> control_db \<Rightarrow> control_error + (unit \<times> control_db)" where
  "finish_fanout_body lib clock revision token cancelled d =
     (let outcome = (if cancelled then ''cancelled'' else ''completed'') in
      bind_res (require_collaboration_token lib revision token d) (\<lambda>(r, lease).
      bind_res (require (\<not> list_ex (\<lambda>x. dl_state x = ''pending'') (fr_recipients r)) (Runtime_Error ''pending recipient'')) (\<lambda>_.
      bind_res (require (\<not> (\<not> cancelled \<and> fo_wakeup_json (fr_row r) \<noteq> None \<and> fo_wakeup_receipt_json (fr_row r) = None))
                  (Runtime_Error ''wakeup receipt'')) (\<lambda>_.
      bind_res (sql_update fanout_check (\<lambda>f. fo_revision f = revision) (\<lambda>f. f\<lparr>fo_state := outcome\<rparr>)
                  (collaboration_fanouts d)) (\<lambda>(n, t).
      let d1 = d\<lparr>collaboration_fanouts := t\<rparr> in
      bind_res (if lease_state lease = ''active''
                then joined (mark_lease_settling (clock 0) (lease_id lease) token (Some True)) d1
                else Inr (lease, d1)) (\<lambda>(l1, d2).
      bind_res (joined (settle_lease (clock 1) (lease_id l1) token outcome (Some True)) d2) (\<lambda>(l2, d3).
      Inr ((), d3))))))))"

definition finish_collaboration_fanout :: "py_library \<Rightarrow> (nat \<Rightarrow> ustr) \<Rightarrow> int \<Rightarrow> int \<Rightarrow> bool \<Rightarrow> unit store_op" where
  "finish_collaboration_fanout lib clock revision token cancelled =
     write_transaction (finish_fanout_body lib clock revision token cancelled)"

definition collaboration_recipient_pending :: "ustr \<Rightarrow> int \<Rightarrow> bool store_op" where
  "collaboration_recipient_pending tid through_revision = read_op (\<lambda>d.
     bind_res (sql_int through_revision) (\<lambda>_. Inr (list_ex (\<lambda>x. dl_recipient x = tid \<and> dl_revision x \<le> through_revision \<and> dl_state x = ''pending'')
       (collaboration_deliveries d))))"

end
