(* ===== verification/Execution_Intent.thy ===== *)
theory Execution_Intent
  imports Collaboration_Fanout
begin

section \<open>The intent to execute a new thread\<close>

text \<open>
  \<^verbatim>\<open>app/core/session_control_store/execution_intent.py\<close>. A published task thread has one intent. A worker
  claims it, binds it to the execution and job whose identifiers are derived from the key, or records why it
  failed and leaves it pending.
\<close>

subsection \<open>Identity\<close>

definition INITIAL_STATES :: "string list" where
  "INITIAL_STATES = [''running'', ''idle'']"

definition derive_initial_execution_identity :: "py_library \<Rightarrow> ustr \<Rightarrow> ustr \<times> ustr" where
  "derive_initial_execution_identity lib key =
     (u ''tbind_'' @ take 32 (lib_sha256 lib (u ''initial-execution-binding'' @ [0] @ key)),
      u ''job_'' @ take 32 (lib_sha256 lib (u ''initial-execution-job'' @ [0] @ key)))"

definition binding_preimage_hash_of ::
    "py_library \<Rightarrow> ustr \<Rightarrow> ustr \<Rightarrow> ustr \<Rightarrow> ustr \<Rightarrow> string \<Rightarrow> ustr \<Rightarrow> ustr \<Rightarrow> ustr" where
  "binding_preimage_hash_of lib key session_id thread_id creation_key initial_state binding_id job_id =
     json_sha lib (JObj
       [(u ''admission_idempotency_key'', JStr key), (u ''session_id'', JStr session_id),
        (u ''thread_id'', JStr thread_id), (u ''creation_idempotency_key'', JStr creation_key),
        (u ''initial_state'', JStr (u initial_state)), (u ''execution_binding_id'', JStr binding_id),
        (u ''job_id'', JStr job_id)])"

definition validate_execution_identity :: "ustr \<Rightarrow> ustr \<Rightarrow> control_error + unit" where
  "validate_execution_identity binding_id job_id =
     bind_res (require (startswith binding_id (u ''tbind_'') \<and> length binding_id = 38 \<and> list_all lower_hex (drop 6 binding_id))
                 (Value_Error ''execution_binding_id'')) (\<lambda>_.
     require (startswith job_id (u ''job_'') \<and> length job_id = 36 \<and> list_all lower_hex (drop 4 job_id))
       (Value_Error ''job_id''))"

subsection \<open>Rows\<close>

definition intent_check :: "execution_intent \<Rightarrow> bool" where
  "intent_check e \<longleftrightarrow> e_initial_state e \<in> set INITIAL_STATES \<and> e_state e \<in> {''pending'', ''bound''}
     \<and> (e_claim_owner e = None) = (e_claim_generation e = None)
     \<and> (case e_claim_generation e of None \<Rightarrow> True | Some g \<Rightarrow> 1 \<le> g)"

definition intent_clash :: "execution_intent \<Rightarrow> execution_intent \<Rightarrow> bool" where
  "intent_clash e e' \<longleftrightarrow> e_admission_key e = e_admission_key e' \<or> e_thread_id e = e_thread_id e'
     \<or> e_execution_binding_id e = e_execution_binding_id e' \<or> e_job_id e = e_job_id e'"

definition fetch_execution_intent_row :: "ustr \<Rightarrow> control_db \<Rightarrow> execution_intent option" where
  "fetch_execution_intent_row key d = select_one (\<lambda>e. e_admission_key e = key) (execution_intents d)"

definition fetch_execution_intent_row_by_job_id :: "ustr \<Rightarrow> control_db \<Rightarrow> execution_intent option" where
  "fetch_execution_intent_row_by_job_id job_id d = select_one (\<lambda>e. e_job_id e = job_id) (execution_intents d)"

definition initial_execution_intent_of :: "ustr \<Rightarrow> control_db \<Rightarrow> control_error + execution_intent" where
  "initial_execution_intent_of key d =
     bind_res (validate_thread_creation_key key) (\<lambda>_.
     case fetch_execution_intent_row key d of None \<Rightarrow> Inl (Key_Error ''execution intent'') | Some e \<Rightarrow> Inr e)"

definition thread_creation_record_of :: "ustr \<Rightarrow> control_db \<Rightarrow> control_error + creation_record" where
  "thread_creation_record_of key d =
     bind_res (validate_thread_creation_key key) (\<lambda>_.
     case fetch_creation_record key d of None \<Rightarrow> Inl (Key_Error ''creation record'') | Some c \<Rightarrow> Inr c)"

definition in_catalog :: "ustr \<Rightarrow> control_db \<Rightarrow> bool" where
  "in_catalog tid d = list_ex (\<lambda>t. t_thread_id t = tid) (thread_catalog d)"

subsection \<open>Create or get\<close>

definition new_intent_row ::
    "py_library \<Rightarrow> ustr \<Rightarrow> ustr \<Rightarrow> ustr \<Rightarrow> ustr \<Rightarrow> string \<Rightarrow> ustr \<Rightarrow> execution_intent" where
  "new_intent_row lib now key session_id thread_id initial_state creation_key =
     (let (binding_id, job_id) = derive_initial_execution_identity lib key in
      \<lparr>e_admission_key = key, e_session_id = session_id, e_thread_id = thread_id, e_creation_key = creation_key,
       e_initial_state = initial_state, e_state = ''pending'', e_execution_binding_id = binding_id, e_job_id = job_id,
       e_binding_preimage_hash =
         binding_preimage_hash_of lib key session_id thread_id creation_key initial_state binding_id job_id,
       e_claim_owner = None, e_claim_generation = None, e_last_error = None, e_created_at = now, e_updated_at = now\<rparr>)"

definition create_intent_transaction ::
    "py_library \<Rightarrow> ustr \<Rightarrow> ustr \<Rightarrow> ustr \<Rightarrow> ustr \<Rightarrow> string \<Rightarrow> ustr \<Rightarrow> control_db
       \<Rightarrow> control_error + (execution_intent \<times> control_db)" where
  "create_intent_transaction lib now key session_id thread_id initial_state creation_key d =
     (let new = new_intent_row lib now key session_id thread_id initial_state creation_key in
      bind_res (validate_thread_creation_key key) (\<lambda>_.
      bind_res (validate_thread_creation_key creation_key) (\<lambda>_.
      bind_res (check_session_id session_id) (\<lambda>_.
      bind_res (check_thread_id thread_id) (\<lambda>_.
      bind_res (require (initial_state \<in> set INITIAL_STATES) (Value_Error ''initial_state'')) (\<lambda>_.
      case fetch_creation_record creation_key d of
        None \<Rightarrow> Inl (Key_Error ''creation record'')
      | Some c \<Rightarrow>
          bind_res (require (c_state c = ''published'') (Runtime_Error ''creation not published'')) (\<lambda>_.
          bind_res (require (c_child_thread_id c = thread_id) (Runtime_Error ''child differs'')) (\<lambda>_.
          bind_res (require (c_initial_state c = initial_state) (Runtime_Error ''initial_state differs'')) (\<lambda>_.
          bind_res (require (in_catalog thread_id d) (Runtime_Error ''child not visible'')) (\<lambda>_.
          case fetch_execution_intent_row key d of
            Some e \<Rightarrow>
              bind_res (require (e_thread_id e = thread_id \<and> e_initial_state e = initial_state
                          \<and> e_creation_key e = creation_key \<and> e_session_id e = session_id) (Runtime_Error ''intent conflict'')) (\<lambda>_.
              bind_res (require (e_execution_binding_id e = e_execution_binding_id new \<and> e_job_id e = e_job_id new
                          \<and> e_binding_preimage_hash e = e_binding_preimage_hash new) (Runtime_Error ''intent identity'')) (\<lambda>_.
              Inr (e, d)))
          | None \<Rightarrow>
              bind_res (require (\<not> list_ex (\<lambda>e. e_thread_id e = thread_id) (execution_intents d))
                          (Runtime_Error ''second intent'')) (\<lambda>_.
              bind_res (sql_insert intent_check intent_clash new (execution_intents d)) (\<lambda>t.
              Inr (new, d\<lparr>execution_intents := t\<rparr>)))))))))))))"

definition create_or_get_initial_execution_intent ::
    "py_library \<Rightarrow> ustr \<Rightarrow> ustr \<Rightarrow> ustr \<Rightarrow> ustr \<Rightarrow> string \<Rightarrow> ustr \<Rightarrow> execution_intent store_op" where
  "create_or_get_initial_execution_intent lib now key session_id thread_id initial_state creation_key =
     write_transaction (create_intent_transaction lib now key session_id thread_id initial_state creation_key)"

subsection \<open>Readiness\<close>

definition frozen_intent :: "execution_intent \<Rightarrow> ustr \<times> ustr \<times> ustr \<times> ustr \<times> string \<times> ustr \<times> ustr \<times> ustr" where
  "frozen_intent e = (e_admission_key e, e_session_id e, e_thread_id e, e_creation_key e, e_initial_state e,
     e_execution_binding_id e, e_job_id e, e_binding_preimage_hash e)"

definition validate_initial_execution_readiness ::
    "py_library \<Rightarrow> execution_intent \<Rightarrow> control_db \<Rightarrow> control_error + unit" where
  "validate_initial_execution_readiness lib e d =
     bind_res (initial_execution_intent_of (e_admission_key e) d) (\<lambda>current.
     bind_res (require (frozen_intent current = frozen_intent e) (Runtime_Error ''intent drifted'')) (\<lambda>_.
     bind_res (thread_creation_record_of (e_creation_key e) d) (\<lambda>c.
     bind_res (require ((c_delegation_id c = None)
                 = (c_collaboration_revision c = None \<and> c_membership_preimage_hash c = None)) (Runtime_Error ''membership identity'')) (\<lambda>_.
     bind_res (require (binding_preimage_hash_of lib (e_admission_key e) (e_session_id e) (e_thread_id e) (e_creation_key e)
                 (e_initial_state e) (e_execution_binding_id e) (e_job_id e) = e_binding_preimage_hash e) (Runtime_Error ''preimage'')) (\<lambda>_.
     bind_res (require (c_state c = ''published'' \<and> c_child_thread_id c = e_thread_id e \<and> c_initial_state c = e_initial_state e
                 \<and> derive_initial_execution_identity lib (e_admission_key e) = (e_execution_binding_id e, e_job_id e))
                 (Runtime_Error ''creation differs'')) (\<lambda>_.
     bind_res (require (list_ex (\<lambda>t. t_thread_id t = e_thread_id e \<and> t_kind t = ''child'') (thread_catalog d))
                 (Runtime_Error ''child not in catalog'')) (\<lambda>_.
     case c_delegation_id c of
       None \<Rightarrow> Inr ()
     | Some delegation \<Rightarrow>
         bind_res (collaboration_member_of lib delegation d) (\<lambda>m.
         require (m_state m = ''published'' \<and> m_child_thread_id m = e_thread_id e
           \<and> m_coordinator_session_id m = e_session_id e) (Runtime_Error ''member differs'')))))))))"

subsection \<open>Claim, bind, fail\<close>

text \<open>The update of one row by its key and reading it back; \<open>guard\<close> are the further conditions of the statement.\<close>

definition intent_update ::
    "ustr \<Rightarrow> (execution_intent \<Rightarrow> bool) \<Rightarrow> (execution_intent \<Rightarrow> execution_intent) \<Rightarrow> control_db
       \<Rightarrow> control_error + (execution_intent \<times> control_db)" where
  "intent_update key guard f d =
     bind_res (sql_update intent_check (\<lambda>e. e_admission_key e = key \<and> guard e) f (execution_intents d)) (\<lambda>(n, t).
     bind_res (require (n = 1) (Runtime_Error ''intent CAS'')) (\<lambda>_.
     case fetch_execution_intent_row key (d\<lparr>execution_intents := t\<rparr>) of
       None \<Rightarrow> Inl (Runtime_Error ''intent not visible'')
     | Some e \<Rightarrow> Inr (e, d\<lparr>execution_intents := t\<rparr>)))"

definition claim_intent_body ::
    "py_library \<Rightarrow> ustr \<Rightarrow> ustr \<Rightarrow> ustr \<Rightarrow> int \<Rightarrow> control_db \<Rightarrow> control_error + (execution_intent \<times> control_db)" where
  "claim_intent_body lib now key claim_owner generation d =
     (case fetch_execution_intent_row key d of
        None \<Rightarrow> Inl (Key_Error ''execution intent'')
      | Some e \<Rightarrow>
          bind_res (require (e_state e = ''pending'') (Runtime_Error ''intent not pending'')) (\<lambda>_.
          bind_res (validate_initial_execution_readiness lib e d) (\<lambda>_.
          case (e_claim_owner e, e_claim_generation e) of
            (Some holder, Some held) \<Rightarrow>
              if holder \<noteq> claim_owner then Inl (Runtime_Error ''claimed by another'')
              else if held = generation then Inr (e, d)
              else if held < generation then
                bind_res (sql_int generation) (\<lambda>_.
                intent_update key (\<lambda>x. e_claim_owner x = Some claim_owner \<and> e_claim_generation x = Some held)
                  (\<lambda>x. x\<lparr>e_claim_generation := Some generation, e_updated_at := now\<rparr>) d)
              else Inl (Runtime_Error ''claim generation'')
          | _ \<Rightarrow>
              bind_res (sql_int generation) (\<lambda>_.
              intent_update key (\<lambda>_. True)
                (\<lambda>x. x\<lparr>e_claim_owner := Some claim_owner, e_claim_generation := Some generation, e_updated_at := now\<rparr>) d))))"

definition claim_initial_execution_intent :: "py_library \<Rightarrow> ustr \<Rightarrow> ustr \<Rightarrow> ustr \<Rightarrow> int \<Rightarrow> execution_intent store_op" where
  "claim_initial_execution_intent lib now key claim_owner generation =
     checked (bind_res (validate_thread_creation_key key) (\<lambda>_. validate_claim_fields claim_owner generation))
       (\<lambda>_. write_transaction (claim_intent_body lib now key claim_owner generation))"

definition bind_intent_body ::
    "py_library \<Rightarrow> (nat \<Rightarrow> ustr) \<Rightarrow> ustr \<Rightarrow> ustr \<Rightarrow> ustr \<Rightarrow> ustr \<Rightarrow> ustr \<Rightarrow> int \<Rightarrow> control_db
       \<Rightarrow> control_error + (execution_intent \<times> control_db)" where
  "bind_intent_body lib clock new_id key binding_id job_id claim_owner generation d =
     (case fetch_execution_intent_row key d of
        None \<Rightarrow> Inl (Key_Error ''execution intent'')
      | Some e \<Rightarrow>
          bind_res (validate_initial_execution_readiness lib e d) (\<lambda>_.
          bind_res (require (e_claim_owner e \<noteq> None) (Runtime_Error ''intent not claimed'')) (\<lambda>_.
          bind_res (require (e_claim_owner e = Some claim_owner \<and> e_claim_generation e = Some generation)
                      (Runtime_Error ''claim differs'')) (\<lambda>_.
          bind_res (require (e_execution_binding_id e = binding_id \<and> e_job_id e = job_id) (Runtime_Error ''identity drifted'')) (\<lambda>_.
          if e_state e = ''bound'' then Inr (e, d)
          else
            bind_res (sql_update intent_check (\<lambda>x. e_admission_key x = key \<and> e_state x = ''pending'')
                        (\<lambda>x. x\<lparr>e_state := ''bound'', e_last_error := None, e_updated_at := clock 0\<rparr>) (execution_intents d)) (\<lambda>(n, t).
            bind_res (require (n = 1) (Runtime_Error ''bound CAS'')) (\<lambda>_.
            let d1 = d\<lparr>execution_intents := t\<rparr> in
            bind_res (thread_creation_record_of (e_creation_key e) d1) (\<lambda>c.
            bind_res (case c_delegation_id c of
                        None \<Rightarrow> Inr d1
                      | Some delegation \<Rightarrow>
                          freeze_member_change lib (\<lambda>i. clock (i + 1)) new_id delegation ''member.ready'' True d1) (\<lambda>d2.
            case fetch_execution_intent_row key d2 of
              None \<Rightarrow> Inl (Runtime_Error ''intent not visible'')
            | Some e' \<Rightarrow> Inr (e', d2)))))))))) "

definition mark_initial_execution_bound ::
    "py_library \<Rightarrow> (nat \<Rightarrow> ustr) \<Rightarrow> ustr \<Rightarrow> ustr \<Rightarrow> ustr \<Rightarrow> ustr \<Rightarrow> ustr \<Rightarrow> int \<Rightarrow> execution_intent store_op" where
  "mark_initial_execution_bound lib clock new_id key binding_id job_id claim_owner generation =
     checked (bind_res (validate_thread_creation_key key) (\<lambda>_.
              bind_res (validate_execution_identity binding_id job_id) (\<lambda>_. validate_claim_fields claim_owner generation)))
       (\<lambda>_. write_transaction (bind_intent_body lib clock new_id key binding_id job_id claim_owner generation))"

definition fail_intent_body ::
    "ustr \<Rightarrow> ustr \<Rightarrow> ustr \<Rightarrow> int \<Rightarrow> ustr \<Rightarrow> control_db \<Rightarrow> control_error + (execution_intent \<times> control_db)" where
  "fail_intent_body now key claim_owner generation last_error d =
     (case fetch_execution_intent_row key d of
        None \<Rightarrow> Inl (Key_Error ''execution intent'')
      | Some e \<Rightarrow>
          bind_res (require (e_state e = ''pending'') (Runtime_Error ''intent not pending'')) (\<lambda>_.
          bind_res (require (e_claim_owner e = Some claim_owner \<and> e_claim_generation e = Some generation)
                      (Runtime_Error ''claim differs'')) (\<lambda>_.
          intent_update key (\<lambda>x. e_state x = ''pending'' \<and> e_claim_owner x = Some claim_owner
              \<and> e_claim_generation x = Some generation)
            (\<lambda>x. x\<lparr>e_last_error := Some last_error, e_updated_at := now\<rparr>) d)))"

definition record_initial_execution_failure ::
    "ustr \<Rightarrow> ustr \<Rightarrow> ustr \<Rightarrow> int \<Rightarrow> ustr \<Rightarrow> execution_intent store_op" where
  "record_initial_execution_failure now key claim_owner generation last_error =
     checked (bind_res (validate_thread_creation_key key) (\<lambda>_.
              bind_res (validate_claim_fields claim_owner generation) (\<lambda>_.
              require (last_error \<noteq> []) (Value_Error ''last_error''))))
       (\<lambda>_. write_transaction (fail_intent_body now key claim_owner generation last_error))"

subsection \<open>Reading\<close>

definition get_initial_execution_intent :: "ustr \<Rightarrow> execution_intent store_op" where
  "get_initial_execution_intent key =
     checked (validate_thread_creation_key key) (\<lambda>_. read_op (initial_execution_intent_of key))"

definition find_initial_execution_intent_by_job_id :: "ustr \<Rightarrow> execution_intent option store_op" where
  "find_initial_execution_intent_by_job_id job_id = read_op (\<lambda>d. Inr (fetch_execution_intent_row_by_job_id job_id d))"

definition list_initial_execution_intents :: "execution_intent list store_op" where
  "list_initial_execution_intents = read_op (\<lambda>d.
     Inr (order_by (\<lambda>e. [e_created_at e, e_admission_key e]) (execution_intents d)))"

definition list_pending_initial_execution_intents :: "execution_intent list store_op" where
  "list_pending_initial_execution_intents = read_op (\<lambda>d.
     Inr (order_by (\<lambda>e. [e_created_at e, e_admission_key e])
       (filter (\<lambda>e. e_state e = ''pending'') (execution_intents d))))"

end
