(* ===== verification/Thread_Creation.thy ===== *)
theory Thread_Creation
  imports Execution_Intent
begin

section \<open>Creating child threads\<close>

text \<open>
  \<^verbatim>\<open>app/core/session_control_store/thread_creation_record.py\<close> and \<^verbatim>\<open>thread_creation_publish.py\<close>. A creation
  record freezes the identity and the preconditions of a child thread; publishing it is the one transaction
  that makes the thread visible. \<open>clock\<close> gives the successive clock readings of a method, \<open>new_thread\<close> and
  \<open>new_lease\<close> are what \<^verbatim>\<open>create_prefixed_id\<close> returns.
\<close>

subsection \<open>Instants\<close>

text \<open>Microseconds since the first day of year 1, in UTC; the conversion overflows outside the years 1 to 9999.\<close>

definition days_before_year :: "nat \<Rightarrow> nat" where
  "days_before_year y = (y - 1) * 365 + (y - 1) div 4 - (y - 1) div 100 + (y - 1) div 400"

definition days_of_date :: "nat \<Rightarrow> nat \<Rightarrow> nat \<Rightarrow> nat" where
  "days_of_date y m d = days_before_year y + sum_list (map (days_in_month y) [1..<m]) + d - 1"

definition utc_micros :: "py_datetime \<Rightarrow> control_error + int" where
  "utc_micros t =
     (let local = int ((days_of_date (dt_year t) (dt_month t) (dt_day t) * 86400
                + dt_hour t * 3600 + dt_minute t * 60 + dt_second t) * 1000000 + dt_microsecond t);
          n = local - (case dt_utcoffset t of None \<Rightarrow> 0 | Some off \<Rightarrow> off)
      in bind_res (require (0 \<le> n \<and> n < 3652059 * 86400000000) Overflow_Error) (\<lambda>_. Inr n))"

definition utc_date :: "py_datetime \<Rightarrow> control_error + (nat \<times> nat \<times> nat)" where
  "utc_date t = bind_res (utc_micros t) (\<lambda>n. Inr (date_of_days (nat (n div 86400000000))))"

definition to_epoch_ms :: "py_datetime \<Rightarrow> control_error + int" where
  "to_epoch_ms t = bind_res (utc_micros t) (\<lambda>n. Inr ((n - 719162 * 86400000000) div 1000))"

definition uuid7_datetime_from_hex :: "ustr \<Rightarrow> control_error + py_datetime" where
  "uuid7_datetime_from_hex payload =
     bind_res (require (length payload = 32) (Value_Error ''UUIDv7 payload'')) (\<lambda>_.
     bind_res (uuid7_embedded_utc_date payload) (\<lambda>(y, m, d).
     let ms = Session_Control.hex_value (take 12 payload) mod 86400000 in
     Inr \<lparr>dt_year = y, dt_month = m, dt_day = d, dt_hour = ms div 3600000, dt_minute = ms mod 3600000 div 60000,
          dt_second = ms mod 60000 div 1000, dt_microsecond = ms mod 1000 * 1000, dt_utcoffset = Some 0\<rparr>))"

definition thread_locator :: "nat \<times> nat \<times> nat \<Rightarrow> ustr \<Rightarrow> ustr" where
  "thread_locator date tid = (case date of (y, m, d) \<Rightarrow>
     u ''threads/'' @ zpad 4 y @ u ''/'' @ zpad 2 m @ u ''/'' @ zpad 2 d @ u ''/'' @ tid)"

subsection \<open>Checks of frozen texts\<close>

definition validate_frozen_json_text :: "py_library \<Rightarrow> ustr \<Rightarrow> control_error + unit" where
  "validate_frozen_json_text lib value =
     bind_res (require (value \<noteq> []) (Value_Error ''empty JSON text'')) (\<lambda>_.
     case loads lib value of
       None \<Rightarrow> Inl (Value_Error ''not JSON'')
     | Some v \<Rightarrow> require (is_obj v) (Value_Error ''not a JSON object''))"

definition validate_optional_frozen_json_text :: "py_library \<Rightarrow> ustr option \<Rightarrow> control_error + unit" where
  "validate_optional_frozen_json_text lib value =
     (case value of None \<Rightarrow> Inr () | Some s \<Rightarrow> validate_frozen_json_text lib s)"

definition graph_binding_of_fields :: "json \<Rightarrow> json \<Rightarrow> json \<Rightarrow> json \<Rightarrow> control_error + graph_binding" where
  "graph_binding_of_fields gid revision schema profile =
     (case (gid, revision, schema, profile) of
        (JStr a, JInt b, JStr c, JStr e) \<Rightarrow>
          (case make_graph_binding a b c e of Inl _ \<Rightarrow> Inl (Runtime_Error ''GraphBinding fields'') | Inr g \<Rightarrow> Inr g)
      | _ \<Rightarrow> Inl (Runtime_Error ''GraphBinding fields''))"

definition graph_binding_from_creation_json :: "py_library \<Rightarrow> ustr \<Rightarrow> control_error + graph_binding" where
  "graph_binding_from_creation_json lib value = (case loads lib value of
     Some (JObj d) \<Rightarrow>
       if set (map fst d) = {u ''graph_id'', u ''graph_revision'', u ''graph_schema_hash'', u ''capability_profile_hash''}
       then graph_binding_of_fields (jget (u ''graph_id'') d) (jget (u ''graph_revision'') d)
              (jget (u ''graph_schema_hash'') d) (jget (u ''capability_profile_hash'') d)
       else Inl (Runtime_Error ''GraphBinding fields'')
   | _ \<Rightarrow> Inl (Runtime_Error ''GraphBinding JSON''))"

subsection \<open>Rows\<close>

definition creation_check :: "creation_record \<Rightarrow> bool" where
  "creation_check c \<longleftrightarrow> c_state c \<in> {''preparing'', ''published'', ''aborted''} \<and> c_initial_state c \<in> set INITIAL_STATES
     \<and> c_purpose c \<in> {''task'', ''fork''}
     \<and> (case c_fork_delivery_request_id c of None \<Rightarrow> True | Some r \<Rightarrow> c_purpose c = ''fork'' \<and> 0 < sql_length r)"

definition creation_clash :: "creation_record \<Rightarrow> creation_record \<Rightarrow> bool" where
  "creation_clash c c' \<longleftrightarrow> c_key c = c_key c' \<or> c_child_thread_id c = c_child_thread_id c'
     \<or> c_final_relative_locator c = c_final_relative_locator c'
     \<or> (c_delegation_id c \<noteq> None \<and> c_delegation_id c = c_delegation_id c')"

text \<open>An update of one record by its key, and reading it back.\<close>

definition creation_update ::
    "ustr \<Rightarrow> (creation_record \<Rightarrow> creation_record) \<Rightarrow> control_db \<Rightarrow> control_error + (creation_record \<times> control_db)" where
  "creation_update key f d =
     bind_res (sql_update creation_check (\<lambda>c. c_key c = key) f (creation_records d)) (\<lambda>(n, t).
     case fetch_creation_record key (d\<lparr>creation_records := t\<rparr>) of
       None \<Rightarrow> Inl (Runtime_Error ''record not visible'')
     | Some c \<Rightarrow> Inr (c, d\<lparr>creation_records := t\<rparr>))"

subsection \<open>Create or get\<close>

record creation_request =
  q_key :: ustr
  q_initial_state :: string
  q_preimage_hash :: ustr
  q_graph_binding :: ustr
  q_capability_profile :: ustr
  q_created_at :: "py_datetime option"
  q_thread_id :: "ustr option"
  q_delegation_id :: "ustr option"
  q_task_seed :: "ustr option"
  q_task_reference :: "ustr option"
  q_owner_session_id :: "ustr option"
  q_member :: "member_input option"
  q_purpose :: string
  q_request_intent_json :: "ustr option"
  q_fork_delivery_request_id :: "ustr option"

definition check_frozen_texts :: "py_library \<Rightarrow> creation_request \<Rightarrow> control_error + unit" where
  "check_frozen_texts lib q =
     bind_res (validate_thread_creation_key (q_key q)) (\<lambda>_.
     bind_res (require (q_initial_state q \<in> set INITIAL_STATES) (Value_Error ''initial_state'')) (\<lambda>_.
     bind_res (require (q_preimage_hash q \<noteq> []) (Value_Error ''preimage_hash'')) (\<lambda>_.
     bind_res (validate_frozen_json_text lib (q_graph_binding q)) (\<lambda>_.
     bind_res (graph_binding_from_creation_json lib (q_graph_binding q)) (\<lambda>_.
     bind_res (validate_frozen_json_text lib (q_capability_profile q)) (\<lambda>_.
     bind_res (validate_optional_frozen_json_text lib (q_task_seed q)) (\<lambda>_.
     bind_res (validate_optional_frozen_json_text lib (q_task_reference q)) (\<lambda>_.
     validate_optional_frozen_json_text lib (q_request_intent_json q)))))))))"

definition check_purpose :: "creation_request \<Rightarrow> control_error + unit" where
  "check_purpose q =
     bind_res (require (q_purpose q \<in> {''task'', ''fork''}) (Value_Error ''purpose'')) (\<lambda>_.
     bind_res (case q_fork_delivery_request_id q of
                 None \<Rightarrow> Inr ()
               | Some r \<Rightarrow> require (q_purpose q = ''fork'' \<and> strip r \<noteq> []) (Value_Error ''delivery request_id'')) (\<lambda>_.
     bind_res (require (\<not> (q_purpose q = ''fork'' \<and> (q_initial_state q \<noteq> ''idle'' \<or> q_delegation_id q \<noteq> None
                 \<or> q_task_seed q \<noteq> None \<or> q_request_intent_json q = None))) (Value_Error ''fork child'')) (\<lambda>_.
     require (\<not> (q_purpose q = ''task'' \<and> q_request_intent_json q \<noteq> None)) (Value_Error ''task child''))))"

definition check_fixture :: "creation_request \<Rightarrow> control_error + unit" where
  "check_fixture q =
     bind_res (case q_thread_id q of None \<Rightarrow> Inr () | Some tid \<Rightarrow> check_thread_id tid) (\<lambda>_.
     bind_res (require ((q_created_at q = None) = (q_thread_id q = None)) (Value_Error ''fixture'')) (\<lambda>_.
     case (q_created_at q, q_thread_id q) of
       (Some created, Some tid) \<Rightarrow>
         bind_res (require (dt_utcoffset created \<noteq> None) (Value_Error ''naive created_at'')) (\<lambda>_.
         bind_res (uuid7_datetime_from_hex (drop 4 tid)) (\<lambda>embedded.
         bind_res (to_epoch_ms embedded) (\<lambda>thread_ms.
         bind_res (to_epoch_ms created) (\<lambda>created_ms.
         require (thread_ms = created_ms) (Value_Error ''created_at'')))))
     | _ \<Rightarrow> Inr ()))"

definition check_member :: "py_library \<Rightarrow> creation_request \<Rightarrow> control_error + unit" where
  "check_member lib q =
     bind_res (require (q_delegation_id q \<noteq> Some []) (Value_Error ''delegation_id'')) (\<lambda>_.
     bind_res (require ((q_delegation_id q = None) = (q_member q = None)) (Value_Error ''delegation and member'')) (\<lambda>_.
     case (q_delegation_id q, q_member q) of
       (Some delegation, Some member) \<Rightarrow>
         (case (q_task_seed q, q_task_reference q, q_owner_session_id q) of
            (Some _, Some reference_text, Some owner) \<Rightarrow>
              bind_res (check_session_id owner) (\<lambda>_.
              bind_res (check_thread_id (mi_coordinator_thread_id member)) (\<lambda>_.
              bind_res (require (list_all (\<lambda>x. x \<noteq> []) [mi_coordinator_session_id member, mi_coordinator_thread_id member,
                          mi_role member, mi_subagent_type member, mi_title member]) (Value_Error ''member fields'')) (\<lambda>_.
              case loads lib reference_text of
                Some (JObj reference) \<Rightarrow>
                  require (py_eq (jget (u ''parent_session_id'') reference) (JStr owner)
                    \<and> py_eq (jget (u ''parent_thread_id'') reference) (JStr (mi_coordinator_thread_id member))
                    \<and> py_eq (jget (u ''delegation_id'') reference) (JStr delegation)
                    \<and> mi_coordinator_session_id member = owner) (Runtime_Error ''member and task reference'')
              | _ \<Rightarrow> Inl (Value_Error ''task_reference''))))
          | _ \<Rightarrow> Inl (Value_Error ''delegated creation''))
     | _ \<Rightarrow> Inr ()))"

definition validate_creation_request :: "py_library \<Rightarrow> creation_request \<Rightarrow> control_error + unit" where
  "validate_creation_request lib q =
     bind_res (check_frozen_texts lib q) (\<lambda>_.
     bind_res (check_purpose q) (\<lambda>_.
     bind_res (check_fixture q) (\<lambda>_.
     check_member lib q)))"

text \<open>The record exists: the request must agree with what it froze.\<close>

definition check_existing_creation :: "py_library \<Rightarrow> creation_request \<Rightarrow> creation_record \<Rightarrow> control_db \<Rightarrow> control_error + unit" where
  "check_existing_creation lib q c d =
     bind_res (require (c_preimage_hash c = q_preimage_hash q) (Runtime_Error ''preimage conflict'')) (\<lambda>_.
     bind_res (require (q_thread_id q = None \<or> q_thread_id q = Some (c_child_thread_id c)) (Runtime_Error ''child ID conflict'')) (\<lambda>_.
     bind_res (require (q_delegation_id q = c_delegation_id c) (Runtime_Error ''delegation differs'')) (\<lambda>_.
     bind_res (case (q_member q, c_delegation_id c) of
         (Some mi, Some delegation) \<Rightarrow>
           bind_res (require ((c_initial_state c, c_graph_binding c, c_capability_profile c, c_task_seed c, c_task_reference c)
             = (q_initial_state q, q_graph_binding q, q_capability_profile q, q_task_seed q, q_task_reference q))
             (Runtime_Error ''delegated preimage'')) (\<lambda>_.
           bind_res (collaboration_member_of lib delegation d) (\<lambda>m.
           require (\<not> (c_state c = ''aborted''
               \<or> (m_coordinator_session_id m, m_coordinator_thread_id m, m_role m, m_subagent_type m, m_title m, Some (m_task_seed m))
                  \<noteq> (mi_coordinator_session_id mi, mi_coordinator_thread_id mi, mi_role mi, mi_subagent_type mi, mi_title mi, q_task_seed q)))
             (Runtime_Error ''member conflict'')))
       | _ \<Rightarrow> Inr ()) (\<lambda>_.
     require (c_purpose c = q_purpose q \<and> c_request_intent_json c = q_request_intent_json q) (Runtime_Error ''purpose conflict'')))))"

definition admission_intent_of :: "py_library \<Rightarrow> creation_request \<Rightarrow> ustr \<Rightarrow> ustr option" where
  "admission_intent_of lib q child = (if q_purpose q = ''task''
     then Some (json_text (lib_floats lib) (JObj [(u ''admission_idempotency_key'', JStr (q_key q)),
            (u ''thread_id'', JStr child), (u ''initial_state'', JStr (u (q_initial_state q)))]))
     else None)"

text \<open>The identity of the child: fixed by the request, or a fresh identifier and the time in it.\<close>

definition child_identity :: "creation_request \<Rightarrow> ustr \<Rightarrow> control_error + (ustr \<times> py_datetime)" where
  "child_identity q new_thread = (case (q_thread_id q, q_created_at q) of
     (None, _) \<Rightarrow> bind_res (uuid7_datetime_from_hex (drop 4 new_thread)) (\<lambda>t. Inr (new_thread, t))
   | (Some tid, Some created) \<Rightarrow> Inr (tid, created)
   | (Some _, None) \<Rightarrow> Inl (Runtime_Error ''fixture time''))"

definition new_creation_record ::
    "py_library \<Rightarrow> ustr \<Rightarrow> creation_request \<Rightarrow> ustr \<Rightarrow> py_datetime \<Rightarrow> ustr \<Rightarrow> int \<Rightarrow> nat \<Rightarrow> (int \<times> ustr) option \<Rightarrow> creation_record" where
  "new_creation_record lib now q child created locator generation catalog_revision membership =
     \<lparr>c_key = q_key q, c_state = ''preparing'', c_preimage_hash = q_preimage_hash q, c_delegation_id = q_delegation_id q,
      c_child_thread_id = child, c_final_relative_locator = locator, c_staging_locator = u ''.staging/'' @ q_key q,
      c_artifact_manifest = None, c_artifact_manifest_hash = None, c_graph_binding = q_graph_binding q,
      c_capability_profile = q_capability_profile q, c_task_seed = q_task_seed q, c_task_reference = q_task_reference q,
      c_owner_generation = generation, c_catalog_revision = catalog_revision,
      c_collaboration_revision = map_option fst membership, c_membership_preimage_hash = map_option snd membership,
      c_initial_state = q_initial_state q, c_admission_intent = admission_intent_of lib q child, c_abort_reason = None,
      c_child_created_at = isoformat created, c_record_created_at = now, c_record_updated_at = now,
      c_purpose = q_purpose q, c_request_intent_json = q_request_intent_json q,
      c_fork_delivery_request_id = q_fork_delivery_request_id q, c_fork_completion_json = None\<rparr>"

definition register_member ::
    "py_library \<Rightarrow> ustr \<Rightarrow> creation_request \<Rightarrow> ustr \<Rightarrow> control_db \<Rightarrow> control_error + ((int \<times> ustr) option \<times> control_db)" where
  "register_member lib now q child d = (case q_member q of
     None \<Rightarrow> Inr (None, d)
   | Some member \<Rightarrow>
       (case (q_delegation_id q, q_task_seed q, q_task_reference q) of
          (Some delegation, Some seed, Some reference) \<Rightarrow>
            bind_res (require (in_catalog (mi_coordinator_thread_id member) d) (Runtime_Error ''parent thread'')) (\<lambda>_.
            bind_res (prepare_collaboration_member lib now (q_key q) (q_preimage_hash q) delegation child seed reference member d)
              (\<lambda>(membership, d'). Inr (Some membership, d')))
        | _ \<Rightarrow> Inl (Runtime_Error ''delegated creation'')))"

definition insert_thread_creation_record ::
    "py_library \<Rightarrow> (nat \<Rightarrow> ustr) \<Rightarrow> ustr \<Rightarrow> ustr \<Rightarrow> creation_request \<Rightarrow> control_db
       \<Rightarrow> control_error + (creation_record \<times> control_db)" where
  "insert_thread_creation_record lib clock new_thread new_lease q d =
     (case fetch_fence_row d of
        None \<Rightarrow> Inl (Key_Error ''lifecycle fence'')
      | Some fr \<Rightarrow>
          bind_res (require (f_state fr = ''active'') (Runtime_Error ''fence not active'')) (\<lambda>_.
          bind_res (require (length (main_rows d) = 1) (Runtime_Error ''main row'')) (\<lambda>_.
          bind_res (child_identity q new_thread) (\<lambda>(child, created).
          bind_res (check_thread_id child) (\<lambda>_.
          bind_res (require (child \<noteq> t_thread_id (hd (main_rows d))) (Runtime_Error ''child is main'')) (\<lambda>_.
          bind_res (require (\<not> in_catalog child d) (Runtime_Error ''child ID occupied'')) (\<lambda>_.
          bind_res (utc_date created) (\<lambda>date.
          let locator = thread_locator date child in
          bind_res (validate_thread_relative_locator (lib_digit lib) locator) (\<lambda>_.
          bind_res (require (\<not> list_ex (\<lambda>c. c_final_relative_locator c = locator) (creation_records d)) (Runtime_Error ''locator taken'')) (\<lambda>_.
          bind_res (require (q_delegation_id q = None \<or> \<not> list_ex (\<lambda>c. c_delegation_id c = q_delegation_id q) (creation_records d))
                      (Runtime_Error ''delegation taken'')) (\<lambda>_.
          bind_res (register_member lib (clock 1) q child d) (\<lambda>(membership, d1).
          let c = new_creation_record lib (clock 0) q child created locator (f_generation fr) (length (thread_catalog d)) membership in
          bind_res (sql_insert creation_check creation_clash c (creation_records d1)) (\<lambda>t.
          let d2 = d1\<lparr>creation_records := t\<rparr> in
          bind_res (case (q_member q, q_delegation_id q) of
                      (Some _, Some delegation) \<Rightarrow>
                        freeze_member_change lib (\<lambda>i. clock (i + 2)) new_lease delegation ''member.registered'' False d2
                    | _ \<Rightarrow> Inr d2) (\<lambda>d3.
          Inr (c, d3)))))))))))))))"

definition create_creation_body ::
    "py_library \<Rightarrow> (nat \<Rightarrow> ustr) \<Rightarrow> ustr \<Rightarrow> ustr \<Rightarrow> creation_request \<Rightarrow> control_db
       \<Rightarrow> control_error + (creation_record \<times> control_db)" where
  "create_creation_body lib clock new_thread new_lease q d =
     (case fetch_creation_record (q_key q) d of
        Some c \<Rightarrow> bind_res (check_existing_creation lib q c d) (\<lambda>_. Inr (c, d))
      | None \<Rightarrow> insert_thread_creation_record lib clock new_thread new_lease q d)"

definition create_or_get_thread_creation_record ::
    "py_library \<Rightarrow> (nat \<Rightarrow> ustr) \<Rightarrow> ustr \<Rightarrow> ustr \<Rightarrow> creation_request \<Rightarrow> creation_record store_op" where
  "create_or_get_thread_creation_record lib clock new_thread new_lease q =
     checked (validate_creation_request lib q)
       (\<lambda>_. write_transaction (create_creation_body lib clock new_thread new_lease q))"

subsection \<open>Completion proof of a fork, manifest of the artifacts\<close>

definition fork_completion_body ::
    "py_library \<Rightarrow> ustr \<Rightarrow> ustr \<Rightarrow> ustr \<Rightarrow> ustr \<Rightarrow> ustr \<Rightarrow> ustr \<Rightarrow> control_db \<Rightarrow> control_error + (unit \<times> control_db)" where
  "fork_completion_body lib key fork_id materialization_id snapshot target_session target_thread d =
     (let proof_text = json_text (lib_floats lib) (JObj [(u ''fork_id'', JStr fork_id), (u ''materialization_id'', JStr materialization_id),
            (u ''source_snapshot_sha256'', JStr snapshot), (u ''target_session_id'', JStr target_session),
            (u ''target_thread_id'', JStr target_thread)]) in
      case fetch_creation_record key d of
        None \<Rightarrow> Inl (Runtime_Error ''no creation intent'')
      | Some c \<Rightarrow>
          bind_res (require (c_purpose c = ''fork'' \<and> c_state c \<in> {''preparing'', ''published''}) (Runtime_Error ''no creation intent'')) (\<lambda>_.
          bind_res (require (c_child_thread_id c = target_thread \<and> fork_id \<noteq> [] \<and> materialization_id \<noteq> [] \<and> snapshot \<noteq> []
                      \<and> target_session \<noteq> []) (Runtime_Error ''completion owner'')) (\<lambda>_.
          bind_res (require (c_fork_completion_json c = None \<or> c_fork_completion_json c = Some proof_text)
                      (Runtime_Error ''completion conflict'')) (\<lambda>_.
          bind_res (creation_update key (\<lambda>x. x\<lparr>c_fork_completion_json := Some proof_text\<rparr>) d) (\<lambda>(c', d').
          Inr ((), d'))))))"

definition freeze_thread_fork_completion ::
    "py_library \<Rightarrow> ustr \<Rightarrow> ustr \<Rightarrow> ustr \<Rightarrow> ustr \<Rightarrow> ustr \<Rightarrow> ustr \<Rightarrow> unit store_op" where
  "freeze_thread_fork_completion lib key fork_id materialization_id snapshot target_session target_thread =
     write_transaction (fork_completion_body lib key fork_id materialization_id snapshot target_session target_thread)"

definition check_manifest :: "py_library \<Rightarrow> ustr \<Rightarrow> ustr \<Rightarrow> control_error + unit" where
  "check_manifest lib manifest h =
     bind_res (validate_frozen_json_text lib manifest) (\<lambda>_.
     bind_res (case loads lib manifest of
                 Some (JObj d) \<Rightarrow> require (list_all (\<lambda>(k, v). is_str v) d) (Value_Error ''manifest values'')
               | _ \<Rightarrow> Inl (Value_Error ''manifest'')) (\<lambda>_.
     require (is_sha256_hex h) (Value_Error ''manifest hash'')))"

definition freeze_manifest_body ::
    "ustr \<Rightarrow> ustr \<Rightarrow> ustr \<Rightarrow> ustr \<Rightarrow> control_db \<Rightarrow> control_error + (creation_record \<times> control_db)" where
  "freeze_manifest_body now key manifest h d =
     (case fetch_creation_record key d of
        None \<Rightarrow> Inl (Key_Error ''creation record'')
      | Some c \<Rightarrow>
          bind_res (require (c_state c = ''preparing'') (Runtime_Error ''record not preparing'')) (\<lambda>_.
          case c_artifact_manifest_hash c of
            Some frozen \<Rightarrow>
              if frozen = h \<and> c_artifact_manifest c = Some manifest then Inr (c, d) else Inl (Runtime_Error ''manifest differs'')
          | None \<Rightarrow>
              creation_update key (\<lambda>x. x\<lparr>c_artifact_manifest := Some manifest, c_artifact_manifest_hash := Some h,
                c_record_updated_at := now\<rparr>) d))"

definition freeze_thread_creation_artifact_manifest :: "py_library \<Rightarrow> ustr \<Rightarrow> ustr \<Rightarrow> ustr \<Rightarrow> ustr \<Rightarrow> creation_record store_op" where
  "freeze_thread_creation_artifact_manifest lib now key manifest h =
     checked (bind_res (validate_thread_creation_key key) (\<lambda>_. check_manifest lib manifest h))
       (\<lambda>_. write_transaction (freeze_manifest_body now key manifest h))"

end
