(* ===== verification/Thread_Publish.thy ===== *)
theory Thread_Publish
  imports Thread_Creation
begin

section \<open>Publishing and aborting a thread\<close>

text \<open>
  \<^verbatim>\<open>app/core/session_control_store/thread_creation_publish.py\<close> and the readers of creation records. Publishing
  checks the frozen preconditions against the database and then, in one transaction, adds the row of the
  thread catalog, completes the record, creates the owner's slots, the execution intent of a task, and
  completes the member of a delegation.
\<close>

subsection \<open>Publishing\<close>

text \<open>The record must still be what \<^verbatim>\<open>create\<close> froze, and its artifacts complete.\<close>

definition check_frozen_record :: "py_library \<Rightarrow> creation_record \<Rightarrow> control_error + unit" where
  "check_frozen_record lib c =
     bind_res (require (c_state c \<noteq> ''published'') (Runtime_Error ''already published'')) (\<lambda>_.
     bind_res (require (c_state c \<noteq> ''aborted'') (Runtime_Error ''aborted'')) (\<lambda>_.
     bind_res (check_thread_id (c_child_thread_id c)) (\<lambda>_.
     bind_res (validate_thread_relative_locator (lib_digit lib) (c_final_relative_locator c)) (\<lambda>_.
     case lib_fromisoformat lib (c_child_created_at c) of
       None \<Rightarrow> Inl (Runtime_Error ''child_created_at'')
     | Some created \<Rightarrow>
         bind_res (utc_date created) (\<lambda>date.
         bind_res (require (c_final_relative_locator c = thread_locator date (c_child_thread_id c)) (Runtime_Error ''locator date'')) (\<lambda>_.
         require (c_artifact_manifest_hash c \<noteq> None) (Runtime_Error ''manifest not frozen'')))))))"

text \<open>The compare-and-swap against fence and catalog.\<close>

definition check_preconditions :: "creation_record \<Rightarrow> control_db \<Rightarrow> control_error + unit" where
  "check_preconditions c d =
     bind_res (read_fence_row d) (\<lambda>fr.
     bind_res (require (f_state fr \<noteq> ''deleting'') (Runtime_Error ''session_deletion_pending'')) (\<lambda>_.
     bind_res (require (f_state fr = ''active'' \<and> f_generation fr = c_owner_generation c) (Runtime_Error ''fence drifted'')) (\<lambda>_.
     require (\<not> length (thread_catalog d) < c_catalog_revision c) (Runtime_Error ''catalog shrunk''))))"

definition check_membership :: "py_library \<Rightarrow> ustr \<Rightarrow> creation_record \<Rightarrow> control_db \<Rightarrow> control_error + unit" where
  "check_membership lib session_id c d =
     bind_res (require (\<not> (c_delegation_id c \<noteq> None \<and> c_collaboration_revision c = None)) (Runtime_Error ''no collaboration revision'')) (\<lambda>_.
     case (c_collaboration_revision c, c_delegation_id c) of
       (None, _) \<Rightarrow> Inr ()
     | (Some frozen, delegation) \<Rightarrow>
         (case collaboration_ledger d of
            None \<Rightarrow> Inl (Type_Error ''ledger row'')
          | Some actual \<Rightarrow>
              bind_res (require (\<not> actual < frozen) (Runtime_Error ''ledger shrunk'')) (\<lambda>_.
              bind_res (case collaboration_member_of lib (case delegation of None \<Rightarrow> u ''None'' | Some x \<Rightarrow> x) d of
                          Inl (Key_Error _) \<Rightarrow> Inl (Runtime_Error ''member missing'') | r \<Rightarrow> r) (\<lambda>m.
              bind_res (require (m_coordinator_session_id m = session_id) (Runtime_Error ''member of another session'')) (\<lambda>_.
              require (m_state m = ''registering'') (Runtime_Error ''member not registering''))))))"

definition check_fork_completion :: "py_library \<Rightarrow> ustr \<Rightarrow> creation_record \<Rightarrow> control_error + unit" where
  "check_fork_completion lib session_id c =
     (if c_purpose c \<noteq> ''fork'' then Inr ()
      else case c_fork_completion_json c of
        None \<Rightarrow> Inl (Runtime_Error ''no completion proof'')
      | Some s \<Rightarrow>
          bind_res (require (c_admission_intent c = None) (Runtime_Error ''no completion proof'')) (\<lambda>_.
          case loads lib s of
            None \<Rightarrow> Inl (Value_Error ''completion proof'')
          | Some (JObj p) \<Rightarrow>
              bind_res (field ''target_session_id'' p) (\<lambda>target_session.
              bind_res (field ''target_thread_id'' p) (\<lambda>target_thread.
              require (py_eq target_session (JStr session_id) \<and> py_eq target_thread (JStr (c_child_thread_id c)))
                (Runtime_Error ''completion owner'')))
          | Some _ \<Rightarrow> Inl (Type_Error ''completion proof'')))"

definition publish_member :: "ustr \<Rightarrow> creation_record \<Rightarrow> control_db \<Rightarrow> control_error + control_db" where
  "publish_member now c d =
     (if c_collaboration_revision c = None then Inr d
      else bind_res (sql_update member_check (\<lambda>m. Some (m_delegation_id m) = c_delegation_id c)
                       (\<lambda>m. m\<lparr>m_state := ''published'', m_updated_at := now\<rparr>) (collaboration_members d)) (\<lambda>(n, t).
           Inr (d\<lparr>collaboration_members := t\<rparr>)))"

definition publish_creation_body ::
    "py_library \<Rightarrow> (nat \<Rightarrow> ustr) \<Rightarrow> ustr \<Rightarrow> ustr \<Rightarrow> ustr \<Rightarrow> control_db \<Rightarrow> control_error + (creation_record \<times> control_db)" where
  "publish_creation_body lib clock new_lease key session_id d =
     (case fetch_creation_record key d of
        None \<Rightarrow> Inl (Key_Error ''creation record'')
      | Some c \<Rightarrow>
          bind_res (check_frozen_record lib c) (\<lambda>_.
          bind_res (check_preconditions c d) (\<lambda>_.
          bind_res (check_membership lib session_id c d) (\<lambda>_.
          bind_res (require (\<not> in_catalog (c_child_thread_id c) d) (Runtime_Error ''child in catalog'')) (\<lambda>_.
          bind_res (graph_binding_from_creation_json lib (c_graph_binding c)) (\<lambda>binding.
          bind_res (check_fork_completion lib session_id c) (\<lambda>_.
          bind_res (sql_int (graph_revision binding)) (\<lambda>_.
          bind_res (sql_insert thread_row_check thread_row_clash
                      (new_thread_row (c_child_thread_id c) ''child'' (c_child_created_at c) binding) (thread_catalog d)) (\<lambda>catalog.
          bind_res (creation_update key (\<lambda>x. x\<lparr>c_state := ''published'', c_record_updated_at := clock 0\<rparr>)
                      (d\<lparr>thread_catalog := catalog\<rparr>)) (\<lambda>(c1, d1).
          bind_res (insert_thread_owner_binding_row (c_child_thread_id c) (c_final_relative_locator c) (clock 1) (clock 2) d1) (\<lambda>d2.
          bind_res (publish_member (clock 3) c d2) (\<lambda>d3.
          bind_res (if c_purpose c = ''task''
                    then bind_res (create_intent_transaction lib (clock 4) key session_id (c_child_thread_id c) (c_initial_state c) key d3)
                           (\<lambda>(e, d4). Inr d4)
                    else Inr d3) (\<lambda>d4.
          bind_res (case (c_collaboration_revision c, c_delegation_id c) of
                      (Some _, Some delegation) \<Rightarrow>
                        freeze_member_change lib (\<lambda>i. clock (i + 5)) new_lease delegation ''member.published'' True d4
                    | _ \<Rightarrow> Inr d4) (\<lambda>d5.
          case fetch_creation_record key d5 of
            None \<Rightarrow> Inl (Runtime_Error ''record not visible'')
          | Some c' \<Rightarrow> Inr (c', d5)))))))))))))))"

definition publish_thread_creation_record ::
    "py_library \<Rightarrow> (nat \<Rightarrow> ustr) \<Rightarrow> ustr \<Rightarrow> ustr \<Rightarrow> ustr \<Rightarrow> creation_record store_op" where
  "publish_thread_creation_record lib clock new_lease key session_id =
     checked (validate_thread_creation_key key)
       (\<lambda>_. write_transaction (publish_creation_body lib clock new_lease key session_id))"

subsection \<open>Aborting\<close>

text \<open>
  A damaged membership does not keep the record from being aborted: the message joins the reason and is
  raised after the commit. \<open>integrity_message\<close> is the text of the source.
\<close>

definition integrity_message :: "py_library \<Rightarrow> creation_record \<Rightarrow> string \<Rightarrow> ustr" where
  "integrity_message lib c error_name =
     u ''thread creation abort '' @ [24050, 32456, 32467, 21407] @ u '' operation'' @ [65292, 20294] @ u '' membership '' @ [23436, 25972, 24615, 22833, 36133] @ u '': key=''
     @ repr_of (lib_runtime lib) (JStr (c_key c)) @ u '', delegation='' @ repr_of (lib_runtime lib) (json_opt (c_delegation_id c))
     @ u '', thread_id='' @ c_child_thread_id c @ u '', stage=abort_membership, error='' @ u error_name"

definition membership_integrity ::
    "py_library \<Rightarrow> creation_record \<Rightarrow> ustr \<Rightarrow> control_db \<Rightarrow> control_error + ustr option" where
  "membership_integrity lib c delegation d = (case collaboration_member_of lib delegation d of
     Inr _ \<Rightarrow> Inr None
   | Inl (Key_Error _) \<Rightarrow> Inr (Some (integrity_message lib c ''KeyError''))
   | Inl (Runtime_Error _) \<Rightarrow> Inr (Some (integrity_message lib c ''RuntimeError''))
   | Inl e \<Rightarrow> Inl e)"

definition cancel_member ::
    "py_library \<Rightarrow> (nat \<Rightarrow> ustr) \<Rightarrow> ustr \<Rightarrow> ustr \<Rightarrow> obj \<Rightarrow> control_db \<Rightarrow> control_error + control_db" where
  "cancel_member lib clock new_lease delegation snapshot d =
     bind_res (sql_update member_check (\<lambda>m. m_delegation_id m = delegation \<and> m_state m = ''registering'')
                 (\<lambda>m. m\<lparr>m_state := ''cancelled'', m_updated_at := clock 0\<rparr>) (collaboration_members d)) (\<lambda>(n, t).
     bind_res (require (n = 1) (Runtime_Error ''registering member missing'')) (\<lambda>_.
     freeze_member_cancellation lib (\<lambda>i. clock (i + 2)) new_lease
       (jset (u ''updated_at'') (JStr (clock 1)) (jset (u ''state'') (JStr (u ''cancelled'')) snapshot))
       (d\<lparr>collaboration_members := t\<rparr>)))"

definition abort_creation_body ::
    "py_library \<Rightarrow> (nat \<Rightarrow> ustr) \<Rightarrow> ustr \<Rightarrow> ustr \<Rightarrow> ustr \<Rightarrow> control_db
       \<Rightarrow> control_error + ((control_error + creation_record) \<times> control_db)" where
  "abort_creation_body lib clock new_lease key reason d =
     (case fetch_creation_record key d of
        None \<Rightarrow> Inl (Key_Error ''creation record'')
      | Some c \<Rightarrow>
          bind_res (require (c_state c \<noteq> ''published'') (Runtime_Error ''already published'')) (\<lambda>_.
          if c_state c = ''aborted'' then
            bind_res (case c_delegation_id c of None \<Rightarrow> Inr () | Some delegation \<Rightarrow>
                        bind_res (collaboration_member_of lib delegation d) (\<lambda>_. Inr ())) (\<lambda>_. Inr (Inr c, d))
          else
            bind_res (case c_delegation_id c of
                        None \<Rightarrow> Inr (None, None)
                      | Some delegation \<Rightarrow>
                          bind_res (registered_member_snapshot lib c d) (\<lambda>snapshot.
                          bind_res (membership_integrity lib c delegation d) (\<lambda>broken.
                          Inr (Some (delegation, snapshot), broken)))) (\<lambda>(member, broken).
            bind_res (creation_update key (\<lambda>x. x\<lparr>c_state := ''aborted'',
                        c_abort_reason := Some (case broken of None \<Rightarrow> reason | Some msg \<Rightarrow> reason @ u ''; '' @ msg),
                        c_record_updated_at := clock 0\<rparr>) d) (\<lambda>(c1, d1).
            bind_res (case member of
                        None \<Rightarrow> Inr d1
                      | Some (delegation, snapshot) \<Rightarrow> cancel_member lib (\<lambda>i. clock (i + 1)) new_lease delegation snapshot d1) (\<lambda>d2.
            case fetch_creation_record key d2 of
              None \<Rightarrow> Inl (Runtime_Error ''record not visible'')
            | Some c' \<Rightarrow> Inr (if broken = None then Inr c' else Inl (Runtime_Error ''membership integrity''), d2))))))"

definition abort_thread_creation_record ::
    "py_library \<Rightarrow> (nat \<Rightarrow> ustr) \<Rightarrow> ustr \<Rightarrow> ustr \<Rightarrow> ustr \<Rightarrow> creation_record store_op" where
  "abort_thread_creation_record lib clock new_lease key reason =
     checked (bind_res (validate_thread_creation_key key) (\<lambda>_. require (reason \<noteq> []) (Value_Error ''reason'')))
       (\<lambda>_ s. case write_transaction (abort_creation_body lib clock new_lease key reason) s of
                (Inl e, s') \<Rightarrow> (Inl e, s') | (Inr r, s') \<Rightarrow> (r, s'))"

subsection \<open>Reading\<close>

definition get_thread_creation_record :: "ustr \<Rightarrow> creation_record store_op" where
  "get_thread_creation_record key =
     checked (validate_thread_creation_key key) (\<lambda>_. read_op (thread_creation_record_of key))"

definition mark_thread_creation_published :: "py_library \<Rightarrow> ustr \<Rightarrow> creation_record store_op" where
  "mark_thread_creation_published lib key =
     checked (validate_thread_creation_key key) (\<lambda>_. read_op (\<lambda>d.
       bind_res (thread_creation_record_of key d) (\<lambda>c.
       bind_res (require (c_state c \<noteq> ''preparing'') (Runtime_Error ''still preparing'')) (\<lambda>_.
       bind_res (require (c_state c \<noteq> ''aborted'') (Runtime_Error ''aborted'')) (\<lambda>_.
       bind_res (require (in_catalog (c_child_thread_id c) d) (Runtime_Error ''child row missing'')) (\<lambda>_.
       bind_res (case c_delegation_id c of None \<Rightarrow> Inr () | Some delegation \<Rightarrow>
                   bind_res (collaboration_member_of lib delegation d) (\<lambda>_. Inr ())) (\<lambda>_. Inr c)))))))"

definition list_fork_thread_creations :: "string option \<Rightarrow> creation_record list store_op" where
  "list_fork_thread_creations state s =
     checked (bind_res (ensure_open s) (\<lambda>_.
              require (state \<in> {None, Some ''preparing'', Some ''published'', Some ''aborted''}) (Value_Error ''state'')))
       (\<lambda>_. read_op (\<lambda>d. Inr (order_by c_key
          (filter (\<lambda>c. c_purpose c = ''fork'' \<and> (state = None \<or> state = Some (c_state c))) (creation_records d))))) s"

definition list_pending_thread_creations :: "creation_record list store_op" where
  "list_pending_thread_creations = read_op (\<lambda>d.
     Inr (order_by c_key (filter (\<lambda>c. c_state c = ''preparing'') (creation_records d))))"

definition endswith :: "ustr \<Rightarrow> ustr \<Rightarrow> bool" where
  "endswith s p \<longleftrightarrow> startswith (rev s) (rev p)"

definition published_child_thread_locator_of :: "py_library \<Rightarrow> ustr \<Rightarrow> control_db \<Rightarrow> control_error + ustr" where
  "published_child_thread_locator_of lib thread_id d =
     (case select_one (\<lambda>t. t_thread_id t = thread_id) (thread_catalog d) of
        None \<Rightarrow> Inl (Key_Error ''thread'')
      | Some t \<Rightarrow>
          bind_res (require (t_kind t = ''child'') (Runtime_Error ''not a child'')) (\<lambda>_.
          case select_one (\<lambda>c. c_child_thread_id c = thread_id) (creation_records d) of
            None \<Rightarrow> Inl (Runtime_Error ''no creation record'')
          | Some c \<Rightarrow>
              bind_res (require (c_state c = ''published'') (Runtime_Error ''not published'')) (\<lambda>_.
              bind_res (validate_thread_relative_locator (lib_digit lib) (c_final_relative_locator c)) (\<lambda>_.
              bind_res (require (t_created_at t = c_child_created_at c
                          \<and> endswith (c_final_relative_locator c) (u ''/'' @ thread_id)) (Runtime_Error ''catalog and record differ'')) (\<lambda>_.
              Inr (c_final_relative_locator c))))))"

definition get_published_child_thread_locator :: "py_library \<Rightarrow> ustr \<Rightarrow> ustr store_op" where
  "get_published_child_thread_locator lib thread_id =
     checked (check_thread_id thread_id) (\<lambda>_. read_op (published_child_thread_locator_of lib thread_id))"

end
