(* ===== verification/Thread_Step.thy ===== *)
theory Thread_Step
  imports Thread_Publish
begin

section \<open>The operations on threads as steps\<close>

text \<open>
  One rule per method that writes the tables of threads and collaboration. \<open>issued\<close> are the identifiers that
  the identifier source has returned before and does not return again. A Python \<^verbatim>\<open>dict\<close> has no key twice.
\<close>

definition dict_update_args :: "binding_update \<Rightarrow> bool" where
  "dict_update_args q \<longleftrightarrow> (\<forall>d. ub_mutation_provenance q = Some d \<longrightarrow> distinct (map fst d))
     \<and> (\<forall>sl d. ub_append q sl = Some d \<longrightarrow> distinct (map fst d))"

inductive thread_step :: "py_library \<Rightarrow> ustr set \<Rightarrow> control_store \<Rightarrow> control_store \<Rightarrow> bool"
  for lib :: py_library and issued :: "ustr set" where
  t_create: "new_lease \<notin> issued \<Longrightarrow>
    thread_step lib issued s (snd (create_or_get_thread_creation_record lib clock new_thread new_lease q s))"
| t_fork_completion: "thread_step lib issued s
    (snd (freeze_thread_fork_completion lib key fork_id materialization_id snapshot target_session target_thread s))"
| t_manifest: "thread_step lib issued s (snd (freeze_thread_creation_artifact_manifest lib now key manifest h s))"
| t_publish: "new_lease \<notin> issued \<Longrightarrow>
    thread_step lib issued s (snd (publish_thread_creation_record lib clock new_lease key session_id s))"
| t_abort: "new_lease \<notin> issued \<Longrightarrow>
    thread_step lib issued s (snd (abort_thread_creation_record lib clock new_lease key reason s))"
| t_create_intent: "thread_step lib issued s
    (snd (create_or_get_initial_execution_intent lib now key session_id thread_id initial_state creation_key s))"
| t_claim_intent: "thread_step lib issued s (snd (claim_initial_execution_intent lib now key claim_owner generation s))"
| t_bind_intent: "new_lease \<notin> issued \<Longrightarrow> thread_step lib issued s
    (snd (mark_initial_execution_bound lib clock new_lease key binding_id job_id claim_owner generation s))"
| t_fail_intent: "thread_step lib issued s
    (snd (record_initial_execution_failure now key claim_owner generation last_error s))"
| t_ensure_binding: "thread_step lib issued s (snd (ensure_thread_owner_binding lib now thread_id locator s))"
| t_update_binding: "dict_update_args uq \<Longrightarrow>
    thread_step lib issued s (snd (update_thread_owner_binding lib now thread_id uq s))"
| t_finish_delivery: "thread_step lib issued s
    (snd (finish_collaboration_delivery lib revision tid token outcome err s))"
| t_delivery_failure: "thread_step lib issued s
    (snd (record_collaboration_delivery_failure lib revision tid token err_text s))"
| t_wakeup_receipt: "thread_step lib issued s
    (snd (record_collaboration_wakeup_receipt lib revision token receipt_json s))"
| t_finish_fanout: "thread_step lib issued s
    (snd (finish_collaboration_fanout lib clock revision token cancelled s))"

end
