(* ===== verification/Thread_Spec.thy ===== *)
theory Thread_Spec
  imports Thread_Step
begin

section \<open>What may happen to the tables of threads\<close>

text \<open>
  The abstract specification of creation records, execution intents, owner's slots and the children in the
  thread catalog: which single changes there are, and the invariant \<open>thread_inv\<close> that ties the tables
  together. Checks, clocks, JSON and SQL are gone; \<open>Thread_Effect\<close> shows that the code does nothing else.
\<close>

subsection \<open>Creation records\<close>

text \<open>What a new record froze: fence, child, time of creation, day, membership.\<close>

record frozen_child =
  fc_fence :: fence_row
  fc_child :: ustr
  fc_created :: py_datetime
  fc_date :: "nat \<times> nat \<times> nat"
  fc_membership :: "(int \<times> ustr) option"

definition creation_admitted ::
    "py_library \<Rightarrow> ustr \<Rightarrow> creation_request \<Rightarrow> control_db \<Rightarrow> frozen_child \<Rightarrow> creation_record \<Rightarrow> bool" where
  "creation_admitted lib now q d k c \<longleftrightarrow> fence d = Some (fc_fence k) \<and> f_state (fc_fence k) = ''active'' \<and> length (main_rows d) = 1
     \<and> check_thread_id (fc_child k) = Inr () \<and> \<not> in_catalog (fc_child k) d
     \<and> (q_thread_id q = None \<or> q_thread_id q = Some (fc_child k)) \<and> utc_date (fc_created k) = Inr (fc_date k)
     \<and> validate_thread_relative_locator (lib_digit lib) (thread_locator (fc_date k) (fc_child k)) = Inr ()
     \<and> c = new_creation_record lib now q (fc_child k) (fc_created k) (thread_locator (fc_date k) (fc_child k))
             (f_generation (fc_fence k)) (length (thread_catalog d)) (fc_membership k)
     \<and> creation_check c \<and> (\<forall>x\<in>set (creation_records d). \<not> creation_clash c x)"

text \<open>Freezing the manifest or the completion proof.\<close>

inductive creation_freeze :: "creation_record \<Rightarrow> creation_record \<Rightarrow> bool" where
  manifest_frozen: "c_state c = ''preparing'' \<Longrightarrow> c_artifact_manifest_hash c = None \<Longrightarrow>
    creation_freeze c (c\<lparr>c_artifact_manifest := Some manifest, c_artifact_manifest_hash := Some h, c_record_updated_at := now\<rparr>)"
| completion_frozen: "c_purpose c = ''fork'' \<Longrightarrow> c_state c \<noteq> ''aborted'' \<Longrightarrow>
    c_fork_completion_json c = None \<or> c_fork_completion_json c = Some p \<Longrightarrow>
    creation_freeze c (c\<lparr>c_fork_completion_json := Some p\<rparr>)"

definition thread_published :: "py_library \<Rightarrow> control_db \<Rightarrow> creation_record \<Rightarrow> control_db \<Rightarrow> bool" where
  "thread_published lib d c d' \<longleftrightarrow> c \<in> set (creation_records d) \<and> c_state c \<notin> {''published'', ''aborted''}
     \<and> c_artifact_manifest_hash c \<noteq> None
     \<and> (\<exists>f. fence d = Some f \<and> f_state f = ''active'' \<and> f_generation f = c_owner_generation c)
     \<and> \<not> in_catalog (c_child_thread_id c) d
     \<and> (\<exists>g. graph_binding_from_creation_json lib (c_graph_binding c) = Inr g
          \<and> thread_row_check (new_thread_row (c_child_thread_id c) ''child'' (c_child_created_at c) g)
          \<and> thread_catalog d' = thread_catalog d @ [new_thread_row (c_child_thread_id c) ''child'' (c_child_created_at c) g])
     \<and> (\<exists>now. creation_records d' = map (\<lambda>x. if c_key x = c_key c then x\<lparr>c_state := ''published'', c_record_updated_at := now\<rparr> else x)
          (creation_records d))
     \<and> (\<forall>b\<in>set (owner_bindings d). b_thread_id b \<noteq> c_child_thread_id c)
     \<and> (\<exists>t1 t2. owner_bindings d' = owner_bindings d
          @ [new_owner_binding_row (c_child_thread_id c) (c_final_relative_locator c) t1 t2])
     \<and> (execution_intents d' = execution_intents d
        \<or> (\<exists>now sid. execution_intents d' = execution_intents d
             @ [new_intent_row lib now (c_key c) sid (c_child_thread_id c) (c_initial_state c) (c_key c)]
           \<and> intent_check (new_intent_row lib now (c_key c) sid (c_child_thread_id c) (c_initial_state c) (c_key c))
           \<and> (\<forall>x\<in>set (execution_intents d).
                \<not> intent_clash (new_intent_row lib now (c_key c) sid (c_child_thread_id c) (c_initial_state c) (c_key c)) x)))
     \<and> (c_purpose c = ''task'' \<longrightarrow> (\<exists>e\<in>set (execution_intents d'). e_thread_id e = c_child_thread_id c))"

definition record_aborted :: "control_db \<Rightarrow> creation_record \<Rightarrow> control_db \<Rightarrow> bool" where
  "record_aborted d c d' \<longleftrightarrow> c \<in> set (creation_records d) \<and> c_state c \<notin> {''published'', ''aborted''}
     \<and> (\<exists>reason now. creation_records d' = map (\<lambda>x. if c_key x = c_key c
          then x\<lparr>c_state := ''aborted'', c_abort_reason := Some reason, c_record_updated_at := now\<rparr> else x) (creation_records d))"

subsection \<open>Execution intents and owner's slots\<close>

inductive intent_move :: "execution_intent \<Rightarrow> execution_intent \<Rightarrow> bool" where
  intent_claimed: "e_state e = ''pending'' \<Longrightarrow> e_claim_owner e = None \<Longrightarrow> 1 \<le> g \<Longrightarrow>
    intent_move e (e\<lparr>e_claim_owner := Some claim_owner, e_claim_generation := Some g, e_updated_at := now\<rparr>)"
| intent_reclaimed: "e_state e = ''pending'' \<Longrightarrow> e_claim_generation e = Some held \<Longrightarrow> held < g \<Longrightarrow>
    intent_move e (e\<lparr>e_claim_generation := Some g, e_updated_at := now\<rparr>)"
| intent_bound: "e_state e = ''pending'' \<Longrightarrow> e_claim_owner e \<noteq> None \<Longrightarrow>
    intent_move e (e\<lparr>e_state := ''bound'', e_last_error := None, e_updated_at := now\<rparr>)"
| intent_failed: "e_state e = ''pending'' \<Longrightarrow> e_claim_owner e \<noteq> None \<Longrightarrow>
    intent_move e (e\<lparr>e_last_error := Some msg, e_updated_at := now\<rparr>)"

text \<open>The entries of a list slot, and the text that holds them.\<close>

definition entry_ok :: "obj \<Rightarrow> bool" where
  "entry_ok d \<longleftrightarrow> distinct (map fst d) \<and> sorted (map fst d) \<and> printable (JObj d) \<and> validate_json_entry (JObj d) = Inr d"

definition slot_holds :: "py_library \<Rightarrow> ustr \<Rightarrow> obj list \<Rightarrow> bool" where
  "slot_holds lib x es \<longleftrightarrow> x = json_text (lib_floats lib) (JArr (map JObj es)) \<and> (\<forall>d\<in>set es. entry_ok d)"

definition slot_grown :: "py_library \<Rightarrow> ustr \<Rightarrow> ustr \<Rightarrow> bool" where
  "slot_grown lib x y \<longleftrightarrow> y = x \<or> (\<exists>es d. slot_holds lib x es \<and> entry_ok d \<and> slot_holds lib y (es @ [d]))"

definition provenance_ok :: "py_library \<Rightarrow> ustr option \<Rightarrow> bool" where
  "provenance_ok lib p \<longleftrightarrow> (case p of None \<Rightarrow> True
     | Some x \<Rightarrow> \<exists>d. distinct (map fst d) \<and> sorted (map fst d) \<and> plain (JObj d) \<and> printable (JObj d)
                 \<and> x = json_text (lib_floats lib) (JObj d))"

definition binding_ok :: "py_library \<Rightarrow> owner_binding_row \<Rightarrow> bool" where
  "binding_ok lib b \<longleftrightarrow> owner_binding_check b \<and> (\<forall>sl. \<exists>es. slot_holds lib (slot_text sl b) es)
     \<and> provenance_ok lib (b_mutation_provenance b)"

definition binding_move :: "py_library \<Rightarrow> owner_binding_row \<Rightarrow> owner_binding_row \<Rightarrow> bool" where
  "binding_move lib b b' \<longleftrightarrow> b_thread_id b' = b_thread_id b \<and> b_final_relative_locator b' = b_final_relative_locator b
     \<and> b_created_at b' = b_created_at b \<and> b_revision b' = b_revision b + 1
     \<and> (\<forall>sl. slot_grown lib (slot_text sl b) (slot_text sl b')) \<and> (binding_ok lib b \<longrightarrow> binding_ok lib b')"

subsection \<open>Changes\<close>

definition children :: "control_db \<Rightarrow> thread_row list" where
  "children d = filter (\<lambda>t. t_kind t = ''child'') (thread_catalog d)"

definition intent_admitted :: "py_library \<Rightarrow> control_db \<Rightarrow> execution_intent \<Rightarrow> bool" where
  "intent_admitted lib d e \<longleftrightarrow> (\<exists>now sid c. c \<in> set (creation_records d) \<and> c_state c = ''published''
     \<and> e = new_intent_row lib now (e_admission_key e) sid (c_child_thread_id c) (c_initial_state c) (c_key c))
     \<and> intent_check e \<and> (\<forall>x\<in>set (execution_intents d). \<not> intent_clash e x)"

inductive thread_change :: "py_library \<Rightarrow> control_db \<Rightarrow> control_db \<Rightarrow> bool" for lib :: py_library where
  threads_same: "creation_records d' = creation_records d \<Longrightarrow> execution_intents d' = execution_intents d \<Longrightarrow>
    owner_bindings d' = owner_bindings d \<Longrightarrow> children d' = children d \<Longrightarrow> thread_change lib d d'"
| record_created: "creation_admitted lib now q d k c \<Longrightarrow> creation_records d' = creation_records d @ [c] \<Longrightarrow>
    validate_creation_request lib q = Inr () \<Longrightarrow> execution_intents d' = execution_intents d \<Longrightarrow>
    owner_bindings d' = owner_bindings d \<Longrightarrow> thread_catalog d' = thread_catalog d \<Longrightarrow> thread_change lib d d'"
| record_frozen: "rows_moved creation_freeze (creation_records d) (creation_records d') \<Longrightarrow>
    execution_intents d' = execution_intents d \<Longrightarrow> owner_bindings d' = owner_bindings d \<Longrightarrow>
    thread_catalog d' = thread_catalog d \<Longrightarrow> thread_change lib d d'"
| record_published: "thread_published lib d c d' \<Longrightarrow> thread_change lib d d'"
| record_stopped: "record_aborted d c d' \<Longrightarrow> execution_intents d' = execution_intents d \<Longrightarrow>
    owner_bindings d' = owner_bindings d \<Longrightarrow> thread_catalog d' = thread_catalog d \<Longrightarrow> thread_change lib d d'"
| intent_added: "intent_admitted lib d e \<Longrightarrow> execution_intents d' = execution_intents d @ [e] \<Longrightarrow>
    creation_records d' = creation_records d \<Longrightarrow> owner_bindings d' = owner_bindings d \<Longrightarrow>
    thread_catalog d' = thread_catalog d \<Longrightarrow> thread_change lib d d'"
| intents_moved: "rows_moved intent_move (execution_intents d) (execution_intents d') \<Longrightarrow>
    creation_records d' = creation_records d \<Longrightarrow> owner_bindings d' = owner_bindings d \<Longrightarrow>
    thread_catalog d' = thread_catalog d \<Longrightarrow> thread_change lib d d'"
| binding_added: "\<forall>x\<in>set (owner_bindings d). b_thread_id x \<noteq> tid \<Longrightarrow>
    owner_bindings d' = owner_bindings d @ [new_owner_binding_row tid locator t1 t2] \<Longrightarrow>
    creation_records d' = creation_records d \<Longrightarrow> execution_intents d' = execution_intents d \<Longrightarrow>
    thread_catalog d' = thread_catalog d \<Longrightarrow> thread_change lib d d'"
| bindings_moved: "rows_moved (binding_move lib) (owner_bindings d) (owner_bindings d') \<Longrightarrow>
    creation_records d' = creation_records d \<Longrightarrow> execution_intents d' = execution_intents d \<Longrightarrow>
    thread_catalog d' = thread_catalog d \<Longrightarrow> thread_change lib d d'"

subsection \<open>The invariant\<close>

text \<open>
  A record: its locator follows from the child and the day of its creation; it has a reason exactly when
  aborted, and a manifest when published.
\<close>

definition creation_ok :: "py_library \<Rightarrow> creation_record \<Rightarrow> bool" where
  "creation_ok lib c \<longleftrightarrow> creation_check c \<and> check_thread_id (c_child_thread_id c) = Inr ()
     \<and> validate_thread_creation_key (c_key c) = Inr ()
     \<and> (\<exists>created date. c_child_created_at c = isoformat created \<and> utc_date created = Inr date
          \<and> c_final_relative_locator c = thread_locator date (c_child_thread_id c))
     \<and> validate_thread_relative_locator (lib_digit lib) (c_final_relative_locator c) = Inr ()
     \<and> (\<exists>g. graph_binding_from_creation_json lib (c_graph_binding c) = Inr g)
     \<and> (c_abort_reason c \<noteq> None) = (c_state c = ''aborted'')
     \<and> (c_state c = ''published'' \<longrightarrow> c_artifact_manifest_hash c \<noteq> None)"

text \<open>An intent belongs to a published record and has the identity derived from its key.\<close>

definition intent_ok :: "py_library \<Rightarrow> control_db \<Rightarrow> execution_intent \<Rightarrow> bool" where
  "intent_ok lib d e \<longleftrightarrow> intent_check e \<and> (e_state e = ''bound'' \<longrightarrow> e_claim_owner e \<noteq> None)
     \<and> (\<exists>c\<in>set (creation_records d). c_state c = ''published'' \<and> c_key c = e_creation_key e
          \<and> c_child_thread_id c = e_thread_id e \<and> c_initial_state c = e_initial_state e)
     \<and> derive_initial_execution_identity lib (e_admission_key e) = (e_execution_binding_id e, e_job_id e)
     \<and> e_binding_preimage_hash e = binding_preimage_hash_of lib (e_admission_key e) (e_session_id e) (e_thread_id e)
          (e_creation_key e) (e_initial_state e) (e_execution_binding_id e) (e_job_id e)"

text \<open>A published record: the child is visible, has its slots, and a task has its intent.\<close>

definition publication_complete :: "py_library \<Rightarrow> control_db \<Rightarrow> creation_record \<Rightarrow> bool" where
  "publication_complete lib d c \<longleftrightarrow>
     (\<exists>g. graph_binding_from_creation_json lib (c_graph_binding c) = Inr g
        \<and> new_thread_row (c_child_thread_id c) ''child'' (c_child_created_at c) g \<in> set (children d))
     \<and> (\<exists>b\<in>set (owner_bindings d). b_thread_id b = c_child_thread_id c
          \<and> b_final_relative_locator b = c_final_relative_locator c)
     \<and> (c_purpose c = ''task'' \<longrightarrow> (\<exists>e\<in>set (execution_intents d). e_thread_id e = c_child_thread_id c))"

definition records_ok :: "py_library \<Rightarrow> control_db \<Rightarrow> bool" where
  "records_ok lib d \<longleftrightarrow> distinct (map c_key (creation_records d)) \<and> distinct (map c_child_thread_id (creation_records d))
     \<and> (\<forall>c\<in>set (creation_records d). creation_ok lib c)"

definition visible_ok :: "py_library \<Rightarrow> control_db \<Rightarrow> bool" where
  "visible_ok lib d \<longleftrightarrow>
     (\<forall>c\<in>set (creation_records d). c_state c = ''published'' \<longrightarrow> publication_complete lib d c)
     \<and> (\<forall>t\<in>set (children d). \<exists>c\<in>set (creation_records d). c_state c = ''published''
          \<and> c_child_thread_id c = t_thread_id t \<and> c_child_created_at c = t_created_at t)"

text \<open>There is a main thread before any record, and no record is for it.\<close>

definition main_apart :: "control_db \<Rightarrow> bool" where
  "main_apart d \<longleftrightarrow> (creation_records d \<noteq> [] \<longrightarrow> main_rows d \<noteq> [])
     \<and> (\<forall>c\<in>set (creation_records d). \<forall>m\<in>set (main_rows d). t_thread_id m \<noteq> c_child_thread_id c)"

definition intents_ok :: "py_library \<Rightarrow> control_db \<Rightarrow> bool" where
  "intents_ok lib d \<longleftrightarrow> distinct (map e_admission_key (execution_intents d)) \<and> distinct (map e_thread_id (execution_intents d))
     \<and> (\<forall>e\<in>set (execution_intents d). intent_ok lib d e)"

definition bindings_ok :: "py_library \<Rightarrow> control_db \<Rightarrow> bool" where
  "bindings_ok lib d \<longleftrightarrow> distinct (map b_thread_id (owner_bindings d)) \<and> (\<forall>b\<in>set (owner_bindings d). binding_ok lib b)"

definition thread_inv :: "py_library \<Rightarrow> control_db \<Rightarrow> bool" where
  "thread_inv lib d \<longleftrightarrow> records_ok lib d \<and> visible_ok lib d \<and> main_apart d \<and> intents_ok lib d \<and> bindings_ok lib d"

lemmas thread_inv_defs = thread_inv_def records_ok_def visible_ok_def main_apart_def intents_ok_def bindings_ok_def

end
