(* ===== verification/Communication_Ledger.thy ===== *)
theory Communication_Ledger
  imports Session_Control
begin

section \<open>The ledger of messages between sessions\<close>

text \<open>
  \<^verbatim>\<open>app/core/session_control_communication_ledger/\<close>: the outbox of the sending session, the inbox of the
  receiving one and the proofs of causality that a reply needs in both. \<open>sha\<close> stands for
  \<^verbatim>\<open>hashlib.sha256(text.encode()).hexdigest()\<close>; every result holds for any such function.
\<close>

definition is_communication_id :: "ustr \<Rightarrow> bool" where
  "is_communication_id s \<longleftrightarrow> startswith s (u ''comm_'') \<and> length s = 37 \<and> list_all lower_hex (drop 5 s)"

definition COMMUNICATION_KINDS :: "string list" where
  "COMMUNICATION_KINDS = [''question'', ''reply'', ''progress'', ''result'']"

definition OUTBOX_TRANSITIONS :: "(string \<times> string list) list" where
  "OUTBOX_TRANSITIONS =
     [(''accepted'', [''routing'', ''failed'', ''cancelled'']),
      (''routing'', [''target_accepted'', ''failed'', ''cancelled'']),
      (''target_accepted'', [''execution_bound'', ''failed'', ''cancelled'']),
      (''execution_bound'', [''terminal'', ''failed'', ''cancelled''])]"

definition OUTBOX_TERMINAL_STATES :: "string list" where
  "OUTBOX_TERMINAL_STATES = [''terminal'', ''failed'', ''cancelled'']"

subsection \<open>Validation\<close>

definition validate_communication_text :: "ustr \<Rightarrow> string \<Rightarrow> control_error + unit" where
  "validate_communication_text v field =
     require (\<not> (strip v = [] \<or> 256 < length v)) (Value_Error field)"

definition validate_communication_address :: "ustr \<Rightarrow> ustr \<Rightarrow> ustr \<Rightarrow> ustr \<Rightarrow> control_error + unit" where
  "validate_communication_address gateway_id workspace_id session_id thread_id =
     bind_res (validate_communication_text gateway_id ''gateway_id'') (\<lambda>_.
     bind_res (validate_communication_text workspace_id ''workspace_id'') (\<lambda>_.
     bind_res (check_session_id session_id) (\<lambda>_. check_thread_id thread_id)))"

definition validate_communication_kind_and_reply :: "string \<Rightarrow> ustr option \<Rightarrow> control_error + unit" where
  "validate_communication_kind_and_reply kind reply_to =
     bind_res (require (kind \<in> set COMMUNICATION_KINDS) (Value_Error ''communication kind'')) (\<lambda>_.
     require ((kind = ''reply'') = (reply_to \<noteq> None)) (Value_Error ''reply_to_communication_id''))"

subsection \<open>Requests\<close>

record outbox_request =
  q_session_id :: ustr
  q_send_operation_id :: ustr
  q_communication_id :: ustr
  q_source_gateway_id :: ustr
  q_source_workspace_id :: ustr
  q_source_thread_id :: ustr
  q_target_gateway_id :: ustr
  q_target_workspace_id :: ustr
  q_target_session_id :: ustr
  q_target_thread_id :: ustr
  q_kind :: string
  q_reply_to :: "ustr option"
  q_payload_hash :: ustr
  q_content :: ustr
  q_delivery_policy :: ustr
  q_request_id :: ustr
  q_target_ref :: ustr

record inbox_request =
  p_session_id :: ustr
  p_communication_id :: ustr
  p_source_gateway_id :: ustr
  p_source_workspace_id :: ustr
  p_source_session_id :: ustr
  p_source_thread_id :: ustr
  p_target_gateway_id :: ustr
  p_target_workspace_id :: ustr
  p_target_thread_id :: ustr
  p_kind :: string
  p_reply_to :: "ustr option"
  p_payload_hash :: ustr
  p_content :: ustr
  p_delivery_policy :: ustr
  p_request_id :: ustr

definition drifted :: "(string \<times> bool) list \<Rightarrow> string list" where
  "drifted xs = map fst (filter (\<lambda>(name, same). \<not> same) xs)"

definition outbox_preimage_mismatches :: "outbox_record \<Rightarrow> outbox_request \<Rightarrow> string list" where
  "outbox_preimage_mismatches r q = drifted
     [(''session_id'', o_session_id r = q_session_id q),
      (''source_gateway_id'', o_source_gateway_id r = q_source_gateway_id q),
      (''source_workspace_id'', o_source_workspace_id r = q_source_workspace_id q),
      (''source_thread_id'', o_source_thread_id r = q_source_thread_id q),
      (''target_gateway_id'', o_target_gateway_id r = q_target_gateway_id q),
      (''target_workspace_id'', o_target_workspace_id r = q_target_workspace_id q),
      (''target_session_id'', o_target_session_id r = q_target_session_id q),
      (''target_thread_id'', o_target_thread_id r = q_target_thread_id q),
      (''kind'', o_kind r = q_kind q),
      (''reply_to_communication_id'', o_reply_to r = q_reply_to q),
      (''payload_hash'', o_payload_hash r = q_payload_hash q),
      (''content'', o_content r = q_content q),
      (''delivery_policy'', o_delivery_policy r = q_delivery_policy q),
      (''target_ref'', o_target_ref r = q_target_ref q)]"

definition derive_communication_admission_identity :: "(ustr \<Rightarrow> ustr) \<Rightarrow> ustr \<Rightarrow> ustr \<Rightarrow> ustr \<times> ustr" where
  "derive_communication_admission_identity sha cid payload =
     (let digest = take 32 (sha (u ''communication-admission|'' @ cid @ u ''|'' @ payload))
      in (u ''cadm_'' @ digest, u ''cwake_'' @ digest))"

definition inbox_preimage_mismatches ::
    "inbox_record \<Rightarrow> inbox_request \<Rightarrow> ustr \<Rightarrow> ustr \<Rightarrow> string list" where
  "inbox_preimage_mismatches r p admission_id wakeup_key = drifted
     [(''session_id'', i_session_id r = p_session_id p),
      (''source_gateway_id'', i_source_gateway_id r = p_source_gateway_id p),
      (''source_workspace_id'', i_source_workspace_id r = p_source_workspace_id p),
      (''source_session_id'', i_source_session_id r = p_source_session_id p),
      (''source_thread_id'', i_source_thread_id r = p_source_thread_id p),
      (''target_gateway_id'', i_target_gateway_id r = p_target_gateway_id p),
      (''target_workspace_id'', i_target_workspace_id r = p_target_workspace_id p),
      (''target_thread_id'', i_target_thread_id r = p_target_thread_id p),
      (''kind'', i_kind r = p_kind p),
      (''reply_to_communication_id'', i_reply_to r = p_reply_to p),
      (''payload_hash'', i_payload_hash r = p_payload_hash p),
      (''content'', i_content r = p_content p),
      (''delivery_policy'', i_delivery_policy r = p_delivery_policy p),
      (''admission_id'', i_admission_id r = admission_id),
      (''wakeup_key'', i_wakeup_key r = wakeup_key)]"

subsection \<open>The tables\<close>

definition outbox_check :: "outbox_record \<Rightarrow> bool" where
  "outbox_check r \<longleftrightarrow> o_kind r \<in> set COMMUNICATION_KINDS \<and> 0 < sql_length (sql_trim (o_content r))
     \<and> o_state r \<in> set (map fst OUTBOX_TRANSITIONS @ OUTBOX_TERMINAL_STATES)
     \<and> (o_kind r = ''reply'') = (o_reply_to r \<noteq> None)"

definition outbox_clash :: "outbox_record \<Rightarrow> outbox_record \<Rightarrow> bool" where
  "outbox_clash r r' \<longleftrightarrow> o_send_operation_id r = o_send_operation_id r' \<or> o_communication_id r = o_communication_id r'"

definition inbox_check :: "inbox_record \<Rightarrow> bool" where
  "inbox_check r \<longleftrightarrow> i_kind r \<in> set COMMUNICATION_KINDS \<and> 0 < sql_length (sql_trim (i_content r))
     \<and> i_state r \<in> {''target_accepted'', ''execution_bound'', ''terminal'', ''failed'', ''cancelled''}
     \<and> (i_kind r = ''reply'') = (i_reply_to r \<noteq> None)
     \<and> (i_claim_owner r = None) = (i_claim_generation r = None)
     \<and> (case i_claim_generation r of None \<Rightarrow> True | Some g \<Rightarrow> 1 \<le> g)
     \<and> (i_job_id r = None) = (i_execution_id r = None)
     \<and> (i_job_id r = None \<or> i_state r \<in> {''execution_bound'', ''terminal''})"

definition inbox_clash :: "inbox_record \<Rightarrow> inbox_record \<Rightarrow> bool" where
  "inbox_clash r r' \<longleftrightarrow> i_communication_id r = i_communication_id r' \<or> i_admission_id r = i_admission_id r'"

definition fetch_inbox_row :: "control_db \<Rightarrow> ustr \<Rightarrow> inbox_record option" where
  "fetch_inbox_row d cid = select_one (\<lambda>r. i_communication_id r = cid) (communication_inbox d)"

definition fetch_outbox_row_by_operation :: "control_db \<Rightarrow> ustr \<Rightarrow> outbox_record option" where
  "fetch_outbox_row_by_operation d op = select_one (\<lambda>r. o_send_operation_id r = op) (communication_outbox d)"

definition fetch_outbox_row_by_communication :: "control_db \<Rightarrow> ustr \<Rightarrow> outbox_record option" where
  "fetch_outbox_row_by_communication d cid = select_one (\<lambda>r. o_communication_id r = cid) (communication_outbox d)"

text \<open>The message that is replied to ran in the opposite direction.\<close>

definition outbox_reply_direction :: "inbox_record \<Rightarrow> outbox_request \<Rightarrow> bool" where
  "outbox_reply_direction r q \<longleftrightarrow>
     i_source_gateway_id r = q_target_gateway_id q \<and> i_source_workspace_id r = q_target_workspace_id q
     \<and> i_source_session_id r = q_target_session_id q \<and> i_source_thread_id r = q_target_thread_id q
     \<and> i_target_gateway_id r = q_source_gateway_id q \<and> i_target_workspace_id r = q_source_workspace_id q
     \<and> i_session_id r = q_session_id q \<and> i_target_thread_id r = q_source_thread_id q"

definition inbox_reply_direction :: "outbox_record \<Rightarrow> inbox_request \<Rightarrow> bool" where
  "inbox_reply_direction r p \<longleftrightarrow>
     o_target_gateway_id r = p_source_gateway_id p \<and> o_target_workspace_id r = p_source_workspace_id p
     \<and> o_target_session_id r = p_source_session_id p \<and> o_target_thread_id r = p_source_thread_id p
     \<and> o_session_id r = p_session_id p \<and> o_source_gateway_id r = p_target_gateway_id p
     \<and> o_source_workspace_id r = p_target_workspace_id p \<and> o_source_thread_id r = p_target_thread_id p"

subsection \<open>The outbox\<close>

definition validate_outbox_request :: "outbox_request \<Rightarrow> control_error + unit" where
  "validate_outbox_request q =
     bind_res (check_session_id (q_session_id q)) (\<lambda>_.
     bind_res (validate_communication_text (q_send_operation_id q) ''send_operation_id'') (\<lambda>_.
     bind_res (require (is_communication_id (q_communication_id q)) (Value_Error ''communication_id'')) (\<lambda>_.
     bind_res (validate_communication_address (q_source_gateway_id q) (q_source_workspace_id q)
                 (q_session_id q) (q_source_thread_id q)) (\<lambda>_.
     bind_res (validate_communication_address (q_target_gateway_id q) (q_target_workspace_id q)
                 (q_target_session_id q) (q_target_thread_id q)) (\<lambda>_.
     bind_res (validate_communication_kind_and_reply (q_kind q) (q_reply_to q)) (\<lambda>_.
     require (is_sha256_hex (q_payload_hash q)) (Value_Error ''payload_hash'')))))))"

definition new_outbox_row :: "ustr \<Rightarrow> outbox_request \<Rightarrow> outbox_record" where
  "new_outbox_row now q =
     \<lparr>o_send_operation_id = q_send_operation_id q, o_session_id = q_session_id q,
      o_source_gateway_id = q_source_gateway_id q, o_source_workspace_id = q_source_workspace_id q,
      o_source_thread_id = q_source_thread_id q, o_communication_id = q_communication_id q,
      o_target_gateway_id = q_target_gateway_id q, o_target_workspace_id = q_target_workspace_id q,
      o_target_session_id = q_target_session_id q, o_target_thread_id = q_target_thread_id q,
      o_kind = q_kind q, o_reply_to = q_reply_to q, o_payload_hash = q_payload_hash q,
      o_content = q_content q, o_delivery_policy = q_delivery_policy q, o_request_id = q_request_id q,
      o_target_ref = q_target_ref q, o_state = ''accepted'', o_latest_receipt = None, o_abort_reason = None,
      o_created_at = now, o_updated_at = now\<rparr>"

definition outbox_reply_proof :: "outbox_request \<Rightarrow> control_db \<Rightarrow> control_error + unit" where
  "outbox_reply_proof q d =
     (if q_kind q = ''reply''
      then (case fetch_inbox_row d (the (q_reply_to q)) of
              None \<Rightarrow> Inl (Runtime_Error ''reply without inbox row'')
            | Some row \<Rightarrow> require (outbox_reply_direction row q) (Runtime_Error ''reply direction''))
      else Inr ())"

definition create_or_get_outbox_body ::
    "ustr \<Rightarrow> outbox_request \<Rightarrow> control_db \<Rightarrow> control_error + ((outbox_record \<times> bool) \<times> control_db)" where
  "create_or_get_outbox_body now q d =
     (case fetch_outbox_row_by_operation d (q_send_operation_id q) of
        Some r \<Rightarrow>
          if outbox_preimage_mismatches r q \<noteq> [] \<or> o_communication_id r \<noteq> q_communication_id q
          then Inl (Runtime_Error ''operation preimage drift'') else Inr ((r, False), d)
      | None \<Rightarrow>
          (case fetch_outbox_row_by_communication d (q_communication_id q) of
             Some r \<Rightarrow>
               if outbox_preimage_mismatches r q \<noteq> []
               then Inl (Runtime_Error ''communication preimage drift'') else Inr ((r, False), d)
           | None \<Rightarrow>
               bind_res (outbox_reply_proof q d) (\<lambda>_.
               bind_res (sql_insert outbox_check outbox_clash (new_outbox_row now q) (communication_outbox d)) (\<lambda>t.
               case fetch_outbox_row_by_operation (d\<lparr>communication_outbox := t\<rparr>) (q_send_operation_id q) of
                 None \<Rightarrow> Inl (Runtime_Error ''inserted row not visible'')
               | Some r \<Rightarrow> Inr ((r, True), d\<lparr>communication_outbox := t\<rparr>)))))"

definition create_or_get_communication_outbox :: "ustr \<Rightarrow> outbox_request \<Rightarrow> (outbox_record \<times> bool) store_op" where
  "create_or_get_communication_outbox now q =
     checked (validate_outbox_request q) (\<lambda>_. write_transaction (create_or_get_outbox_body now q))"

definition success_state :: "string \<Rightarrow> bool" where
  "success_state st \<longleftrightarrow> st \<in> {''target_accepted'', ''execution_bound'', ''terminal''}"

definition failure_state :: "string \<Rightarrow> bool" where
  "failure_state st \<longleftrightarrow> st \<in> {''failed'', ''cancelled''}"

text \<open>The columns that the transition writes.\<close>

definition advanced_row :: "ustr \<Rightarrow> string \<Rightarrow> ustr option \<Rightarrow> ustr option \<Rightarrow> outbox_record \<Rightarrow> outbox_record" where
  "advanced_row now new_state receipt reason r =
     r\<lparr>o_state := new_state,
       o_latest_receipt := (if failure_state new_state then o_latest_receipt r
                            else if success_state new_state then receipt else None),
       o_abort_reason := (if failure_state new_state then reason else None),
       o_updated_at := now\<rparr>"

definition advance_outbox_body ::
    "ustr \<Rightarrow> ustr \<Rightarrow> string \<Rightarrow> ustr option \<Rightarrow> ustr option \<Rightarrow> control_db
       \<Rightarrow> control_error + (outbox_record \<times> control_db)" where
  "advance_outbox_body now op new_state receipt reason d =
     (case fetch_outbox_row_by_operation d op of
        None \<Rightarrow> Inl (Key_Error ''communication outbox'')
      | Some r \<Rightarrow>
          if o_state r = new_state then
            (if (if failure_state new_state then o_abort_reason r \<noteq> reason
                 else o_latest_receipt r \<noteq> receipt \<or> o_abort_reason r \<noteq> reason)
             then Inl (Runtime_Error ''payload drift'') else Inr (r, d))
          else
            bind_res (require (new_state \<in> set (case map_of OUTBOX_TRANSITIONS (o_state r) of
                                 None \<Rightarrow> [] | Some xs \<Rightarrow> xs)) (Runtime_Error ''illegal transition'')) (\<lambda>_.
            bind_res (require (\<not> (success_state new_state \<and> reason \<noteq> None))
                        (Value_Error ''abort_reason not allowed'')) (\<lambda>_.
            bind_res (require (\<not> (\<not> success_state new_state \<and> \<not> failure_state new_state
                                  \<and> (receipt \<noteq> None \<or> reason \<noteq> None)))
                        (Value_Error ''payload not allowed'')) (\<lambda>_.
            bind_res (sql_update outbox_check (\<lambda>x. o_send_operation_id x = op \<and> o_state x = o_state r)
                        (\<lambda>x. x\<lparr>o_state := new_state,
                              o_latest_receipt := o_latest_receipt (advanced_row now new_state receipt reason r),
                              o_abort_reason := o_abort_reason (advanced_row now new_state receipt reason r),
                              o_updated_at := now\<rparr>)
                        (communication_outbox d)) (\<lambda>(n, t).
            if n \<noteq> 1 then Inl (Runtime_Error ''outbox CAS'')
            else (case fetch_outbox_row_by_operation (d\<lparr>communication_outbox := t\<rparr>) op of
                    None \<Rightarrow> Inl (Runtime_Error ''advanced row not visible'')
                  | Some r' \<Rightarrow> Inr (r', d\<lparr>communication_outbox := t\<rparr>)))))))"

definition advance_communication_outbox_state ::
    "ustr \<Rightarrow> ustr \<Rightarrow> string \<Rightarrow> ustr option \<Rightarrow> ustr option \<Rightarrow> outbox_record store_op" where
  "advance_communication_outbox_state now op new_state receipt reason =
     checked
       (bind_res (validate_communication_text op ''send_operation_id'') (\<lambda>_.
        bind_res (require (new_state \<in> set (map fst OUTBOX_TRANSITIONS) \<or> new_state \<in> set OUTBOX_TERMINAL_STATES)
                    (Value_Error ''outbox state'')) (\<lambda>_.
        bind_res (require (\<not> (success_state new_state \<and> receipt = None)) (Value_Error ''receipt missing'')) (\<lambda>_.
        bind_res (require (\<not> (failure_state new_state \<and> reason = None)) (Value_Error ''abort_reason missing'')) (\<lambda>_.
        require (\<not> (failure_state new_state \<and> receipt \<noteq> None)) (Value_Error ''receipt not allowed''))))))
       (\<lambda>_. write_transaction (advance_outbox_body now op new_state receipt reason))"

definition drain_outbox_body :: "ustr \<Rightarrow> control_db \<Rightarrow> control_error + (unit \<times> control_db)" where
  "drain_outbox_body now d =
     bind_res (sql_update outbox_check (\<lambda>r. o_state r \<notin> {''terminal'', ''failed'', ''cancelled''})
                 (\<lambda>r. r\<lparr>o_state := ''cancelled'', o_abort_reason := Some (u ''source-deleted''), o_updated_at := now\<rparr>)
                 (communication_outbox d)) (\<lambda>(n, t).
     Inr ((), d\<lparr>communication_outbox := t\<rparr>))"

definition drain_communication_outboxes :: "ustr \<Rightarrow> unit store_op" where
  "drain_communication_outboxes now = write_transaction (drain_outbox_body now)"

subsection \<open>The inbox\<close>

definition validate_inbox_request :: "inbox_request \<Rightarrow> control_error + unit" where
  "validate_inbox_request p =
     bind_res (check_session_id (p_session_id p)) (\<lambda>_.
     bind_res (check_session_id (p_source_session_id p)) (\<lambda>_.
     bind_res (require (is_communication_id (p_communication_id p)) (Value_Error ''communication_id'')) (\<lambda>_.
     bind_res (validate_communication_address (p_source_gateway_id p) (p_source_workspace_id p)
                 (p_source_session_id p) (p_source_thread_id p)) (\<lambda>_.
     bind_res (check_thread_id (p_target_thread_id p)) (\<lambda>_.
     bind_res (validate_communication_kind_and_reply (p_kind p) (p_reply_to p)) (\<lambda>_.
     require (is_sha256_hex (p_payload_hash p)) (Value_Error ''payload_hash'')))))))"

definition new_inbox_row :: "(ustr \<Rightarrow> ustr) \<Rightarrow> ustr \<Rightarrow> inbox_request \<Rightarrow> inbox_record" where
  "new_inbox_row sha now p =
     (let ident = derive_communication_admission_identity sha (p_communication_id p) (p_payload_hash p)
      in \<lparr>i_communication_id = p_communication_id p, i_session_id = p_session_id p,
          i_source_gateway_id = p_source_gateway_id p, i_source_workspace_id = p_source_workspace_id p,
          i_source_session_id = p_source_session_id p, i_source_thread_id = p_source_thread_id p,
          i_target_gateway_id = p_target_gateway_id p, i_target_workspace_id = p_target_workspace_id p,
          i_target_thread_id = p_target_thread_id p, i_kind = p_kind p, i_reply_to = p_reply_to p,
          i_payload_hash = p_payload_hash p, i_content = p_content p,
          i_delivery_policy = p_delivery_policy p, i_request_id = p_request_id p,
          i_admission_id = fst ident, i_wakeup_key = snd ident, i_state = ''target_accepted'',
          i_job_id = None, i_execution_id = None, i_turn_id = None, i_claim_owner = None,
          i_claim_generation = None, i_last_error = None, i_terminal_outcome = None,
          i_created_at = now, i_updated_at = now\<rparr>)"

definition inbox_reply_proof :: "inbox_request \<Rightarrow> control_db \<Rightarrow> control_error + unit" where
  "inbox_reply_proof p d =
     (if p_kind p = ''reply''
      then (case fetch_outbox_row_by_communication d (the (p_reply_to p)) of
              None \<Rightarrow> Inl (Runtime_Error ''reply without outbox row'')
            | Some row \<Rightarrow> require (inbox_reply_direction row p) (Runtime_Error ''reply direction''))
      else Inr ())"

definition create_or_get_inbox_body ::
    "(ustr \<Rightarrow> ustr) \<Rightarrow> ustr \<Rightarrow> inbox_request \<Rightarrow> control_db
       \<Rightarrow> control_error + ((inbox_record \<times> bool) \<times> control_db)" where
  "create_or_get_inbox_body sha now p d =
     bind_res (require (length (main_rows d) = 1) (Runtime_Error ''main row missing or not unique'')) (\<lambda>_.
     bind_res (require (t_thread_id (hd (main_rows d)) = p_target_thread_id p)
                 (Runtime_Error ''target is not the main thread'')) (\<lambda>_.
     bind_res (inbox_reply_proof p d) (\<lambda>_.
     let ident = derive_communication_admission_identity sha (p_communication_id p) (p_payload_hash p) in
     case fetch_inbox_row d (p_communication_id p) of
       Some r \<Rightarrow>
         if inbox_preimage_mismatches r p (fst ident) (snd ident) \<noteq> []
         then Inl (Runtime_Error ''inbox identity drift'') else Inr ((r, False), d)
     | None \<Rightarrow>
         bind_res (sql_insert inbox_check inbox_clash (new_inbox_row sha now p) (communication_inbox d)) (\<lambda>t.
         case fetch_inbox_row (d\<lparr>communication_inbox := t\<rparr>) (p_communication_id p) of
           None \<Rightarrow> Inl (Runtime_Error ''inserted row not visible'')
         | Some r \<Rightarrow> Inr ((r, True), d\<lparr>communication_inbox := t\<rparr>)))))"

definition create_or_get_communication_inbox ::
    "(ustr \<Rightarrow> ustr) \<Rightarrow> ustr \<Rightarrow> inbox_request \<Rightarrow> (inbox_record \<times> bool) store_op" where
  "create_or_get_communication_inbox sha now p =
     checked (validate_inbox_request p) (\<lambda>_. write_transaction (create_or_get_inbox_body sha now p))"

text \<open>An update of one inbox row followed by reading it back.\<close>

definition inbox_update ::
    "ustr \<Rightarrow> (inbox_record \<Rightarrow> bool) \<Rightarrow> (inbox_record \<Rightarrow> inbox_record) \<Rightarrow> string \<Rightarrow> control_db
       \<Rightarrow> control_error + (inbox_record \<times> control_db)" where
  "inbox_update cid guard f failure d =
     bind_res (sql_update inbox_check (\<lambda>r. i_communication_id r = cid \<and> guard r) f (communication_inbox d))
       (\<lambda>(n, t).
          if n \<noteq> 1 then Inl (Runtime_Error failure)
          else (case fetch_inbox_row (d\<lparr>communication_inbox := t\<rparr>) cid of
                  None \<Rightarrow> Inl (Runtime_Error ''row not visible'')
                | Some r \<Rightarrow> Inr (r, d\<lparr>communication_inbox := t\<rparr>)))"

definition claim_inbox_body ::
    "ustr \<Rightarrow> ustr \<Rightarrow> ustr \<Rightarrow> int \<Rightarrow> control_db \<Rightarrow> control_error + (inbox_record \<times> control_db)" where
  "claim_inbox_body now cid claim_owner claim_generation d =
     (case fetch_inbox_row d cid of
        None \<Rightarrow> Inl (Key_Error ''communication inbox'')
      | Some row \<Rightarrow>
          if i_state row \<noteq> ''target_accepted'' then Inl (Runtime_Error ''not target_accepted'')
          else (case i_claim_owner row of
            None \<Rightarrow>
              bind_res (sql_int claim_generation) (\<lambda>_.
              inbox_update cid (\<lambda>_. True)
                (\<lambda>r. r\<lparr>i_claim_owner := Some claim_owner, i_claim_generation := Some claim_generation,
                      i_updated_at := now\<rparr>) ''claim'' d)
          | Some owner \<Rightarrow>
              if owner = claim_owner then
                (let held = the (i_claim_generation row) in
                 if held < claim_generation then
                   bind_res (sql_int claim_generation) (\<lambda>_.
                   inbox_update cid (\<lambda>r. i_claim_owner r = Some claim_owner \<and> i_claim_generation r = Some held)
                     (\<lambda>r. r\<lparr>i_claim_generation := Some claim_generation, i_updated_at := now\<rparr>) ''claim CAS'' d)
                 else if claim_generation < held then Inl (Runtime_Error ''claim generation expired'')
                 else Inr (row, d))
              else Inl (Runtime_Error ''held by another claim'')))"

definition claim_communication_inbox_admission :: "ustr \<Rightarrow> ustr \<Rightarrow> ustr \<Rightarrow> int \<Rightarrow> inbox_record store_op" where
  "claim_communication_inbox_admission now cid claim_owner claim_generation =
     checked (validate_claim_fields claim_owner claim_generation)
       (\<lambda>_. write_transaction (claim_inbox_body now cid claim_owner claim_generation))"

definition mark_inbox_bound_body ::
    "ustr \<Rightarrow> ustr \<Rightarrow> ustr \<Rightarrow> ustr \<Rightarrow> ustr option \<Rightarrow> ustr \<Rightarrow> int \<Rightarrow> control_db
       \<Rightarrow> control_error + (inbox_record \<times> control_db)" where
  "mark_inbox_bound_body now cid job_id execution_id turn_id claim_owner claim_generation d =
     (case fetch_inbox_row d cid of
        None \<Rightarrow> Inl (Key_Error ''communication inbox'')
      | Some row \<Rightarrow>
          (case i_claim_owner row of
             None \<Rightarrow> Inl (Runtime_Error ''not claimed'')
           | Some owner \<Rightarrow>
               if owner \<noteq> claim_owner \<or> the (i_claim_generation row) \<noteq> claim_generation
               then Inl (Runtime_Error ''claim differs'')
               else if i_state row = ''execution_bound'' then
                 (if i_job_id row \<noteq> Some job_id \<or> i_execution_id row \<noteq> Some execution_id \<or> i_turn_id row \<noteq> turn_id
                  then Inl (Runtime_Error ''binding drift'') else Inr (row, d))
               else if i_state row \<noteq> ''target_accepted'' then Inl (Runtime_Error ''not target_accepted'')
               else inbox_update cid (\<lambda>r. i_state r = ''target_accepted'')
                 (\<lambda>r. r\<lparr>i_state := ''execution_bound'', i_job_id := Some job_id, i_execution_id := Some execution_id,
                       i_turn_id := turn_id, i_last_error := None, i_updated_at := now\<rparr>) ''mark bound CAS'' d))"

definition mark_communication_inbox_execution_bound ::
    "ustr \<Rightarrow> ustr \<Rightarrow> ustr \<Rightarrow> ustr \<Rightarrow> ustr option \<Rightarrow> ustr \<Rightarrow> int \<Rightarrow> inbox_record store_op" where
  "mark_communication_inbox_execution_bound now cid job_id execution_id turn_id claim_owner claim_generation =
     checked
       (bind_res (validate_communication_text job_id ''job_id'') (\<lambda>_.
        bind_res (case turn_id of None \<Rightarrow> Inr () | Some t \<Rightarrow> validate_communication_text t ''turn_id'') (\<lambda>_.
        bind_res (validate_communication_text execution_id ''execution_id'') (\<lambda>_.
        validate_claim_fields claim_owner claim_generation))))
       (\<lambda>_. write_transaction
          (mark_inbox_bound_body now cid job_id execution_id turn_id claim_owner claim_generation))"

definition record_inbox_failure_body ::
    "ustr \<Rightarrow> ustr \<Rightarrow> ustr \<Rightarrow> int \<Rightarrow> ustr \<Rightarrow> control_db \<Rightarrow> control_error + (inbox_record \<times> control_db)" where
  "record_inbox_failure_body now cid claim_owner claim_generation last_error d =
     (case fetch_inbox_row d cid of
        None \<Rightarrow> Inl (Key_Error ''communication inbox'')
      | Some row \<Rightarrow>
          if i_state row \<noteq> ''target_accepted'' then Inl (Runtime_Error ''not target_accepted'')
          else if i_claim_owner row \<noteq> Some claim_owner \<or> the (i_claim_generation row) \<noteq> claim_generation
          then Inl (Runtime_Error ''claim differs'')
          else inbox_update cid
            (\<lambda>r. i_state r = ''target_accepted'' \<and> i_claim_owner r = Some claim_owner
                  \<and> i_claim_generation r = Some claim_generation)
            (\<lambda>r. r\<lparr>i_last_error := Some last_error, i_updated_at := now\<rparr>) ''record failure CAS'' d)"

definition record_communication_inbox_admission_failure ::
    "ustr \<Rightarrow> ustr \<Rightarrow> ustr \<Rightarrow> int \<Rightarrow> ustr \<Rightarrow> inbox_record store_op" where
  "record_communication_inbox_admission_failure now cid claim_owner claim_generation last_error =
     checked (bind_res (validate_claim_fields claim_owner claim_generation) (\<lambda>_.
              require (last_error \<noteq> []) (Value_Error ''last_error'')))
       (\<lambda>_. write_transaction (record_inbox_failure_body now cid claim_owner claim_generation last_error))"

definition drain_inbox_body :: "ustr \<Rightarrow> ustr option \<Rightarrow> control_db \<Rightarrow> control_error + (unit \<times> control_db)" where
  "drain_inbox_body now cid d =
     bind_res (sql_update inbox_check
                 (\<lambda>r. i_state r \<notin> {''terminal'', ''failed'', ''cancelled''}
                       \<and> (case cid of None \<Rightarrow> True | Some c \<Rightarrow> i_communication_id r = c))
                 (\<lambda>r. r\<lparr>i_state := (if i_job_id r = None then ''cancelled'' else ''terminal''),
                       i_last_error := Some (u ''target-deleted''),
                       i_terminal_outcome := Some (u ''target-deleted''), i_updated_at := now\<rparr>)
                 (communication_inbox d)) (\<lambda>(n, t).
     Inr ((), d\<lparr>communication_inbox := t\<rparr>))"

definition drain_communication_inboxes :: "ustr \<Rightarrow> ustr option \<Rightarrow> unit store_op" where
  "drain_communication_inboxes now cid = write_transaction (drain_inbox_body now cid)"

subsection \<open>Reading\<close>

definition get_communication_outbox :: "ustr \<Rightarrow> outbox_record option store_op" where
  "get_communication_outbox op = read_op (\<lambda>d. Inr (fetch_outbox_row_by_operation d op))"

definition list_pending_communication_outboxes :: "outbox_record list store_op" where
  "list_pending_communication_outboxes = read_op (\<lambda>d.
     Inr (order_by (\<lambda>r. [o_created_at r, o_send_operation_id r])
       (filter (\<lambda>r. o_state r \<in> {''accepted'', ''routing''}) (communication_outbox d))))"

definition list_target_accepted_communication_inboxes :: "inbox_record list store_op" where
  "list_target_accepted_communication_inboxes = read_op (\<lambda>d.
     Inr (order_by (\<lambda>r. [i_created_at r, i_communication_id r])
       (filter (\<lambda>r. i_state r = ''target_accepted'') (communication_inbox d))))"

definition get_communication_inbox :: "ustr \<Rightarrow> inbox_record store_op" where
  "get_communication_inbox cid = read_op (\<lambda>d.
     case fetch_inbox_row d cid of None \<Rightarrow> Inl (Key_Error ''communication inbox'') | Some r \<Rightarrow> Inr r)"

end
