(* ===== verification/Session_Control_Spec.thy ===== *)
theory Session_Control_Spec
  imports Thread_Spec Communication_Ledger
begin

section \<open>What the session control store may do to its rows\<close>

text \<open>
  An abstract specification of the store: which transitions a lease, an outbox row and an inbox row may
  make, and which changes of the whole database they add up to. It says nothing about arguments, checks,
  transactions or SQL. \<open>control_step\<close> is the detailed system, one rule per operation of the code;
  \<open>Session_Control_Refinement\<close> shows that it implements the specification.
\<close>

subsection \<open>Transitions of one row\<close>

inductive lease_move :: "operation_lease \<Rightarrow> operation_lease \<Rightarrow> bool" where
  begin_settling: "lease_state l = ''active'' \<Longrightarrow>
    lease_move l (l\<lparr>lease_state := ''settling'', lease_revision := lease_revision l + 1, lease_updated_at := now\<rparr>)"
| settled: "lease_state l = ''settling'' \<Longrightarrow> outcome \<in> set LEASE_TERMINAL_STATES \<Longrightarrow>
    lease_move l (l\<lparr>lease_state := outcome, lease_revision := lease_revision l + 1, lease_updated_at := now\<rparr>)"
| taken_over: "lease_state l \<in> {''active'', ''settling''} \<Longrightarrow>
    lease_move l (l\<lparr>lease_state := ''active'', fencing_token := fencing_token l + 1,
      holder_generation := holder_generation l + 1, lease_revision := lease_revision l + 1,
      lease_updated_at := now\<rparr>)"

inductive outbox_move :: "outbox_record \<Rightarrow> outbox_record \<Rightarrow> bool" where
  advanced: "map_of OUTBOX_TRANSITIONS (o_state r) = Some allowed \<Longrightarrow> new_state \<in> set allowed \<Longrightarrow>
    (success_state new_state \<longrightarrow> receipt \<noteq> None) \<Longrightarrow> (failure_state new_state \<longrightarrow> reason \<noteq> None) \<Longrightarrow>
    outbox_move r (advanced_row now new_state receipt reason r)"
| source_deleted: "o_state r \<notin> set OUTBOX_TERMINAL_STATES \<Longrightarrow>
    outbox_move r (r\<lparr>o_state := ''cancelled'', o_abort_reason := Some (u ''source-deleted''), o_updated_at := now\<rparr>)"

inductive inbox_move :: "inbox_record \<Rightarrow> inbox_record \<Rightarrow> bool" where
  claimed: "i_state r = ''target_accepted'' \<Longrightarrow> i_claim_owner r = None \<Longrightarrow> 1 \<le> generation \<Longrightarrow>
    inbox_move r (r\<lparr>i_claim_owner := Some claim_owner, i_claim_generation := Some generation, i_updated_at := now\<rparr>)"
| reclaimed: "i_state r = ''target_accepted'' \<Longrightarrow> i_claim_generation r = Some held \<Longrightarrow> held < generation \<Longrightarrow>
    inbox_move r (r\<lparr>i_claim_generation := Some generation, i_updated_at := now\<rparr>)"
| execution_bound: "i_state r = ''target_accepted'' \<Longrightarrow> i_claim_owner r \<noteq> None \<Longrightarrow>
    inbox_move r (r\<lparr>i_state := ''execution_bound'', i_job_id := Some job_id, i_execution_id := Some execution_id,
      i_turn_id := turn_id, i_last_error := None, i_updated_at := now\<rparr>)"
| admission_failed: "i_state r = ''target_accepted'' \<Longrightarrow> i_claim_owner r \<noteq> None \<Longrightarrow>
    inbox_move r (r\<lparr>i_last_error := Some last_error, i_updated_at := now\<rparr>)"
| target_deleted: "i_state r \<notin> {''terminal'', ''failed'', ''cancelled''} \<Longrightarrow>
    inbox_move r (r\<lparr>i_state := (if i_job_id r = None then ''cancelled'' else ''terminal''),
      i_last_error := Some (u ''target-deleted''), i_terminal_outcome := Some (u ''target-deleted''),
      i_updated_at := now\<rparr>)"

inductive_simps lease_move_simps: "lease_move l l'"
inductive_simps outbox_move_simps: "outbox_move r r'"
inductive_simps inbox_move_simps: "inbox_move r r'"
inductive_cases lease_moveE: "lease_move l l'"
inductive_cases outbox_moveE: "outbox_move r r'"
inductive_cases inbox_moveE: "inbox_move r r'"

subsection \<open>Changes of the database\<close>

text \<open>
  \<open>mirrored i o\<close>: the inbox row and the outbox row have exchanged end points. A reply needs such a
  partner.
\<close>

definition mirrored :: "inbox_record \<Rightarrow> outbox_record \<Rightarrow> bool" where
  "mirrored i r \<longleftrightarrow>
     i_source_gateway_id i = o_target_gateway_id r \<and> i_source_workspace_id i = o_target_workspace_id r
     \<and> i_source_session_id i = o_target_session_id r \<and> i_source_thread_id i = o_target_thread_id r
     \<and> i_target_gateway_id i = o_source_gateway_id r \<and> i_target_workspace_id i = o_source_workspace_id r
     \<and> i_session_id i = o_session_id r \<and> i_target_thread_id i = o_source_thread_id r"

definition answers_inbox :: "control_db \<Rightarrow> outbox_record \<Rightarrow> bool" where
  "answers_inbox d r \<longleftrightarrow> (o_kind r = ''reply'' \<longrightarrow>
     (\<exists>i\<in>set (communication_inbox d). o_reply_to r = Some (i_communication_id i) \<and> mirrored i r))"

definition answers_outbox :: "control_db \<Rightarrow> inbox_record \<Rightarrow> bool" where
  "answers_outbox d i \<longleftrightarrow> (i_kind i = ''reply'' \<longrightarrow>
     (\<exists>r\<in>set (communication_outbox d). i_reply_to i = Some (o_communication_id r) \<and> mirrored i r))"

definition fresh_lease :: "control_db \<Rightarrow> operation_lease \<Rightarrow> bool" where
  "fresh_lease d l \<longleftrightarrow> (\<exists>f. fence d = Some f \<and> f_state f = ''active'' \<and> captured_generation l = f_generation f)
     \<and> lease_check l \<and> fencing_token l = 1 \<and> holder_generation l = 1 \<and> lease_revision l = 1
     \<and> lease_state l = ''active'' \<and> (\<forall>x\<in>set (operation_leases d). \<not> lease_clash l x)"

definition fresh_outbox :: "control_db \<Rightarrow> outbox_record \<Rightarrow> bool" where
  "fresh_outbox d r \<longleftrightarrow> outbox_check r \<and> o_state r = ''accepted'' \<and> o_latest_receipt r = None
     \<and> o_abort_reason r = None \<and> answers_inbox d r \<and> (\<forall>x\<in>set (communication_outbox d). \<not> outbox_clash r x)"

definition fresh_inbox :: "(ustr \<Rightarrow> ustr) \<Rightarrow> control_db \<Rightarrow> inbox_record \<Rightarrow> bool" where
  "fresh_inbox sha d r \<longleftrightarrow> inbox_check r \<and> i_state r = ''target_accepted'' \<and> i_job_id r = None
     \<and> i_claim_owner r = None
     \<and> (i_admission_id r, i_wakeup_key r)
        = derive_communication_admission_identity sha (i_communication_id r) (i_payload_hash r)
     \<and> (\<exists>m. main_rows d = [m] \<and> i_target_thread_id r = t_thread_id m)
     \<and> answers_outbox d r \<and> (\<forall>x\<in>set (communication_inbox d). \<not> inbox_clash r x)"

text \<open>
  Work on threads touches the tables described here only by adding the row of a child thread and by
  admitting or settling the lease of a fan-out (which takes up to two transitions).
\<close>

definition catalog_grown :: "thread_row list \<Rightarrow> thread_row list \<Rightarrow> bool" where
  "catalog_grown t t' \<longleftrightarrow> t' = t \<or> (\<exists>r. t_kind r = ''child'' \<and> thread_row_check r
     \<and> (\<forall>x\<in>set t. \<not> thread_row_clash r x) \<and> t' = t @ [r])"

definition leases_changed :: "ustr set \<Rightarrow> control_db \<Rightarrow> operation_lease list \<Rightarrow> bool" where
  "leases_changed issued d t \<longleftrightarrow>
     (\<exists>t1. rows_moved lease_move (operation_leases d) t1 \<and> rows_moved lease_move t1 t)
     \<or> (\<exists>l. fresh_lease d l \<and> lease_id l \<notin> issued \<and> t = operation_leases d @ [l])"

inductive db_change :: "py_library \<Rightarrow> ustr set \<Rightarrow> control_db \<Rightarrow> control_db \<Rightarrow> bool"
  for lib :: py_library and issued :: "ustr set" where
  unchanged: "db_change lib issued d d"
| fence_created: "fence d = None \<Longrightarrow> st \<in> set FENCE_STATES \<Longrightarrow>
    db_change lib issued d (d\<lparr>fence := Some \<lparr>f_state = st, f_generation = g\<rparr>\<rparr>)"
| fence_closed: "fence d = Some \<lparr>f_state = ''active'', f_generation = g\<rparr> \<Longrightarrow>
    db_change lib issued d (d\<lparr>fence := Some \<lparr>f_state = ''deleting'', f_generation = g + 1\<rparr>\<rparr>)"
| main_added: "main_rows d = [] \<Longrightarrow> t_kind r = ''main'' \<Longrightarrow> thread_row_check r \<Longrightarrow>
    \<forall>x\<in>set (thread_catalog d). \<not> thread_row_clash r x \<Longrightarrow>
    db_change lib issued d (d\<lparr>thread_catalog := thread_catalog d @ [r]\<rparr>)"
| lease_admitted: "fresh_lease d l \<Longrightarrow> lease_id l \<notin> issued \<Longrightarrow>
    db_change lib issued d (d\<lparr>operation_leases := operation_leases d @ [l]\<rparr>)"
| leases_moved: "rows_moved lease_move (operation_leases d) t \<Longrightarrow>
    db_change lib issued d (d\<lparr>operation_leases := t\<rparr>)"
| leases_deleted: "\<forall>l\<in>set (operation_leases d). \<not> keep l \<longrightarrow> lease_state l \<in> set LEASE_TERMINAL_STATES \<Longrightarrow>
    db_change lib issued d (d\<lparr>operation_leases := filter keep (operation_leases d)\<rparr>)"
| outbox_added: "fresh_outbox d r \<Longrightarrow>
    db_change lib issued d (d\<lparr>communication_outbox := communication_outbox d @ [r]\<rparr>)"
| outbox_moved: "rows_moved outbox_move (communication_outbox d) t \<Longrightarrow>
    db_change lib issued d (d\<lparr>communication_outbox := t\<rparr>)"
| inbox_added: "fresh_inbox (lib_sha256 lib) d r \<Longrightarrow>
    db_change lib issued d (d\<lparr>communication_inbox := communication_inbox d @ [r]\<rparr>)"
| inbox_moved: "rows_moved inbox_move (communication_inbox d) t \<Longrightarrow>
    db_change lib issued d (d\<lparr>communication_inbox := t\<rparr>)"
| thread_work: "fence d' = fence d \<Longrightarrow> communication_outbox d' = communication_outbox d \<Longrightarrow>
    communication_inbox d' = communication_inbox d \<Longrightarrow> catalog_grown (thread_catalog d) (thread_catalog d') \<Longrightarrow>
    leases_changed issued d (operation_leases d') \<Longrightarrow> (thread_inv lib d \<longrightarrow> thread_change lib d d') \<Longrightarrow>
    db_change lib issued d d'"

inductive_cases db_changeE: "db_change lib issued d d'"

subsection \<open>The invariant of the database\<close>

definition lease_ok :: "control_db \<Rightarrow> operation_lease \<Rightarrow> bool" where
  "lease_ok d l \<longleftrightarrow> lease_check l \<and> holder_generation l = fencing_token l \<and> fencing_token l \<le> lease_revision l
     \<and> (\<exists>f. fence d = Some f \<and> captured_generation l \<le> f_generation f)"

text \<open>
  The receipt column: present from \<^verbatim>\<open>target_accepted\<close> on, absent before; the abort reason exactly in the
  failure states.
\<close>

definition outbox_ok :: "outbox_record \<Rightarrow> bool" where
  "outbox_ok r \<longleftrightarrow> outbox_check r \<and> (success_state (o_state r) \<longrightarrow> o_latest_receipt r \<noteq> None)
     \<and> (o_state r \<in> {''accepted'', ''routing''} \<longrightarrow> o_latest_receipt r = None)
     \<and> (o_abort_reason r \<noteq> None) = failure_state (o_state r)"

definition inbox_ok :: "(ustr \<Rightarrow> ustr) \<Rightarrow> inbox_record \<Rightarrow> bool" where
  "inbox_ok sha r \<longleftrightarrow> inbox_check r
     \<and> (i_admission_id r, i_wakeup_key r)
        = derive_communication_admission_identity sha (i_communication_id r) (i_payload_hash r)
     \<and> (i_state r = ''execution_bound'' \<longrightarrow> i_job_id r \<noteq> None)
     \<and> (i_job_id r \<noteq> None \<longrightarrow> i_claim_owner r \<noteq> None)"

definition operation_key :: "operation_lease \<Rightarrow> int \<times> ustr" where
  "operation_key l = (captured_generation l, operation_identity l)"

definition db_inv :: "(ustr \<Rightarrow> ustr) \<Rightarrow> control_db \<Rightarrow> bool" where
  "db_inv sha d \<longleftrightarrow>
     (case fence d of None \<Rightarrow> True | Some f \<Rightarrow> f_state f \<in> set FENCE_STATES)
     \<and> distinct (map t_thread_id (thread_catalog d)) \<and> length (main_rows d) \<le> 1
     \<and> distinct (map lease_id (operation_leases d)) \<and> distinct (map operation_key (operation_leases d))
     \<and> (\<forall>l\<in>set (operation_leases d). lease_ok d l)
     \<and> distinct (map o_send_operation_id (communication_outbox d))
     \<and> distinct (map o_communication_id (communication_outbox d))
     \<and> (\<forall>r\<in>set (communication_outbox d). outbox_ok r \<and> answers_inbox d r)
     \<and> distinct (map i_communication_id (communication_inbox d))
     \<and> distinct (map i_admission_id (communication_inbox d))
     \<and> (\<forall>r\<in>set (communication_inbox d). inbox_ok sha r \<and> answers_outbox d r
          \<and> (\<exists>m. main_rows d = [m] \<and> i_target_thread_id r = t_thread_id m))"

definition empty_db :: control_db where
  "empty_db = \<lparr>fence = None, thread_catalog = [], operation_leases = [], communication_outbox = [],
     communication_inbox = [], creation_records = [], execution_intents = [], owner_bindings = [],
     collaboration_ledger = Some 0, collaboration_members = [], collaboration_fanouts = [],
     collaboration_deliveries = [], collaboration_boards = []\<rparr>"

lemma db_inv_empty: "db_inv sha empty_db"
  by (simp add: db_inv_def empty_db_def main_rows_def)

subsection \<open>The operations of the store\<close>

text \<open>
  One rule per method that writes. \<open>environment\<close> covers what the model does not determine: opening and
  closing the connection, the transaction of a caller and the lock of another process. \<open>issued\<close> are
  identifiers that the identifier source has returned before and does not return again.
\<close>

inductive control_step :: "py_library \<Rightarrow> ustr set \<Rightarrow> control_store \<Rightarrow> control_store \<Rightarrow> bool"
  for lib :: py_library and issued :: "ustr set" where
  environment: "db s' = db s \<Longrightarrow> control_step lib issued s s'"
| s_initialize_fence: "control_step lib issued s (snd (initialize_fence st g s))"
| s_cas_fence: "control_step lib issued s (snd (cas_fence_transition id g st s))"
| s_main_thread: "control_step lib issued s (snd (initialize_main_thread tid created binding s))"
| s_create_lease: "new_id \<notin> issued \<Longrightarrow>
    control_step lib issued s (snd (create_or_get_lease now new_id kind identity preimage expected ref tx s))"
| s_settling: "control_step lib issued s (snd (mark_lease_settling now lid token tx s))"
| s_settle: "control_step lib issued s (snd (settle_lease now lid token outcome tx s))"
| s_takeover: "control_step lib issued s (snd (takeover_lease now lid token s))"
| s_delete_leases: "delete_terminal_leases (in_transaction s) identities kind (db s) = Inr d \<Longrightarrow>
    control_step lib issued s (s\<lparr>db := d\<rparr>)"
| s_create_outbox: "control_step lib issued s (snd (create_or_get_communication_outbox now q s))"
| s_advance_outbox: "control_step lib issued s (snd (advance_communication_outbox_state now op st receipt reason s))"
| s_drain_outbox: "control_step lib issued s (snd (drain_communication_outboxes now s))"
| s_create_inbox: "control_step lib issued s (snd (create_or_get_communication_inbox (lib_sha256 lib) now p s))"
| s_claim_inbox: "control_step lib issued s (snd (claim_communication_inbox_admission now cid claim_owner generation s))"
| s_bind_inbox: "control_step lib issued s
    (snd (mark_communication_inbox_execution_bound now cid job_id execution_id turn_id claim_owner generation s))"
| s_fail_inbox: "control_step lib issued s
    (snd (record_communication_inbox_admission_failure now cid claim_owner generation last_error s))"
| s_drain_inbox: "control_step lib issued s (snd (drain_communication_inboxes now cid_opt s))"
| s_thread: "thread_step lib issued s s' \<Longrightarrow> control_step lib issued s s'"

end
