(* ===== verification/Thread_Frame.thy ===== *)
theory Thread_Frame
  imports Session_Control_Spec
begin

section \<open>What work on threads leaves alone\<close>

text \<open>
  Outcome lemmas for the operations on threads and collaboration: which tables a successful body changes,
  and how. They serve the specification of the whole store here and that of the threads in
  \<open>Thread_Effect\<close>.
\<close>

definition leases_added :: "ustr set \<Rightarrow> control_db \<Rightarrow> control_db \<Rightarrow> bool" where
  "leases_added issued d d' \<longleftrightarrow> operation_leases d' = operation_leases d
     \<or> (\<exists>l. fresh_lease d l \<and> lease_id l \<notin> issued \<and> operation_leases d' = operation_leases d @ [l])"

text \<open>Everything but the tables of collaboration and the leases.\<close>

definition same_ledger :: "control_db \<Rightarrow> control_db \<Rightarrow> bool" where
  "same_ledger d d' \<longleftrightarrow> fence d' = fence d \<and> communication_outbox d' = communication_outbox d
     \<and> communication_inbox d' = communication_inbox d"

definition same_threads :: "control_db \<Rightarrow> control_db \<Rightarrow> bool" where
  "same_threads d d' \<longleftrightarrow> thread_catalog d' = thread_catalog d \<and> creation_records d' = creation_records d
     \<and> execution_intents d' = execution_intents d \<and> owner_bindings d' = owner_bindings d"

definition collab_frame :: "ustr set \<Rightarrow> control_db \<Rightarrow> control_db \<Rightarrow> bool" where
  "collab_frame issued d d' \<longleftrightarrow> same_ledger d d' \<and> same_threads d d' \<and> leases_added issued d d'"

lemmas frame_defs = collab_frame_def same_ledger_def same_threads_def leases_added_def

lemma fresh_lease_cong: "fence d' = fence d \<Longrightarrow> operation_leases d' = operation_leases d \<Longrightarrow> fresh_lease d' l = fresh_lease d l"
  by (simp add: fresh_lease_def)

lemma collab_frame_refl [simp]: "collab_frame issued d d"
  by (simp add: frame_defs)

lemma leases_added_trans:
  assumes "fence d1 = fence d" "operation_leases d1 = operation_leases d" "leases_added issued d1 d2"
  shows "leases_added issued d d2"
  using assms(3) fresh_lease_cong [OF assms(1,2)] by (simp add: leases_added_def assms(2))

lemma leases_added_changed: "leases_added issued d d' \<Longrightarrow> leases_changed issued d (operation_leases d')"
  unfolding leases_added_def leases_changed_def by (metis rows_moved_refl)

subsection \<open>Freezing a change\<close>

lemma joined_lease:
  assumes "joined (create_or_get_lease now new_id kind identity preimage expected ref (Some True)) d = Inr (l, d')"
    and "new_id \<notin> issued"
  shows "d' = d \<or> (fresh_lease d l \<and> lease_id l \<notin> issued \<and> d' = d\<lparr>operation_leases := operation_leases d @ [l]\<rparr>)"
proof -
  from assms(1) have body: "create_or_get_lease_body now new_id kind identity preimage expected ref d = Inr (l, d')"
    by (auto simp: joined_def create_or_get_lease_def checked_def lease_transaction_def split: sum.splits prod.splits)
  then obtain f where f: "fence d = Some f" "f_state f = ''active''"
    and rest: "(case select_one (same_operation (f_generation f) identity) (operation_leases d) of
       Some l \<Rightarrow> if preimage_hash l \<noteq> preimage then Inl (Runtime_Error ''preimage conflict'') else Inr (l, d)
     | None \<Rightarrow> let l = \<lparr>lease_id = new_id, operation_kind = kind, operation_identity = identity,
                  preimage_hash = preimage, captured_generation = f_generation f, holder_generation = 1,
                  fencing_token = 1, lease_state = ''active'', lease_revision = 1, recovery_ref = ref,
                  lease_created_at = now, lease_updated_at = now\<rparr>
         in bind_res (sql_insert lease_check lease_clash l (operation_leases d)) (\<lambda>t.
            Inr (l, d\<lparr>operation_leases := t\<rparr>))) = Inr (l, d')"
    by (auto simp: create_or_get_lease_body_def read_fence_row_def fetch_fence_row_def split: option.splits)
  show ?thesis
  proof (cases "select_one (same_operation (f_generation f) identity) (operation_leases d)")
    case None
    with rest assms(2) show ?thesis by (auto simp: Let_def sql_insert_eq_Inr fresh_lease_def f)
  next
    case (Some x)
    with rest show ?thesis by (auto split: if_splits)
  qed
qed

lemma insert_deliveries_frame:
  "insert_deliveries revision recipients d = Inr d' \<Longrightarrow> \<exists>t. d' = d\<lparr>collaboration_deliveries := t\<rparr>"
proof (induction revision recipients d rule: insert_deliveries.induct)
  case (1 revision d)
  then have "d' = d\<lparr>collaboration_deliveries := collaboration_deliveries d\<rparr>" by simp
  then show ?case by blast
qed fastforce

lemma bump_ledger_frame [simp]:
  "fence (bump_ledger d) = fence d" "thread_catalog (bump_ledger d) = thread_catalog d"
  "operation_leases (bump_ledger d) = operation_leases d" "communication_outbox (bump_ledger d) = communication_outbox d"
  "communication_inbox (bump_ledger d) = communication_inbox d" "creation_records (bump_ledger d) = creation_records d"
  "execution_intents (bump_ledger d) = execution_intents d" "owner_bindings (bump_ledger d) = owner_bindings d"
  by (simp_all add: bump_ledger_def)

lemma freeze_change_frame:
  assumes "freeze_collaboration_change lib clock new_id sid event wakeup bump snapshot d = Inr (n, d')"
    and "new_id \<notin> issued"
  shows "collab_frame issued d d'"
proof -
  define d0 where "d0 = (if bump then bump_ledger d else d)"
  have same: "fence d0 = fence d" "thread_catalog d0 = thread_catalog d" "operation_leases d0 = operation_leases d"
    "communication_outbox d0 = communication_outbox d" "communication_inbox d0 = communication_inbox d"
    "creation_records d0 = creation_records d" "execution_intents d0 = execution_intents d" "owner_bindings d0 = owner_bindings d"
    by (simp_all add: d0_def)
  from assms(1) obtain now identity h g ref l d1 t where
      lease: "joined (create_or_get_lease now new_id ''collaboration_fanout'' identity h g ref (Some True)) d0 = Inr (l, d1)"
    and rows: "\<exists>rev rcp. insert_deliveries rev rcp (d1\<lparr>collaboration_fanouts := t\<rparr>) = Inr d'"
    unfolding freeze_collaboration_change_def Let_def d0_def [symmetric] bind_res_eq_Inr split_beta
    by (metis (no_types, lifting) Inr_inject Pair_inject prod.collapse)
  from rows obtain t2 where "d' = d1\<lparr>collaboration_fanouts := t, collaboration_deliveries := t2\<rparr>"
    using insert_deliveries_frame by blast
  with joined_lease [OF lease assms(2)] same fresh_lease_cong [of d0 d] show ?thesis
    by (auto simp: frame_defs)
qed

lemma freeze_member_change_frame:
  "freeze_member_change lib clock new_id delegation kind bump d = Inr d' \<Longrightarrow> new_id \<notin> issued \<Longrightarrow> collab_frame issued d d'"
  by (auto simp: freeze_member_change_def intro: freeze_change_frame)

lemma freeze_member_cancellation_frame:
  "freeze_member_cancellation lib clock new_id snapshot d = Inr d' \<Longrightarrow> new_id \<notin> issued \<Longrightarrow> collab_frame issued d d'"
  by (auto simp: freeze_member_cancellation_def frame_defs [symmetric] intro: freeze_change_frame split: if_splits)
    (simp add: frame_defs)

subsection \<open>Creation records\<close>

lemma register_member_frame:
  assumes "register_member lib now q child d = Inr (m, d')"
  shows "same_ledger d d'" "same_threads d d'" "operation_leases d' = operation_leases d"
  using assms
  by (auto simp: register_member_def prepare_collaboration_member_def Let_def frame_defs
      split: option.splits prod.splits)

lemma creation_update_Inr:
  assumes "creation_update key f d = Inr (c, d')"
  shows "d' = d\<lparr>creation_records := map (\<lambda>x. if c_key x = key then f x else x) (creation_records d)\<rparr>"
    "\<forall>x\<in>set (creation_records d). c_key x = key \<longrightarrow> creation_check (f x)" "fetch_creation_record key d' = Some c"
  using assms by (auto simp: creation_update_def sql_update_eq_Inr split: option.splits)

lemma insert_creation_outcome:
  assumes "insert_thread_creation_record lib clock new_thread new_lease q d = Inr (c, d')" and "new_lease \<notin> issued"
  shows "\<exists>k. creation_admitted lib (clock 0) q d k c" "creation_records d' = creation_records d @ [c]"
    "same_ledger d d'" "thread_catalog d' = thread_catalog d" "execution_intents d' = execution_intents d"
    "owner_bindings d' = owner_bindings d" "leases_added issued d d'"
proof -
  from assms(1) obtain fr where fr: "fence d = Some fr"
    by (auto simp: insert_thread_creation_record_def fetch_fence_row_def split: option.splits)
  from assms(1) obtain child created date membership d1 t where
      a: "f_state fr = ''active''" "length (main_rows d) = 1" "check_thread_id child = Inr ()" "\<not> in_catalog child d"
        "utc_date created = Inr date" "validate_thread_relative_locator (lib_digit lib) (thread_locator date child) = Inr ()"
    and ident: "child_identity q new_thread = Inr (child, created)"
    and reg: "register_member lib (clock 1) q child d = Inr (membership, d1)"
    and c: "c = new_creation_record lib (clock 0) q child created (thread_locator date child) (f_generation fr)
        (length (thread_catalog d)) membership"
    and ins: "sql_insert creation_check creation_clash c (creation_records d1) = Inr t"
    and frz: "(case (q_member q, q_delegation_id q) of
                      (Some _, Some delegation) \<Rightarrow>
                        freeze_member_change lib (\<lambda>i. clock (i + 2)) new_lease delegation ''member.registered'' False
                          (d1\<lparr>creation_records := t\<rparr>)
                    | _ \<Rightarrow> Inr (d1\<lparr>creation_records := t\<rparr>)) = Inr d'"
    unfolding insert_thread_creation_record_def fetch_fence_row_def fr option.case
    by (auto simp: Let_def simp del: option.case split del: if_split)
  have frame: "collab_frame issued (d1\<lparr>creation_records := t\<rparr>) d'"
    using frz freeze_member_change_frame [OF _ assms(2)] by (auto split: option.splits)
  note r = register_member_frame [OF reg]
  have ins': "creation_check c" "\<forall>x\<in>set (creation_records d). \<not> creation_clash c x" "t = creation_records d @ [c]"
    using ins r(2) by (auto simp: sql_insert_eq_Inr same_threads_def)
  have "creation_admitted lib (clock 0) q d \<lparr>fc_fence = fr, fc_child = child, fc_created = created, fc_date = date,
      fc_membership = membership\<rparr> c"
    using fr a c ins' ident by (auto simp: creation_admitted_def child_identity_def split: option.splits)
  then show "\<exists>k. creation_admitted lib (clock 0) q d k c" by blast
  show "creation_records d' = creation_records d @ [c]" "same_ledger d d'" "thread_catalog d' = thread_catalog d"
    "execution_intents d' = execution_intents d" "owner_bindings d' = owner_bindings d"
    using frame r ins' by (simp_all add: collab_frame_def same_ledger_def same_threads_def)
  show "leases_added issued d d'"
    by (rule leases_added_trans [of "d1\<lparr>creation_records := t\<rparr>"])
      (use frame r in \<open>simp_all add: collab_frame_def same_ledger_def\<close>)
qed

subsection \<open>Execution intents\<close>

lemma create_intent_outcome:
  assumes "create_intent_transaction lib now key sid tid initial creation_key d = Inr (e, d')"
  obtains c where "fetch_creation_record creation_key d = Some c" "c_state c = ''published''" "c_child_thread_id c = tid"
    "c_initial_state c = initial" "e_thread_id e = tid" "e \<in> set (execution_intents d')"
    "d' = d \<or> (e = new_intent_row lib now key sid tid initial creation_key \<and> intent_check e
       \<and> (\<forall>x\<in>set (execution_intents d). \<not> intent_clash e x) \<and> d' = d\<lparr>execution_intents := execution_intents d @ [e]\<rparr>)"
proof -
  from assms obtain c where c: "fetch_creation_record creation_key d = Some c"
    by (auto simp: create_intent_transaction_def Let_def split: option.splits)
  from assms have st: "c_state c = ''published''" "c_child_thread_id c = tid" "c_initial_state c = initial"
    by (auto simp: create_intent_transaction_def Let_def c)
  show thesis
  proof (cases "fetch_execution_intent_row key d")
    case (Some x)
    with assms have "e = x" "d' = d" "e_thread_id x = tid" by (auto simp: create_intent_transaction_def Let_def c)
    moreover have "x \<in> set (execution_intents d)"
      using Some select_one_Some unfolding fetch_execution_intent_row_def by fastforce
    ultimately show thesis using that [OF c st] by simp
  next
    case None
    with assms have new: "e = new_intent_row lib now key sid tid initial creation_key"
      "sql_insert intent_check intent_clash e (execution_intents d) = Inr (execution_intents d')"
      "d' = d\<lparr>execution_intents := execution_intents d'\<rparr>"
      by (auto simp: create_intent_transaction_def Let_def c)
    then have "d' = d\<lparr>execution_intents := execution_intents d @ [e]\<rparr>" "intent_check e"
      "\<forall>x\<in>set (execution_intents d). \<not> intent_clash e x" by (auto simp: sql_insert_eq_Inr)
    moreover have "e_thread_id e = tid" by (simp add: new(1) new_intent_row_def split: prod.splits)
    ultimately show thesis using that [OF c st] new(1) by simp
  qed
qed

lemma intent_update_Inr:
  assumes "intent_update key guard f d = Inr (e, d')"
  shows "d' = d\<lparr>execution_intents := map (\<lambda>x. if e_admission_key x = key \<and> guard x then f x else x) (execution_intents d)\<rparr>"
    "\<forall>x\<in>set (execution_intents d). e_admission_key x = key \<and> guard x \<longrightarrow> intent_check (f x)"
  using assms by (auto simp: intent_update_def sql_update_eq_Inr split: option.splits)

subsection \<open>Publishing\<close>

lemma check_frozen_record_Inr:
  assumes "check_frozen_record lib c = Inr ()"
  shows "c_state c \<notin> {''published'', ''aborted''}" "c_artifact_manifest_hash c \<noteq> None"
  using assms by (auto simp: check_frozen_record_def split: option.splits)

lemma check_preconditions_Inr:
  assumes "check_preconditions c d = Inr ()"
  shows "\<exists>f. fence d = Some f \<and> f_state f = ''active'' \<and> f_generation f = c_owner_generation c"
  using assms by (auto simp: check_preconditions_def read_fence_row_def fetch_fence_row_def split: option.splits)

lemma fetch_creation_mem: "fetch_creation_record key d = Some c \<Longrightarrow> c \<in> set (creation_records d) \<and> c_key c = key"
  unfolding fetch_creation_record_def using select_one_Some by fastforce

lemma publish_outcome:
  assumes "publish_creation_body lib clock new_lease key sid d = Inr (c', d')" and "new_lease \<notin> issued"
  shows "\<exists>c. thread_published lib d c d' \<and> c_key c = key" "same_ledger d d'" "leases_added issued d d'"
proof -
  from assms(1) obtain c where c: "fetch_creation_record key d = Some c"
    by (auto simp: publish_creation_body_def split: option.splits)
  from assms(1) obtain g cat c1 d1 d2 d3 d4 where
      chk: "check_frozen_record lib c = Inr ()" "check_preconditions c d = Inr ()" "\<not> in_catalog (c_child_thread_id c) d"
    and g: "graph_binding_from_creation_json lib (c_graph_binding c) = Inr g"
    and cat: "sql_insert thread_row_check thread_row_clash
        (new_thread_row (c_child_thread_id c) ''child'' (c_child_created_at c) g) (thread_catalog d) = Inr cat"
    and upd: "creation_update key (\<lambda>x. x\<lparr>c_state := ''published'', c_record_updated_at := clock 0\<rparr>) (d\<lparr>thread_catalog := cat\<rparr>) = Inr (c1, d1)"
    and bnd: "insert_thread_owner_binding_row (c_child_thread_id c) (c_final_relative_locator c) (clock 1) (clock 2) d1 = Inr d2"
    and mem: "publish_member (clock 3) c d2 = Inr d3"
    and int: "(if c_purpose c = ''task''
        then bind_res (create_intent_transaction lib (clock 4) key sid (c_child_thread_id c) (c_initial_state c) key d3) (\<lambda>(e, d4). Inr d4)
        else Inr d3) = Inr d4"
    and frz: "\<exists>d5. (case (c_collaboration_revision c, c_delegation_id c) of
                (Some _, Some delegation) \<Rightarrow> freeze_member_change lib (\<lambda>i. clock (i + 5)) new_lease delegation ''member.published'' True d4
              | _ \<Rightarrow> Inr d4) = Inr d5
        \<and> (case fetch_creation_record key d5 of None \<Rightarrow> Inl (Runtime_Error ''record not visible'') | Some c' \<Rightarrow> Inr (c', d5)) = Inr (c', d')"
    unfolding publish_creation_body_def c option.case
    by (auto split del: if_split)
  from frz have frame: "collab_frame issued d4 d'"
    using freeze_member_change_frame [OF _ assms(2)] by (auto split: option.splits)
  obtain mt where m: "d3 = d2\<lparr>collaboration_members := mt\<rparr>"
  proof -
    have "d3 = d2\<lparr>collaboration_members := collaboration_members d3\<rparr>"
      using mem by (auto simp: publish_member_def split: if_splits)
    then show thesis by (rule that)
  qed
  have b: "\<forall>b\<in>set (owner_bindings d1). b_thread_id b \<noteq> c_child_thread_id c"
    "d2 = d1\<lparr>owner_bindings := owner_bindings d1 @ [new_owner_binding_row (c_child_thread_id c) (c_final_relative_locator c) (clock 1) (clock 2)]\<rparr>"
    using bnd by (auto simp: insert_thread_owner_binding_row_def sql_insert_eq_Inr owner_binding_clash_def new_owner_binding_row_def)
  note u = creation_update_Inr [OF upd]
  have ct: "cat = thread_catalog d @ [new_thread_row (c_child_thread_id c) ''child'' (c_child_created_at c) g]"
    "thread_row_check (new_thread_row (c_child_thread_id c) ''child'' (c_child_created_at c) g)"
    using cat by (auto simp: sql_insert_eq_Inr)
  have key: "c_key c = key" "c \<in> set (creation_records d)" using fetch_creation_mem [OF c] by auto
  let ?e = "new_intent_row lib (clock 4) key sid (c_child_thread_id c) (c_initial_state c) key"
  have i: "d4 = d3 \<or> (d4 = d3\<lparr>execution_intents := execution_intents d3 @ [?e]\<rparr> \<and> intent_check ?e
      \<and> (\<forall>x\<in>set (execution_intents d3). \<not> intent_clash ?e x))"
    "c_purpose c = ''task'' \<longrightarrow> (\<exists>e\<in>set (execution_intents d4). e_thread_id e = c_child_thread_id c)"
    using int by (auto split: if_splits elim!: create_intent_outcome)
  have tabs: "thread_catalog d3 = cat" "execution_intents d3 = execution_intents d" "same_ledger d d3"
    "operation_leases d3 = operation_leases d" "creation_records d3 = creation_records d1" "owner_bindings d1 = owner_bindings d"
    "owner_bindings d3 = owner_bindings d2"
    by (simp_all add: m b(2) u(1) same_ledger_def)
  have tabs4: "thread_catalog d' = cat" "creation_records d' = creation_records d1" "owner_bindings d' = owner_bindings d2"
    "execution_intents d' = execution_intents d4"
    using frame i(1) tabs by (auto simp: collab_frame_def same_threads_def)
  have "thread_published lib d c d'"
    unfolding thread_published_def tabs4
  proof (intro conjI)
    show "\<exists>now. creation_records d1 = map (\<lambda>x. if c_key x = c_key c then x\<lparr>c_state := ''published'', c_record_updated_at := now\<rparr> else x)
        (creation_records d)" by (rule exI [of _ "clock 0"]) (simp add: u(1) key(1))
    show "\<exists>t1 t2. owner_bindings d2 = owner_bindings d
        @ [new_owner_binding_row (c_child_thread_id c) (c_final_relative_locator c) t1 t2]"
      using b(2) tabs(6) by auto
    show "execution_intents d4 = execution_intents d \<or> (\<exists>now sid. execution_intents d4 = execution_intents d
         @ [new_intent_row lib now (c_key c) sid (c_child_thread_id c) (c_initial_state c) (c_key c)]
       \<and> intent_check (new_intent_row lib now (c_key c) sid (c_child_thread_id c) (c_initial_state c) (c_key c))
       \<and> (\<forall>x\<in>set (execution_intents d).
            \<not> intent_clash (new_intent_row lib now (c_key c) sid (c_child_thread_id c) (c_initial_state c) (c_key c)) x))"
      using i(1) tabs(2) key(1) by (elim disjE) (rule disjI1, simp, rule disjI2, rule exI [of _ "clock 4"], rule exI [of _ sid], simp)
    show "\<exists>g. graph_binding_from_creation_json lib (c_graph_binding c) = Inr g
          \<and> thread_row_check (new_thread_row (c_child_thread_id c) ''child'' (c_child_created_at c) g)
          \<and> cat = thread_catalog d @ [new_thread_row (c_child_thread_id c) ''child'' (c_child_created_at c) g]"
      using g ct by blast
  qed (use check_frozen_record_Inr [OF chk(1)] check_preconditions_Inr [OF chk(2)] chk(3) key i(2) tabs(6) b(1) in simp_all)
  with key show "\<exists>c. thread_published lib d c d' \<and> c_key c = key" by blast
  have l4: "same_ledger d d4" "operation_leases d4 = operation_leases d" using i(1) tabs(3,4) by (auto simp: same_ledger_def)
  then show "same_ledger d d'" using frame by (simp add: collab_frame_def same_ledger_def)
  show "leases_added issued d d'"
    by (rule leases_added_trans [of d4]) (use frame l4 in \<open>simp_all add: collab_frame_def same_ledger_def\<close>)
qed

subsection \<open>Aborting\<close>

lemma cancel_member_frame:
  assumes "cancel_member lib clock new_lease delegation snapshot d = Inr d'" and "new_lease \<notin> issued"
  shows "collab_frame issued d d'"
proof -
  from assms(1) obtain t where "\<exists>x. freeze_member_cancellation lib (\<lambda>i. clock (i + 2)) new_lease x (d\<lparr>collaboration_members := t\<rparr>) = Inr d'"
    by (auto simp: cancel_member_def)
  then have "collab_frame issued (d\<lparr>collaboration_members := t\<rparr>) d'"
    using freeze_member_cancellation_frame [OF _ assms(2)] by blast
  then show ?thesis using fresh_lease_cong [of "d\<lparr>collaboration_members := t\<rparr>" d] by (simp add: frame_defs)
qed

lemma abort_outcome:
  assumes "abort_creation_body lib clock new_lease key reason d = Inr (r, d')" and "new_lease \<notin> issued"
  shows "d' = d \<or> (\<exists>c. record_aborted d c d' \<and> c_key c = key)" "same_ledger d d'" "leases_added issued d d'"
    "thread_catalog d' = thread_catalog d" "execution_intents d' = execution_intents d" "owner_bindings d' = owner_bindings d"
proof -
  from assms(1) obtain c where c: "fetch_creation_record key d = Some c"
    by (auto simp: abort_creation_body_def split: option.splits)
  have key: "c_key c = key" "c \<in> set (creation_records d)" using fetch_creation_mem [OF c] by auto
  have all: "d' = d \<or> ((\<exists>c. record_aborted d c d' \<and> c_key c = key) \<and> same_ledger d d' \<and> leases_added issued d d'
    \<and> thread_catalog d' = thread_catalog d \<and> execution_intents d' = execution_intents d \<and> owner_bindings d' = owner_bindings d)"
  proof (cases "c_state c = ''aborted''")
    case True
    with assms(1) show ?thesis by (auto simp: abort_creation_body_def c)
  next
    case False
    from assms(1) obtain broken c1 d1 mem where st: "c_state c \<noteq> ''published''"
      and upd: "creation_update key (\<lambda>x. x\<lparr>c_state := ''aborted'',
          c_abort_reason := Some (case broken of None \<Rightarrow> reason | Some msg \<Rightarrow> reason @ u ''; '' @ msg),
          c_record_updated_at := clock 0\<rparr>) d = Inr (c1, d1)"
      and can: "\<exists>d2. (case mem of None \<Rightarrow> Inr d1
          | Some (delegation, snapshot) \<Rightarrow> cancel_member lib (\<lambda>i. clock (i + 1)) new_lease delegation snapshot d1) = Inr d2
        \<and> (case fetch_creation_record key d2 of None \<Rightarrow> Inl (Runtime_Error ''record not visible'')
            | Some c' \<Rightarrow> Inr (if broken = None then Inr c' else Inl (Runtime_Error ''membership integrity''), d2)) = Inr (r, d')"
      unfolding abort_creation_body_def c option.case if_not_P [OF False] bind_res_eq_Inr require_eq_Inr split_paired_Ex prod.case
      by iprover
    have frame: "collab_frame issued d1 d'" using can cancel_member_frame [OF _ assms(2)] by (auto split: option.splits)
    note u = creation_update_Inr [OF upd]
    have "record_aborted d c d'" using frame u(1) key st False
      by (auto simp: record_aborted_def collab_frame_def same_threads_def)
    moreover have "leases_added issued d d'"
      by (rule leases_added_trans [of d1]) (use frame u(1) in \<open>simp_all add: collab_frame_def\<close>)
    ultimately show ?thesis using frame key u(1) by (auto simp: collab_frame_def same_threads_def same_ledger_def)
  qed
  then show "d' = d \<or> (\<exists>c. record_aborted d c d' \<and> c_key c = key)" "same_ledger d d'" "leases_added issued d d'"
    "thread_catalog d' = thread_catalog d" "execution_intents d' = execution_intents d" "owner_bindings d' = owner_bindings d"
    by (auto simp: frame_defs)
qed

subsection \<open>Claiming, binding and failing an intent\<close>

text \<open>These touch the intents only; binding also freezes a change of the member.\<close>

definition intents_only :: "control_db \<Rightarrow> control_db \<Rightarrow> bool" where
  "intents_only d d' \<longleftrightarrow> same_ledger d d' \<and> thread_catalog d' = thread_catalog d \<and> creation_records d' = creation_records d
     \<and> owner_bindings d' = owner_bindings d"

lemma claim_intent_outcome:
  assumes "claim_intent_body lib now key claim_owner g d = Inr (e, d')"
  shows "intents_only d d'" "operation_leases d' = operation_leases d"
  using assms by (auto simp: claim_intent_body_def intents_only_def same_ledger_def dest!: intent_update_Inr(1)
      split: option.splits if_splits)

lemma fail_intent_outcome:
  assumes "fail_intent_body now key claim_owner g msg d = Inr (e, d')"
  shows "intents_only d d'" "operation_leases d' = operation_leases d"
  using assms by (auto simp: fail_intent_body_def intents_only_def same_ledger_def dest!: intent_update_Inr(1)
      split: option.splits)

lemma bind_intent_outcome:
  assumes "bind_intent_body lib clock new_lease key binding_id job_id claim_owner g d = Inr (e', d')" and "new_lease \<notin> issued"
  obtains e where "fetch_execution_intent_row key d = Some e" "e_claim_owner e \<noteq> None" "intents_only d d'" "leases_added issued d d'"
    "d' = d \<or> execution_intents d' = map (\<lambda>x. if e_admission_key x = key \<and> e_state x = ''pending''
        then x\<lparr>e_state := ''bound'', e_last_error := None, e_updated_at := clock 0\<rparr> else x) (execution_intents d)"
proof -
  from assms(1) obtain e where e: "fetch_execution_intent_row key d = Some e"
    by (auto simp: bind_intent_body_def split: option.splits)
  from assms(1) have claim: "e_claim_owner e \<noteq> None" by (auto simp: bind_intent_body_def e)
  show thesis
  proof (cases "e_state e = ''bound''")
    case True
    with assms(1) have "d' = d" by (auto simp: bind_intent_body_def e)
    then show thesis using that [OF e claim] by (simp add: intents_only_def frame_defs)
  next
    case False
    from assms(1) obtain n t d2 and c :: creation_record where
        upd: "sql_update intent_check (\<lambda>x. e_admission_key x = key \<and> e_state x = ''pending'')
            (\<lambda>x. x\<lparr>e_state := ''bound'', e_last_error := None, e_updated_at := clock 0\<rparr>) (execution_intents d) = Inr (n, t)"
      and frz: "(case c_delegation_id c of None \<Rightarrow> Inr (d\<lparr>execution_intents := t\<rparr>)
          | Some delegation \<Rightarrow> freeze_member_change lib (\<lambda>i. clock (i + 1)) new_lease delegation ''member.ready'' True (d\<lparr>execution_intents := t\<rparr>)) = Inr d2"
      and fin: "(case fetch_execution_intent_row key d2 of None \<Rightarrow> Inl (Runtime_Error ''intent not visible'') | Some e' \<Rightarrow> Inr (e', d2)) = Inr (e', d')"
      unfolding bind_intent_body_def e option.case if_not_P [OF False] bind_res_eq_Inr require_eq_Inr split_paired_Ex prod.case Let_def
      by iprover
    have frame: "collab_frame issued (d\<lparr>execution_intents := t\<rparr>) d'"
      using frz fin freeze_member_change_frame [OF _ assms(2)] by (auto split: option.splits)
    have "leases_added issued d d'"
      by (rule leases_added_trans [of "d\<lparr>execution_intents := t\<rparr>"]) (use frame in \<open>simp_all add: collab_frame_def\<close>)
    with frame upd show thesis using that [OF e claim]
      by (simp add: intents_only_def collab_frame_def same_ledger_def same_threads_def sql_update_eq_Inr)
  qed
qed

subsection \<open>Owner's slots\<close>

lemma ensure_binding_outcome:
  assumes "ensure_owner_binding_body lib now tid locator d = Inr (b, d')"
  shows "d' = d \<or> ((\<forall>x\<in>set (owner_bindings d). b_thread_id x \<noteq> tid)
     \<and> d' = d\<lparr>owner_bindings := owner_bindings d @ [new_owner_binding_row tid locator now now]\<rparr>)"
  using assms
  by (auto simp: ensure_owner_binding_body_def insert_thread_owner_binding_row_def sql_insert_eq_Inr owner_binding_clash_def
      new_owner_binding_row_def split: option.splits)

lemma update_binding_outcome:
  assumes "update_owner_binding_body lib now tid q p d = Inr (b, d')"
  obtains row slots where "fetch_owner_binding tid d = Some row" "appended_slots lib row (requested_appends q) = Inr slots"
    "\<forall>x\<in>set (owner_bindings d). b_thread_id x = tid \<longrightarrow> owner_binding_check (updated_binding now q p slots x)"
    "d' = d\<lparr>owner_bindings := map (\<lambda>x. if b_thread_id x = tid then updated_binding now q p slots x else x) (owner_bindings d)\<rparr>"
    "\<exists>row'. fetch_owner_binding tid d' = Some row' \<and> owner_binding_from_row lib row' = Inr b"
  using assms that
  by (auto simp: update_owner_binding_body_def sql_update_eq_Inr split: option.splits)

subsection \<open>Settling a fan-out\<close>

lemma update_delivery_frame:
  "update_delivery f revision tid d = Inr (x, d') \<Longrightarrow> \<exists>t. d' = d\<lparr>collaboration_deliveries := t\<rparr>"
  by (auto simp: update_delivery_def)

lemma joined_lease_transaction:
  "joined (lease_transaction (Some True) body) d = Inr (l, d') \<longleftrightarrow> body d = Inr (l, d')"
  by (auto simp: joined_def lease_transaction_def split: sum.splits prod.splits)

lemma checked_passes: "checked (Inr x) k = k x"
  by (rule ext) (simp add: checked_def)

lemma lease_cas_moved:
  assumes "\<And>l. lease_id (f l) = lease_id l" "\<And>x. guard x \<Longrightarrow> lease_move x (f x)"
    and "distinct (map lease_id (operation_leases d))" and "lease_cas lid guard f failure d = Inr (l, d')"
  obtains t where "d' = d\<lparr>operation_leases := t\<rparr>" "rows_moved lease_move (operation_leases d) t" "distinct (map lease_id t)"
proof -
  from lease_cas_succeeds [OF assms(1,3,4)] obtain l0 where l0: "guard l0"
    and d': "d' = d\<lparr>operation_leases := map (\<lambda>x. if x = l0 then f l0 else x) (operation_leases d)\<rparr>" by blast
  let ?t = "map (\<lambda>x. if x = l0 then f x else x) (operation_leases d)"
  have t: "map (\<lambda>x. if x = l0 then f l0 else x) (operation_leases d) = ?t" by (intro map_cong) auto
  have "rows_moved lease_move (operation_leases d) ?t" by (intro rows_moved_update) (use assms(2) l0 in auto)
  moreover have "map lease_id ?t = map lease_id (operation_leases d)" by (simp add: assms(1))
  then have "distinct (map lease_id ?t)" using assms(3) by argo
  ultimately show thesis using that d' t by simp
qed

lemma finish_fanout_outcome:
  assumes "finish_fanout_body lib clock revision token cancelled d = Inr (x, d')"
    and uniq: "distinct (map lease_id (operation_leases d))"
  shows "same_ledger d d'" "same_threads d d'" "leases_changed issued d (operation_leases d')"
proof -
  define outcome where "outcome = (if cancelled then ''cancelled'' else ''completed'')"
  have out: "outcome \<in> set LEASE_TERMINAL_STATES" by (simp add: outcome_def LEASE_TERMINAL_STATES_def)
  from assms(1) obtain lease t l1 d2 l2 where
      s1: "(if lease_state lease = ''active'' then joined (mark_lease_settling (clock 0) (lease_id lease) token (Some True))
             (d\<lparr>collaboration_fanouts := t\<rparr>) else Inr (lease, d\<lparr>collaboration_fanouts := t\<rparr>)) = Inr (l1, d2)"
    and s2: "joined (settle_lease (clock 1) (lease_id l1) token outcome (Some True)) d2 = Inr (l2, d')"
    unfolding finish_fanout_body_def outcome_def [symmetric] Let_def by (auto split del: if_split)
  obtain t1 where t1: "d2 = d\<lparr>collaboration_fanouts := t, operation_leases := t1\<rparr>"
    "rows_moved lease_move (operation_leases d) t1" "distinct (map lease_id t1)"
  proof (cases "lease_state lease = ''active''")
    case True
    with s1 have "mark_lease_settling_body (clock 0) (lease_id lease) token (d\<lparr>collaboration_fanouts := t\<rparr>) = Inr (l1, d2)"
      by (simp add: mark_lease_settling_def joined_lease_transaction)
    from sql_int_then [OF this [unfolded mark_lease_settling_body_def]] show thesis
      by (rule lease_cas_moved [rotated 3]) (use uniq that in \<open>auto intro: lease_move.begin_settling\<close>)
  next
    case False
    with s1 have d2: "d2 = d\<lparr>collaboration_fanouts := t\<rparr>" by simp
    show thesis by (rule that [of "operation_leases d"]) (simp_all add: d2 uniq rows_moved_refl)
  qed
  have "settle_lease_body (clock 1) (lease_id l1) token outcome d2 = Inr (l2, d')"
    using s2 out by (simp add: settle_lease_def checked_passes joined_lease_transaction)
  from sql_int_then [OF this [unfolded settle_lease_body_def]]
  obtain t2 where t2: "d' = d2\<lparr>operation_leases := t2\<rparr>" "rows_moved lease_move t1 t2"
    by (rule lease_cas_moved [rotated 3]) (use t1 out in \<open>auto intro: lease_move.settled\<close>)
  show "same_ledger d d'" "same_threads d d'" by (simp_all add: t1 t2 same_ledger_def same_threads_def)
  show "leases_changed issued d (operation_leases d')" using t1(2) t2 by (auto simp: leases_changed_def)
qed

subsection \<open>Every operation on threads\<close>

lemma write_transaction_rel:
  assumes "R (db s) (db s)" and "\<And>x d. body (db s) = Inr (x, d) \<Longrightarrow> R (db s) d"
  shows "R (db s) (db (snd (write_transaction body s)))"
  using assms by (auto simp: write_transaction_def split: sum.splits)

lemma checked_rel:
  assumes "R (db s) (db s)" and "\<And>x. r = Inr x \<Longrightarrow> R (db s) (db (snd (k x s)))"
  shows "R (db s) (db (snd (checked r k s)))"
  using assms by (auto simp: checked_def split: sum.splits)

lemma abort_rel:
  assumes "R (db s) (db s)" and "\<And>r d. abort_creation_body lib clock new_lease key reason (db s) = Inr (r, d) \<Longrightarrow> R (db s) d"
  shows "R (db s) (db (snd (abort_thread_creation_record lib clock new_lease key reason s)))"
proof -
  have "R (db s) (db (snd (write_transaction (abort_creation_body lib clock new_lease key reason) s)))"
    using assms by (rule write_transaction_rel)
  moreover have "db (snd (case w of (Inl e, s') \<Rightarrow> (Inl e, s') | (Inr r, s') \<Rightarrow> (r, s'))) = db (snd w)"
    for w :: "(control_error + (control_error + creation_record)) \<times> control_store"
    by (simp split: prod.split sum.split)
  ultimately show ?thesis unfolding abort_thread_creation_record_def
    by - (rule checked_rel [where R = R, OF assms(1)], simp)
qed

end
