(* ===== verification/Thread_Slots.thy ===== *)
theory Thread_Slots
  imports Thread_Spec "HOL-Library.Multiset"
begin

section \<open>The owner's slots hold what was appended\<close>

text \<open>
  A list slot is a JSON text. These lemmas say that the text of checked entries is read back as those entries,
  that an update appends to the slots it names and leaves the others, and that it is a \<open>binding_move\<close>.
\<close>

subsection \<open>Entries\<close>

lemma validate_json_entry_iff:
  "validate_json_entry (JObj d) = Inr d' \<longleftrightarrow> d' = d \<and> (\<forall>kv\<in>set d. validate_entry_item kv = Inr ())"
proof
  assume "validate_json_entry (JObj d) = Inr d'"
  then show "d' = d \<and> (\<forall>kv\<in>set d. validate_entry_item kv = Inr ())"
    by (auto simp: validate_json_entry_def map_res_eq_Inr list_all2_conv_all_nth in_set_conv_nth) metis
next
  assume "d' = d \<and> (\<forall>kv\<in>set d. validate_entry_item kv = Inr ())"
  then have "map_res validate_entry_item d = Inr (map (\<lambda>_. ()) d)" and "d' = d"
    by (auto simp: map_res_eq_Inr list_all2_conv_all_nth)
  then show "validate_json_entry (JObj d) = Inr d'" by (simp add: validate_json_entry_def)
qed

lemma entry_value_flat:
  assumes "validate_entry_item (k, v) = Inr ()"
  shows "plain v" "sort_json v = v"
  using assms by (cases v; auto simp: validate_entry_item_def)+

lemma entry_plain:
  assumes "validate_json_entry (JObj d) = Inr d" "distinct (map fst d)"
  shows "plain (JObj d)" "sort_json (JObj d) = JObj (sort_key fst d)"
proof -
  have *: "plain v" "sort_json v = v" if "(k, v) \<in> set d" for k v
    using assms(1) that by (auto simp: validate_json_entry_iff dest!: bspec intro: entry_value_flat)
  then show "plain (JObj d)" using assms(2) by (auto simp: list_all_iff)
  have "map (\<lambda>(k, v). (k, sort_json v)) (sort_key fst d) = map id (sort_key fst d)"
    by (intro map_cong) (auto simp: *)
  then show "sort_json (JObj d) = JObj (sort_key fst d)" by simp
qed

lemma entry_sorted:
  assumes "validate_json_entry (JObj d) = Inr d" "distinct (map fst d)" "printable (JObj d)"
  shows "entry_ok (sort_key fst d)"
proof -
  have "mset (map fst (sort_key fst d)) = mset (map fst d)" by simp
  then have "distinct (map fst (sort_key fst d))" using assms(2) by (metis mset_eq_imp_distinct_iff)
  then show ?thesis using assms(1,3) by (simp add: entry_ok_def validate_json_entry_iff list_all_iff)
qed

lemma sort_key_sorted: "sorted (map f xs) \<Longrightarrow> sort_key f xs = xs"
  by (induction xs) (auto intro: insort_is_Cons)

lemma json_text_sort: "json_text fc (JObj (sort_key fst d)) = json_text fc (JObj d)"
  by (simp add: sort_key_sorted)

subsection \<open>List slots\<close>

lemma slot_holds_loads:
  assumes "slot_holds lib x es"
  shows "loads lib x = Some (JArr (map JObj es))"
proof -
  have e: "plain (JObj d)" "printable (JObj d)" "sort_json (JObj d) = JObj d" if "d \<in> set es" for d
    using assms that entry_plain [of d] by (auto simp: slot_holds_def entry_ok_def sort_key_sorted)
  have "plain (JArr (map JObj es))" "printable (JArr (map JObj es))" using e by (auto simp: list_all_iff)
  from json_round_trip [OF this] have "loads lib x = Some (sort_json (JArr (map JObj es)))"
    using assms by (simp add: slot_holds_def loads_def)
  moreover have "sort_json (JArr (map JObj es)) = JArr (map JObj es)" using e(3) by simp
  ultimately show ?thesis by simp
qed

lemma slot_holds_list:
  assumes "slot_holds lib x es"
  shows "canonical_json_list lib x = Inr es"
  using assms
  by (auto simp: canonical_json_list_def slot_holds_loads map_res_eq_Inr list_all2_map1 slot_holds_def entry_ok_def list_all2_same)

lemma empty_slot: "slot_holds lib (u ''[]'') []"
  by (simp add: slot_holds_def u_def)

lemma appended_slot:
  assumes "slot_holds lib x es" "appended_text lib x d = Inr y" "distinct (map fst d)" "validate_json_entry (JObj d) = Inr d"
  shows "slot_holds lib y (es @ [sort_key fst d])" "entry_ok (sort_key fst d)"
proof -
  from assms(1,2) have y: "y = json_text (lib_floats lib) (JArr (map JObj es @ [JObj d]))" and p: "printable (JObj d)"
    by (auto simp: appended_text_def slot_holds_loads dumps_def split: if_splits)
  show ok: "entry_ok (sort_key fst d)" using entry_sorted [OF assms(4,3) p] .
  have "map (json_text (lib_floats lib)) (map JObj es @ [JObj d]) = map (json_text (lib_floats lib)) (map JObj (es @ [sort_key fst d]))"
    by (simp add: json_text_sort [simplified])
  then have "y = json_text (lib_floats lib) (JArr (map JObj (es @ [sort_key fst d])))" by (simp only: y json_text.simps)
  then show "slot_holds lib y (es @ [sort_key fst d])" using ok assms(1) by (auto simp: slot_holds_def)
qed

subsection \<open>Writing the slots of a row\<close>

lemma slot_text_set [simp]: "slot_text sl (set_slot sl' x r) = (if sl = sl' then x else slot_text sl r)"
  by (cases sl; cases sl') simp_all

lemma set_slot_frame [simp]:
  "b_thread_id (set_slot sl x r) = b_thread_id r" "b_final_relative_locator (set_slot sl x r) = b_final_relative_locator r"
  "b_created_at (set_slot sl x r) = b_created_at r" "b_revision (set_slot sl x r) = b_revision r"
  "b_mutation_provenance (set_slot sl x r) = b_mutation_provenance r"
  by (cases sl; simp)+

definition put_slots :: "(slot \<times> ustr) list \<Rightarrow> owner_binding_row \<Rightarrow> owner_binding_row" where
  "put_slots slots = fold (\<lambda>(sl, x). set_slot sl x) slots"

lemma put_slots_frame [simp]:
  "b_thread_id (put_slots slots r) = b_thread_id r"
  "b_final_relative_locator (put_slots slots r) = b_final_relative_locator r"
  "b_created_at (put_slots slots r) = b_created_at r" "b_revision (put_slots slots r) = b_revision r"
  "b_mutation_provenance (put_slots slots r) = b_mutation_provenance r"
  unfolding put_slots_def by (induction slots arbitrary: r) auto

lemma slot_text_put:
  "distinct (map fst slots) \<Longrightarrow>
    slot_text sl (put_slots slots r) = (case map_of slots sl of None \<Rightarrow> slot_text sl r | Some x \<Rightarrow> x)"
  unfolding put_slots_def
proof (induction slots arbitrary: r)
  case (Cons p slots)
  then show ?case by (cases p; cases "map_of slots sl") (auto dest: map_of_SomeD intro: rev_image_eqI)
qed simp

lemma slot_text_frame [simp]:
  "slot_text sl (r\<lparr>b_prefix_epoch := a1, b_prefix_epoch_reason := a2, b_stable_prefix_hash := a3, b_stable_prefix_length := a4,
     b_resource_activation_snapshot_ref := a5, b_assembly_parent_ref := a6, b_mutation_provenance := a7, b_revision := a8,
     b_updated_at := a9\<rparr>) = slot_text sl r"
  by (cases sl) simp_all

lemma requested_slots: "map fst (requested_appends q) = filter (\<lambda>sl. ub_append q sl \<noteq> None) append_columns"
proof -
  have "map fst (List.map_filter (\<lambda>sl. map_option (Pair sl) (ub_append q sl)) cols) = filter (\<lambda>sl. ub_append q sl \<noteq> None) cols" for cols
    by (induction cols) (auto simp: List.map_filter_def)
  then show ?thesis by (simp add: requested_appends_def)
qed

lemma requested_distinct: "distinct (map fst (requested_appends q))"
  unfolding requested_slots by (simp add: append_columns_def)

lemma requested_iff: "(sl, d) \<in> set (requested_appends q) \<longleftrightarrow> ub_append q sl = Some d"
proof -
  have "sl \<in> set append_columns" by (cases sl) (simp_all add: append_columns_def)
  then show ?thesis unfolding requested_appends_def by (auto simp: List.map_filter_def image_iff)
qed

lemma appended_slots_iff:
  assumes "appended_slots lib row rs = Inr slots"
  shows "map fst slots = map fst rs"
    "map_of slots sl = Some x \<Longrightarrow> \<exists>d. map_of rs sl = Some d \<and> appended_text lib (slot_text sl row) d = Inr x"
    "map_of slots sl = None \<longleftrightarrow> map_of rs sl = None"
proof -
  from assms have all: "list_all2 (\<lambda>(s, d) (s', x). s' = s \<and> appended_text lib (slot_text s row) d = Inr x) rs slots"
    by (auto simp: appended_slots_def map_res_eq_Inr elim!: list_all2_mono)
  then show "map fst slots = map fst rs" by (induction) auto
  from all show "map_of slots sl = Some x \<Longrightarrow> \<exists>d. map_of rs sl = Some d \<and> appended_text lib (slot_text sl row) d = Inr x"
    by (induction) (auto split: if_splits)
  from all show "map_of slots sl = None \<longleftrightarrow> map_of rs sl = None" by (induction) auto
qed

subsection \<open>One update\<close>

lemma check_update_fields_Inr:
  assumes "check_update_fields lib q = Inr p"
  shows "provenance_text lib (ub_mutation_provenance q) = Inr p"
    "ub_append q sl = Some d \<Longrightarrow> validate_json_entry (JObj d) = Inr d"
proof -
  from assms show "provenance_text lib (ub_mutation_provenance q) = Inr p"
    unfolding check_update_fields_def by (auto split del: if_split)
  from assms obtain ys where "map_res (\<lambda>(sl, d). validate_json_entry (JObj d)) (requested_appends q) = Inr ys"
    unfolding check_update_fields_def check_appends_def by (auto split del: if_split)
  then have "\<exists>y. validate_json_entry (JObj d) = Inr y" if "(sl, d) \<in> set (requested_appends q)"
    using that by (auto simp: map_res_eq_Inr list_all2_conv_all_nth in_set_conv_nth)
  then show "ub_append q sl = Some d \<Longrightarrow> validate_json_entry (JObj d) = Inr d"
    by (auto simp: requested_iff validate_json_entry_iff)
qed

lemma provenance_written:
  assumes "provenance_text lib p = Inr y" "\<forall>d. p = Some d \<longrightarrow> distinct (map fst d)"
  shows "provenance_ok lib y"
proof (cases p)
  case (Some d)
  with assms have v: "validate_json_entry (JObj d) = Inr d" and y: "y = Some (json_text (lib_floats lib) (JObj d))"
    and pr: "printable (JObj d)" and dis: "distinct (map fst d)"
    by (auto simp: provenance_text_def dumps_def validate_json_entry_iff split: if_splits)
  have ok: "entry_ok (sort_key fst d)" by (rule entry_sorted [OF v dis pr])
  then have "plain (JObj (sort_key fst d))" by (intro entry_plain) (simp_all add: entry_ok_def)
  with ok show ?thesis unfolding provenance_ok_def y option.case
    by (intro exI [of _ "sort_key fst d"]) (simp only: json_text_sort entry_ok_def)
qed (use assms in \<open>simp add: provenance_text_def provenance_ok_def\<close>)

lemma override_provenance: "provenance_ok lib p \<Longrightarrow> provenance_ok lib p0 \<Longrightarrow> provenance_ok lib (override_opt p p0)"
  by (cases p) (simp_all add: override_opt_def)

lemma updated_binding_move:
  assumes ok: "binding_ok lib row" and args: "dict_update_args q" and chk: "check_update_fields lib q = Inr p"
    and slots: "appended_slots lib row (requested_appends q) = Inr slots"
    and row: "owner_binding_check (updated_binding now q p slots row)"
  shows "binding_move lib row (updated_binding now q p slots row)"
proof -
  let ?new = "updated_binding now q p slots row"
  have dis: "distinct (map fst slots)" using appended_slots_iff(1) [OF slots] requested_distinct by metis
  have texts: "slot_text sl ?new = (case map_of slots sl of None \<Rightarrow> slot_text sl row | Some x \<Rightarrow> x)" for sl
    by (simp add: updated_binding_def put_slots_def [symmetric] slot_text_put [OF dis] split: option.split)
  have slot: "slot_grown lib (slot_text sl row) (slot_text sl ?new) \<and> (\<exists>es. slot_holds lib (slot_text sl ?new) es)" for sl
  proof -
    from ok obtain es where es: "slot_holds lib (slot_text sl row) es" by (auto simp: binding_ok_def)
    show ?thesis
    proof (cases "map_of slots sl")
      case (Some x)
      from appended_slots_iff(2) [OF slots this] obtain d where d: "map_of (requested_appends q) sl = Some d"
        and x: "appended_text lib (slot_text sl row) d = Inr x" by blast
      from d have q: "ub_append q sl = Some d" by (simp add: map_of_SomeD requested_iff [symmetric])
      with args have "distinct (map fst d)" by (simp add: dict_update_args_def)
      from appended_slot [OF es x this check_update_fields_Inr(2) [OF chk q]] es Some show ?thesis
        by (auto simp: texts slot_grown_def)
    qed (use es in \<open>auto simp: texts slot_grown_def\<close>)
  qed
  have "provenance_ok lib p"
    using provenance_written [OF check_update_fields_Inr(1) [OF chk]] args by (simp add: dict_update_args_def)
  moreover have "b_mutation_provenance ?new = override_opt p (b_mutation_provenance row)"
    by (simp add: updated_binding_def put_slots_def [symmetric])
  ultimately have "provenance_ok lib (b_mutation_provenance ?new)" using ok by (simp add: override_provenance binding_ok_def)
  with slot row have "binding_ok lib ?new" by (simp add: binding_ok_def)
  then show ?thesis using slot
    by (simp add: binding_move_def) (simp add: updated_binding_def put_slots_def [symmetric])
qed

end
