(* ===== verification/Thread_Effect.thy ===== *)
theory Thread_Effect
  imports Thread_Frame Thread_Slots
begin

section \<open>The operations on threads do what the specification allows\<close>

text \<open>
  \<open>thread_effect\<close> is what one call may change: the fence and the messages never, the catalog by one child, the
  leases by the moves of the fan-outs, and the tables of threads by one \<open>thread_change\<close>.
\<close>

definition thread_effect :: "py_library \<Rightarrow> ustr set \<Rightarrow> control_db \<Rightarrow> control_db \<Rightarrow> bool" where
  "thread_effect lib issued d d' \<longleftrightarrow> same_ledger d d' \<and> catalog_grown (thread_catalog d) (thread_catalog d')
     \<and> leases_changed issued d (operation_leases d') \<and> (thread_inv lib d \<longrightarrow> thread_change lib d d')"

lemma thread_effect_refl: "thread_effect lib issued d d"
  by (auto simp: thread_effect_def same_ledger_def catalog_grown_def leases_changed_def rows_moved_refl
      intro: thread_change.threads_same exI [of _ "operation_leases d"])

lemma effect_added:
  assumes "same_ledger d d'" "thread_catalog d' = thread_catalog d" "leases_added issued d d'"
    and "thread_inv lib d \<Longrightarrow> thread_change lib d d'"
  shows "thread_effect lib issued d d'"
  using assms leases_added_changed by (simp add: thread_effect_def catalog_grown_def)

lemma effect_frame: "collab_frame issued d d' \<Longrightarrow> thread_effect lib issued d d'"
  by (rule effect_added) (auto simp: collab_frame_def same_threads_def children_def intro: thread_change.threads_same)

lemma same_leases_added: "operation_leases d' = operation_leases d \<Longrightarrow> leases_added issued d d'"
  by (simp add: leases_added_def)

lemma thread_inv_unique:
  assumes "thread_inv lib d"
  shows "c \<in> set (creation_records d) \<Longrightarrow> x \<in> set (creation_records d) \<Longrightarrow> c_key x = c_key c \<Longrightarrow> x = c"
    "e \<in> set (execution_intents d) \<Longrightarrow> y \<in> set (execution_intents d) \<Longrightarrow> e_admission_key y = e_admission_key e \<Longrightarrow> y = e"
    "b \<in> set (owner_bindings d) \<Longrightarrow> z \<in> set (owner_bindings d) \<Longrightarrow> b_thread_id z = b_thread_id b \<Longrightarrow> z = b"
  using assms by (auto simp: thread_inv_defs distinct_map inj_on_def)

lemma fetch_intent_mem: "fetch_execution_intent_row key d = Some e \<Longrightarrow> e \<in> set (execution_intents d) \<and> e_admission_key e = key"
  unfolding fetch_execution_intent_row_def using select_one_Some by fastforce

lemma fetch_binding_mem: "fetch_owner_binding tid d = Some b \<Longrightarrow> b \<in> set (owner_bindings d) \<and> b_thread_id b = tid"
  unfolding fetch_owner_binding_def using select_one_Some by fastforce

subsection \<open>Creation records\<close>

lemma create_effect:
  assumes "create_creation_body lib clock new_thread new_lease q d = Inr (c, d')" "new_lease \<notin> issued"
    and "validate_creation_request lib q = Inr ()"
  shows "thread_effect lib issued d d'"
proof (cases "fetch_creation_record (q_key q) d")
  case None
  with assms(1) have "insert_thread_creation_record lib clock new_thread new_lease q d = Inr (c, d')"
    by (simp add: create_creation_body_def)
  note out = insert_creation_outcome [OF this assms(2)]
  from out(1) obtain k where "creation_admitted lib (clock 0) q d k c" ..
  with out assms(3) show ?thesis by (intro effect_added thread_change.record_created)
next
  case (Some c0)
  with assms(1) have "d' = d" by (auto simp: create_creation_body_def)
  then show ?thesis by (simp add: thread_effect_refl)
qed

lemma record_frozen_effect:
  assumes "creation_update key f d = Inr (c', d')" "fetch_creation_record key d = Some c" "creation_freeze c (f c)"
  shows "thread_effect lib issued d d'"
proof (rule effect_added)
  note u = creation_update_Inr(1) [OF assms(1)]
  show "same_ledger d d'" "thread_catalog d' = thread_catalog d" "leases_added issued d d'"
    by (simp_all add: u same_ledger_def same_leases_added)
  assume inv: "thread_inv lib d"
  have d': "creation_records d' = map (\<lambda>x. if c_key x = key then f x else x) (creation_records d)" by (simp add: u)
  have "rows_moved creation_freeze (creation_records d) (creation_records d')" unfolding d'
    by (rule rows_moved_update) (metis assms(2,3) fetch_creation_mem thread_inv_unique(1) [OF inv])
  then show "thread_change lib d d'" by (rule thread_change.record_frozen) (simp_all add: u)
qed

lemma fork_completion_effect:
  assumes "fork_completion_body lib key fid mid snap ts tt d = Inr (x, d')"
  shows "thread_effect lib issued d d'"
proof -
  from assms obtain c p c' where "fetch_creation_record key d = Some c" "c_purpose c = ''fork''" "c_state c \<noteq> ''aborted''"
    "c_fork_completion_json c = None \<or> c_fork_completion_json c = Some p"
    "creation_update key (\<lambda>x. x\<lparr>c_fork_completion_json := Some p\<rparr>) d = Inr (c', d')"
    by (auto simp: fork_completion_body_def Let_def split: option.splits)
  note c = this
  from c(5,1) show ?thesis by (rule record_frozen_effect) (rule creation_freeze.completion_frozen [OF c(2,3,4)])
qed

lemma manifest_effect:
  assumes "freeze_manifest_body now key manifest h d = Inr (x, d')"
  shows "thread_effect lib issued d d'"
proof -
  from assms obtain c where c: "fetch_creation_record key d = Some c" "c_state c = ''preparing''"
    by (auto simp: freeze_manifest_body_def split: option.splits)
  show ?thesis
  proof (cases "c_artifact_manifest_hash c")
    case None
    with assms c have "creation_update key (\<lambda>x. x\<lparr>c_artifact_manifest := Some manifest, c_artifact_manifest_hash := Some h,
        c_record_updated_at := now\<rparr>) d = Inr (x, d')" by (simp add: freeze_manifest_body_def)
    from this c(1) show ?thesis by (rule record_frozen_effect) (use c(2) None in \<open>rule creation_freeze.manifest_frozen\<close>)
  next
    case (Some h0)
    with assms c have "d' = d" by (auto simp: freeze_manifest_body_def split: if_splits)
    then show ?thesis by (simp add: thread_effect_refl)
  qed
qed

lemma publish_effect:
  assumes "publish_creation_body lib clock new_lease key sid d = Inr (c', d')" "new_lease \<notin> issued"
  shows "thread_effect lib issued d d'"
proof -
  note out = publish_outcome [OF assms]
  from out(1) obtain c where c: "thread_published lib d c d'" by blast
  then obtain g where "\<not> in_catalog (c_child_thread_id c) d"
    "thread_row_check (new_thread_row (c_child_thread_id c) ''child'' (c_child_created_at c) g)"
    "thread_catalog d' = thread_catalog d @ [new_thread_row (c_child_thread_id c) ''child'' (c_child_created_at c) g]"
    by (auto simp: thread_published_def)
  then have "catalog_grown (thread_catalog d) (thread_catalog d')"
    by (auto simp: catalog_grown_def in_catalog_def list_ex_iff thread_row_clash_def new_thread_row_def)
  with out(2,3) c show ?thesis
    by (auto simp: thread_effect_def leases_added_changed intro: thread_change.record_published)
qed

lemma abort_effect:
  assumes "abort_creation_body lib clock new_lease key reason d = Inr (r, d')" "new_lease \<notin> issued"
  shows "thread_effect lib issued d d'"
proof -
  note out = abort_outcome [OF assms]
  from out(1) show ?thesis
  proof
    assume "\<exists>c. record_aborted d c d' \<and> c_key c = key"
    then obtain c where "record_aborted d c d'" by blast
    with out show ?thesis by (intro effect_added thread_change.record_stopped)
  qed (simp add: thread_effect_refl)
qed

subsection \<open>Execution intents\<close>

lemma create_intent_effect:
  assumes "create_intent_transaction lib now key sid tid initial ck d = Inr (e, d')"
  shows "thread_effect lib issued d d'"
proof -
  from create_intent_outcome [OF assms] obtain c where c: "fetch_creation_record ck d = Some c" "c_state c = ''published''"
      "c_child_thread_id c = tid" "c_initial_state c = initial"
    and d': "d' = d \<or> (e = new_intent_row lib now key sid tid initial ck \<and> intent_check e
       \<and> (\<forall>x\<in>set (execution_intents d). \<not> intent_clash e x) \<and> d' = d\<lparr>execution_intents := execution_intents d @ [e]\<rparr>)"
    by metis
  from d' show ?thesis
  proof
    assume new: "e = new_intent_row lib now key sid tid initial ck \<and> intent_check e
       \<and> (\<forall>x\<in>set (execution_intents d). \<not> intent_clash e x) \<and> d' = d\<lparr>execution_intents := execution_intents d @ [e]\<rparr>"
    have "e_admission_key e = key" using new by (simp add: new_intent_row_def split: prod.split)
    then have "intent_admitted lib d e" unfolding intent_admitted_def using new c fetch_creation_mem [OF c(1)] by metis
    with new show ?thesis
      by (intro effect_added thread_change.intent_added) (simp_all add: same_ledger_def same_leases_added)
  qed (simp add: thread_effect_refl)
qed

lemma intents_effect:
  assumes "intents_only d d'" "leases_added issued d d'"
    and "execution_intents d' = map (\<lambda>x. if e_admission_key x = key \<and> guard x then f x else x) (execution_intents d)"
    and "fetch_execution_intent_row key d = Some e" "thread_inv lib d \<Longrightarrow> guard e \<Longrightarrow> intent_move e (f e)"
  shows "thread_effect lib issued d d'"
proof (rule effect_added)
  show "same_ledger d d'" "thread_catalog d' = thread_catalog d" using assms(1) by (simp_all add: intents_only_def)
  assume inv: "thread_inv lib d"
  have "rows_moved intent_move (execution_intents d) (execution_intents d')" unfolding assms(3)
    by (rule rows_moved_update) (metis assms(4,5) inv fetch_intent_mem thread_inv_unique(2) [OF inv])
  then show "thread_change lib d d'" using assms(1) by (intro thread_change.intents_moved) (simp_all add: intents_only_def)
qed (fact assms(2))

lemma intent_update_effect:
  assumes "intent_update key guard f d = Inr (e', d')" "fetch_execution_intent_row key d = Some e"
    and "thread_inv lib d \<Longrightarrow> guard e \<Longrightarrow> intent_check (f e) \<Longrightarrow> intent_move e (f e)"
  shows "thread_effect lib issued d d'"
proof -
  note u = intent_update_Inr [OF assms(1)]
  have "guard e \<Longrightarrow> intent_check (f e)" using u(2) fetch_intent_mem [OF assms(2)] by blast
  with assms(3) have "thread_inv lib d \<Longrightarrow> guard e \<Longrightarrow> intent_move e (f e)" by blast
  with assms(2) show ?thesis
    by (intro intents_effect [where guard = guard and f = f]) (simp_all add: u(1) intents_only_def same_ledger_def same_leases_added)
qed

lemma claim_effect:
  assumes "claim_intent_body lib now key claim_owner g d = Inr (e', d')"
  shows "thread_effect lib issued d d'"
proof -
  from assms obtain e where e: "fetch_execution_intent_row key d = Some e" "e_state e = ''pending''"
    by (auto simp: claim_intent_body_def split: option.splits)
  consider (same) "d' = d"
    | (renew) held where "held < g" "e_claim_generation e = Some held"
        "intent_update key (\<lambda>x. e_claim_owner x = Some claim_owner \<and> e_claim_generation x = Some held)
          (\<lambda>x. x\<lparr>e_claim_generation := Some g, e_updated_at := now\<rparr>) d = Inr (e', d')"
    | (first) "e_claim_owner e = None \<or> e_claim_generation e = None"
        "intent_update key (\<lambda>_. True)
          (\<lambda>x. x\<lparr>e_claim_owner := Some claim_owner, e_claim_generation := Some g, e_updated_at := now\<rparr>) d = Inr (e', d')"
    using assms e by (auto simp: claim_intent_body_def split: option.splits if_splits)
  then show ?thesis
  proof cases
    case renew
    from renew(3) e(1) show ?thesis
      by (rule intent_update_effect) (use e renew in \<open>blast intro: intent_move.intent_reclaimed\<close>)
  next
    case first
    from first(2) e(1) show ?thesis
    proof (rule intent_update_effect)
      assume inv: "thread_inv lib d"
        and chk: "intent_check (e\<lparr>e_claim_owner := Some claim_owner, e_claim_generation := Some g, e_updated_at := now\<rparr>)"
      have "intent_check e" using inv fetch_intent_mem [OF e(1)] by (auto simp: thread_inv_defs intent_ok_def)
      then have "e_claim_owner e = None" using first(1) by (auto simp: intent_check_def)
      then show "intent_move e (e\<lparr>e_claim_owner := Some claim_owner, e_claim_generation := Some g, e_updated_at := now\<rparr>)"
        using chk e(2) by (intro intent_move.intent_claimed) (auto simp: intent_check_def)
    qed
  qed (simp add: thread_effect_refl)
qed

lemma fail_effect:
  assumes "fail_intent_body now key claim_owner g msg d = Inr (e', d')"
  shows "thread_effect lib issued d d'"
proof -
  from assms obtain e where e: "fetch_execution_intent_row key d = Some e"
    and u: "intent_update key (\<lambda>x. e_state x = ''pending'' \<and> e_claim_owner x = Some claim_owner \<and> e_claim_generation x = Some g)
        (\<lambda>x. x\<lparr>e_last_error := Some msg, e_updated_at := now\<rparr>) d = Inr (e', d')"
    by (auto simp: fail_intent_body_def split: option.splits)
  from u e show ?thesis by (rule intent_update_effect) (auto intro: intent_move.intent_failed)
qed

lemma bind_effect:
  assumes "bind_intent_body lib clock new_lease key binding_id job_id claim_owner g d = Inr (e', d')" "new_lease \<notin> issued"
  shows "thread_effect lib issued d d'"
proof -
  obtain e where e: "fetch_execution_intent_row key d = Some e" "e_claim_owner e \<noteq> None"
      "intents_only d d'" "leases_added issued d d'"
    and d': "d' = d \<or> execution_intents d' = map (\<lambda>x. if e_admission_key x = key \<and> e_state x = ''pending''
        then x\<lparr>e_state := ''bound'', e_last_error := None, e_updated_at := clock 0\<rparr> else x) (execution_intents d)" by (rule bind_intent_outcome [OF assms])
  from d' show ?thesis
  proof
    assume "execution_intents d' = map (\<lambda>x. if e_admission_key x = key \<and> e_state x = ''pending''
        then x\<lparr>e_state := ''bound'', e_last_error := None, e_updated_at := clock 0\<rparr> else x) (execution_intents d)"
    from intents_effect [OF e(3,4) this e(1)] e(2) show ?thesis by (blast intro: intent_move.intent_bound)
  qed (simp add: thread_effect_refl)
qed

subsection \<open>Owner's slots and fan-outs\<close>

lemma ensure_binding_effect:
  assumes "ensure_owner_binding_body lib now tid locator d = Inr (b, d')"
  shows "thread_effect lib issued d d'"
  using ensure_binding_outcome [OF assms]
proof
  assume new: "(\<forall>x\<in>set (owner_bindings d). b_thread_id x \<noteq> tid)
     \<and> d' = d\<lparr>owner_bindings := owner_bindings d @ [new_owner_binding_row tid locator now now]\<rparr>"
  then show ?thesis
    by (intro effect_added thread_change.binding_added) (auto simp: same_ledger_def same_leases_added)
qed (simp add: thread_effect_refl)

lemma update_binding_effect:
  assumes "update_owner_binding_body lib now tid q p d = Inr (b, d')" "dict_update_args q" "check_update_fields lib q = Inr p"
  shows "thread_effect lib issued d d'"
proof -
  obtain row slots where row: "fetch_owner_binding tid d = Some row"
    and slots: "appended_slots lib row (requested_appends q) = Inr slots"
    and chk: "\<forall>x\<in>set (owner_bindings d). b_thread_id x = tid \<longrightarrow> owner_binding_check (updated_binding now q p slots x)"
    and d': "d' = d\<lparr>owner_bindings := map (\<lambda>x. if b_thread_id x = tid then updated_binding now q p slots x else x) (owner_bindings d)\<rparr>"
    by (rule update_binding_outcome [OF assms(1)])
  note mem = fetch_binding_mem [OF row]
  show ?thesis
  proof (rule effect_added)
    show "same_ledger d d'" "thread_catalog d' = thread_catalog d" "leases_added issued d d'"
      by (simp_all add: d' same_ledger_def same_leases_added)
    assume inv: "thread_inv lib d"
    then have "binding_ok lib row" using mem by (simp add: thread_inv_defs)
    from updated_binding_move [OF this assms(2,3) slots] chk mem
    have mv: "binding_move lib row (updated_binding now q p slots row)" by blast
    have "owner_bindings d' = map (\<lambda>x. if b_thread_id x = tid then updated_binding now q p slots x else x) (owner_bindings d)"
      by (simp add: d')
    then have "rows_moved (binding_move lib) (owner_bindings d) (owner_bindings d')" 
      by (simp only:, intro rows_moved_update) (metis mem mv thread_inv_unique(3) [OF inv])
    then show "thread_change lib d d'" by (rule thread_change.bindings_moved) (simp_all add: d')
  qed
qed

lemma delivery_effect:
  assumes "update_delivery f revision tid d = Inr (x, d')"
  shows "thread_effect lib issued d d'"
  using update_delivery_frame [OF assms] by (auto simp: frame_defs intro!: effect_frame)

lemma finish_delivery_effect:
  "finish_delivery_body lib revision tid token outcome err d = Inr (x, d') \<Longrightarrow> thread_effect lib issued d d'"
  by (auto simp: finish_delivery_body_def thread_effect_refl intro: delivery_effect split: option.splits if_splits)

lemma wakeup_receipt_effect:
  assumes "wakeup_receipt_body lib revision token receipt d = Inr (x, d')"
  shows "thread_effect lib issued d d'"
proof (rule effect_frame)
  from assms have "\<exists>t. d' = d\<lparr>collaboration_fanouts := t\<rparr> \<or> d' = d"
    by (auto simp: wakeup_receipt_body_def Let_def split: option.splits json.splits if_splits)
  then show "collab_frame issued d d'" by (auto simp: frame_defs)
qed

lemma finish_fanout_effect:
  assumes "finish_fanout_body lib clock revision token cancelled d = Inr (x, d')" "distinct (map lease_id (operation_leases d))"
  shows "thread_effect lib issued d d'"
  using finish_fanout_outcome [OF assms]
  by (auto simp: thread_effect_def same_threads_def catalog_grown_def children_def intro: thread_change.threads_same)

subsection \<open>Every step\<close>

lemmas effect_transaction = write_transaction_rel [where R = "thread_effect lib issued" for lib issued, OF thread_effect_refl]
lemmas effect_checked = checked_rel [where R = "thread_effect lib issued" for lib issued, OF thread_effect_refl]
lemmas effect_abort = abort_rel [where R = "thread_effect lib issued" for lib issued, OF thread_effect_refl]

theorem thread_step_effect:
  assumes "thread_step lib issued s s'" "distinct (map lease_id (operation_leases (db s)))"
  shows "thread_effect lib issued (db s) (db s')"
  using assms
proof (induction rule: thread_step.cases)
  case (t_create new_lease s clock new_thread q)
  then show ?case unfolding create_or_get_thread_creation_record_def
    by (auto intro!: effect_checked effect_transaction intro: create_effect)
next
  case (t_fork_completion s key fork_id materialization_id snapshot target_session target_thread)
  then show ?case unfolding freeze_thread_fork_completion_def
    by (auto intro!: effect_transaction intro: fork_completion_effect)
next
  case (t_manifest s now key manifest h)
  then show ?case unfolding freeze_thread_creation_artifact_manifest_def
    by (auto intro!: effect_checked effect_transaction intro: manifest_effect)
next
  case (t_publish new_lease s clock key session_id)
  then show ?case unfolding publish_thread_creation_record_def
    by (auto intro!: effect_checked effect_transaction intro: publish_effect)
next
  case (t_abort new_lease s clock key reason)
  then show ?case by (auto intro!: effect_abort intro: abort_effect)
next
  case (t_create_intent s now key session_id thread_id initial_state creation_key)
  then show ?case unfolding create_or_get_initial_execution_intent_def
    by (auto intro!: effect_transaction intro: create_intent_effect)
next
  case (t_claim_intent s now key claim_owner generation)
  then show ?case unfolding claim_initial_execution_intent_def
    by (auto intro!: effect_checked effect_transaction intro: claim_effect)
next
  case (t_bind_intent new_lease s clock key binding_id job_id claim_owner generation)
  then show ?case unfolding mark_initial_execution_bound_def
    by (auto intro!: effect_checked effect_transaction intro: bind_effect)
next
  case (t_fail_intent s now key claim_owner generation last_error)
  then show ?case unfolding record_initial_execution_failure_def
    by (auto intro!: effect_checked effect_transaction intro: fail_effect)
next
  case (t_ensure_binding s now thread_id locator)
  then show ?case unfolding ensure_thread_owner_binding_def
    by (auto intro!: effect_checked effect_transaction intro: ensure_binding_effect)
next
  case (t_update_binding uq s now thread_id)
  then show ?case unfolding update_thread_owner_binding_def
    by (auto intro!: effect_checked effect_transaction intro: update_binding_effect)
next
  case (t_finish_delivery s revision tid token outcome err)
  then show ?case unfolding finish_collaboration_delivery_def
    by (auto intro!: effect_checked effect_transaction intro: finish_delivery_effect)
next
  case (t_delivery_failure s revision tid token err_text)
  then show ?case unfolding record_collaboration_delivery_failure_def
    by (auto intro!: effect_transaction intro: delivery_effect)
next
  case (t_wakeup_receipt s revision token receipt_json)
  then show ?case unfolding record_collaboration_wakeup_receipt_def
    by (auto intro!: effect_transaction intro: wakeup_receipt_effect)
next
  case (t_finish_fanout s clock revision token cancelled)
  then show ?case unfolding finish_collaboration_fanout_def
    by (auto intro!: effect_transaction intro: finish_fanout_effect)
qed

corollary thread_step_frame:
  assumes "thread_step lib issued s s'" "distinct (map lease_id (operation_leases (db s)))"
  shows "db_change lib issued (db s) (db s')"
  using thread_step_effect [OF assms] by (auto simp: thread_effect_def same_ledger_def intro: db_change.thread_work)

end
