(* ===== verification/Session_Control_Refinement.thy ===== *)
theory Session_Control_Refinement
  imports Thread_Effect
begin

section \<open>The store operations implement the specification\<close>

text \<open>
  For every operation of the session control store: if its body succeeds on a well-formed database, the
  change is one of \<open>db_change\<close>. The specification keeps \<open>db_inv\<close>, hence so does the store
  (interpretation of \<open>step_invariant\<close>).
\<close>

subsection \<open>Transactions\<close>

text \<open>A method changes the database only through the result of its body.\<close>

lemma write_transaction_change:
  assumes "\<And>x d. body (db s) = Inr (x, d) \<Longrightarrow> db_change lib issued (db s) d"
  shows "db_change lib issued (db s) (db (snd (write_transaction body s)))"
  using assms by (auto simp: write_transaction_def intro: db_change.unchanged split: sum.splits)

lemma raw_transaction_change:
  assumes "\<And>x d. body (db s) = Inr (x, d) \<Longrightarrow> db_change lib issued (db s) d"
  shows "db_change lib issued (db s) (db (snd (raw_transaction body s)))"
  using assms by (auto simp: raw_transaction_def intro: db_change.unchanged split: sum.splits)

lemma lease_transaction_change:
  assumes "\<And>x d. body (db s) = Inr (x, d) \<Longrightarrow> db_change lib issued (db s) d"
  shows "db_change lib issued (db s) (db (snd (lease_transaction tx body s)))"
proof (cases tx)
  case None
  then show ?thesis by (simp add: lease_transaction_def write_transaction_change assms)
next
  case (Some own)
  then show ?thesis
    using assms by (auto simp: lease_transaction_def intro: db_change.unchanged split: sum.splits)
qed

lemma checked_change:
  assumes "\<And>x. r = Inr x \<Longrightarrow> db_change lib issued (db s) (db (snd (k x s)))"
  shows "db_change lib issued (db s) (db (snd (checked r k s)))"
  using assms by (auto simp: checked_def intro: db_change.unchanged split: sum.splits)

subsection \<open>Fence and catalog\<close>

lemma fence_body_refines:
  assumes "initialize_fence_body st g d = Inr (x, d')" and "st \<in> set FENCE_STATES"
  shows "db_change lib issued d d'"
  using assms by (auto simp: initialize_fence_body_def fetch_fence_row_def
      intro: db_change.intros split: option.splits if_splits)

lemma cas_fence_body_refines:
  assumes "cas_fence_body g st d = Inr (x, d')"
  shows "db_change lib issued d d'"
proof -
  from assms obtain f where "fence d = Some f"
    "(if f_state f = ''active'' \<and> st = ''deleting'' \<and> f_generation f = g
     then Inr (True, d\<lparr>fence := Some \<lparr>f_state = st, f_generation = f_generation f + 1\<rparr>\<rparr>)
     else Inr (False, d)) = (Inr (x, d') :: control_error + _)"
    by (auto simp: cas_fence_body_def read_fence_row_def fetch_fence_row_def split: option.splits if_splits)
  then show ?thesis by (cases f) (auto intro: db_change.intros split: if_splits)
qed

lemma main_thread_body_refines:
  assumes "initialize_main_thread_body tid created g d = Inr (x, d')"
  shows "db_change lib issued d d'"
proof (cases "main_rows d")
  case Nil
  with assms show ?thesis
    by (auto simp: initialize_main_thread_body_def sql_insert_eq_Inr new_thread_row_def
        intro!: db_change.main_added)
next
  case (Cons m ms)
  with assms have "d' = d" by (auto simp: initialize_main_thread_body_def split: if_splits)
  then show ?thesis by (simp add: db_change.unchanged)
qed

subsection \<open>Leases\<close>

lemma create_lease_body_refines:
  assumes res: "create_or_get_lease_body now new_id kind identity preimage expected ref d = Inr (l, d')"
    and "kind \<in> set LEASE_KINDS" and "new_id \<notin> issued"
  shows "db_change lib issued d d'"
proof -
  from res obtain f where f: "fence d = Some f" "f_state f = ''active''"
    and rest: "(case select_one (same_operation (f_generation f) identity) (operation_leases d) of
       Some l \<Rightarrow> if preimage_hash l \<noteq> preimage then Inl (Runtime_Error ''preimage conflict'') else Inr (l, d)
     | None \<Rightarrow> let l = \<lparr>lease_id = new_id, operation_kind = kind, operation_identity = identity,
                  preimage_hash = preimage, captured_generation = f_generation f, holder_generation = 1,
                  fencing_token = 1, lease_state = ''active'', lease_revision = 1, recovery_ref = ref,
                  lease_created_at = now, lease_updated_at = now\<rparr>
         in bind_res (sql_insert lease_check lease_clash l (operation_leases d)) (\<lambda>t.
            Inr (l, d\<lparr>operation_leases := t\<rparr>))) = Inr (l, d')"
    by (auto simp: create_or_get_lease_body_def read_fence_row_def fetch_fence_row_def split: option.splits)
  show ?thesis
  proof (cases "select_one (same_operation (f_generation f) identity) (operation_leases d)")
    case None
    with rest have "fresh_lease d l" "lease_id l = new_id" "d' = d\<lparr>operation_leases := operation_leases d @ [l]\<rparr>"
      by (auto simp: Let_def sql_insert_eq_Inr fresh_lease_def f)
    with assms(3) show ?thesis by (simp add: db_change.lease_admitted)
  next
    case (Some x)
    with rest have "d' = d" by (auto split: if_splits)
    then show ?thesis by (simp add: db_change.unchanged)
  qed
qed

text \<open>Every compare-and-swap whose update is a transition of the specification.\<close>

lemma lease_cas_refines:
  assumes keep: "\<And>l. lease_id (f l) = lease_id l" and inv: "db_inv sha d"
    and res: "lease_cas lid guard f failure d = Inr (l, d')"
    and move: "\<And>x. guard x \<Longrightarrow> lease_move x (f x)"
  shows "db_change lib issued d d'"
proof -
  from inv have uniq: "distinct (map lease_id (operation_leases d))" by (simp add: db_inv_def)
  from lease_cas_succeeds [OF keep uniq res] obtain l0 where "guard l0"
    and d': "d' = d\<lparr>operation_leases := map (\<lambda>x. if x = l0 then f l0 else x) (operation_leases d)\<rparr>" by blast
  with move have "rows_moved lease_move (operation_leases d) (map (\<lambda>x. if x = l0 then f x else x) (operation_leases d))"
    by (intro rows_moved_update) auto
  moreover have "map (\<lambda>x. if x = l0 then f x else x) (operation_leases d)
    = map (\<lambda>x. if x = l0 then f l0 else x) (operation_leases d)" by auto
  ultimately show ?thesis unfolding d' by (auto intro: db_change.leases_moved)
qed

lemma settling_body_refines:
  "db_inv sha d \<Longrightarrow> mark_lease_settling_body now lid token d = Inr (l, d') \<Longrightarrow> db_change lib issued d d'"
  unfolding mark_lease_settling_body_def
  by (drule sql_int_then, erule lease_cas_refines [rotated], assumption) (auto intro: begin_settling)

lemma settle_body_refines:
  "db_inv sha d \<Longrightarrow> outcome \<in> set LEASE_TERMINAL_STATES \<Longrightarrow>
   settle_lease_body now lid token outcome d = Inr (l, d') \<Longrightarrow> db_change lib issued d d'"
  unfolding settle_lease_body_def
  by (drule sql_int_then, erule lease_cas_refines [rotated], assumption) (auto intro: settled)

lemma takeover_body_refines:
  "db_inv sha d \<Longrightarrow> takeover_lease_body now lid token d = Inr (l, d') \<Longrightarrow> db_change lib issued d d'"
  unfolding takeover_lease_body_def
  by (drule sql_int_then, erule lease_cas_refines [rotated], assumption) (auto intro: taken_over)

lemma sql_delete_fold:
  "foldl (\<lambda>t k. sql_delete (\<lambda>l. key l = k) t) t ks = filter (\<lambda>l. key l \<notin> set ks) t"
  by (induction ks arbitrary: t) (auto simp: sql_delete_def intro: filter_cong)

lemma delete_leases_refines:
  assumes "delete_terminal_leases in_tx identities kind d = Inr d'"
  shows "db_change lib issued d d'"
proof -
  from assms have del: "list_all (deletable kind d) identities"
    and d': "d' = d\<lparr>operation_leases := filter (\<lambda>l. operation_identity l \<notin> set identities) (operation_leases d)\<rparr>"
    by (auto simp: delete_terminal_leases_def sql_delete_fold)
  from del have "\<forall>l\<in>set (operation_leases d). operation_identity l \<in> set identities \<longrightarrow>
      lease_state l \<in> set LEASE_TERMINAL_STATES"
    by (auto simp: list_all_iff deletable_def Let_def list_ex_iff)
  then show ?thesis unfolding d' by (intro db_change.leases_deleted) auto
qed

subsection \<open>The outbox\<close>

lemma outbox_reply_proof_answers:
  assumes "outbox_reply_proof q d = Inr x" and "(q_kind q = ''reply'') = (q_reply_to q \<noteq> None)"
  shows "answers_inbox d (new_outbox_row now q)"
proof (cases "q_kind q = ''reply''")
  case True
  with assms obtain cid where cid: "q_reply_to q = Some cid" by auto
  with assms True obtain i where "fetch_inbox_row d cid = Some i" "outbox_reply_direction i q"
    by (auto simp: outbox_reply_proof_def split: option.splits)
  then have "i \<in> set (communication_inbox d)" "i_communication_id i = cid" "mirrored i (new_outbox_row now q)"
    using select_one_Some [of "\<lambda>r. i_communication_id r = cid"]
    by (auto simp: fetch_inbox_row_def mirrored_def outbox_reply_direction_def new_outbox_row_def)
  with cid show ?thesis by (auto simp: answers_inbox_def new_outbox_row_def)
qed (simp add: answers_inbox_def new_outbox_row_def)

lemma create_outbox_cases:
  assumes "create_or_get_outbox_body now q d = Inr ((r, created), d')"
  obtains "created = False" "d' = d" "r \<in> set (communication_outbox d)" "outbox_preimage_mismatches r q = []"
    "o_communication_id r = q_communication_id q"
  | "created = True" "r = new_outbox_row now q" "fresh_outbox d r"
    "d' = d\<lparr>communication_outbox := communication_outbox d @ [r]\<rparr>"
proof (cases "fetch_outbox_row_by_operation d (q_send_operation_id q)")
  case (Some x)
  with assms that(1) show thesis
    using select_one_Some [of "\<lambda>r. o_send_operation_id r = q_send_operation_id q"]
    by (auto simp: create_or_get_outbox_body_def fetch_outbox_row_by_operation_def split: if_splits)
next
  case no_op: None
  show thesis
  proof (cases "fetch_outbox_row_by_communication d (q_communication_id q)")
    case (Some x)
    with assms no_op that(1) show thesis
      using select_one_Some [of "\<lambda>r. o_communication_id r = q_communication_id q"]
      by (auto simp: create_or_get_outbox_body_def fetch_outbox_row_by_communication_def split: if_splits)
  next
    case None
    let ?r = "new_outbox_row now q"
    from assms no_op None obtain v t where proof_ok: "outbox_reply_proof q d = Inr v"
      and ins: "sql_insert outbox_check outbox_clash ?r (communication_outbox d) = Inr t"
      and rest: "(case fetch_outbox_row_by_operation (d\<lparr>communication_outbox := t\<rparr>) (q_send_operation_id q) of
          None \<Rightarrow> Inl (Runtime_Error ''inserted row not visible'')
        | Some r \<Rightarrow> Inr ((r, True), d\<lparr>communication_outbox := t\<rparr>)) = Inr ((r, created), d')"
      by (auto simp: create_or_get_outbox_body_def)
    from ins have t: "t = communication_outbox d @ [?r]" and chk: "outbox_check ?r"
      and nc: "\<forall>x\<in>set (communication_outbox d). \<not> outbox_clash ?r x"
      by (auto simp: sql_insert_eq_Inr)
    have "fetch_outbox_row_by_operation (d\<lparr>communication_outbox := t\<rparr>) (q_send_operation_id q) = Some ?r"
      using no_op select_one_snoc [of "\<lambda>r. o_send_operation_id r = q_send_operation_id q" _ ?r]
      by (simp add: t fetch_outbox_row_by_operation_def new_outbox_row_def)
    with rest have "r = ?r" "created = True" "d' = d\<lparr>communication_outbox := communication_outbox d @ [r]\<rparr>"
      by (auto simp: t)
    moreover have "fresh_outbox d ?r"
      using chk nc outbox_reply_proof_answers [OF proof_ok, of now]
      by (simp add: fresh_outbox_def) (simp add: outbox_check_def new_outbox_row_def)
    ultimately show thesis using that(2) by blast
  qed
qed

lemma create_outbox_body_refines:
  assumes "create_or_get_outbox_body now q d = Inr (x, d')"
  shows "db_change lib issued d d'"
proof (cases x)
  case (Pair r created)
  with assms have "create_or_get_outbox_body now q d = Inr ((r, created), d')" by simp
  then show ?thesis
    by (cases rule: create_outbox_cases) (auto intro: db_change.intros)
qed

text \<open>An advance either repeats the state of the row or makes one transition.\<close>

lemma advance_outbox_cases:
  assumes inv: "db_inv sha d" and res: "advance_outbox_body now op new_state receipt reason d = Inr (r, d')"
  obtains "d' = d" "o_state r = new_state" "r \<in> set (communication_outbox d)"
  | r0 allowed where "r0 \<in> set (communication_outbox d)" "o_send_operation_id r0 = op"
    "map_of OUTBOX_TRANSITIONS (o_state r0) = Some allowed" "new_state \<in> set allowed"
    "r = advanced_row now new_state receipt reason r0"
    "d' = d\<lparr>communication_outbox := map (\<lambda>x. if x = r0 then r else x) (communication_outbox d)\<rparr>"
proof -
  from inv have uniq: "distinct (map o_send_operation_id (communication_outbox d))" by (simp add: db_inv_def)
  from res obtain r0 where r0: "fetch_outbox_row_by_operation d op = Some r0"
    by (cases "fetch_outbox_row_by_operation d op") (auto simp: advance_outbox_body_def)
  then have mem: "r0 \<in> set (communication_outbox d)" "o_send_operation_id r0 = op"
    using select_one_Some by (fastforce simp: fetch_outbox_row_by_operation_def)+
  show thesis
  proof (cases "o_state r0 = new_state")
    case True
    with res r0 have "r = r0" "d' = d" by (auto simp: advance_outbox_body_def split: if_splits)
    with True mem show thesis using that(1) by simp
  next
    case False
    let ?a = "advanced_row now new_state receipt reason r0"
    let ?sel = "\<lambda>x. o_send_operation_id x = op \<and> o_state x = o_state r0"
    let ?f = "\<lambda>x. x\<lparr>o_state := new_state, o_latest_receipt := o_latest_receipt ?a,
        o_abort_reason := o_abort_reason ?a, o_updated_at := now\<rparr>"
    from False res r0 obtain n t where
        allowed: "new_state \<in> set (case map_of OUTBOX_TRANSITIONS (o_state r0) of None \<Rightarrow> [] | Some xs \<Rightarrow> xs)"
      and upd: "sql_update outbox_check ?sel ?f (communication_outbox d) = Inr (n, t)"
      and rest: "(if n \<noteq> 1 then Inl (Runtime_Error ''outbox CAS'')
        else (case fetch_outbox_row_by_operation (d\<lparr>communication_outbox := t\<rparr>) op of
                None \<Rightarrow> Inl (Runtime_Error ''advanced row not visible'')
              | Some r' \<Rightarrow> Inr (r', d\<lparr>communication_outbox := t\<rparr>))) = Inr (r, d')"
      by (auto simp: advance_outbox_body_def)
    from allowed obtain xs where xs: "map_of OUTBOX_TRANSITIONS (o_state r0) = Some xs" "new_state \<in> set xs"
      by (cases "map_of OUTBOX_TRANSITIONS (o_state r0)") auto
    have sel: "?sel x \<longleftrightarrow> x = r0" if "x \<in> set (communication_outbox d)" for x
      using that mem uniq by (auto simp: distinct_map inj_on_def)
    have fa: "?f r0 = ?a" by (simp add: advanced_row_def)
    have t: "t = map (\<lambda>x. if x = r0 then ?a else x) (communication_outbox d)"
      using upd sel fa by (auto simp: sql_update_eq_Inr intro!: map_cong)
    have "fetch_outbox_row_by_operation (d\<lparr>communication_outbox := t\<rparr>) op = Some ?a"
      using r0 by (simp add: t fetch_outbox_row_by_operation_def
          select_one_update [where key = o_send_operation_id and sel = "\<lambda>x. x = r0" and f = "\<lambda>_. ?a"] advanced_row_def)
    with rest have "r = ?a" "d' = d\<lparr>communication_outbox := t\<rparr>" by (auto split: if_splits)
    with that(2) [OF mem xs] t show thesis by simp
  qed
qed

lemma advance_outbox_body_refines:
  assumes inv: "db_inv sha d" and res: "advance_outbox_body now op new_state receipt reason d = Inr (r, d')"
    and receipt: "success_state new_state \<longrightarrow> receipt \<noteq> None" and reason: "failure_state new_state \<longrightarrow> reason \<noteq> None"
  shows "db_change lib issued d d'"
  using inv res
proof (cases rule: advance_outbox_cases)
  case (2 r0 allowed)
  have "rows_moved outbox_move (communication_outbox d)
      (map (\<lambda>x. if x = r0 then advanced_row now new_state receipt reason x else x) (communication_outbox d))"
    using 2 receipt reason by (intro rows_moved_update) (auto intro: outbox_move.advanced)
  moreover have "map (\<lambda>x. if x = r0 then advanced_row now new_state receipt reason x else x) (communication_outbox d)
    = map (\<lambda>x. if x = r0 then r else x) (communication_outbox d)" using 2 by auto
  ultimately show ?thesis using 2 by (auto intro: db_change.outbox_moved)
qed (auto intro: db_change.unchanged)

lemma drain_outbox_body_refines:
  assumes "drain_outbox_body now d = Inr (x, d')"
  shows "db_change lib issued d d'"
proof -
  from assms have d': "d' = d\<lparr>communication_outbox :=
      map (\<lambda>r. if o_state r \<notin> {''terminal'', ''failed'', ''cancelled''}
        then r\<lparr>o_state := ''cancelled'', o_abort_reason := Some (u ''source-deleted''), o_updated_at := now\<rparr>
        else r) (communication_outbox d)\<rparr>"
    unfolding drain_outbox_body_def by (auto simp: sql_update_eq_Inr)
  show ?thesis unfolding d'
    by (intro db_change.outbox_moved rows_moved_update)
      (auto simp: OUTBOX_TERMINAL_STATES_def intro: outbox_move.source_deleted)
qed

subsection \<open>The inbox\<close>

lemma inbox_reply_proof_answers:
  assumes "inbox_reply_proof p d = Inr x" and "(p_kind p = ''reply'') = (p_reply_to p \<noteq> None)"
  shows "answers_outbox d (new_inbox_row sha now p)"
proof (cases "p_kind p = ''reply''")
  case True
  with assms obtain cid where cid: "p_reply_to p = Some cid" by auto
  with assms True obtain r where "fetch_outbox_row_by_communication d cid = Some r" "inbox_reply_direction r p"
    by (auto simp: inbox_reply_proof_def split: option.splits)
  then have "r \<in> set (communication_outbox d)" "o_communication_id r = cid" "mirrored (new_inbox_row sha now p) r"
    using select_one_Some [of "\<lambda>r. o_communication_id r = cid"]
    by (auto simp: fetch_outbox_row_by_communication_def mirrored_def inbox_reply_direction_def new_inbox_row_def
        Let_def)
  with cid show ?thesis by (auto simp: answers_outbox_def new_inbox_row_def Let_def)
qed (simp add: answers_outbox_def new_inbox_row_def Let_def)

lemma create_inbox_cases:
  assumes "create_or_get_inbox_body sha now p d = Inr ((r, created), d')"
  obtains "created = False" "d' = d" "r \<in> set (communication_inbox d)"
    "i_communication_id r = p_communication_id p"
  | "created = True" "r = new_inbox_row sha now p" "fresh_inbox sha d r"
    "d' = d\<lparr>communication_inbox := communication_inbox d @ [r]\<rparr>"
proof -
  let ?ident = "derive_communication_admission_identity sha (p_communication_id p) (p_payload_hash p)"
  let ?r = "new_inbox_row sha now p"
  from assms obtain v where one: "length (main_rows d) = 1"
    and tgt: "t_thread_id (hd (main_rows d)) = p_target_thread_id p" and proof_ok: "inbox_reply_proof p d = Inr v"
    and rest: "(case fetch_inbox_row d (p_communication_id p) of
       Some r \<Rightarrow>
         if inbox_preimage_mismatches r p (fst ?ident) (snd ?ident) \<noteq> []
         then Inl (Runtime_Error ''inbox identity drift'') else Inr ((r, False), d)
     | None \<Rightarrow>
         bind_res (sql_insert inbox_check inbox_clash ?r (communication_inbox d)) (\<lambda>t.
         case fetch_inbox_row (d\<lparr>communication_inbox := t\<rparr>) (p_communication_id p) of
           None \<Rightarrow> Inl (Runtime_Error ''inserted row not visible'')
         | Some r \<Rightarrow> Inr ((r, True), d\<lparr>communication_inbox := t\<rparr>))) = Inr ((r, created), d')"
    unfolding create_or_get_inbox_body_def bind_res_eq_Inr require_eq_Inr Let_def by blast
  from one obtain m where m: "main_rows d = [m]" by (cases "main_rows d") auto
  show thesis
  proof (cases "fetch_inbox_row d (p_communication_id p)")
    case (Some x)
    with rest that(1) show thesis
      using select_one_Some [of "\<lambda>r. i_communication_id r = p_communication_id p"]
      by (auto simp: fetch_inbox_row_def split: if_splits)
  next
    case None
    with rest obtain t where ins: "sql_insert inbox_check inbox_clash ?r (communication_inbox d) = Inr t"
      and rest2: "(case fetch_inbox_row (d\<lparr>communication_inbox := t\<rparr>) (p_communication_id p) of
           None \<Rightarrow> Inl (Runtime_Error ''inserted row not visible'')
         | Some r \<Rightarrow> Inr ((r, True), d\<lparr>communication_inbox := t\<rparr>)) = Inr ((r, created), d')" by auto
    from ins have t: "t = communication_inbox d @ [?r]" and chk: "inbox_check ?r"
      and nc: "\<forall>x\<in>set (communication_inbox d). \<not> inbox_clash ?r x"
      by (auto simp: sql_insert_eq_Inr)
    have "fetch_inbox_row (d\<lparr>communication_inbox := t\<rparr>) (p_communication_id p) = Some ?r"
      using None select_one_snoc [of "\<lambda>r. i_communication_id r = p_communication_id p" _ ?r]
      by (simp add: t fetch_inbox_row_def new_inbox_row_def Let_def)
    with rest2 have r: "r = ?r" "created = True" "d' = d\<lparr>communication_inbox := communication_inbox d @ [r]\<rparr>"
      by (auto simp: t)
    have "(p_kind p = ''reply'') = (p_reply_to p \<noteq> None)"
      using chk by (simp add: inbox_check_def new_inbox_row_def Let_def)
    from inbox_reply_proof_answers [OF proof_ok this, of sha now] have "fresh_inbox sha d ?r"
      using chk nc m tgt by (simp add: fresh_inbox_def) (simp add: new_inbox_row_def Let_def)
    with r that(2) show thesis by blast
  qed
qed

lemma create_inbox_body_refines:
  assumes "create_or_get_inbox_body (lib_sha256 lib) now p d = Inr (x, d')"
  shows "db_change lib issued d d'"
proof (cases x)
  case (Pair r created)
  with assms have "create_or_get_inbox_body (lib_sha256 lib) now p d = Inr ((r, created), d')" by simp
  then show ?thesis
    by (cases rule: create_inbox_cases) (auto intro: db_change.intros)
qed

lemma inbox_update_Inr:
  assumes "inbox_update cid guard f failure d = Inr (r, d')"
  shows "d' = d\<lparr>communication_inbox :=
      map (\<lambda>x. if i_communication_id x = cid \<and> guard x then f x else x) (communication_inbox d)\<rparr>"
    and "fetch_inbox_row d' cid = Some r"
proof -
  from assms obtain n t where
      upd: "sql_update inbox_check (\<lambda>r. i_communication_id r = cid \<and> guard r) f (communication_inbox d) = Inr (n, t)"
    and rest: "(if n \<noteq> 1 then Inl (Runtime_Error failure)
        else (case fetch_inbox_row (d\<lparr>communication_inbox := t\<rparr>) cid of
                None \<Rightarrow> Inl (Runtime_Error ''row not visible'')
              | Some r \<Rightarrow> Inr (r, d\<lparr>communication_inbox := t\<rparr>))) = Inr (r, d')"
    by (auto simp: inbox_update_def)
  from rest have "d' = d\<lparr>communication_inbox := t\<rparr> \<and> fetch_inbox_row (d\<lparr>communication_inbox := t\<rparr>) cid = Some r"
    by (auto split: if_splits option.splits)
  with upd show "d' = d\<lparr>communication_inbox :=
      map (\<lambda>x. if i_communication_id x = cid \<and> guard x then f x else x) (communication_inbox d)\<rparr>"
    and "fetch_inbox_row d' cid = Some r"
    by (auto simp: sql_update_eq_Inr)
qed

text \<open>An update of the row that was fetched before refines a transition of that row.\<close>

lemma inbox_update_refines:
  assumes inv: "db_inv sha d" and row: "fetch_inbox_row d cid = Some row"
    and res: "inbox_update cid guard f failure d = Inr (r, d')" and move: "guard row \<Longrightarrow> inbox_move row (f row)"
  shows "db_change lib issued d d'"
proof -
  from inv have uniq: "distinct (map i_communication_id (communication_inbox d))" by (simp add: db_inv_def)
  from row have mem: "row \<in> set (communication_inbox d)" "i_communication_id row = cid"
    using select_one_Some by (fastforce simp: fetch_inbox_row_def)+
  have "x = row" if "x \<in> set (communication_inbox d)" "i_communication_id x = cid" for x
    using that mem uniq by (auto simp: distinct_map inj_on_def)
  then show ?thesis unfolding inbox_update_Inr(1) [OF res]
    using move by (intro db_change.inbox_moved rows_moved_update) auto
qed

lemma claim_inbox_body_refines:
  assumes inv: "db_inv sha d" and res: "claim_inbox_body now cid claim_owner generation d = Inr (r, d')"
    and gen: "1 \<le> generation"
  shows "db_change lib issued d d'"
proof -
  from res obtain row where row: "fetch_inbox_row d cid = Some row" and st: "i_state row = ''target_accepted''"
    by (auto simp: claim_inbox_body_def split: option.splits if_splits)
  then have "row \<in> set (communication_inbox d)"
    using select_one_Some by (fastforce simp: fetch_inbox_row_def)
  with inv have ok: "inbox_check row" by (simp add: db_inv_def inbox_ok_def)
  show ?thesis
  proof (cases "i_claim_owner row")
    case None
    with res row st have "inbox_update cid (\<lambda>_. True)
        (\<lambda>r. r\<lparr>i_claim_owner := Some claim_owner, i_claim_generation := Some generation, i_updated_at := now\<rparr>)
        ''claim'' d = Inr (r, d')"
      by (simp add: claim_inbox_body_def)
    then show ?thesis
      by (rule inbox_update_refines [OF inv row]) (auto intro: inbox_move.claimed simp: st None gen)
  next
    case (Some owner)
    with ok obtain held where held: "i_claim_generation row = Some held" by (auto simp: inbox_check_def)
    show ?thesis
    proof (cases "owner = claim_owner \<and> held < generation")
      case True
      with res row st Some held have "inbox_update cid
          (\<lambda>r. i_claim_owner r = Some claim_owner \<and> i_claim_generation r = Some held)
          (\<lambda>r. r\<lparr>i_claim_generation := Some generation, i_updated_at := now\<rparr>) ''claim CAS'' d = Inr (r, d')"
        by (simp add: claim_inbox_body_def)
      then show ?thesis
        by (rule inbox_update_refines [OF inv row]) (use True in \<open>auto intro: inbox_move.reclaimed simp: st held\<close>)
    next
      case False
      with res row st Some held have "d' = d" by (auto simp: claim_inbox_body_def split: if_splits)
      then show ?thesis by (simp add: db_change.unchanged)
    qed
  qed
qed

lemma bind_inbox_body_refines:
  assumes inv: "db_inv sha d"
    and res: "mark_inbox_bound_body now cid job_id execution_id turn_id claim_owner generation d = Inr (r, d')"
  shows "db_change lib issued d d'"
proof -
  from res obtain row where row: "fetch_inbox_row d cid = Some row" and own: "i_claim_owner row = Some claim_owner"
    by (auto simp: mark_inbox_bound_body_def split: option.splits if_splits)
  show ?thesis
  proof (cases "i_state row = ''target_accepted''")
    case True
    with res row own have "inbox_update cid (\<lambda>r. i_state r = ''target_accepted'')
        (\<lambda>r. r\<lparr>i_state := ''execution_bound'', i_job_id := Some job_id, i_execution_id := Some execution_id,
          i_turn_id := turn_id, i_last_error := None, i_updated_at := now\<rparr>) ''mark bound CAS'' d = Inr (r, d')"
      by (auto simp: mark_inbox_bound_body_def split: if_splits)
    then show ?thesis
      by (rule inbox_update_refines [OF inv row]) (auto intro: inbox_move.execution_bound simp: own)
  next
    case False
    with res row own have "d' = d" by (auto simp: mark_inbox_bound_body_def split: if_splits)
    then show ?thesis by (simp add: db_change.unchanged)
  qed
qed

lemma fail_inbox_body_refines:
  assumes inv: "db_inv sha d"
    and res: "record_inbox_failure_body now cid claim_owner generation last_error d = Inr (r, d')"
  shows "db_change lib issued d d'"
proof -
  from res obtain row where row: "fetch_inbox_row d cid = Some row" and st: "i_state row = ''target_accepted''"
    and own: "i_claim_owner row = Some claim_owner" and upd: "inbox_update cid
      (\<lambda>r. i_state r = ''target_accepted'' \<and> i_claim_owner r = Some claim_owner \<and> i_claim_generation r = Some generation)
      (\<lambda>r. r\<lparr>i_last_error := Some last_error, i_updated_at := now\<rparr>) ''record failure CAS'' d = Inr (r, d')"
    by (auto simp: record_inbox_failure_body_def split: option.splits if_splits)
  then show ?thesis
    by (intro inbox_update_refines [OF inv row upd]) (auto intro: inbox_move.admission_failed)
qed

lemma drain_inbox_body_refines:
  assumes "drain_inbox_body now cid d = Inr (x, d')"
  shows "db_change lib issued d d'"
proof -
  let ?sel = "\<lambda>r. i_state r \<notin> {''terminal'', ''failed'', ''cancelled''}
     \<and> (case cid of None \<Rightarrow> True | Some c \<Rightarrow> i_communication_id r = c)"
  from assms have d': "d' = d\<lparr>communication_inbox :=
      map (\<lambda>r. if ?sel r
        then r\<lparr>i_state := (if i_job_id r = None then ''cancelled'' else ''terminal''),
               i_last_error := Some (u ''target-deleted''), i_terminal_outcome := Some (u ''target-deleted''),
               i_updated_at := now\<rparr>
        else r) (communication_inbox d)\<rparr>"
    unfolding drain_inbox_body_def by (auto simp: sql_update_eq_Inr)
  show ?thesis unfolding d'
    by (intro db_change.inbox_moved rows_moved_update, rule inbox_move.target_deleted, erule conjunct1)
qed

subsection \<open>Every operation\<close>

lemma validated_advance:
  assumes "(bind_res (validate_communication_text op ''send_operation_id'') (\<lambda>_.
        bind_res (require (new_state \<in> set (map fst OUTBOX_TRANSITIONS) \<or> new_state \<in> set OUTBOX_TERMINAL_STATES)
                    (Value_Error ''outbox state'')) (\<lambda>_.
        bind_res (require (\<not> (success_state new_state \<and> receipt = None)) (Value_Error ''receipt missing'')) (\<lambda>_.
        bind_res (require (\<not> (failure_state new_state \<and> reason = None)) (Value_Error ''abort_reason missing'')) (\<lambda>_.
        require (\<not> (failure_state new_state \<and> receipt \<noteq> None)) (Value_Error ''receipt not allowed'')))))) = Inr x"
  shows "success_state new_state \<longrightarrow> receipt \<noteq> None" and "failure_state new_state \<longrightarrow> reason \<noteq> None"
  using assms by auto

lemma control_step_implements_spec:
  assumes "control_step lib issued s s'" and inv: "db_inv (lib_sha256 lib) (db s)"
  shows "db_change lib issued (db s) (db s')"
  using assms(1)
proof cases
  case environment
  then show ?thesis by (simp add: db_change.unchanged)
next
  case (s_initialize_fence st g)
  then show ?thesis unfolding initialize_fence_def
    by (auto intro!: checked_change raw_transaction_change intro: fence_body_refines)
next
  case (s_cas_fence g st)
  then show ?thesis unfolding cas_fence_transition_def
    by (auto intro!: checked_change raw_transaction_change intro: db_change.unchanged cas_fence_body_refines)
next
  case (s_main_thread tid created binding)
  then show ?thesis unfolding initialize_main_thread_def
    by (auto intro!: checked_change raw_transaction_change intro: main_thread_body_refines)
next
  case (s_create_lease new_id now kind identity preimage expected ref tx)
  then show ?thesis unfolding create_or_get_lease_def
    by (auto intro!: checked_change lease_transaction_change intro: create_lease_body_refines)
next
  case (s_settling now lid token tx)
  then show ?thesis unfolding mark_lease_settling_def
    by (auto intro!: lease_transaction_change intro: settling_body_refines inv)
next
  case (s_settle now lid token outcome tx)
  then show ?thesis unfolding settle_lease_def
    by (auto intro!: checked_change lease_transaction_change intro: settle_body_refines inv)
next
  case (s_takeover now lid token)
  then show ?thesis unfolding takeover_lease_def
    by (auto intro!: write_transaction_change intro: takeover_body_refines inv)
next
  case (s_delete_leases identities kind d)
  then show ?thesis by (auto intro: delete_leases_refines)
next
  case (s_create_outbox now q)
  then show ?thesis unfolding create_or_get_communication_outbox_def
    by (auto intro!: checked_change write_transaction_change intro: create_outbox_body_refines)
next
  case (s_advance_outbox now op st receipt reason)
  then show ?thesis unfolding advance_communication_outbox_state_def
    by (simp only:) (rule checked_change, rule write_transaction_change,
      erule advance_outbox_body_refines [OF inv], (erule validated_advance)+)
next
  case (s_drain_outbox now)
  then show ?thesis unfolding drain_communication_outboxes_def
    by (auto intro!: write_transaction_change intro: drain_outbox_body_refines)
next
  case (s_create_inbox now p)
  then show ?thesis unfolding create_or_get_communication_inbox_def
    by (auto intro!: checked_change write_transaction_change intro: create_inbox_body_refines)
next
  case (s_claim_inbox now cid claim_owner generation)
  then show ?thesis unfolding claim_communication_inbox_admission_def
    by (auto intro!: checked_change write_transaction_change intro: claim_inbox_body_refines inv
        simp: validate_claim_fields_def)
next
  case (s_bind_inbox now cid job_id execution_id turn_id claim_owner generation)
  then show ?thesis unfolding mark_communication_inbox_execution_bound_def
    by (auto intro!: checked_change write_transaction_change intro: bind_inbox_body_refines inv)
next
  case (s_fail_inbox now cid claim_owner generation last_error)
  then show ?thesis unfolding record_communication_inbox_admission_failure_def
    by (auto intro!: checked_change write_transaction_change intro: fail_inbox_body_refines inv)
next
  case (s_drain_inbox now cid_opt)
  then show ?thesis unfolding drain_communication_inboxes_def
    by (auto intro!: write_transaction_change intro: drain_inbox_body_refines)
next
  case s_thread
  moreover have "distinct (map lease_id (operation_leases (db s)))" using inv by (simp add: db_inv_def)
  ultimately show ?thesis by (rule thread_step_frame)
qed

subsection \<open>The specification keeps the invariant\<close>

lemmas move_defs = lease_move_simps outbox_move_simps inbox_move_simps

lemma lease_move_keys:
  assumes "lease_move l l'"
  shows "lease_id l' = lease_id l" "operation_key l' = operation_key l" "captured_generation l' = captured_generation l"
    "preimage_hash l' = preimage_hash l" "operation_kind l' = operation_kind l"
  using assms by (cases rule: lease_move.cases; simp add: operation_key_def)+

lemma lease_move_ok: "lease_move l l' \<Longrightarrow> lease_ok d l \<Longrightarrow> lease_ok d l'"
  by (cases rule: lease_move.cases, assumption)
    (auto simp: lease_ok_def lease_check_def LEASE_STATES_def LEASE_TERMINAL_STATES_def)

lemma outbox_move_keys:
  assumes "outbox_move r r'"
  shows "o_send_operation_id r' = o_send_operation_id r" "o_communication_id r' = o_communication_id r"
    "o_kind r' = o_kind r" "o_reply_to r' = o_reply_to r" "mirrored i r' = mirrored i r"
    "outbox_preimage_mismatches r' q = outbox_preimage_mismatches r q" "o_request_id r' = o_request_id r"
    "o_created_at r' = o_created_at r"
  using assms by (cases rule: outbox_move.cases;
      simp add: advanced_row_def mirrored_def outbox_preimage_mismatches_def)+

lemma transition_states:
  assumes "map_of OUTBOX_TRANSITIONS st = Some allowed" and "st' \<in> set allowed"
  shows "st' \<in> set (map fst OUTBOX_TRANSITIONS @ OUTBOX_TERMINAL_STATES)"
    and "st' \<in> {''routing''} \<or> success_state st' \<or> failure_state st'"
  using assms by (auto simp: OUTBOX_TRANSITIONS_def OUTBOX_TERMINAL_STATES_def success_state_def
      failure_state_def split: if_splits)

lemma state_classes:
  "success_state st \<Longrightarrow> \<not> failure_state st \<and> st \<noteq> ''accepted'' \<and> st \<noteq> ''routing''"
  "failure_state st \<Longrightarrow> \<not> success_state st \<and> st \<noteq> ''accepted'' \<and> st \<noteq> ''routing''"
  "\<not> success_state ''routing''" "\<not> failure_state ''routing''"
  by (auto simp: success_state_def failure_state_def)

lemma advanced_row_ok:
  assumes ok: "outbox_ok r" and allowed: "map_of OUTBOX_TRANSITIONS (o_state r) = Some allowed" "st \<in> set allowed"
    and "success_state st \<longrightarrow> receipt \<noteq> None" and "failure_state st \<longrightarrow> reason \<noteq> None"
  shows "outbox_ok (advanced_row now st receipt reason r)"
proof -
  have chk: "outbox_check (advanced_row now st receipt reason r)"
    using ok transition_states(1) [OF allowed] by (simp add: outbox_ok_def outbox_check_def advanced_row_def)
  from transition_states(2) [OF allowed] consider "st = ''routing''" | "success_state st" | "failure_state st"
    by blast
  then show ?thesis
    unfolding outbox_ok_def using chk assms(4,5)
    by cases (simp_all add: advanced_row_def state_classes)
qed

lemma outbox_move_ok: "outbox_move r r' \<Longrightarrow> outbox_ok r \<Longrightarrow> outbox_ok r'"
proof (induction rule: outbox_move.induct)
  case (source_deleted r now)
  then show ?case
    by (auto simp: outbox_ok_def outbox_check_def OUTBOX_TERMINAL_STATES_def success_state_def failure_state_def)
qed (rule advanced_row_ok)

lemma inbox_move_keys:
  assumes "inbox_move r r'"
  shows "i_communication_id r' = i_communication_id r" "i_admission_id r' = i_admission_id r"
    "i_wakeup_key r' = i_wakeup_key r" "i_payload_hash r' = i_payload_hash r"
    "i_kind r' = i_kind r" "i_reply_to r' = i_reply_to r" "mirrored r' x = mirrored r x"
    "i_target_thread_id r' = i_target_thread_id r"
    "inbox_preimage_mismatches r' p a w = inbox_preimage_mismatches r p a w"
  using assms by (cases rule: inbox_move.cases; simp add: mirrored_def inbox_preimage_mismatches_def)+

lemma inbox_move_ok: "inbox_move r r' \<Longrightarrow> inbox_ok sha r \<Longrightarrow> inbox_ok sha r'"
  by (induction rule: inbox_move.induct) (auto simp: inbox_ok_def inbox_check_def)

lemma rows_moved_distinct:
  assumes "rows_moved move t t'" and "\<And>r r'. move r r' \<Longrightarrow> k r' = k r"
  shows "distinct (map k t') = distinct (map k t)"
  using rows_moved_map [OF assms] by simp

text \<open>The partner of a reply stays in place when rows move or are added.\<close>

lemma answers_inbox_mono:
  assumes "answers_inbox d r" and "\<And>i. i \<in> set (communication_inbox d) \<Longrightarrow>
      \<exists>i'\<in>set (communication_inbox d'). i_communication_id i' = i_communication_id i \<and> (\<forall>x. mirrored i' x = mirrored i x)"
  shows "answers_inbox d' r"
  using assms unfolding answers_inbox_def by metis

lemma answers_outbox_mono:
  assumes "answers_outbox d i" and "\<And>r. r \<in> set (communication_outbox d) \<Longrightarrow>
      \<exists>r'\<in>set (communication_outbox d'). o_communication_id r' = o_communication_id r \<and> (\<forall>x. mirrored x r' = mirrored x r)"
  shows "answers_outbox d' i"
  using assms unfolding answers_outbox_def by metis

lemma answers_inbox_moved: "outbox_move r r' \<Longrightarrow> answers_inbox d r' = answers_inbox d r"
  by (simp add: answers_inbox_def outbox_move_keys)

lemma answers_outbox_moved: "inbox_move r r' \<Longrightarrow> answers_outbox d r' = answers_outbox d r"
  by (simp add: answers_outbox_def inbox_move_keys)

lemma frame_simps:
  "main_rows (d\<lparr>fence := x1\<rparr>) = main_rows d" "main_rows (d\<lparr>operation_leases := x2\<rparr>) = main_rows d"
  "main_rows (d\<lparr>communication_outbox := x3\<rparr>) = main_rows d" "main_rows (d\<lparr>communication_inbox := x4\<rparr>) = main_rows d"
  "lease_ok (d\<lparr>thread_catalog := x5\<rparr>) l = lease_ok d l" "lease_ok (d\<lparr>operation_leases := x2\<rparr>) l = lease_ok d l"
  "lease_ok (d\<lparr>communication_outbox := x3\<rparr>) l = lease_ok d l" "lease_ok (d\<lparr>communication_inbox := x4\<rparr>) l = lease_ok d l"
  "answers_inbox (d\<lparr>fence := x1\<rparr>) r = answers_inbox d r" "answers_inbox (d\<lparr>thread_catalog := x5\<rparr>) r = answers_inbox d r"
  "answers_inbox (d\<lparr>operation_leases := x2\<rparr>) r = answers_inbox d r"
  "answers_inbox (d\<lparr>communication_outbox := x3\<rparr>) r = answers_inbox d r"
  "answers_outbox (d\<lparr>fence := x1\<rparr>) i = answers_outbox d i" "answers_outbox (d\<lparr>thread_catalog := x5\<rparr>) i = answers_outbox d i"
  "answers_outbox (d\<lparr>operation_leases := x2\<rparr>) i = answers_outbox d i"
  "answers_outbox (d\<lparr>communication_inbox := x4\<rparr>) i = answers_outbox d i"
  by (simp_all add: main_rows_def lease_ok_def answers_inbox_def answers_outbox_def)

lemma distinct_snoc: "distinct (map k (t @ [r])) \<longleftrightarrow> distinct (map k t) \<and> (\<forall>x\<in>set t. k r \<noteq> k x)"
  by auto

lemma leases_changed_ok:
  assumes "leases_changed issued d t" and "\<forall>l\<in>set (operation_leases d). lease_ok d l"
    and "distinct (map lease_id (operation_leases d))" and "distinct (map operation_key (operation_leases d))"
  shows "\<forall>l\<in>set t. lease_ok d l" "distinct (map lease_id t)" "distinct (map operation_key t)"
proof -
  have "(\<forall>l\<in>set t. lease_ok d l) \<and> distinct (map lease_id t) \<and> distinct (map operation_key t)"
    using assms(1) unfolding leases_changed_def
  proof (elim disjE exE conjE)
    fix t1
    assume m: "rows_moved lease_move (operation_leases d) t1" "rows_moved lease_move t1 t"
    have "\<forall>l\<in>set t. lease_ok d l"
      by (rule rows_moved_all [OF m(2) rows_moved_all [OF m(1) assms(2)]]) (auto intro: lease_move_ok)
    moreover have "distinct (map k t) = distinct (map k (operation_leases d))" if "\<And>l l'. lease_move l l' \<Longrightarrow> k l' = k l"
      for k :: "operation_lease \<Rightarrow> 'k" using rows_moved_distinct [OF m(1)] rows_moved_distinct [OF m(2)] that by metis
    ultimately show ?thesis using assms(3,4) lease_move_keys(1,2) by metis
  next
    fix l
    assume l: "fresh_lease d l" "t = operation_leases d @ [l]"
    then have "lease_ok d l" by (auto simp: fresh_lease_def lease_ok_def)
    moreover have "\<forall>x\<in>set (operation_leases d). lease_id l \<noteq> lease_id x \<and> operation_key l \<noteq> operation_key x"
      using l by (auto simp: fresh_lease_def lease_clash_def operation_key_def)
    ultimately show ?thesis using l(2) assms(2-4) by (simp add: distinct_snoc del: map_append)
  qed
  then show "\<forall>l\<in>set t. lease_ok d l" "distinct (map lease_id t)" "distinct (map operation_key t)" by blast+
qed

lemma thread_work_inv:
  assumes "fence d' = fence d" "communication_outbox d' = communication_outbox d"
    "communication_inbox d' = communication_inbox d" "catalog_grown (thread_catalog d) (thread_catalog d')"
    "leases_changed issued d (operation_leases d')" and inv: "db_inv sha d"
  shows "db_inv sha d'"
proof -
  have main: "main_rows d' = main_rows d" and ids: "distinct (map t_thread_id (thread_catalog d'))"
    using assms(4) inv by (auto simp: catalog_grown_def main_rows_def db_inv_def thread_row_clash_def)
  have ok: "lease_ok d' l = lease_ok d l" "answers_inbox d' r = answers_inbox d r" "answers_outbox d' i = answers_outbox d i"
    for l r i by (simp_all add: lease_ok_def answers_inbox_def answers_outbox_def assms(1-3))
  show ?thesis
    using leases_changed_ok [OF assms(5)] inv main ids by (simp add: db_inv_def ok assms(1-3))
qed

lemma db_change_inv:
  assumes "db_change lib issued d d'" and inv: "db_inv (lib_sha256 lib) d"
  shows "db_inv (lib_sha256 lib) d'"
  using assms(1)
proof cases
  case unchanged
  with inv show ?thesis by simp
next
  case (fence_created st g)
  with inv have "operation_leases d = []"
    by (cases "operation_leases d") (auto simp: db_inv_def lease_ok_def)
  with fence_created inv show ?thesis by (simp add: db_inv_def frame_simps)
next
  case (fence_closed g)
  have "lease_ok (d\<lparr>fence := Some \<lparr>f_state = ''deleting'', f_generation = g + 1\<rparr>\<rparr>) l" if "lease_ok d l" for l
    using that fence_closed by (auto simp: lease_ok_def)
  with fence_closed inv show ?thesis by (simp add: db_inv_def frame_simps FENCE_STATES_def)
next
  case (main_added r)
  have "main_rows d' = [r]" using main_added by (simp add: main_rows_def)
  moreover have "communication_inbox d = []" using inv main_added by (cases "communication_inbox d") (auto simp: db_inv_def)
  ultimately show ?thesis using main_added inv
    by (simp add: db_inv_def frame_simps distinct_snoc thread_row_clash_def del: map_append)
next
  case (lease_admitted l)
  have "lease_ok d l" using lease_admitted by (auto simp: fresh_lease_def lease_ok_def)
  moreover have "\<forall>x\<in>set (operation_leases d). lease_id l \<noteq> lease_id x \<and> operation_key l \<noteq> operation_key x"
    using lease_admitted by (auto simp: fresh_lease_def lease_clash_def operation_key_def)
  ultimately show ?thesis using lease_admitted inv
    by (simp add: db_inv_def frame_simps distinct_snoc del: map_append)
next
  case (leases_moved t)
  have "\<forall>l\<in>set t. lease_ok d l"
    by (rule rows_moved_all [OF leases_moved(2)])
      (use inv in \<open>simp add: db_inv_def\<close>, simp add: lease_move_ok)
  with leases_moved inv show ?thesis
    by (simp add: db_inv_def frame_simps rows_moved_distinct [OF leases_moved(2)] lease_move_keys)
next
  case (leases_deleted keep)
  with inv show ?thesis by (simp add: db_inv_def frame_simps distinct_map_filter)
next
  case (outbox_added r)
  have "outbox_ok r" using outbox_added
    by (simp add: fresh_outbox_def outbox_ok_def success_state_def failure_state_def)
  moreover have "\<forall>x\<in>set (communication_outbox d). o_send_operation_id r \<noteq> o_send_operation_id x
      \<and> o_communication_id r \<noteq> o_communication_id x" "answers_inbox d r"
    using outbox_added by (auto simp: fresh_outbox_def outbox_clash_def)
  moreover have "answers_outbox d' i" if "answers_outbox d i" for i
    using that by (rule answers_outbox_mono) (auto simp: outbox_added)
  ultimately show ?thesis using outbox_added inv
    by (simp add: db_inv_def frame_simps distinct_snoc del: map_append)
next
  case (outbox_moved t)
  have "\<forall>r\<in>set t. outbox_ok r \<and> answers_inbox d r"
    by (rule rows_moved_all [OF outbox_moved(2)])
      (use inv in \<open>simp add: db_inv_def\<close>, simp add: outbox_move_ok answers_inbox_moved)
  moreover have "answers_outbox d' i" if "answers_outbox d i" for i
    using that
  proof (rule answers_outbox_mono)
    fix r
    assume "r \<in> set (communication_outbox d)"
    with outbox_moved(2) obtain r' where "r' \<in> set t" "r' = r \<or> outbox_move r r'" by (rule rows_moved_forward)
    then show "\<exists>r'\<in>set (communication_outbox d'). o_communication_id r' = o_communication_id r
        \<and> (\<forall>x. mirrored x r' = mirrored x r)"
      using outbox_moved by (intro bexI [of _ r']) (auto simp: outbox_move_keys)
  qed
  ultimately show ?thesis using outbox_moved inv
    by (simp add: db_inv_def frame_simps rows_moved_distinct [OF outbox_moved(2)] outbox_move_keys)
next
  case (inbox_added r)
  have "inbox_ok (lib_sha256 lib) r" using inbox_added by (simp add: fresh_inbox_def inbox_ok_def)
  moreover have "\<forall>x\<in>set (communication_inbox d). i_communication_id r \<noteq> i_communication_id x
      \<and> i_admission_id r \<noteq> i_admission_id x" "answers_outbox d r"
      "\<exists>m. main_rows d = [m] \<and> i_target_thread_id r = t_thread_id m"
    using inbox_added by (auto simp: fresh_inbox_def inbox_clash_def)
  moreover have "answers_inbox d' x" if "answers_inbox d x" for x
    using that by (rule answers_inbox_mono) (auto simp: inbox_added)
  ultimately show ?thesis using inbox_added inv
    by (simp add: db_inv_def frame_simps distinct_snoc del: map_append)
next
  case (inbox_moved t)
  let ?tgt = "\<lambda>r. \<exists>m. main_rows d = [m] \<and> i_target_thread_id r = t_thread_id m"
  have "\<forall>r\<in>set t. inbox_ok (lib_sha256 lib) r \<and> answers_outbox d r \<and> ?tgt r"
    by (rule rows_moved_all [OF inbox_moved(2)])
      (use inv in \<open>simp add: db_inv_def\<close>, simp add: inbox_move_ok answers_outbox_moved inbox_move_keys)
  moreover have "answers_inbox d' x" if "answers_inbox d x" for x
    using that
  proof (rule answers_inbox_mono)
    fix i
    assume "i \<in> set (communication_inbox d)"
    with inbox_moved(2) obtain i' where "i' \<in> set t" "i' = i \<or> inbox_move i i'" by (rule rows_moved_forward)
    then show "\<exists>i'\<in>set (communication_inbox d'). i_communication_id i' = i_communication_id i
        \<and> (\<forall>x. mirrored i' x = mirrored i x)"
      using inbox_moved by (intro bexI [of _ i']) (auto simp: inbox_move_keys)
  qed
  ultimately show ?thesis using inbox_moved inv
    by (simp add: db_inv_def frame_simps rows_moved_distinct [OF inbox_moved(2)] inbox_move_keys)
next
  case thread_work
  then show ?thesis using inv by (intro thread_work_inv [of d' d issued])
qed

text \<open>So it is an invariant of the store.\<close>

interpretation store: step_invariant "control_step lib issued" "\<lambda>s. db_inv (lib_sha256 lib) (db s)" for lib issued
  by unfold_locales (blast intro: db_change_inv control_step_implements_spec)

end
