(* ===== verification/Session_Control_History.thy ===== *)
theory Session_Control_History
  imports Session_Control_Refinement
begin

section \<open>Histories of the session control store\<close>

text \<open>
  Orders on databases that single changes respect and therefore whole histories do (interpretations of
  \<open>step_order\<close>): leases descend from leases with no larger token, the fence only closes, outbox and
  inbox rows stay and move forward.
\<close>

subsection \<open>Histories\<close>

text \<open>
  What a sequence of steps may do to one row. Leases are followed backwards, because clean-up removes
  them; the other rows stay for ever and are followed forwards.
\<close>

definition is_terminal :: "operation_lease \<Rightarrow> bool" where
  "is_terminal l \<longleftrightarrow> lease_state l \<in> set LEASE_TERMINAL_STATES"

definition descends :: "operation_lease \<Rightarrow> operation_lease \<Rightarrow> bool" where
  "descends l l' \<longleftrightarrow> lease_id l' = lease_id l \<and> operation_key l' = operation_key l \<and> preimage_hash l' = preimage_hash l
     \<and> fencing_token l \<le> fencing_token l' \<and> lease_revision l \<le> lease_revision l' \<and> (is_terminal l \<longrightarrow> l' = l)"

definition lease_order :: "ustr set \<Rightarrow> control_db \<Rightarrow> control_db \<Rightarrow> bool" where
  "lease_order issued d d' \<longleftrightarrow> (\<forall>l'\<in>set (operation_leases d'). lease_id l' \<in> issued \<longrightarrow>
     (\<exists>l\<in>set (operation_leases d). descends l l'))"

definition fence_order :: "control_db \<Rightarrow> control_db \<Rightarrow> bool" where
  "fence_order d d' \<longleftrightarrow> (\<forall>f. fence d = Some f \<longrightarrow> (\<exists>f'. fence d' = Some f' \<and> f_generation f \<le> f_generation f'
     \<and> (f_state f \<noteq> ''active'' \<longrightarrow> f' = f)))"

definition outbox_order :: "control_db \<Rightarrow> control_db \<Rightarrow> bool" where
  "outbox_order d d' \<longleftrightarrow> (\<forall>r\<in>set (communication_outbox d). \<exists>r'\<in>set (communication_outbox d'). outbox_move\<^sup>*\<^sup>* r r')"

definition inbox_order :: "control_db \<Rightarrow> control_db \<Rightarrow> bool" where
  "inbox_order d d' \<longleftrightarrow> (\<forall>r\<in>set (communication_inbox d). \<exists>r'\<in>set (communication_inbox d'). inbox_move\<^sup>*\<^sup>* r r')"

lemma descends_refl: "descends l l"
  by (simp add: descends_def)

lemma descends_trans: "descends l m \<Longrightarrow> descends m n \<Longrightarrow> descends l n"
  by (auto simp: descends_def)

lemma lease_move_descends: "lease_move l l' \<Longrightarrow> descends l l'"
  by (induction rule: lease_move.induct)
    (auto simp: descends_def operation_key_def is_terminal_def LEASE_TERMINAL_STATES_def)

lemma leases_changed_descend:
  assumes "leases_changed issued d t" "l' \<in> set t" "lease_id l' \<in> issued"
  shows "\<exists>l\<in>set (operation_leases d). descends l l'"
  using assms(1) unfolding leases_changed_def
proof (elim disjE exE conjE)
  fix t1
  assume m: "rows_moved lease_move (operation_leases d) t1" "rows_moved lease_move t1 t"
  from m(2) assms(2) obtain l1 where l1: "l1 \<in> set t1" "l' = l1 \<or> lease_move l1 l'" by (rule rows_moved_backward)
  from m(1) l1(1) obtain l where "l \<in> set (operation_leases d)" "l1 = l \<or> lease_move l l1" by (rule rows_moved_backward)
  with l1(2) show ?thesis using lease_move_descends descends_refl descends_trans by blast
qed (use assms descends_refl in auto)

lemma lease_order_step: "db_change lib issued d d' \<Longrightarrow> lease_order issued d d'"
proof (induction rule: db_change.induct)
  case (leases_moved d t)
  show ?case unfolding lease_order_def
  proof (intro ballI impI)
    fix l'
    assume "l' \<in> set (operation_leases (d\<lparr>operation_leases := t\<rparr>))"
    with leases_moved obtain l where "l \<in> set (operation_leases d)" "l' = l \<or> lease_move l l'"
      by (auto elim: rows_moved_backward)
    then show "\<exists>l\<in>set (operation_leases d). descends l l'" using lease_move_descends descends_refl by blast
  qed
next
  case (thread_work d' d)
  then show ?case by (auto simp: lease_order_def dest: leases_changed_descend)
qed (auto simp: lease_order_def intro: descends_refl)

lemma fence_order_step: "db_change lib issued d d' \<Longrightarrow> fence_order d d'"
  by (induction rule: db_change.induct) (auto simp: fence_order_def)

lemma outbox_order_step: "db_change lib issued d d' \<Longrightarrow> outbox_order d d'"
proof (induction rule: db_change.induct)
  case (outbox_moved d t)
  show ?case unfolding outbox_order_def
  proof
    fix r
    assume "r \<in> set (communication_outbox d)"
    with outbox_moved obtain r' where "r' \<in> set t" "r' = r \<or> outbox_move r r'" by (auto elim: rows_moved_forward)
    then show "\<exists>r'\<in>set (communication_outbox (d\<lparr>communication_outbox := t\<rparr>)). outbox_move\<^sup>*\<^sup>* r r'"
      by (intro bexI [of _ r']) auto
  qed
qed (auto simp: outbox_order_def)

lemma inbox_order_step: "db_change lib issued d d' \<Longrightarrow> inbox_order d d'"
proof (induction rule: db_change.induct)
  case (inbox_moved d t)
  show ?case unfolding inbox_order_def
  proof
    fix r
    assume "r \<in> set (communication_inbox d)"
    with inbox_moved obtain r' where "r' \<in> set t" "r' = r \<or> inbox_move r r'" by (auto elim: rows_moved_forward)
    then show "\<exists>r'\<in>set (communication_inbox (d\<lparr>communication_inbox := t\<rparr>)). inbox_move\<^sup>*\<^sup>* r r'"
      by (intro bexI [of _ r']) auto
  qed
qed (auto simp: inbox_order_def)

lemma descends_id: "descends l l' \<Longrightarrow> lease_id l' = lease_id l"
  by (simp add: descends_def)

lemma order_refls: "lease_order issued d d" "fence_order d d" "outbox_order d d" "inbox_order d d"
  by (auto simp: lease_order_def fence_order_def outbox_order_def inbox_order_def intro: descends_refl)

lemma lease_order_trans: "lease_order issued d e \<Longrightarrow> lease_order issued e h \<Longrightarrow> lease_order issued d h"
  unfolding lease_order_def by (metis descends_id descends_trans)

lemma fence_order_trans: "fence_order d e \<Longrightarrow> fence_order e h \<Longrightarrow> fence_order d h"
  unfolding fence_order_def by fastforce

lemma outbox_order_trans: "outbox_order d e \<Longrightarrow> outbox_order e h \<Longrightarrow> outbox_order d h"
  unfolding outbox_order_def by (meson rtranclp_trans)

lemma inbox_order_trans: "inbox_order d e \<Longrightarrow> inbox_order e h \<Longrightarrow> inbox_order d h"
  unfolding inbox_order_def by (meson rtranclp_trans)

interpretation lease_history: step_order "db_change lib issued" "lease_order issued" for lib issued
  by unfold_locales (rule order_refls | erule lease_order_trans, assumption | erule lease_order_step)+

interpretation fence_history: step_order "db_change lib issued" fence_order for lib issued
  by unfold_locales (rule order_refls | erule fence_order_trans, assumption | erule fence_order_step)+

interpretation outbox_history: step_order "db_change lib issued" outbox_order for lib issued
  by unfold_locales (rule order_refls | erule outbox_order_trans, assumption | erule outbox_order_step)+

interpretation inbox_history: step_order "db_change lib issued" inbox_order for lib issued
  by unfold_locales (rule order_refls | erule inbox_order_trans, assumption | erule inbox_order_step)+

text \<open>A history of the store is a history of the specification.\<close>

lemma control_steps_implement_spec:
  "(control_step lib issued)\<^sup>*\<^sup>* s s' \<Longrightarrow> db_inv (lib_sha256 lib) (db s) \<Longrightarrow> (db_change lib issued)\<^sup>*\<^sup>* (db s) (db s')"
proof (induction rule: rtranclp_induct)
  case (step t v)
  then show ?case
    using store.steps_inv [OF step.hyps(1)] control_step_implements_spec [OF step.hyps(2)] by auto
qed simp

lemmas store_histories = lease_history.steps_rel fence_history.steps_rel outbox_history.steps_rel
  inbox_history.steps_rel

subsection \<open>Rows over a history\<close>

lemma outbox_history_keys:
  assumes "outbox_move\<^sup>*\<^sup>* r r'"
  shows "o_send_operation_id r' = o_send_operation_id r" "o_communication_id r' = o_communication_id r"
    "outbox_preimage_mismatches r' q = outbox_preimage_mismatches r q" "o_created_at r' = o_created_at r"
    "o_request_id r' = o_request_id r"
  using assms by (induction rule: rtranclp_induct) (auto simp: outbox_move_keys)

lemma outbox_terminal_stuck: "outbox_move r r' \<Longrightarrow> o_state r \<notin> set OUTBOX_TERMINAL_STATES"
  by (induction rule: outbox_move.induct)
    (auto simp: OUTBOX_TRANSITIONS_def OUTBOX_TERMINAL_STATES_def split: if_splits)

lemma outbox_terminal_final:
  "outbox_move\<^sup>*\<^sup>* r r' \<Longrightarrow> o_state r \<in> set OUTBOX_TERMINAL_STATES \<Longrightarrow> r' = r"
  by (induction rule: converse_rtranclp_induct) (auto dest: outbox_terminal_stuck)

text \<open>A recorded receipt is never lost.\<close>

lemma outbox_move_receipt:
  "outbox_move r r' \<Longrightarrow> outbox_ok r \<Longrightarrow> o_latest_receipt r \<noteq> None \<Longrightarrow> o_latest_receipt r' \<noteq> None"
proof (induction rule: outbox_move.induct)
  case (advanced r allowed new_state receipt reason now)
  then have "o_state r \<noteq> ''accepted''" by (auto simp: outbox_ok_def)
  with advanced.hyps have "new_state \<noteq> ''routing''"
    by (auto simp: OUTBOX_TRANSITIONS_def split: if_splits)
  with transition_states(2) [OF advanced.hyps(1,2)] advanced show ?case
    by (auto simp: advanced_row_def state_classes)
qed auto

lemma outbox_history_receipt:
  assumes "outbox_move\<^sup>*\<^sup>* r r'" and "outbox_ok r" and "o_latest_receipt r \<noteq> None"
  shows "o_latest_receipt r' \<noteq> None"
proof -
  from assms have "outbox_ok r' \<and> o_latest_receipt r' \<noteq> None"
    by (induction rule: rtranclp_induct) (auto simp: outbox_move_ok dest: outbox_move_receipt)
  then show ?thesis by simp
qed

text \<open>A claim keeps its owner and only grows; a binding is for ever.\<close>

definition claim_binding_kept :: "inbox_record \<Rightarrow> inbox_record \<Rightarrow> bool" where
  "claim_binding_kept r r' \<longleftrightarrow> i_communication_id r' = i_communication_id r
     \<and> (i_claim_owner r \<noteq> None \<longrightarrow> i_claim_owner r' = i_claim_owner r
          \<and> the (i_claim_generation r) \<le> the (i_claim_generation r'))
     \<and> (i_job_id r \<noteq> None \<longrightarrow> i_job_id r' = i_job_id r \<and> i_execution_id r' = i_execution_id r
          \<and> i_turn_id r' = i_turn_id r)"

lemma inbox_move_kept: "inbox_move r r' \<Longrightarrow> inbox_ok sha r \<Longrightarrow> claim_binding_kept r r'"
  by (induction rule: inbox_move.induct) (auto simp: claim_binding_kept_def inbox_ok_def inbox_check_def)

lemma inbox_history_kept:
  assumes "inbox_move\<^sup>*\<^sup>* r r'" and "inbox_ok sha r"
  shows "claim_binding_kept r r'"
proof -
  from assms have "inbox_ok sha r' \<and> claim_binding_kept r r'"
  proof (induction rule: rtranclp_induct)
    case (step y z)
    then have "claim_binding_kept y z" "inbox_ok sha z" "claim_binding_kept r y"
      using inbox_move_kept inbox_move_ok by blast+
    then show ?case by (auto simp: claim_binding_kept_def)
  qed (simp add: claim_binding_kept_def)
  then show ?thesis by simp
qed

end
