(* ===== verification/Session_Control_Correct.thy ===== *)
theory Session_Control_Correct
  imports Session_Control_History
begin

section \<open>Correctness of leases, fence and ledger\<close>

text \<open>
  The properties of the session control store, over every sequence of operations, and an example database
  on which each of them is applied.
\<close>

subsection \<open>Refused calls leave the store alone\<close>

lemma write_transaction_Inl: "\<exists>e. body (db s) = Inl e \<Longrightarrow> \<exists>e. write_transaction body s = (Inl e, s)"
  by (auto simp: write_transaction_def split: sum.splits)

lemma lease_transaction_Inl: "\<exists>e. body (db s) = Inl e \<Longrightarrow> \<exists>e. lease_transaction tx body s = (Inl e, s)"
  by (auto simp: lease_transaction_def write_transaction_Inl split: option.splits)

lemma checked_Inl: "(\<And>x. r = Inr x \<Longrightarrow> \<exists>e. k x s = (Inl e, s)) \<Longrightarrow> \<exists>e. checked r k s = (Inl e, s)"
  by (auto simp: checked_def split: sum.splits)

lemma bind_res_Inl: "(\<And>x. r = Inr x \<Longrightarrow> \<exists>e. k x = Inl e) \<Longrightarrow> \<exists>e. bind_res r k = Inl e"
  by (cases r) auto

lemma lease_cas_Inl:
  assumes "\<And>x. x \<in> set (operation_leases d) \<Longrightarrow> lease_id x = lid \<Longrightarrow> \<not> guard x"
  shows "\<exists>e. lease_cas lid guard f failure d = Inl e"
proof -
  have "filter (\<lambda>x. lease_id x = lid \<and> guard x) (operation_leases d) = []"
    using assms by (auto simp: filter_empty_conv)
  moreover from this have "\<forall>x\<in>set (operation_leases d). \<not> (lease_id x = lid \<and> guard x)"
    by (simp add: filter_empty_conv)
  ultimately show ?thesis
    by (cases "lease_row_or_raise lid d") (simp_all add: lease_cas_def sql_update_def list_all_iff)
qed

lemma write_transaction_Inr:
  assumes "write_transaction body s = (Inr x, s')"
  shows "begin_immediate s = Inr ()" and "body (db s) = Inr (x, db s')" and "s' = s\<lparr>db := db s'\<rparr>"
  using assms by (auto simp: write_transaction_def split: sum.splits)

lemma checked_Inr:
  assumes "checked r k s = (Inr x, s')"
  obtains y where "r = Inr y" "k y s = (Inr x, s')"
  using assms by (auto simp: checked_def split: sum.splits)

subsection \<open>Leases\<close>

lemma stale_token_refused:
  assumes "\<And>x. x \<in> set (operation_leases (db s)) \<Longrightarrow> lease_id x = lid \<Longrightarrow> fencing_token x \<noteq> token"
  shows "\<exists>e. mark_lease_settling now lid token tx s = (Inl e, s)"
    and "\<exists>e. settle_lease now lid token outcome tx s = (Inl e, s)"
    and "\<exists>e. takeover_lease now lid token s = (Inl e, s)"
    and "fst (verify_lease_token lid token s) \<noteq> Inr True"
proof -
  show "\<exists>e. mark_lease_settling now lid token tx s = (Inl e, s)"
    unfolding mark_lease_settling_def mark_lease_settling_body_def
    using assms by (intro lease_transaction_Inl bind_res_Inl lease_cas_Inl) auto
  show "\<exists>e. settle_lease now lid token outcome tx s = (Inl e, s)"
    unfolding settle_lease_def settle_lease_body_def
    using assms by (intro checked_Inl lease_transaction_Inl bind_res_Inl lease_cas_Inl) auto
  show "\<exists>e. takeover_lease now lid token s = (Inl e, s)"
    unfolding takeover_lease_def takeover_lease_body_def
    using assms by (intro write_transaction_Inl bind_res_Inl lease_cas_Inl) auto
  show "fst (verify_lease_token lid token s) \<noteq> Inr True"
  proof (cases "select_one (\<lambda>l. lease_id l = lid) (operation_leases (db s))")
    case (Some l)
    then have "fencing_token l \<noteq> token" using assms select_one_Some by fastforce
    with Some show ?thesis by (auto simp: verify_lease_token_def read_op_def split: sum.splits)
  qed (simp add: verify_lease_token_def read_op_def del: select_one_None split: sum.splits)
qed

lemma takeover_next_token:
  assumes inv: "db_inv (lib_sha256 lib) (db s)" and "takeover_lease now lid token s = (Inr l, s')"
  shows "\<forall>x\<in>set (operation_leases (db s')). lease_id x = lid \<longrightarrow> fencing_token x = token + 1"
proof -
  from inv have uniq: "distinct (map lease_id (operation_leases (db s)))" by (simp add: db_inv_def)
  let ?f = "\<lambda>l. l\<lparr>lease_state := ''active'', fencing_token := fencing_token l + 1,
             holder_generation := holder_generation l + 1, lease_revision := lease_revision l + 1,
             lease_updated_at := now\<rparr>"
  have keep: "lease_id (?f x) = lease_id x" for x by simp
  have cas: "lease_cas lid (\<lambda>l. fencing_token l = token \<and> lease_state l \<in> {''active'', ''settling''})
      ?f ''takeover CAS'' (db s) = Inr (l, db s')"
    by (rule sql_int_then [OF write_transaction_Inr(2) [OF assms(2) [unfolded takeover_lease_def], unfolded takeover_lease_body_def]])
  show ?thesis
  proof (rule lease_cas_succeeds [OF keep uniq cas])
    fix l0
    assume l0: "l0 \<in> set (operation_leases (db s))" "lease_id l0 = lid"
        "fencing_token l0 = token \<and> lease_state l0 \<in> {''active'', ''settling''}"
      and d': "db s' = (db s)\<lparr>operation_leases := map (\<lambda>x. if x = l0 then ?f l0 else x) (operation_leases (db s))\<rparr>"
    have single: "x = l0" if "x \<in> set (operation_leases (db s))" "lease_id x = lid" for x
      using that l0 uniq by (auto simp: distinct_map inj_on_def)
    show ?thesis
    proof (intro ballI impI)
      fix x
      assume "x \<in> set (operation_leases (db s'))" and x: "lease_id x = lid"
      then obtain y where y: "y \<in> set (operation_leases (db s))" "x = (if y = l0 then ?f l0 else y)"
        unfolding d' by auto
      with x l0(2) have "lease_id y = lid" by (simp split: if_splits)
      with single y(1) have "y = l0" by blast
      with y(2) l0(3) show "fencing_token x = token + 1" by simp
    qed
  qed
qed

lemma lease_tokens_grow:
  assumes "db_inv (lib_sha256 lib) (db s)" and "(control_step lib issued)\<^sup>*\<^sup>* s s'"
    and "l' \<in> set (operation_leases (db s'))" and "lease_id l' \<in> issued"
  obtains l where "l \<in> set (operation_leases (db s))" "descends l l'"
  using lease_history.steps_rel [OF control_steps_implement_spec [OF assms(2,1)]] assms(3,4)
  by (auto simp: lease_order_def)

text \<open>
  C1: after a recovery owner took a lease over, the old holder's token is dead for ever: in every state that
  any sequence of store operations can reach (the identifier not being issued a second time), every
  compare-and-swap with the old token is refused and changes nothing, and the token does not verify.
\<close>

theorem takeover_fences_old_holder:
  assumes "db_inv (lib_sha256 lib) (db s)" and "takeover_lease now lid token s = (Inr l, s1)"
    and "lid \<in> issued" and "(control_step lib issued)\<^sup>*\<^sup>* s1 s2"
  shows "(\<exists>e. mark_lease_settling now' lid token tx s2 = (Inl e, s2))
    \<and> (\<exists>e. settle_lease now' lid token outcome tx s2 = (Inl e, s2))
    \<and> (\<exists>e. takeover_lease now' lid token s2 = (Inl e, s2))
    \<and> fst (verify_lease_token lid token s2) \<noteq> Inr True"
proof -
  have "control_step lib issued s s1" using s_takeover [of lib issued s now lid token] assms(2) by simp
  with assms(1) have inv: "db_inv (lib_sha256 lib) (db s1)" using store.inv_step by blast
  have "fencing_token x \<noteq> token" if "x \<in> set (operation_leases (db s2))" "lease_id x = lid" for x
  proof -
    from that assms(3) obtain l1 where "l1 \<in> set (operation_leases (db s1))" "descends l1 x"
      by (auto elim: lease_tokens_grow [OF inv assms(4)])
    with takeover_next_token [OF assms(1,2)] that show ?thesis by (auto simp: descends_def)
  qed
  then show ?thesis using stale_token_refused by blast
qed

lemma terminal_lease_stays:
  assumes inv: "db_inv (lib_sha256 lib) (db s)" and steps: "(control_step lib issued)\<^sup>*\<^sup>* s s'"
    and l: "l \<in> set (operation_leases (db s))" "lease_state l \<in> set LEASE_TERMINAL_STATES" "lease_id l \<in> issued"
    and l': "l' \<in> set (operation_leases (db s'))" "lease_id l' = lease_id l"
  shows "l' = l"
proof -
  from l'(1) have "lease_id l' \<in> issued" using l(3) l'(2) by simp
  then obtain l0 where l0: "l0 \<in> set (operation_leases (db s))" "descends l0 l'"
    by (rule lease_tokens_grow [OF inv steps l'(1)])
  then have "lease_id l0 = lease_id l" using l'(2) by (simp add: descends_def)
  with l0(1) l(1) inv have "l0 = l" by (auto simp: db_inv_def distinct_map inj_on_def)
  with l0 l(2) show ?thesis by (simp add: descends_def is_terminal_def)
qed

text \<open>
  C18: a lease that reached a terminal state is final: whatever the store does afterwards, a row with its
  identifier is the very same row.
\<close>

theorem terminal_lease_final:
  assumes "db_inv (lib_sha256 lib) (db s)" and "(control_step lib issued)\<^sup>*\<^sup>* s s'"
    and "l \<in> set (operation_leases (db s))" and "lease_state l \<in> set LEASE_TERMINAL_STATES"
    and "lease_id l \<in> issued" and "l' \<in> set (operation_leases (db s'))" and "lease_id l' = lease_id l"
  shows "l' = l"
  using assms by (rule terminal_lease_stays)

subsection \<open>The fence\<close>

lemma closed_fence_refuses_leases:
  assumes "fence (db s) = Some f" and "f_state f \<noteq> ''active''"
  shows "\<exists>e. create_or_get_lease now new_id kind identity preimage expected ref tx s = (Inl e, s)"
  unfolding create_or_get_lease_def
  using assms by (intro checked_Inl lease_transaction_Inl)
    (simp add: create_or_get_lease_body_def read_fence_row_def fetch_fence_row_def require_def)

text \<open>
  C17: a session whose fence is closed stays closed: no sequence of operations reopens it or changes its
  generation, and every later request for a lease is refused without a trace.
\<close>

theorem deleting_fence_is_final:
  assumes "db_inv (lib_sha256 lib) (db s)" and "fence (db s) = Some f" and "f_state f = ''deleting''"
    and "(control_step lib issued)\<^sup>*\<^sup>* s s'"
  shows "fence (db s') = Some f
    \<and> (\<exists>e. create_or_get_lease now new_id kind identity preimage expected ref tx s' = (Inl e, s'))"
proof -
  have "fence (db s') = Some f"
    using fence_history.steps_rel [OF control_steps_implement_spec [OF assms(4,1)]] assms(2,3)
    by (auto simp: fence_order_def)
  then show ?thesis using closed_fence_refuses_leases assms(3) by auto
qed

text \<open>
  Closing the fence is atomic although it reads before it locks: whatever other processes write in
  between, it reports success exactly when the fence was active with the expected generation at the moment
  of its own write, and then moves it to deleting with the next generation; otherwise it writes nothing.
\<close>

theorem cas_fence_atomic:
  assumes "cas_fence_transition others g st s = (res, s')"
  shows "(res = Inr True \<and> st = ''deleting'' \<and> fence (others (db s)) = Some \<lparr>f_state = ''active'', f_generation = g\<rparr>
      \<and> db s' = (others (db s))\<lparr>fence := Some \<lparr>f_state = ''deleting'', f_generation = g + 1\<rparr>\<rparr>)
    \<or> (res \<noteq> Inr True \<and> (db s' = db s \<or> db s' = others (db s)))"
proof (cases "bind_res (require (st \<in> set FENCE_STATES) (Value_Error ''fence state'')) (\<lambda>_.
      bind_res (ensure_open s) (\<lambda>_. read_fence_row (db s)))")
  case (Inl e)
  with assms show ?thesis by (auto simp: cas_fence_transition_def checked_def)
next
  case (Inr row)
  let ?s = "s\<lparr>db := others (db s)\<rparr>"
  show ?thesis
  proof (cases "f_state row = ''active'' \<and> st = ''deleting'' \<and> f_generation row = g \<and> raw_begin ?s = Inr ()")
    case False
    with Inr assms show ?thesis
      by (cases "raw_begin ?s") (auto simp: cas_fence_transition_def checked_def raw_transaction_def split: if_splits)
  next
    case True
    with Inr assms have eq: "(case cas_fence_body g st (others (db s)) of Inl e \<Rightarrow> (Inl e, ?s)
        | Inr (x, d) \<Rightarrow> (Inr x, ?s\<lparr>db := d\<rparr>)) = (res, s')"
      by (simp add: cas_fence_transition_def checked_def raw_transaction_def)
    show ?thesis
    proof (cases "fence (others (db s))")
      case None
      with eq show ?thesis by (auto simp: cas_fence_body_def read_fence_row_def fetch_fence_row_def)
    next
      case (Some f)
      with eq True show ?thesis
        by (cases f) (auto simp: cas_fence_body_def read_fence_row_def fetch_fence_row_def bind_res_def sql_int_def require_def
            split: if_splits)
    qed
  qed
qed

subsection \<open>Histories of the ledger rows\<close>

lemma outbox_row_later:
  assumes "db_inv (lib_sha256 lib) (db s)" and "(control_step lib issued)\<^sup>*\<^sup>* s s'" and "r \<in> set (communication_outbox (db s))"
  obtains r' where "r' \<in> set (communication_outbox (db s'))" "outbox_move\<^sup>*\<^sup>* r r'"
  using outbox_history.steps_rel [OF control_steps_implement_spec [OF assms(2,1)]] assms(3)
  by (auto simp: outbox_order_def)

lemma inbox_row_later:
  assumes "db_inv (lib_sha256 lib) (db s)" and "(control_step lib issued)\<^sup>*\<^sup>* s s'" and "r \<in> set (communication_inbox (db s))"
  obtains r' where "r' \<in> set (communication_inbox (db s'))" "inbox_move\<^sup>*\<^sup>* r r'"
  using inbox_history.steps_rel [OF control_steps_implement_spec [OF assms(2,1)]] assms(3)
  by (auto simp: inbox_order_def)

lemma inv_later: "db_inv (lib_sha256 lib) (db s) \<Longrightarrow> (control_step lib issued)\<^sup>*\<^sup>* s s' \<Longrightarrow> db_inv (lib_sha256 lib) (db s')"
  by (rule store.steps_inv)

text \<open>
  C2: the store implements the specification: on a well-formed database every method, with any arguments,
  inside or outside a transaction, changes the rows only by the transitions of the specification.
\<close>

theorem store_implements_spec:
  assumes "control_step lib issued s s'" and "db_inv (lib_sha256 lib) (db s)"
  shows "db_change lib issued (db s) (db s')"
  using assms by (rule control_step_implements_spec)

text \<open>
  C3: every database reachable from the empty one is well formed: keys are unique, at most one main thread,
  tokens equal holder generations and never exceed revisions, receipts are present exactly from acceptance
  on, abort reasons exactly in the failure states, claims and bindings are complete, the admission identity
  is the derived one, and inbox rows address the main thread.
\<close>

theorem control_store_invariant:
  assumes "(control_step lib issued)\<^sup>*\<^sup>* s s'" and "db s = empty_db"
  shows "db_inv (lib_sha256 lib) (db s')"
  using inv_later [OF _ assms(1)] assms(2) db_inv_empty by simp

text \<open>
  C23: causality of replies: in every reachable database each reply that was sent answers a received message
  and each reply that was received answers a sent one, with all end points exchanged.
\<close>

theorem reply_causality:
  assumes "(control_step lib issued)\<^sup>*\<^sup>* s s'" and "db s = empty_db"
  shows "(\<forall>r\<in>set (communication_outbox (db s')). o_kind r = ''reply'' \<longrightarrow>
      (\<exists>i\<in>set (communication_inbox (db s')). o_reply_to r = Some (i_communication_id i) \<and> mirrored i r))
    \<and> (\<forall>i\<in>set (communication_inbox (db s')). i_kind i = ''reply'' \<longrightarrow>
      (\<exists>r\<in>set (communication_outbox (db s')). i_reply_to i = Some (o_communication_id r) \<and> mirrored i r))"
proof -
  have "db_inv (lib_sha256 lib) (db s')" using inv_later [OF _ assms(1)] assms(2) db_inv_empty by simp
  then show ?thesis by (auto simp: db_inv_def answers_inbox_def answers_outbox_def)
qed

subsection \<open>The outbox\<close>

lemma new_outbox_row_matches: "outbox_preimage_mismatches (new_outbox_row now q) q = []"
  by (simp add: outbox_preimage_mismatches_def drifted_def new_outbox_row_def)

lemma fetch_outbox_unique:
  assumes "db_inv (lib_sha256 lib) d" and "r \<in> set (communication_outbox d)" and "o_send_operation_id r = op"
  shows "fetch_outbox_row_by_operation d op = Some r"
  using assms select_one_unique [of o_send_operation_id "communication_outbox d" r]
  by (simp add: fetch_outbox_row_by_operation_def db_inv_def)

text \<open>
  C12: a send is recorded once: after a send was recorded, repeating the request in any later state of the
  store (on an open, unlocked connection) succeeds, creates nothing and returns the row as it stands, with
  the identity and the time of the first call.
\<close>

theorem send_is_recorded_once:
  assumes inv: "db_inv (lib_sha256 lib) (db s)" and first: "create_or_get_communication_outbox now q s = (Inr (r, True), s1)"
    and steps: "(control_step lib issued)\<^sup>*\<^sup>* s1 s2" and free: "begin_immediate s2 = Inr ()"
  shows "\<exists>r'. create_or_get_communication_outbox now' q s2 = (Inr (r', False), s2)
    \<and> o_communication_id r' = q_communication_id q \<and> o_created_at r' = now \<and> o_request_id r' = q_request_id q"
proof -
  from first obtain v where valid: "validate_outbox_request q = Inr v"
    and "write_transaction (create_or_get_outbox_body now q) s = (Inr (r, True), s1)"
    unfolding create_or_get_communication_outbox_def by (rule checked_Inr)
  then have body: "create_or_get_outbox_body now q (db s) = Inr ((r, True), db s1)"
    by (blast dest: write_transaction_Inr(2))
  then have row: "r = new_outbox_row now q" "r \<in> set (communication_outbox (db s1))"
    by (cases rule: create_outbox_cases; simp)+
  have "control_step lib issued s s1" using s_create_outbox [of lib issued s now q] first by simp
  with inv have inv1: "db_inv (lib_sha256 lib) (db s1)" using store.inv_step by blast
  obtain r' where r': "r' \<in> set (communication_outbox (db s2))" "outbox_move\<^sup>*\<^sup>* r r'"
    using outbox_row_later [OF inv1 steps row(2)] by blast
  have same: "o_send_operation_id r' = q_send_operation_id q" "o_communication_id r' = q_communication_id q"
    "outbox_preimage_mismatches r' q = []" "o_created_at r' = now" "o_request_id r' = q_request_id q"
    using outbox_history_keys [OF r'(2)] row(1) new_outbox_row_matches [of now q]
    by (auto simp: new_outbox_row_def)
  have "fetch_outbox_row_by_operation (db s2) (q_send_operation_id q) = Some r'"
    using fetch_outbox_unique [OF inv_later [OF inv1 steps] r'(1) same(1)] .
  with same have "create_or_get_outbox_body now' q (db s2) = Inr ((r', False), db s2)"
    by (simp add: create_or_get_outbox_body_def)
  with valid free have "create_or_get_communication_outbox now' q s2 = (Inr (r', False), s2)"
    by (simp add: create_or_get_communication_outbox_def checked_def write_transaction_def)
  with same show ?thesis by blast
qed

text \<open>
  C21: a sent message only moves forward: in every later state its row is still there with the same identity
  and preimage, a terminal row is unchanged, and a receipt that was recorded is never lost, not even when
  the send fails or is cancelled.
\<close>

theorem outbox_rows_move_forward:
  assumes "db_inv (lib_sha256 lib) (db s)" and "(control_step lib issued)\<^sup>*\<^sup>* s s'" and "r \<in> set (communication_outbox (db s))"
  shows "\<exists>r'\<in>set (communication_outbox (db s')). o_send_operation_id r' = o_send_operation_id r
    \<and> (\<forall>q. outbox_preimage_mismatches r' q = outbox_preimage_mismatches r q)
    \<and> (o_state r \<in> set OUTBOX_TERMINAL_STATES \<longrightarrow> r' = r)
    \<and> (o_latest_receipt r \<noteq> None \<longrightarrow> o_latest_receipt r' \<noteq> None)"
proof -
  obtain r' where r': "r' \<in> set (communication_outbox (db s'))" "outbox_move\<^sup>*\<^sup>* r r'"
    using outbox_row_later [OF assms] by blast
  have "outbox_ok r" using assms by (simp add: db_inv_def)
  then show ?thesis
    using outbox_history_keys [OF r'(2)] outbox_terminal_final [OF r'(2)] outbox_history_receipt [OF r'(2)]
    by (intro bexI [OF _ r'(1)]) auto
qed

subsection \<open>The inbox\<close>

text \<open>
  C22: a received message keeps its claim and its binding: in every later state the row has the same owner
  and no smaller claim generation, and once it is bound to a job, execution and turn, to the same ones.
\<close>

theorem inbox_claim_and_binding_kept:
  assumes "db_inv (lib_sha256 lib) (db s)" and "(control_step lib issued)\<^sup>*\<^sup>* s s'" and "r \<in> set (communication_inbox (db s))"
  shows "\<exists>r'\<in>set (communication_inbox (db s')). i_communication_id r' = i_communication_id r
    \<and> (i_claim_owner r \<noteq> None \<longrightarrow> i_claim_owner r' = i_claim_owner r
         \<and> the (i_claim_generation r) \<le> the (i_claim_generation r'))
    \<and> (i_job_id r \<noteq> None \<longrightarrow> i_job_id r' = i_job_id r \<and> i_execution_id r' = i_execution_id r
         \<and> i_turn_id r' = i_turn_id r)"
proof -
  obtain r' where r': "r' \<in> set (communication_inbox (db s'))" "inbox_move\<^sup>*\<^sup>* r r'"
    using inbox_row_later [OF assms] by blast
  have "inbox_ok (lib_sha256 lib) r" using assms by (simp add: db_inv_def)
  from inbox_history_kept [OF r'(2) this] r'(1) show ?thesis by (auto simp: claim_binding_kept_def)
qed

subsection \<open>Draining a session that is deleted\<close>

lemma update_ok:
  assumes "\<And>r. r \<in> set t \<Longrightarrow> sel r \<Longrightarrow> chk (f r)"
  shows "sql_update chk sel f t = Inr (length (filter sel t), map (\<lambda>r. if sel r then f r else r) t)"
  using assms by (simp add: sql_update_def list_all_iff)

text \<open>
  C27: draining settles everything: on a well-formed database with a free connection both drains succeed;
  afterwards every sent message is terminal and keeps its receipt, every received one is terminal, bound
  messages as \<^verbatim>\<open>terminal\<close> with their binding, unbound ones as \<^verbatim>\<open>cancelled\<close>.
\<close>

theorem drain_settles_everything:
  assumes inv: "db_inv (lib_sha256 lib) (db s)" and free: "begin_immediate s = Inr ()"
  shows "\<exists>s1 s2. drain_communication_outboxes now s = (Inr (), s1)
    \<and> drain_communication_inboxes now None s1 = (Inr (), s2)
    \<and> list_all2 (\<lambda>r r'. o_state r' \<in> set OUTBOX_TERMINAL_STATES \<and> o_latest_receipt r' = o_latest_receipt r
         \<and> o_send_operation_id r' = o_send_operation_id r)
        (communication_outbox (db s)) (communication_outbox (db s2))
    \<and> list_all2 (\<lambda>r r'. i_state r' \<in> {''terminal'', ''failed'', ''cancelled''} \<and> i_job_id r' = i_job_id r
         \<and> i_communication_id r' = i_communication_id r \<and> (i_state r' = ''cancelled'' \<longrightarrow> i_job_id r' = None))
        (communication_inbox (db s)) (communication_inbox (db s2))"
proof -
  let ?of = "\<lambda>r. r\<lparr>o_state := ''cancelled'', o_abort_reason := Some (u ''source-deleted''), o_updated_at := now\<rparr>"
  let ?osel = "\<lambda>r. o_state r \<notin> {''terminal'', ''failed'', ''cancelled''}"
  let ?if = "\<lambda>r. r\<lparr>i_state := (if i_job_id r = None then ''cancelled'' else ''terminal''),
      i_last_error := Some (u ''target-deleted''), i_terminal_outcome := Some (u ''target-deleted''),
      i_updated_at := now\<rparr>"
  let ?isel = "\<lambda>r. i_state r \<notin> {''terminal'', ''failed'', ''cancelled''}"
  let ?ot = "map (\<lambda>r. if ?osel r then ?of r else r) (communication_outbox (db s))"
  let ?it = "map (\<lambda>r. if ?isel r then ?if r else r) (communication_inbox (db s))"
  have o: "sql_update outbox_check ?osel ?of (communication_outbox (db s))
      = Inr (length (filter ?osel (communication_outbox (db s))), ?ot)"
    by (rule update_ok) (use inv in \<open>auto simp: db_inv_def outbox_ok_def outbox_check_def OUTBOX_TERMINAL_STATES_def\<close>)
  have i: "sql_update inbox_check ?isel ?if (communication_inbox (db s))
      = Inr (length (filter ?isel (communication_inbox (db s))), ?it)"
    by (rule update_ok) (use inv in \<open>auto simp: db_inv_def inbox_ok_def inbox_check_def\<close>)
  let ?s1 = "s\<lparr>db := (db s)\<lparr>communication_outbox := ?ot\<rparr>\<rparr>"
  let ?s2 = "?s1\<lparr>db := (db ?s1)\<lparr>communication_inbox := ?it\<rparr>\<rparr>"
  have "drain_communication_outboxes now s = (Inr (), ?s1)"
    using free o by (simp add: drain_communication_outboxes_def drain_outbox_body_def write_transaction_def)
  moreover have "begin_immediate ?s1 = Inr ()"
    using free by (simp add: begin_immediate_def ensure_open_def)
  then have "drain_communication_inboxes now None ?s1 = (Inr (), ?s2)"
    using i by (simp add: drain_communication_inboxes_def drain_inbox_body_def write_transaction_def)
  moreover have "list_all2 (\<lambda>r r'. o_state r' \<in> set OUTBOX_TERMINAL_STATES \<and> o_latest_receipt r' = o_latest_receipt r
         \<and> o_send_operation_id r' = o_send_operation_id r) (communication_outbox (db s)) ?ot"
    by (auto simp: list_all2_map2 list_all2_same OUTBOX_TERMINAL_STATES_def)
  moreover have "list_all2 (\<lambda>r r'. i_state r' \<in> {''terminal'', ''failed'', ''cancelled''} \<and> i_job_id r' = i_job_id r
         \<and> i_communication_id r' = i_communication_id r \<and> (i_state r' = ''cancelled'' \<longrightarrow> i_job_id r' = None))
        (communication_inbox (db s)) ?it"
    using inv by (auto simp: list_all2_map2 list_all2_same db_inv_def inbox_ok_def inbox_check_def)
  ultimately show ?thesis by (intro exI [of _ ?s1] exI [of _ ?s2]) simp
qed

subsection \<open>Admission of leases\<close>

lemma create_lease_body_row:
  assumes "create_or_get_lease_body now new_id kind identity preimage expected ref d = Inr (l, d')"
  obtains f where "fence d = Some f" "f_state f = ''active''" "fence d' = Some f"
    "expected = None \<or> expected = Some (f_generation f)" "l \<in> set (operation_leases d')"
    "operation_key l = (f_generation f, identity)" "preimage_hash l = preimage"
proof -
  from assms obtain f where f: "fence d = Some f" "f_state f = ''active''" "expected = None \<or> expected = Some (f_generation f)"
    and rest: "(case select_one (same_operation (f_generation f) identity) (operation_leases d) of
       Some l \<Rightarrow> if preimage_hash l \<noteq> preimage then Inl (Runtime_Error ''preimage conflict'') else Inr (l, d)
     | None \<Rightarrow> let l = \<lparr>lease_id = new_id, operation_kind = kind, operation_identity = identity,
                  preimage_hash = preimage, captured_generation = f_generation f, holder_generation = 1,
                  fencing_token = 1, lease_state = ''active'', lease_revision = 1, recovery_ref = ref,
                  lease_created_at = now, lease_updated_at = now\<rparr>
         in bind_res (sql_insert lease_check lease_clash l (operation_leases d)) (\<lambda>t.
            Inr (l, d\<lparr>operation_leases := t\<rparr>))) = Inr (l, d')"
    by (auto simp: create_or_get_lease_body_def read_fence_row_def fetch_fence_row_def split: option.splits)
  have "fence d' = Some f \<and> l \<in> set (operation_leases d') \<and> operation_key l = (f_generation f, identity)
      \<and> preimage_hash l = preimage"
  proof (cases "select_one (same_operation (f_generation f) identity) (operation_leases d)")
    case None
    with rest f show ?thesis by (auto simp: Let_def sql_insert_eq_Inr operation_key_def)
  next
    case (Some x)
    with rest f select_one_Some [OF Some] show ?thesis
      by (auto simp: operation_key_def same_operation_def split: if_splits)
  qed
  with f show thesis using that by auto
qed

lemma create_lease_row:
  assumes "create_or_get_lease now new_id kind identity preimage expected ref None s = (Inr l, s')"
  shows "kind \<in> set LEASE_KINDS" "identity \<noteq> []" "is_sha256_hex preimage" "ref \<noteq> Some []"
    and "create_or_get_lease_body now new_id kind identity preimage expected ref (db s) = Inr (l, db s')"
proof -
  from assms obtain v where checks: "bind_res (require (kind \<in> set LEASE_KINDS) (Value_Error ''operation_kind'')) (\<lambda>_.
      bind_res (require (identity \<noteq> []) (Value_Error ''operation_identity'')) (\<lambda>_.
      bind_res (require (is_sha256_hex preimage) (Value_Error ''preimage_hash'')) (\<lambda>_.
      require (ref \<noteq> Some []) (Value_Error ''recovery_ref'')))) = Inr v"
    and "lease_transaction None (create_or_get_lease_body now new_id kind identity preimage expected ref) s = (Inr l, s')"
    unfolding create_or_get_lease_def by (rule checked_Inr)
  then show "create_or_get_lease_body now new_id kind identity preimage expected ref (db s) = Inr (l, db s')"
    by (simp add: lease_transaction_def write_transaction_Inr(2))
  from checks show "kind \<in> set LEASE_KINDS" "identity \<noteq> []" "is_sha256_hex preimage" "ref \<noteq> Some []"
    by auto
qed

text \<open>
  Admission is idempotent: while the fence keeps its generation and the lease has not been cleaned up,
  repeating the request in any later state returns the current row of the same lease, whatever fresh
  identifier the source would offer, and writes nothing.
\<close>

theorem lease_admission_idempotent:
  assumes inv: "db_inv (lib_sha256 lib) (db s)"
    and first: "create_or_get_lease now new_id kind identity preimage expected ref None s = (Inr l, s1)"
    and fresh: "new_id \<notin> issued'" and steps: "(control_step lib issued)\<^sup>*\<^sup>* s1 s2" and free: "begin_immediate s2 = Inr ()"
    and fence: "fence (db s2) = fence (db s1)" and "lease_id l \<in> issued"
    and l': "l' \<in> set (operation_leases (db s2))" "lease_id l' = lease_id l"
  shows "create_or_get_lease now' new_id' kind identity preimage expected ref None s2 = (Inr l', s2)"
proof -
  obtain f where f: "f_state f = ''active''" "fence (db s1) = Some f"
    "expected = None \<or> expected = Some (f_generation f)" "l \<in> set (operation_leases (db s1))"
    "operation_key l = (f_generation f, identity)" "preimage_hash l = preimage"
    using create_lease_body_row [OF create_lease_row(5) [OF first]] by blast
  have "control_step lib issued' s s1"
    using s_create_lease [OF fresh, of lib s now kind identity preimage expected ref None] first by simp
  with inv have inv1: "db_inv (lib_sha256 lib) (db s1)" using store.inv_step by blast
  from l' assms(7) obtain l0 where l0: "l0 \<in> set (operation_leases (db s1))" "descends l0 l'"
    using lease_tokens_grow [OF inv1 steps l'(1)] by metis
  with l'(2) f(4) inv1 have "l0 = l" by (auto simp: descends_def db_inv_def distinct_map inj_on_def)
  with l0 f have key: "operation_key l' = (f_generation f, identity)" "preimage_hash l' = preimage"
    by (auto simp: descends_def)
  have "db_inv (lib_sha256 lib) (db s2)" using inv_later [OF inv1 steps] .
  then have "distinct (map operation_key (operation_leases (db s2)))" by (simp add: db_inv_def)
  from select_one_unique [OF this l'(1)] key(1)
  have "select_one (same_operation (f_generation f) identity) (operation_leases (db s2)) = Some l'"
    by (simp add: operation_key_def same_operation_def [abs_def])
  then have "create_or_get_lease_body now' new_id' kind identity preimage expected ref (db s2) = Inr (l', db s2)"
    using f fence key by (auto simp: create_or_get_lease_body_def read_fence_row_def fetch_fence_row_def)
  with create_lease_row(1-4) [OF first] free show ?thesis
    by (simp add: create_or_get_lease_def checked_def lease_transaction_def write_transaction_def)
qed

subsection \<open>An example database\<close>

definition demo_session :: ustr where "demo_session = u ''ses_01890000000070008000000000000000''"
definition demo_thread :: ustr where "demo_thread = u ''thr_01890000000070008000000000000000''"
definition demo_hash :: ustr where "demo_hash = replicate 64 97"

definition demo_send :: outbox_request where
  "demo_send = \<lparr>q_session_id = demo_session, q_send_operation_id = u ''send-1'',
     q_communication_id = u ''comm_00000000000000000000000000000001'', q_source_gateway_id = u ''g'',
     q_source_workspace_id = u ''w'', q_source_thread_id = demo_thread, q_target_gateway_id = u ''g'',
     q_target_workspace_id = u ''w2'', q_target_session_id = demo_session, q_target_thread_id = demo_thread,
     q_kind = ''question'', q_reply_to = None, q_payload_hash = demo_hash, q_content = u ''hi'',
     q_delivery_policy = u ''now'', q_request_id = u ''r1'', q_target_ref = u ''t''\<rparr>"

definition demo_receive :: inbox_request where
  "demo_receive = \<lparr>p_session_id = demo_session, p_communication_id = u ''comm_00000000000000000000000000000002'',
     p_source_gateway_id = u ''g'', p_source_workspace_id = u ''w2'', p_source_session_id = demo_session,
     p_source_thread_id = demo_thread, p_target_gateway_id = u ''g'', p_target_workspace_id = u ''w'',
     p_target_thread_id = demo_thread, p_kind = ''reply'',
     p_reply_to = Some (u ''comm_00000000000000000000000000000001''), p_payload_hash = demo_hash,
     p_content = u ''yes'', p_delivery_policy = u ''now'', p_request_id = u ''r2''\<rparr>"

definition demo_lease :: "string \<Rightarrow> operation_lease" where
  "demo_lease st = \<lparr>lease_id = u ''lease_1'', operation_kind = ''execution'', operation_identity = u ''op'',
     preimage_hash = demo_hash, captured_generation = 1, holder_generation = 1, fencing_token = 1,
     lease_state = st, lease_revision = 3, recovery_ref = None, lease_created_at = u ''t0'',
     lease_updated_at = u ''t0''\<rparr>"

definition demo_sent :: outbox_record where
  "demo_sent = (new_outbox_row (u ''t0'') demo_send)
     \<lparr>o_state := ''target_accepted'', o_latest_receipt := Some (u ''receipt'')\<rparr>"

definition demo_lib :: py_library where
  "demo_lib = \<lparr>lib_floats = \<lparr>float_value = (\<lambda>_. JNull), float_text = (\<lambda>_. [])\<rparr>,
     lib_runtime = \<lparr>repr_of = (\<lambda>_. []), int_of_str = (\<lambda>_. None)\<rparr>, lib_fromisoformat = (\<lambda>_. None),
     lib_sha256 = (\<lambda>_. []), lib_digit = (\<lambda>_. None)\<rparr>"

definition demo_received :: inbox_record where
  "demo_received = (new_inbox_row (lib_sha256 demo_lib) (u ''t0'') demo_receive)
     \<lparr>i_claim_owner := Some (u ''worker''), i_claim_generation := Some 1, i_state := ''execution_bound'',
      i_job_id := Some (u ''job''), i_execution_id := Some (u ''exec'')\<rparr>"

definition demo_main :: thread_row where
  "demo_main = \<lparr>t_thread_id = demo_thread, t_kind = ''main'', t_created_at = u ''t0'', t_graph_id = None,
     t_graph_revision = None, t_graph_schema_hash = None, t_capability_profile_hash = None\<rparr>"

definition demo_db :: "string \<Rightarrow> string \<Rightarrow> control_db" where
  "demo_db fence_st lease_st = empty_db\<lparr>fence := Some \<lparr>f_state = fence_st, f_generation = 1\<rparr>,
     thread_catalog := [demo_main], operation_leases := [demo_lease lease_st],
     communication_outbox := [demo_sent], communication_inbox := [demo_received]\<rparr>"

definition demo_store :: "control_db \<Rightarrow> control_store" where
  "demo_store d = \<lparr>db = d, closed = False, read_only = False, in_transaction = False, write_locked = False\<rparr>"

lemma demo_sent_ok: "outbox_ok demo_sent"
  by (simp add: demo_sent_def new_outbox_row_def demo_send_def outbox_ok_def outbox_check_def
      COMMUNICATION_KINDS_def OUTBOX_TRANSITIONS_def success_state_def failure_state_def sql_length_def
      sql_trim_def u_def)

lemma demo_received_ok: "inbox_ok (lib_sha256 demo_lib) demo_received"
  by (simp add: demo_received_def new_inbox_row_def demo_receive_def inbox_ok_def inbox_check_def
      COMMUNICATION_KINDS_def sql_length_def sql_trim_def u_def demo_lib_def Let_def)

lemma demo_mirrored: "mirrored demo_received demo_sent"
  by (simp add: mirrored_def demo_received_def demo_sent_def new_inbox_row_def new_outbox_row_def demo_send_def
      demo_receive_def Let_def)

lemma demo_reply: "o_kind demo_sent = ''question''" "i_reply_to demo_received = Some (o_communication_id demo_sent)"
  "i_target_thread_id demo_received = demo_thread"
  by (simp_all add: demo_received_def demo_sent_def new_inbox_row_def new_outbox_row_def demo_send_def
      demo_receive_def Let_def)

lemma demo_inv:
  assumes "fence_st \<in> set FENCE_STATES" and "lease_st \<in> set LEASE_STATES"
  shows "db_inv (lib_sha256 demo_lib) (demo_db fence_st lease_st)"
  using assms demo_sent_ok demo_received_ok demo_mirrored demo_reply
  by (simp add: db_inv_def demo_db_def main_rows_def demo_main_def lease_ok_def lease_check_def LEASE_KINDS_def
      demo_lease_def answers_inbox_def answers_outbox_def)

lemma demo_free: "begin_immediate (demo_store d) = Inr ()"
  by (simp add: begin_immediate_def ensure_open_def demo_store_def require_def)

lemma demo_db_of [simp]: "db (demo_store d) = d"
  by (simp add: demo_store_def)

definition demo_active :: control_store where "demo_active = demo_store (demo_db ''active'' ''active'')"

lemma demo_active_inv: "db_inv (lib_sha256 demo_lib) (db demo_active)"
  by (simp add: demo_active_def demo_inv FENCE_STATES_def LEASE_STATES_def)

definition demo_takeover :: "(control_error + operation_lease) \<times> control_store" where
  "demo_takeover = takeover_lease (u ''t1'') (u ''lease_1'') 1 demo_active"

definition demo_admission :: "(control_error + operation_lease) \<times> control_store" where
  "demo_admission = create_or_get_lease (u ''t0'') (u ''lease_7'') ''execution'' (u ''op2'') demo_hash None None None
     demo_active"

definition demo_first_send :: "(control_error + (outbox_record \<times> bool)) \<times> control_store" where
  "demo_first_send = create_or_get_communication_outbox (u ''t0'') demo_send (demo_store empty_db)"

lemma succeeds: "\<not> isl (fst r) \<Longrightarrow> r = (Inr (projr (fst r)), snd r)"
  by (cases r; cases "fst r") auto

lemma demo_takeover_ok: "\<not> isl (fst demo_takeover)"
  by code_simp

lemma demo_admission_ok: "\<not> isl (fst demo_admission)" "lease_id (projr (fst demo_admission)) = u ''lease_7''"
  "projr (fst demo_admission) \<in> set (operation_leases (db (snd demo_admission)))"
  "begin_immediate (snd demo_admission) = Inr ()"
  by code_simp+

lemma demo_ids: "check_session_id demo_session = Inr ()" "check_thread_id demo_thread = Inr ()"
  "is_communication_id (u ''comm_00000000000000000000000000000001'')" "is_sha256_hex demo_hash"
  by code_simp+

lemma demo_send_valid: "validate_outbox_request demo_send = Inr ()"
  by (simp add: validate_outbox_request_def demo_send_def demo_ids validate_communication_address_def
      validate_communication_text_def validate_communication_kind_and_reply_def COMMUNICATION_KINDS_def
      strip_def lstrip_def rstrip_def is_space_def u_def require_def demo_ids [unfolded u_def, simplified])

lemma demo_first_send_eq: "demo_first_send = (Inr (new_outbox_row (u ''t0'') demo_send, True),
    demo_store (empty_db\<lparr>communication_outbox := [new_outbox_row (u ''t0'') demo_send]\<rparr>))"
proof -
  have "outbox_check (new_outbox_row (u ''t0'') demo_send)"
    by (simp add: new_outbox_row_def demo_send_def outbox_check_def COMMUNICATION_KINDS_def OUTBOX_TRANSITIONS_def
        sql_length_def sql_trim_def u_def)
  then show ?thesis
    by (simp add: demo_first_send_def create_or_get_communication_outbox_def checked_def demo_send_valid
        write_transaction_def demo_free create_or_get_outbox_body_def empty_db_def fetch_outbox_row_by_operation_def
        fetch_outbox_row_by_communication_def select_one_def outbox_reply_proof_def sql_insert_def)
      (simp add: demo_send_def new_outbox_row_def demo_store_def)
qed

lemma one_step: "control_step lib issued s s' \<Longrightarrow> (control_step lib issued)\<^sup>*\<^sup>* s s'"
  by (rule r_into_rtranclp)

theorem takeover_fences_old_holder_witness:
  "let s2 = snd demo_takeover in
   (\<exists>e. mark_lease_settling (u ''t2'') (u ''lease_1'') 1 None s2 = (Inl e, s2))
   \<and> (\<exists>e. settle_lease (u ''t2'') (u ''lease_1'') 1 ''failed'' None s2 = (Inl e, s2))
   \<and> (\<exists>e. takeover_lease (u ''t2'') (u ''lease_1'') 1 s2 = (Inl e, s2))
   \<and> fst (verify_lease_token (u ''lease_1'') 1 s2) \<noteq> Inr True"
  unfolding Let_def
  using takeover_fences_old_holder [OF demo_active_inv succeeds [OF demo_takeover_ok, unfolded demo_takeover_def]
      singletonI rtranclp.rtrancl_refl, folded demo_takeover_def] .

definition demo_late_takeover :: "(control_error + operation_lease) \<times> control_store" where
  "demo_late_takeover = takeover_lease (u ''t1'') (u ''lease_1'') 1 (demo_store (demo_db ''active'' ''completed''))"

lemma demo_late_takeover_rows: "operation_leases (db (snd demo_late_takeover)) \<noteq> []"
  "lease_id (hd (operation_leases (db (snd demo_late_takeover)))) = lease_id (demo_lease ''completed'')"
  by code_simp+

theorem terminal_lease_final_witness:
  "hd (operation_leases (db (snd demo_late_takeover))) = demo_lease ''completed''"
proof -
  let ?s = "demo_store (demo_db ''active'' ''completed'')"
  have l': "hd (operation_leases (db (snd demo_late_takeover))) \<in> set (operation_leases (db (snd demo_late_takeover)))"
    by (rule list.set_sel(1)) (rule demo_late_takeover_rows(1))
  have inv: "db_inv (lib_sha256 demo_lib) (db ?s)" by (simp add: demo_inv FENCE_STATES_def LEASE_STATES_def)
  have l: "demo_lease ''completed'' \<in> set (operation_leases (db ?s))" by (simp add: demo_db_def)
  have t: "lease_state (demo_lease ''completed'') \<in> set LEASE_TERMINAL_STATES"
    by (simp add: demo_lease_def LEASE_TERMINAL_STATES_def)
  have "control_step demo_lib UNIV ?s (snd demo_late_takeover)"
    unfolding demo_late_takeover_def by (rule s_takeover)
  from terminal_lease_final [OF inv one_step [OF this] l t UNIV_I l' demo_late_takeover_rows(2)] show ?thesis .
qed

theorem deleting_fence_is_final_witness:
  "\<exists>e. create_or_get_lease (u ''t'') (u ''lease_9'') ''execution'' (u ''op9'') demo_hash None None None
     (demo_store (demo_db ''deleting'' ''active'')) = (Inl e, demo_store (demo_db ''deleting'' ''active''))"
proof -
  let ?s = "demo_store (demo_db ''deleting'' ''active'')"
  have inv: "db_inv (lib_sha256 demo_lib) (db ?s)" by (simp add: demo_inv FENCE_STATES_def LEASE_STATES_def)
  have "fence (db ?s) = Some \<lparr>f_state = ''deleting'', f_generation = 1\<rparr>" by (simp add: demo_db_def)
  from deleting_fence_is_final [OF inv this _ rtranclp.rtrancl_refl] show ?thesis by simp
qed

theorem cas_fence_atomic_witness:
  "fst (cas_fence_transition (\<lambda>d. d\<lparr>fence := Some \<lparr>f_state = ''active'', f_generation = 2\<rparr>\<rparr>) 1 ''deleting'' demo_active)
     \<noteq> Inr True"
  using cas_fence_atomic [OF surjective_pairing, of "\<lambda>d. d\<lparr>fence := Some \<lparr>f_state = ''active'', f_generation = 2\<rparr>\<rparr>"
      1 "''deleting''" demo_active] by simp

theorem store_implements_spec_witness:
  "db_change demo_lib {} (db demo_active) (db (snd demo_takeover))"
  unfolding demo_takeover_def by (rule store_implements_spec [OF s_takeover demo_active_inv])

theorem control_store_invariant_witness:
  "db_inv (lib_sha256 demo_lib) (db (snd (initialize_fence ''active'' 1 (demo_store empty_db))))"
  by (rule control_store_invariant [OF one_step [OF s_initialize_fence]]) simp

definition demo_with_main :: control_store where
  "demo_with_main = snd (initialize_main_thread demo_thread
     \<lparr>dt_year = 1, dt_month = 1, dt_day = 1, dt_hour = 0, dt_minute = 0, dt_second = 0, dt_microsecond = 0,
      dt_utcoffset = Some 0\<rparr>
     \<lparr>graph_id = u ''g'', graph_revision = 1, graph_schema_hash = [], capability_profile_hash = []\<rparr>
     (demo_store empty_db))"

definition demo_question :: control_store where
  "demo_question = snd (create_or_get_communication_outbox (u ''t0'') demo_send demo_with_main)"

definition demo_answer :: control_store where
  "demo_answer = snd (create_or_get_communication_inbox (lib_sha256 demo_lib) (u ''t1'') demo_receive demo_question)"

lemma demo_with_main_db: "communication_outbox (db demo_with_main) = []" "communication_inbox (db demo_with_main) = []"
  "map t_thread_id (main_rows (db demo_with_main)) = [demo_thread]" "begin_immediate demo_with_main = Inr ()"
  by (simp_all add: demo_with_main_def initialize_main_thread_def checked_def demo_ids require_def ensure_open_def
      raw_transaction_def raw_begin_def initialize_main_thread_body_def main_rows_def empty_db_def sql_insert_def
      sql_int_def thread_row_check_def new_thread_row_def demo_store_def begin_immediate_def)

lemma demo_question_eq: "demo_question
    = demo_with_main\<lparr>db := (db demo_with_main)\<lparr>communication_outbox := [new_outbox_row (u ''t0'') demo_send]\<rparr>\<rparr>"
proof -
  have "outbox_check (new_outbox_row (u ''t0'') demo_send)"
    by (simp add: new_outbox_row_def demo_send_def outbox_check_def COMMUNICATION_KINDS_def OUTBOX_TRANSITIONS_def
        sql_length_def sql_trim_def u_def)
  then show ?thesis
    by (simp add: demo_question_def create_or_get_communication_outbox_def checked_def demo_send_valid
        write_transaction_def demo_with_main_db create_or_get_outbox_body_def fetch_outbox_row_by_operation_def
        fetch_outbox_row_by_communication_def select_one_def outbox_reply_proof_def sql_insert_def)
      (simp add: demo_send_def new_outbox_row_def)
qed

lemma demo_receive_valid: "validate_inbox_request demo_receive = Inr ()"
proof -
  have "is_communication_id (p_communication_id demo_receive)" by code_simp
  then show ?thesis
    by (simp add: validate_inbox_request_def demo_receive_def demo_ids validate_communication_address_def
        validate_communication_text_def validate_communication_kind_and_reply_def COMMUNICATION_KINDS_def
        strip_def lstrip_def rstrip_def is_space_def u_def require_def)
qed

lemma demo_answer_inbox: "communication_inbox (db demo_answer) = [new_inbox_row (lib_sha256 demo_lib) (u ''t1'') demo_receive]"
proof -
  obtain m where m: "main_rows (db demo_with_main) = [m]" "t_thread_id m = demo_thread"
    using demo_with_main_db(3) by auto
  have chk: "inbox_check (new_inbox_row (lib_sha256 demo_lib) (u ''t1'') demo_receive)"
    by (simp add: new_inbox_row_def demo_receive_def inbox_check_def COMMUNICATION_KINDS_def sql_length_def
        sql_trim_def u_def Let_def)
  have dir: "inbox_reply_direction (new_outbox_row (u ''t0'') demo_send) demo_receive"
    by (simp add: inbox_reply_direction_def new_outbox_row_def demo_send_def demo_receive_def)
  have "main_rows (db demo_question) = [m]" using m by (simp add: demo_question_eq main_rows_def)
  moreover have "inbox_reply_proof demo_receive (db demo_question) = Inr ()"
    using dir by (simp add: inbox_reply_proof_def fetch_outbox_row_by_communication_def demo_question_eq select_one_def
        require_def) (simp add: demo_receive_def new_outbox_row_def demo_send_def)
  moreover have "begin_immediate demo_question = Inr ()"
    using demo_with_main_db(4) by (simp add: demo_question_eq begin_immediate_def ensure_open_def)
  moreover have "communication_inbox (db demo_question) = []" by (simp add: demo_question_eq demo_with_main_db)
  ultimately show ?thesis
    using m(2) chk
    by (simp add: demo_answer_def create_or_get_communication_inbox_def checked_def demo_receive_valid
        write_transaction_def create_or_get_inbox_body_def fetch_inbox_row_def select_one_def sql_insert_def Let_def)
      (simp add: demo_receive_def new_inbox_row_def Let_def)
qed

theorem reply_causality_witness:
  "\<exists>r\<in>set (communication_outbox (db demo_answer)).
     i_reply_to (new_inbox_row (lib_sha256 demo_lib) (u ''t1'') demo_receive) = Some (o_communication_id r)
     \<and> mirrored (new_inbox_row (lib_sha256 demo_lib) (u ''t1'') demo_receive) r"
proof -
  have "control_step demo_lib {} (demo_store empty_db) demo_with_main"
    unfolding demo_with_main_def by (rule s_main_thread)
  moreover have "control_step demo_lib {} demo_with_main demo_question"
    unfolding demo_question_def by (rule s_create_outbox)
  moreover have "control_step demo_lib {} demo_question demo_answer"
    unfolding demo_answer_def by (rule s_create_inbox)
  ultimately have "(control_step demo_lib {})\<^sup>*\<^sup>* (demo_store empty_db) demo_answer"
    by (meson converse_rtranclp_into_rtranclp one_step)
  from reply_causality [OF this] show ?thesis
    by (simp add: demo_answer_inbox) (simp add: new_inbox_row_def demo_receive_def Let_def)
qed

theorem send_is_recorded_once_witness:
  "\<exists>r'. create_or_get_communication_outbox (u ''t9'') demo_send (snd demo_first_send) = (Inr (r', False), snd demo_first_send)
     \<and> o_communication_id r' = q_communication_id demo_send \<and> o_created_at r' = u ''t0''
     \<and> o_request_id r' = q_request_id demo_send"
proof -
  have inv: "db_inv (lib_sha256 demo_lib) (db (demo_store empty_db))" by (simp add: db_inv_empty)
  have first: "create_or_get_communication_outbox (u ''t0'') demo_send (demo_store empty_db)
      = (Inr (new_outbox_row (u ''t0'') demo_send, True), snd demo_first_send)"
    using demo_first_send_eq by (simp add: demo_first_send_def)
  have "begin_immediate (snd demo_first_send) = Inr ()" by (simp add: demo_first_send_eq demo_free)
  from send_is_recorded_once [OF inv first rtranclp.rtrancl_refl [of _ "snd demo_first_send"] this] show ?thesis .
qed

theorem outbox_rows_move_forward_witness:
  "\<exists>r'\<in>set (communication_outbox (db (snd demo_takeover))). o_send_operation_id r' = o_send_operation_id demo_sent
     \<and> o_latest_receipt r' \<noteq> None"
proof -
  have "demo_sent \<in> set (communication_outbox (db demo_active))" by (simp add: demo_active_def demo_db_def)
  from outbox_rows_move_forward [OF demo_active_inv one_step
      [OF s_takeover [of demo_lib "{}" demo_active "u ''t1''" "u ''lease_1''" 1]] this]
  show ?thesis unfolding demo_takeover_def by (auto simp: demo_sent_def)
qed

theorem inbox_claim_and_binding_kept_witness:
  "\<exists>r'\<in>set (communication_inbox (db (snd (drain_communication_inboxes (u ''t1'') None demo_active)))).
     i_communication_id r' = i_communication_id demo_received \<and> i_job_id r' = Some (u ''job'')"
proof -
  have "demo_received \<in> set (communication_inbox (db demo_active))" by (simp add: demo_active_def demo_db_def)
  from inbox_claim_and_binding_kept [OF demo_active_inv one_step
      [OF s_drain_inbox [of demo_lib "{}" demo_active "u ''t1''" None]] this]
  show ?thesis by (auto simp: demo_received_def)
qed

theorem drain_settles_everything_witness:
  "\<exists>s1 s2. drain_communication_outboxes (u ''t1'') demo_active = (Inr (), s1)
     \<and> drain_communication_inboxes (u ''t1'') None s1 = (Inr (), s2)"
  using drain_settles_everything [OF demo_active_inv demo_free [of "demo_db ''active'' ''active''", folded demo_active_def],
      of "u ''t1''"] by blast

theorem lease_admission_idempotent_witness:
  "create_or_get_lease (u ''t5'') (u ''lease_8'') ''execution'' (u ''op2'') demo_hash None None None (snd demo_admission)
     = (Inr (projr (fst demo_admission)), snd demo_admission)"
proof -
  have first: "create_or_get_lease (u ''t0'') (u ''lease_7'') ''execution'' (u ''op2'') demo_hash None None None demo_active
      = (Inr (projr (fst demo_admission)), snd demo_admission)"
    using succeeds [OF demo_admission_ok(1)] by (simp add: demo_admission_def)
  show ?thesis
    by (rule lease_admission_idempotent [OF demo_active_inv first _ rtranclp.rtrancl_refl demo_admission_ok(4) refl
          UNIV_I demo_admission_ok(3) refl, of "{}"]) simp
qed

end
