(* ===== verification/Thread_History.thy ===== *)
theory Thread_History
  imports Session_Control_History
begin

section \<open>Histories of threads\<close>

text \<open>
  Rows of creation records, intents and slots are never deleted. \<open>thread_order\<close> says how each may differ later:
  frozen fields stay, terminal states are final, claims and revisions only grow, list slots are only extended.
  Every change respects it, so \<open>thread_inv\<close> is an invariant of the store and \<open>thread_order\<close> holds over every
  history (interpretations of \<open>step_invariant\<close> and \<open>step_order\<close>).
\<close>

subsection \<open>What a later row may look like\<close>

definition frozen_creation :: "creation_record \<Rightarrow> creation_record" where
  "frozen_creation c = c\<lparr>c_state := ''preparing'', c_artifact_manifest := None, c_artifact_manifest_hash := None,
     c_abort_reason := None, c_record_updated_at := [], c_fork_completion_json := None\<rparr>"

definition creation_kept :: "creation_record \<Rightarrow> creation_record \<Rightarrow> bool" where
  "creation_kept c c' \<longleftrightarrow> frozen_creation c' = frozen_creation c
     \<and> (c_state c \<noteq> ''preparing'' \<longrightarrow> c_state c' = c_state c \<and> c_abort_reason c' = c_abort_reason c)
     \<and> (c_artifact_manifest_hash c \<noteq> None \<longrightarrow> c_artifact_manifest_hash c' = c_artifact_manifest_hash c
          \<and> c_artifact_manifest c' = c_artifact_manifest c)
     \<and> (c_fork_completion_json c \<noteq> None \<longrightarrow> c_fork_completion_json c' = c_fork_completion_json c)"

definition intent_kept :: "execution_intent \<Rightarrow> execution_intent \<Rightarrow> bool" where
  "intent_kept e e' \<longleftrightarrow> frozen_intent e' = frozen_intent e \<and> e_created_at e' = e_created_at e
     \<and> (e_state e = ''bound'' \<longrightarrow> e' = e)
     \<and> (e_claim_owner e \<noteq> None \<longrightarrow> e_claim_owner e' = e_claim_owner e)
     \<and> (\<forall>g. e_claim_generation e = Some g \<longrightarrow> (\<exists>g'. e_claim_generation e' = Some g' \<and> g \<le> g'))"

definition binding_kept :: "py_library \<Rightarrow> owner_binding_row \<Rightarrow> owner_binding_row \<Rightarrow> bool" where
  "binding_kept lib b b' \<longleftrightarrow> b_thread_id b' = b_thread_id b \<and> b_final_relative_locator b' = b_final_relative_locator b
     \<and> b_created_at b' = b_created_at b \<and> b_revision b \<le> b_revision b' \<and> (b_revision b' = b_revision b \<longrightarrow> b' = b)
     \<and> (\<forall>sl es. slot_holds lib (slot_text sl b) es \<longrightarrow> (\<exists>more. slot_holds lib (slot_text sl b') (es @ more)))"

definition thread_order :: "py_library \<Rightarrow> control_db \<Rightarrow> control_db \<Rightarrow> bool" where
  "thread_order lib d d' \<longleftrightarrow>
     (\<forall>c\<in>set (creation_records d). \<exists>c'\<in>set (creation_records d'). creation_kept c c')
     \<and> (\<forall>e\<in>set (execution_intents d). \<exists>e'\<in>set (execution_intents d'). intent_kept e e')
     \<and> (\<forall>b\<in>set (owner_bindings d). \<exists>b'\<in>set (owner_bindings d'). binding_kept lib b b')
     \<and> set (children d) \<subseteq> set (children d')"

lemma creation_kept_refl: "creation_kept c c"
  by (simp add: creation_kept_def)

lemma creation_kept_trans: "creation_kept a b \<Longrightarrow> creation_kept b c \<Longrightarrow> creation_kept a c"
  by (auto simp: creation_kept_def)

lemma intent_kept_refl: "intent_kept e e"
  by (simp add: intent_kept_def)

lemma intent_kept_trans:
  assumes "intent_kept a b" "intent_kept b c"
  shows "intent_kept a c"
proof -
  have "\<forall>g. e_claim_generation a = Some g \<longrightarrow> (\<exists>g'. e_claim_generation c = Some g' \<and> g \<le> g')"
    using assms unfolding intent_kept_def by (meson order_trans)
  moreover have "e_state a = ''bound'' \<longrightarrow> c = a" "e_claim_owner a \<noteq> None \<longrightarrow> e_claim_owner c = e_claim_owner a"
    using assms unfolding intent_kept_def by metis+
  ultimately show ?thesis using assms by (simp add: intent_kept_def)
qed

lemma binding_kept_refl: "binding_kept lib b b"
  by (auto simp: binding_kept_def intro: exI [of _ "[]"])

lemma binding_kept_trans:
  assumes "binding_kept lib a b" "binding_kept lib b c"
  shows "binding_kept lib a c"
proof -
  have "\<exists>more. slot_holds lib (slot_text sl c) (es @ more)" if "slot_holds lib (slot_text sl a) es" for sl es
    using that assms unfolding binding_kept_def by (metis append.assoc)
  then show ?thesis using assms unfolding binding_kept_def by fastforce
qed

lemma thread_order_refl: "thread_order lib d d"
  unfolding thread_order_def using creation_kept_refl intent_kept_refl binding_kept_refl by blast

lemma thread_order_trans: "thread_order lib d e \<Longrightarrow> thread_order lib e h \<Longrightarrow> thread_order lib d h"
  unfolding thread_order_def by (meson creation_kept_trans intent_kept_trans binding_kept_trans order_trans)

subsection \<open>One change respects the order\<close>

lemma slot_holds_unique: "slot_holds lib x es \<Longrightarrow> slot_holds lib x fs \<Longrightarrow> fs = es"
  using slot_holds_list by (metis sum.inject(2))

lemma slot_grown_kept: "slot_grown lib x y \<Longrightarrow> slot_holds lib x es \<Longrightarrow> \<exists>more. slot_holds lib y (es @ more)"
  unfolding slot_grown_def using slot_holds_unique by (metis append_Nil2)

lemma binding_move_kept: "binding_move lib b b' \<Longrightarrow> binding_kept lib b b'"
  by (auto simp: binding_move_def binding_kept_def intro: slot_grown_kept)

lemma intent_move_kept: "intent_move e e' \<Longrightarrow> intent_check e \<Longrightarrow> intent_kept e e'"
  by (induction rule: intent_move.induct) (auto simp: intent_kept_def frozen_intent_def intent_check_def)

lemma creation_freeze_kept: "creation_freeze c c' \<Longrightarrow> creation_kept c c'"
  by (induction rule: creation_freeze.induct) (auto simp: creation_kept_def frozen_creation_def)

lemma rows_moved_kept:
  assumes "rows_moved move t t'" and "\<And>x. kept x x" and "\<And>x y. x \<in> set t \<Longrightarrow> move x y \<Longrightarrow> kept x y"
  shows "\<forall>x\<in>set t. \<exists>y\<in>set t'. kept x y"
  using assms by (metis rows_moved_forward)

lemma thread_order_rows:
  assumes "\<forall>c\<in>set (creation_records d). \<exists>c'\<in>set (creation_records d'). creation_kept c c'"
    and "\<forall>e\<in>set (execution_intents d). \<exists>e'\<in>set (execution_intents d'). intent_kept e e'"
    and "\<forall>b\<in>set (owner_bindings d). \<exists>b'\<in>set (owner_bindings d'). binding_kept lib b b'"
    and "set (children d) \<subseteq> set (children d')"
  shows "thread_order lib d d'"
  using assms by (simp add: thread_order_def)

lemma kept_subset:
  "set (creation_records d) \<subseteq> set (creation_records d') \<Longrightarrow>
     \<forall>c\<in>set (creation_records d). \<exists>c'\<in>set (creation_records d'). creation_kept c c'"
  "set (execution_intents d) \<subseteq> set (execution_intents d') \<Longrightarrow>
     \<forall>e\<in>set (execution_intents d). \<exists>e'\<in>set (execution_intents d'). intent_kept e e'"
  "set (owner_bindings d) \<subseteq> set (owner_bindings d') \<Longrightarrow>
     \<forall>b\<in>set (owner_bindings d). \<exists>b'\<in>set (owner_bindings d'). binding_kept lib b b'"
  using creation_kept_refl intent_kept_refl binding_kept_refl by blast+

lemmas kept_same = kept_subset(1) [of d d for d, OF order_refl] kept_subset(2) [of d d for d, OF order_refl]
  kept_subset(3) [of d d for d, OF order_refl]

lemma record_update_kept:
  assumes "creation_records d' = map (\<lambda>x. if c_key x = c_key c then f x else x) (creation_records d)"
    and "thread_inv lib d" "c \<in> set (creation_records d)" "creation_kept c (f c)"
  shows "\<forall>x\<in>set (creation_records d). \<exists>x'\<in>set (creation_records d'). creation_kept x x'"
proof
  fix x
  assume x: "x \<in> set (creation_records d)"
  then have "(if c_key x = c_key c then f x else x) \<in> set (creation_records d')" by (simp add: assms(1))
  moreover have "creation_kept x (if c_key x = c_key c then f x else x)"
    using thread_inv_unique(1) [OF assms(2,3) x] assms(4) creation_kept_refl by auto
  ultimately show "\<exists>x'\<in>set (creation_records d'). creation_kept x x'" by blast
qed

lemma preparing_only:
  assumes "thread_inv lib d" "c \<in> set (creation_records d)" "c_state c \<notin> {''published'', ''aborted''}"
  shows "c_state c = ''preparing''"
  using assms by (auto simp: thread_inv_defs creation_ok_def creation_check_def)

lemma thread_change_order:
  assumes "thread_change lib d d'" and inv: "thread_inv lib d"
  shows "thread_order lib d d'"
  using assms(1)
proof cases
  case (record_frozen)
  have "\<forall>x\<in>set (creation_records d). \<exists>y\<in>set (creation_records d'). creation_kept x y"
    by (rule rows_moved_kept [OF record_frozen(1)]) (rule creation_kept_refl, rule creation_freeze_kept)
  with record_frozen show ?thesis by (simp add: thread_order_def children_def kept_same)
next
  case (record_published c)
  then obtain now where u: "creation_records d' = map (\<lambda>x. if c_key x = c_key c
      then x\<lparr>c_state := ''published'', c_record_updated_at := now\<rparr> else x) (creation_records d)"
    and c: "c \<in> set (creation_records d)" "c_state c \<notin> {''published'', ''aborted''}"
    by (auto simp: thread_published_def)
  have "\<forall>x\<in>set (creation_records d). \<exists>x'\<in>set (creation_records d'). creation_kept x x'"
    by (rule record_update_kept [OF u inv c(1)])
      (use preparing_only [OF inv c] in \<open>simp add: creation_kept_def frozen_creation_def\<close>)
  moreover have "set (execution_intents d) \<subseteq> set (execution_intents d')" "set (owner_bindings d) \<subseteq> set (owner_bindings d')"
    "set (children d) \<subseteq> set (children d')"
    using record_published by (auto simp: thread_published_def children_def)
  ultimately show ?thesis by (intro thread_order_rows kept_subset(2,3))
next
  case (record_stopped c)
  then obtain reason now where u: "creation_records d' = map (\<lambda>x. if c_key x = c_key c
      then x\<lparr>c_state := ''aborted'', c_abort_reason := Some reason, c_record_updated_at := now\<rparr> else x) (creation_records d)"
    and c: "c \<in> set (creation_records d)" "c_state c \<notin> {''published'', ''aborted''}"
    by (auto simp: record_aborted_def)
  have "\<forall>x\<in>set (creation_records d). \<exists>x'\<in>set (creation_records d'). creation_kept x x'"
    by (rule record_update_kept [OF u inv c(1)])
      (use preparing_only [OF inv c] in \<open>simp add: creation_kept_def frozen_creation_def\<close>)
  with record_stopped show ?thesis by (simp add: thread_order_def children_def kept_same)
next
  case intents_moved
  have "\<forall>x\<in>set (execution_intents d). \<exists>y\<in>set (execution_intents d'). intent_kept x y"
    by (rule rows_moved_kept [OF intents_moved(1)])
      (use inv intent_kept_refl intent_move_kept in \<open>auto simp: thread_inv_defs intent_ok_def\<close>)
  with intents_moved show ?thesis by (simp add: thread_order_def children_def kept_same)
next
  case bindings_moved
  have "\<forall>x\<in>set (owner_bindings d). \<exists>y\<in>set (owner_bindings d'). binding_kept lib x y"
    by (rule rows_moved_kept [OF bindings_moved(1)]) (rule binding_kept_refl, rule binding_move_kept)
  with bindings_moved show ?thesis by (simp add: thread_order_def children_def kept_same)
qed (intro thread_order_rows kept_subset; force simp: children_def)+

subsection \<open>The invariant is kept\<close>

lemma frozen_creation_fields:
  assumes "frozen_creation c' = frozen_creation c"
  shows "c_key c' = c_key c" "c_child_thread_id c' = c_child_thread_id c" "c_child_created_at c' = c_child_created_at c"
    "c_final_relative_locator c' = c_final_relative_locator c" "c_graph_binding c' = c_graph_binding c"
    "c_purpose c' = c_purpose c" "c_initial_state c' = c_initial_state c" "c_owner_generation c' = c_owner_generation c"
    "c_delegation_id c' = c_delegation_id c" "c_preimage_hash c' = c_preimage_hash c"
    "c_fork_delivery_request_id c' = c_fork_delivery_request_id c" "c_request_intent_json c' = c_request_intent_json c"
  using arg_cong [OF assms, of c_key] arg_cong [OF assms, of c_child_thread_id] arg_cong [OF assms, of c_child_created_at]
    arg_cong [OF assms, of c_final_relative_locator] arg_cong [OF assms, of c_graph_binding] arg_cong [OF assms, of c_purpose]
    arg_cong [OF assms, of c_initial_state] arg_cong [OF assms, of c_owner_generation] arg_cong [OF assms, of c_delegation_id]
    arg_cong [OF assms, of c_preimage_hash] arg_cong [OF assms, of c_fork_delivery_request_id]
    arg_cong [OF assms, of c_request_intent_json]
  by (simp_all add: frozen_creation_def)

lemma intent_kept_fields:
  "intent_kept e e' \<Longrightarrow> e_thread_id e' = e_thread_id e \<and> e_admission_key e' = e_admission_key e"
  by (simp add: intent_kept_def frozen_intent_def)

lemma publication_later:
  assumes "thread_order lib d d'" "publication_complete lib d c" "frozen_creation c' = frozen_creation c"
  shows "publication_complete lib d' c'"
proof -
  note f = frozen_creation_fields [OF assms(3)]
  have "\<exists>b\<in>set (owner_bindings d'). b_thread_id b = c_child_thread_id c' \<and> b_final_relative_locator b = c_final_relative_locator c'"
    using assms(1,2) unfolding thread_order_def publication_complete_def binding_kept_def f by metis
  moreover have "c_purpose c' = ''task'' \<longrightarrow> (\<exists>e\<in>set (execution_intents d'). e_thread_id e = c_child_thread_id c')"
    using assms(1,2) intent_kept_fields unfolding thread_order_def publication_complete_def f by metis
  moreover have "\<exists>g. graph_binding_from_creation_json lib (c_graph_binding c') = Inr g
        \<and> new_thread_row (c_child_thread_id c') ''child'' (c_child_created_at c') g \<in> set (children d')"
    using assms(1,2) unfolding thread_order_def publication_complete_def f by blast
  ultimately show ?thesis unfolding publication_complete_def by blast
qed

lemma published_later:
  assumes "thread_order lib d d'" "c \<in> set (creation_records d)" "c_state c = ''published''"
  obtains c' where "c' \<in> set (creation_records d')" "c_state c' = ''published''" "frozen_creation c' = frozen_creation c"
proof -
  from assms(1,2) obtain c' where c': "c' \<in> set (creation_records d')" "creation_kept c c'" by (auto simp: thread_order_def)
  with assms(3) show thesis by (intro that [of c']) (simp_all add: creation_kept_def)
qed

lemma intent_ok_later:
  assumes "thread_order lib d d'" "intent_ok lib d e"
  shows "intent_ok lib d' e"
proof -
  from assms(2) obtain c where c: "c \<in> set (creation_records d)" "c_state c = ''published''" "c_key c = e_creation_key e"
    "c_child_thread_id c = e_thread_id e" "c_initial_state c = e_initial_state e" by (auto simp: intent_ok_def)
  from published_later [OF assms(1) c(1,2)] obtain c' where "c' \<in> set (creation_records d')" "c_state c' = ''published''"
    "frozen_creation c' = frozen_creation c" by blast
  with c have "\<exists>c\<in>set (creation_records d'). c_state c = ''published'' \<and> c_key c = e_creation_key e
          \<and> c_child_thread_id c = e_thread_id e \<and> c_initial_state c = e_initial_state e"
    using frozen_creation_fields by metis
  with assms(2) show ?thesis by (simp add: intent_ok_def)
qed

lemma creation_ok_later:
  assumes "creation_ok lib c" "frozen_creation c' = frozen_creation c" "c_state c' \<in> {''preparing'', ''published'', ''aborted''}"
    and "(c_abort_reason c' \<noteq> None) = (c_state c' = ''aborted'')" "c_state c' = ''published'' \<longrightarrow> c_artifact_manifest_hash c' \<noteq> None"
  shows "creation_ok lib c'"
  using assms(1,3-) unfolding creation_ok_def creation_check_def frozen_creation_fields [OF assms(2)] by simp

lemma creation_ok_states:
  assumes "creation_ok lib c"
  shows "c_state c \<in> {''preparing'', ''published'', ''aborted''}" "(c_abort_reason c \<noteq> None) = (c_state c = ''aborted'')"
    "c_state c = ''published'' \<longrightarrow> c_artifact_manifest_hash c \<noteq> None"
  using assms by (simp_all add: creation_ok_def creation_check_def)

lemma creation_freeze_ok:
  assumes "creation_freeze c c'" "creation_ok lib c"
  shows "creation_ok lib c'"
proof (rule creation_ok_later [OF assms(2)])
  note st = creation_ok_states [OF assms(2)]
  show "frozen_creation c' = frozen_creation c" "c_state c' \<in> {''preparing'', ''published'', ''aborted''}"
    "(c_abort_reason c' \<noteq> None) = (c_state c' = ''aborted'')" "c_state c' = ''published'' \<longrightarrow> c_artifact_manifest_hash c' \<noteq> None"
    using assms(1) st by (cases rule: creation_freeze.cases; simp add: frozen_creation_def)+
qed

lemma creation_freeze_fields:
  "creation_freeze c c' \<Longrightarrow> frozen_creation c' = frozen_creation c \<and> c_state c' = c_state c"
  by (induction rule: creation_freeze.induct) (auto simp: frozen_creation_def)

lemma admitted_fields:
  assumes "creation_admitted lib now q d k c"
  shows "creation_check c" "c_key c = q_key q" "c_child_thread_id c = fc_child k" "c_graph_binding c = q_graph_binding q"
    "c_final_relative_locator c = thread_locator (fc_date k) (fc_child k)" "c_child_created_at c = isoformat (fc_created k)"
    "c_abort_reason c = None" "c_state c = ''preparing''" "c_preimage_hash c = q_preimage_hash q"
    "c_delegation_id c = q_delegation_id q" "c_purpose c = q_purpose q" "c_request_intent_json c = q_request_intent_json q"
  using assms unfolding creation_admitted_def by (elim conjE, simp, simp add: new_creation_record_def)+

lemma admitted_world:
  assumes "creation_admitted lib now q d k c"
  shows "check_thread_id (fc_child k) = Inr ()" "utc_date (fc_created k) = Inr (fc_date k)" "\<not> in_catalog (fc_child k) d"
    "validate_thread_relative_locator (lib_digit lib) (thread_locator (fc_date k) (fc_child k)) = Inr ()"
    "length (main_rows d) = 1" "fence d = Some (fc_fence k)" "f_state (fc_fence k) = ''active''"
  using assms by (simp_all add: creation_admitted_def)

lemma admitted_ok:
  assumes "creation_admitted lib now q d k c" "validate_creation_request lib q = Inr ()"
  shows "creation_ok lib c"
proof -
  from assms(2) have "validate_thread_creation_key (q_key q) = Inr ()" "\<exists>g. graph_binding_from_creation_json lib (q_graph_binding q) = Inr g"
    by (auto simp: validate_creation_request_def check_frozen_texts_def)
  with admitted_fields [OF assms(1)] admitted_world [OF assms(1)] show ?thesis by (simp add: creation_ok_def del: split_paired_Ex) blast
qed

lemma visible_record:
  assumes "thread_inv lib d" "t \<in> set (children d)"
  obtains c where "c \<in> set (creation_records d)" "c_state c = ''published''" "c_child_thread_id c = t_thread_id t"
    "c_child_created_at c = t_created_at t"
  using assms unfolding thread_inv_def visible_ok_def by blast

lemma map_update_fields:
  assumes "\<And>x. h (f x) = h x"
  shows "map h (map (\<lambda>x. if sel x then f x else x) t) = map h t"
  using assms by auto

lemma records_kept_ok:
  assumes "thread_change lib d d'" and inv: "thread_inv lib d"
  shows "records_ok lib d'"
  using assms(1)
proof cases
  case (record_created now q k c)
  have "\<forall>x\<in>set (creation_records d). c_key c \<noteq> c_key x \<and> c_child_thread_id c \<noteq> c_child_thread_id x"
    using record_created(1) by (auto simp: creation_admitted_def creation_clash_def)
  with record_created inv show ?thesis
    by (simp add: records_ok_def thread_inv_def distinct_snoc admitted_ok del: map_append)
next
  case record_frozen
  have "\<forall>c\<in>set (creation_records d'). creation_ok lib c"
    by (rule rows_moved_all [OF record_frozen(1)]) (use inv creation_freeze_ok in \<open>auto simp: thread_inv_defs\<close>)
  moreover have "distinct (map k (creation_records d')) = distinct (map k (creation_records d))"
    if "\<And>x y. frozen_creation y = frozen_creation x \<Longrightarrow> k y = k x" for k :: "creation_record \<Rightarrow> ustr"
    using rows_moved_distinct [OF record_frozen(1)] creation_freeze_fields that by metis
  with frozen_creation_fields(1,2) have "distinct (map c_key (creation_records d'))" "distinct (map c_child_thread_id (creation_records d'))"
    using inv unfolding thread_inv_def records_ok_def by metis+
  ultimately show ?thesis by (simp add: records_ok_def)
next
  case (record_published c)
  then obtain now where u: "creation_records d' = map (\<lambda>x. if c_key x = c_key c
      then x\<lparr>c_state := ''published'', c_record_updated_at := now\<rparr> else x) (creation_records d)"
    and c: "c \<in> set (creation_records d)" "c_state c \<notin> {''published'', ''aborted''}" "c_artifact_manifest_hash c \<noteq> None"
    by (auto simp: thread_published_def)
  have ok: "creation_ok lib c" using inv c(1) by (simp add: thread_inv_defs)
  have "creation_ok lib (c\<lparr>c_state := ''published'', c_record_updated_at := now\<rparr>)"
    by (rule creation_ok_later [OF ok])
      (use c(3) creation_ok_states [OF ok] preparing_only [OF inv c(1,2)] in \<open>auto simp: frozen_creation_def\<close>)
  moreover have "x = c" if "x \<in> set (creation_records d)" "c_key x = c_key c" for x
    using thread_inv_unique(1) [OF inv c(1)] that by blast
  ultimately show ?thesis using inv by (auto simp: records_ok_def thread_inv_def u map_update_fields o_def if_distrib cong: if_cong)
next
  case (record_stopped c)
  then obtain reason now where u: "creation_records d' = map (\<lambda>x. if c_key x = c_key c
      then x\<lparr>c_state := ''aborted'', c_abort_reason := Some reason, c_record_updated_at := now\<rparr> else x) (creation_records d)"
    and c: "c \<in> set (creation_records d)" "c_state c \<notin> {''published'', ''aborted''}"
    by (auto simp: record_aborted_def)
  have "creation_ok lib (c\<lparr>c_state := ''aborted'', c_abort_reason := Some reason, c_record_updated_at := now\<rparr>)"
    by (rule creation_ok_later [of lib c]) (use inv c in \<open>auto simp: thread_inv_defs frozen_creation_def\<close>)
  moreover have "x = c" if "x \<in> set (creation_records d)" "c_key x = c_key c" for x
    using thread_inv_unique(1) [OF inv c(1)] that by blast
  ultimately show ?thesis using inv by (auto simp: records_ok_def thread_inv_def u map_update_fields o_def if_distrib cong: if_cong)
qed (use inv in \<open>simp_all add: records_ok_def thread_inv_def\<close>)

lemma visible_later:
  assumes "thread_order lib d d'" and inv: "thread_inv lib d" and "set (children d') \<subseteq> set (children d)"
    and was: "\<And>c'. c' \<in> set (creation_records d') \<Longrightarrow> c_state c' = ''published'' \<Longrightarrow>
      \<exists>c\<in>set (creation_records d). c_state c = ''published'' \<and> frozen_creation c' = frozen_creation c"
  shows "visible_ok lib d'"
  unfolding visible_ok_def
proof (intro conjI ballI impI)
  fix c'
  assume "c' \<in> set (creation_records d')" "c_state c' = ''published''"
  from was [OF this] inv show "publication_complete lib d' c'"
    using publication_later [OF assms(1)] by (auto simp: thread_inv_def visible_ok_def)
next
  fix t
  assume "t \<in> set (children d')"
  with assms(3) have "t \<in> set (children d)" by blast
  with inv obtain c where c: "c \<in> set (creation_records d)" "c_state c = ''published''"
    "c_child_thread_id c = t_thread_id t" "c_child_created_at c = t_created_at t" by (rule visible_record)
  from published_later [OF assms(1) c(1,2)] obtain c' where "c' \<in> set (creation_records d')" "c_state c' = ''published''"
    "frozen_creation c' = frozen_creation c" by blast
  with c show "\<exists>c\<in>set (creation_records d'). c_state c = ''published'' \<and> c_child_thread_id c = t_thread_id t
      \<and> c_child_created_at c = t_created_at t" using frozen_creation_fields by metis
qed

lemma visible_kept_ok:
  assumes "thread_change lib d d'" and inv: "thread_inv lib d"
  shows "visible_ok lib d'"
  using assms(1)
proof cases
  note ord = thread_change_order [OF assms]
  case (record_published c)
  then obtain now g t1 t2 where u: "creation_records d' = map (\<lambda>x. if c_key x = c_key c
      then x\<lparr>c_state := ''published'', c_record_updated_at := now\<rparr> else x) (creation_records d)"
    and c: "c \<in> set (creation_records d)"
    and g: "graph_binding_from_creation_json lib (c_graph_binding c) = Inr g"
    and cat: "thread_catalog d' = thread_catalog d @ [new_thread_row (c_child_thread_id c) ''child'' (c_child_created_at c) g]"
    and b: "owner_bindings d' = owner_bindings d @ [new_owner_binding_row (c_child_thread_id c) (c_final_relative_locator c) t1 t2]"
    and e: "c_purpose c = ''task'' \<longrightarrow> (\<exists>e\<in>set (execution_intents d'). e_thread_id e = c_child_thread_id c)"
    by (auto simp: thread_published_def)
  let ?row = "new_thread_row (c_child_thread_id c) ''child'' (c_child_created_at c) g"
  let ?c = "c\<lparr>c_state := ''published'', c_record_updated_at := now\<rparr>"
  have ch: "children d' = children d @ [?row]" by (simp add: children_def cat new_thread_row_def)
  have same: "x = c" if "x \<in> set (creation_records d)" "c_key x = c_key c" for x
    using thread_inv_unique(1) [OF inv c] that by blast
  have new: "?c \<in> set (creation_records d')" using c by (force simp: u)
  have "publication_complete lib d' ?c"
    using g e ch b by (auto simp: publication_complete_def new_owner_binding_row_def)
  moreover have old: "x = ?c \<or> x \<in> set (creation_records d)" if "x \<in> set (creation_records d')" for x
    using that same by (auto simp: u split: if_splits)
  ultimately have pub: "\<forall>x\<in>set (creation_records d'). c_state x = ''published'' \<longrightarrow> publication_complete lib d' x"
    using inv publication_later [OF ord] unfolding thread_inv_def visible_ok_def by metis
  have "\<exists>x\<in>set (creation_records d'). c_state x = ''published'' \<and> c_child_thread_id x = t_thread_id t
      \<and> c_child_created_at x = t_created_at t" if t: "t \<in> set (children d')" for t
  proof (cases "t = ?row")
    case True
    with new show ?thesis by (intro bexI [of _ ?c]) (simp_all add: new_thread_row_def)
  next
    case False
    with t ch have "t \<in> set (children d)" by simp
    with inv obtain x where x: "x \<in> set (creation_records d)" "c_state x = ''published''"
      "c_child_thread_id x = t_thread_id t" "c_child_created_at x = t_created_at t" by (rule visible_record)
    from published_later [OF ord x(1,2)] obtain x' where "x' \<in> set (creation_records d')" "c_state x' = ''published''"
      "frozen_creation x' = frozen_creation x" .
    with x(3,4) show ?thesis using frozen_creation_fields by metis
  qed
  with pub show ?thesis by (simp add: visible_ok_def)
next
  case (record_created now q k c)
  show ?thesis
  proof (rule visible_later [OF thread_change_order [OF assms] inv])
    show "set (children d') \<subseteq> set (children d)" by (simp add: children_def record_created)
    fix c' assume "c' \<in> set (creation_records d')" "c_state c' = ''published''"
    then show "\<exists>c\<in>set (creation_records d). c_state c = ''published'' \<and> frozen_creation c' = frozen_creation c"
      using admitted_fields(8) [OF record_created(1)] record_created(2) by auto
  qed
next
  case record_frozen
  show ?thesis
  proof (rule visible_later [OF thread_change_order [OF assms] inv])
    fix c' assume "c' \<in> set (creation_records d')" "c_state c' = ''published''"
    with record_frozen(1) show "\<exists>c\<in>set (creation_records d). c_state c = ''published'' \<and> frozen_creation c' = frozen_creation c"
      using creation_freeze_fields by (metis rows_moved_backward)
  qed (use record_frozen in \<open>simp add: children_def\<close>)
next
  case (record_stopped c)
  then show ?thesis
    by (intro visible_later [OF thread_change_order [OF assms] inv]) (auto simp: children_def record_aborted_def split: if_splits)
qed (rule visible_later [OF thread_change_order [OF assms] inv]; fastforce simp: children_def)+

lemma child_ids_later:
  assumes "thread_change lib d d'"
  shows "\<forall>c'\<in>set (creation_records d'). (\<exists>c\<in>set (creation_records d). c_child_thread_id c' = c_child_thread_id c)
     \<or> (main_rows d \<noteq> [] \<and> \<not> in_catalog (c_child_thread_id c') d)"
  using assms
proof cases
  case (record_created now q k c)
  have "main_rows d \<noteq> []" "\<not> in_catalog (c_child_thread_id c) d"
    using admitted_world(3,5) [OF record_created(1)] admitted_fields(3) [OF record_created(1)] by auto
  with record_created(2) show ?thesis by auto
next
  case record_frozen
  have "\<exists>c\<in>set (creation_records d). c_child_thread_id c' = c_child_thread_id c" if "c' \<in> set (creation_records d')" for c'
  proof -
    from record_frozen(1) that obtain c where "c \<in> set (creation_records d)" "c' = c \<or> creation_freeze c c'" by (rule rows_moved_backward)
    then show ?thesis using creation_freeze_fields frozen_creation_fields(2) by blast
  qed
  then show ?thesis by blast
next
  case (record_published c)
  then obtain now where u: "creation_records d' = map (\<lambda>x. if c_key x = c_key c
      then x\<lparr>c_state := ''published'', c_record_updated_at := now\<rparr> else x) (creation_records d)"
    by (auto simp: thread_published_def)
  show ?thesis unfolding u set_map by force
next
  case (record_stopped c)
  then obtain reason now where u: "creation_records d' = map (\<lambda>x. if c_key x = c_key c
      then x\<lparr>c_state := ''aborted'', c_abort_reason := Some reason, c_record_updated_at := now\<rparr> else x) (creation_records d)"
    by (auto simp: record_aborted_def)
  show ?thesis unfolding u set_map by force
qed auto

lemma main_kept_ok:
  assumes "thread_change lib d d'" and inv: "thread_inv lib d" and "main_rows d \<noteq> [] \<longrightarrow> main_rows d' = main_rows d"
  shows "main_apart d'"
proof (cases "creation_records d' = []")
  case False
  then obtain c0 where "c0 \<in> set (creation_records d')" by (cases "creation_records d'") auto
  with child_ids_later [OF assms(1)] have "main_rows d \<noteq> [] \<or> creation_records d \<noteq> []" by fastforce
  then have main: "main_rows d \<noteq> []" using inv by (auto simp: thread_inv_def main_apart_def)
  have "t_thread_id m \<noteq> c_child_thread_id c" if "c \<in> set (creation_records d')" "m \<in> set (main_rows d)" for c m
    using bspec [OF child_ids_later [OF assms(1)] that(1)] inv that(2)
    by (auto simp: thread_inv_def main_apart_def main_rows_def in_catalog_def list_ex_iff)
  with main assms(3) show ?thesis by (auto simp: main_apart_def)
qed (simp add: main_apart_def)

lemma new_intent_ok:
  assumes "e = new_intent_row lib now key sid (c_child_thread_id c) (c_initial_state c) (c_key c)" "intent_check e"
    and "c \<in> set (creation_records d)" "c_state c = ''published''"
  shows "intent_ok lib d e"
proof -
  have "e_state e = ''pending''" "e_creation_key e = c_key c" "e_thread_id e = c_child_thread_id c" "e_initial_state e = c_initial_state c"
    "derive_initial_execution_identity lib (e_admission_key e) = (e_execution_binding_id e, e_job_id e)"
    "e_binding_preimage_hash e = binding_preimage_hash_of lib (e_admission_key e) (e_session_id e) (e_thread_id e)
          (e_creation_key e) (e_initial_state e) (e_execution_binding_id e) (e_job_id e)"
    by (simp_all add: assms(1) new_intent_row_def split: prod.split)
  with assms(2-) show ?thesis by (auto simp: intent_ok_def)
qed

lemma intent_move_ok: "intent_move e e' \<Longrightarrow> intent_ok lib d e \<Longrightarrow> intent_ok lib d e'"
  by (induction rule: intent_move.induct) (auto simp: intent_ok_def intent_check_def)

lemma intents_added_ok:
  assumes "intents_ok lib d" "thread_order lib d d'" "execution_intents d' = execution_intents d @ [e]"
    and "intent_ok lib d' e" "\<forall>x\<in>set (execution_intents d). \<not> intent_clash e x"
  shows "intents_ok lib d'"
  using assms intent_ok_later [OF assms(2)]
  by (simp add: intents_ok_def distinct_snoc intent_clash_def del: map_append)

lemma intents_kept_ok:
  assumes "thread_change lib d d'" and inv: "thread_inv lib d"
  shows "intents_ok lib d'"
proof -
  note ord = thread_change_order [OF assms]
  have old: "intents_ok lib d" using inv by (simp add: thread_inv_def)
  then have same: "execution_intents d' = execution_intents d \<Longrightarrow> intents_ok lib d'"
    using intent_ok_later [OF ord] by (simp add: intents_ok_def)
  from assms(1) show ?thesis
  proof cases
    case (record_published c)
    then consider "execution_intents d' = execution_intents d"
      | now sid e where "e = new_intent_row lib now (c_key c) sid (c_child_thread_id c) (c_initial_state c) (c_key c)"
          "execution_intents d' = execution_intents d @ [e]" "intent_check e" "\<forall>x\<in>set (execution_intents d). \<not> intent_clash e x"
      unfolding thread_published_def by blast
    then show ?thesis
    proof cases
      case 2
      from record_published obtain t where u: "creation_records d' = map (\<lambda>x. if c_key x = c_key c
          then x\<lparr>c_state := ''published'', c_record_updated_at := t\<rparr> else x) (creation_records d)"
        and c: "c \<in> set (creation_records d)" unfolding thread_published_def by blast
      have "c\<lparr>c_state := ''published'', c_record_updated_at := t\<rparr> \<in> set (creation_records d')" unfolding u set_map
        by (rule image_eqI [OF _ c]) simp
      with 2(1,3) have "intent_ok lib d' e" by (intro new_intent_ok) auto
      from intents_added_ok [OF old ord 2(2) this 2(4)] show ?thesis .
    qed (rule same)
  next
    case (intent_added e)
    then obtain now sid c where "c \<in> set (creation_records d')" "c_state c = ''published''"
      "e = new_intent_row lib now (e_admission_key e) sid (c_child_thread_id c) (c_initial_state c) (c_key c)" "intent_check e"
      by (auto simp: intent_admitted_def)
    then have "intent_ok lib d' e" by (intro new_intent_ok)
    from intents_added_ok [OF old ord intent_added(2) this] intent_added(1) show ?thesis by (simp add: intent_admitted_def)
  next
    case intents_moved
    have "\<forall>e\<in>set (execution_intents d'). intent_ok lib d' e"
      by (rule rows_moved_all [OF intents_moved(1)])
        (use old intent_ok_later [OF ord] intent_move_ok in \<open>auto simp: intents_ok_def\<close>)
    moreover have "intent_move x y \<Longrightarrow> e_admission_key y = e_admission_key x \<and> e_thread_id y = e_thread_id x" for x y
      by (induction rule: intent_move.induct) auto
    ultimately show ?thesis using old rows_moved_distinct [OF intents_moved(1)] unfolding intents_ok_def by metis
  qed (rule same, assumption)+
qed

lemma new_binding_ok: "binding_ok lib (new_owner_binding_row tid locator t1 t2)"
proof -
  have "slot_text sl (new_owner_binding_row tid locator t1 t2) = u ''[]''" for sl
    by (cases sl) (simp_all add: new_owner_binding_row_def)
  with empty_slot show ?thesis
    by (auto simp: binding_ok_def provenance_ok_def owner_binding_check_def new_owner_binding_row_def EPOCH_REASONS_def)
qed

lemma bindings_added_ok:
  assumes "bindings_ok lib d" "owner_bindings d' = owner_bindings d @ [new_owner_binding_row tid locator t1 t2]"
    and "\<forall>b\<in>set (owner_bindings d). b_thread_id b \<noteq> tid"
  shows "bindings_ok lib d'"
proof -
  have "b_thread_id (new_owner_binding_row tid locator t1 t2) = tid" by (simp add: new_owner_binding_row_def)
  with assms show ?thesis by (auto simp: bindings_ok_def new_binding_ok)
qed

lemma bindings_kept_ok:
  assumes "thread_change lib d d'" and inv: "thread_inv lib d"
  shows "bindings_ok lib d'"
proof -
  have old: "bindings_ok lib d" using inv by (simp add: thread_inv_def)
  then have same: "owner_bindings d' = owner_bindings d \<Longrightarrow> bindings_ok lib d'" by (simp add: bindings_ok_def)
  from assms(1) show ?thesis
  proof cases
    case (record_published c)
    then show ?thesis using bindings_added_ok [OF old] unfolding thread_published_def by blast
  next
    case (binding_added tid locator t1 t2)
    show ?thesis by (rule bindings_added_ok [OF old binding_added(2,1)])
  next
    case bindings_moved
    have "\<forall>b\<in>set (owner_bindings d'). binding_ok lib b"
      by (rule rows_moved_all [OF bindings_moved(1)]) (use old in \<open>auto simp: bindings_ok_def binding_move_def\<close>)
    moreover have "binding_move lib x y \<Longrightarrow> b_thread_id y = b_thread_id x" for x y by (simp add: binding_move_def)
    ultimately show ?thesis using old rows_moved_distinct [OF bindings_moved(1)] unfolding bindings_ok_def by metis
  qed (rule same, assumption)+
qed

lemma thread_change_inv:
  assumes "thread_change lib d d'" "thread_inv lib d" "main_rows d \<noteq> [] \<longrightarrow> main_rows d' = main_rows d"
  shows "thread_inv lib d'"
  using records_kept_ok [OF assms(1,2)] visible_kept_ok [OF assms(1,2)] main_kept_ok [OF assms]
    intents_kept_ok [OF assms(1,2)] bindings_kept_ok [OF assms(1,2)] by (simp add: thread_inv_def)

subsection \<open>Histories of the store\<close>

lemma db_change_threads:
  assumes "db_change lib issued d d'" "thread_inv lib d"
  shows "thread_change lib d d'"
  using assms by cases (auto simp: children_def intro: thread_change.threads_same)

lemma db_change_main: "db_change lib issued d d' \<Longrightarrow> main_rows d \<noteq> [] \<Longrightarrow> main_rows d' = main_rows d"
  by (induction rule: db_change.induct) (auto simp: main_rows_def catalog_grown_def)

lemma thread_inv_empty: "thread_inv lib empty_db"
  by (simp add: thread_inv_defs empty_db_def children_def main_rows_def)

definition store_inv :: "py_library \<Rightarrow> control_db \<Rightarrow> bool" where
  "store_inv lib d \<longleftrightarrow> db_inv (lib_sha256 lib) d \<and> thread_inv lib d"

interpretation threads: step_invariant "control_step lib issued" "\<lambda>s. store_inv lib (db s)" for lib issued
proof (unfold_locales, unfold store_inv_def, elim conjE, intro conjI)
  fix s t
  assume s: "control_step lib issued s t" "db_inv (lib_sha256 lib) (db s)" "thread_inv lib (db s)"
  then show "db_inv (lib_sha256 lib) (db t)" using store.inv_step by blast
  have "db_change lib issued (db s) (db t)" using s(1,2) by (rule control_step_implements_spec)
  then show "thread_inv lib (db t)"
    using thread_change_inv [OF db_change_threads s(3)] s(3) db_change_main by blast
qed

interpretation thread_history: step_order "\<lambda>d d'. thread_inv lib d \<and> thread_change lib d d'" "thread_order lib" for lib
  by unfold_locales (blast intro: thread_order_refl thread_order_trans thread_change_order)+

lemma control_steps_threads:
  assumes "(control_step lib issued)\<^sup>*\<^sup>* s s'" "store_inv lib (db s)"
  shows "(\<lambda>d d'. thread_inv lib d \<and> thread_change lib d d')\<^sup>*\<^sup>* (db s) (db s')"
  using assms
proof (induction rule: rtranclp_induct)
  case (step t v)
  from threads.steps_inv [OF step.hyps(1)] step.prems have inv: "store_inv lib (db t)" .
  then have "thread_change lib (db t) (db v)"
    using step.hyps(2) control_step_implements_spec db_change_threads unfolding store_inv_def by blast
  with step inv show ?case by (simp add: store_inv_def rtranclp.rtrancl_into_rtrancl)
qed simp

lemmas threads_later = thread_history.steps_rel [OF control_steps_threads]

lemma reachable_store_inv:
  assumes "(control_step lib issued)\<^sup>*\<^sup>* s s'" "db s = empty_db"
  shows "store_inv lib (db s')"
  using threads.steps_inv [OF assms(1)] assms(2) by (simp add: store_inv_def db_inv_empty thread_inv_empty)

text \<open>Behind a closed fence nothing is created or published any more.\<close>

definition fence_shut :: "control_db \<Rightarrow> bool" where
  "fence_shut d \<longleftrightarrow> (\<exists>f. fence d = Some f \<and> f_state f \<noteq> ''active'')"

lemma shut_thread_change:
  assumes "thread_change lib d d'" "fence_shut d"
  shows "children d' = children d" "map c_key (creation_records d') = map c_key (creation_records d)"
proof -
  have "children d' = children d \<and> map c_key (creation_records d') = map c_key (creation_records d)"
    using assms(1)
  proof cases
    case (record_created now q k c)
    with assms(2) show ?thesis using admitted_world(6,7) [OF record_created(1)] by (auto simp: fence_shut_def)
  next
    case record_frozen
    have "c_key y = c_key x" if "creation_freeze x y" for x y
      using creation_freeze_fields [OF that] frozen_creation_fields(1) by blast
    with rows_moved_map [OF record_frozen(1)] have "map c_key (creation_records d') = map c_key (creation_records d)" .
    with record_frozen show ?thesis by (simp add: children_def)
  next
    case (record_published c)
    with assms(2) show ?thesis by (auto simp: fence_shut_def thread_published_def)
  next
    case (record_stopped c)
    then show ?thesis by (auto simp: record_aborted_def children_def)
  qed (simp_all add: children_def)
  then show "children d' = children d" "map c_key (creation_records d') = map c_key (creation_records d)" by auto
qed

lemma shut_later:
  assumes "(control_step lib issued)\<^sup>*\<^sup>* s s'" "store_inv lib (db s)" "fence_shut (db s)"
  shows "fence_shut (db s')" "children (db s') = children (db s)"
    "map c_key (creation_records (db s')) = map c_key (creation_records (db s))"
proof -
  from assms have "fence_shut (db s') \<and> children (db s') = children (db s)
    \<and> map c_key (creation_records (db s')) = map c_key (creation_records (db s))"
  proof (induction rule: rtranclp_induct)
    case (step t v)
    have inv: "store_inv lib (db t)" using threads.steps_inv [OF step.hyps(1)] step.prems(1) .
    have change: "db_change lib issued (db t) (db v)"
      using step.hyps(2) inv control_step_implements_spec unfolding store_inv_def by blast
    have "thread_change lib (db t) (db v)" using change inv db_change_threads unfolding store_inv_def by blast
    from shut_thread_change [OF this] fence_order_step [OF change] step show ?case
      by (auto simp: fence_order_def fence_shut_def)
  qed simp
  then show "fence_shut (db s')" "children (db s') = children (db s)"
    "map c_key (creation_records (db s')) = map c_key (creation_records (db s))" by auto
qed

end
