(* ===== verification/Thread_Correct.thy ===== *)
theory Thread_Correct
  imports Thread_History
begin

section \<open>Correctness of thread creation\<close>

text \<open>
  The properties of child threads over histories of the whole store: a thread is visible exactly when its
  record is published, and then it has its slots, its locator and, for a task, its execution intent;
  records, intents and slots keep what was recorded; nothing is created behind a closed fence.
\<close>

subsection \<open>Reading slots\<close>

lemma provenance_read: "provenance_ok lib p \<Longrightarrow> \<exists>x. read_provenance lib p = Inr x"
proof (cases p)
  case (Some x)
  assume "provenance_ok lib p"
  with Some obtain d where "plain (JObj d)" "printable (JObj d)" "x = json_text (lib_floats lib) (JObj d)"
    unfolding provenance_ok_def by auto
  then have "loads lib x = Some (sort_json (JObj d))" by (simp only: loads_def json_round_trip)
  with Some show ?thesis by (simp add: read_provenance_def)
qed (simp add: read_provenance_def)

lemma binding_read:
  assumes "binding_ok lib b"
  obtains p ls where "owner_binding_from_row lib b = Inr \<lparr>ob_row = b, ob_mutation_provenance = p, ob_lists = ls\<rparr>"
    "list_all2 (\<lambda>sl es. slot_holds lib (slot_text sl b) es) append_columns ls"
proof -
  define es where "es sl = (SOME es. slot_holds lib (slot_text sl b) es)" for sl
  have es: "slot_holds lib (slot_text sl b) (es sl)" for sl
    using assms unfolding es_def binding_ok_def by (metis someI_ex)
  obtain p where p: "read_provenance lib (b_mutation_provenance b) = Inr p"
    using assms provenance_read unfolding binding_ok_def by blast
  have "map_res (\<lambda>sl. canonical_json_list lib (slot_text sl b)) append_columns = Inr (map es append_columns)"
    using slot_holds_list [OF es] by (simp add: map_res_eq_Inr list_all2_map2 list_all2_same)
  with p have "owner_binding_from_row lib b = Inr \<lparr>ob_row = b, ob_mutation_provenance = p, ob_lists = map es append_columns\<rparr>"
    by (simp add: owner_binding_from_row_def)
  then show thesis by (rule that) (simp add: list_all2_conv_all_nth es)
qed

lemma fetch_binding_unique:
  "thread_inv lib d \<Longrightarrow> b \<in> set (owner_bindings d) \<Longrightarrow> fetch_owner_binding (b_thread_id b) d = Some b"
  using select_one_unique [of b_thread_id "owner_bindings d" b] by (simp add: fetch_owner_binding_def thread_inv_defs)

lemma get_binding:
  assumes "thread_inv lib (db s)" "b \<in> set (owner_bindings (db s))" "check_thread_id (b_thread_id b) = Inr ()" "\<not> closed s"
  shows "get_thread_owner_binding lib (b_thread_id b) s = (owner_binding_from_row lib b, s)"
  using assms(3,4) fetch_binding_unique [OF assms(1,2)]
  by (simp add: get_thread_owner_binding_def checked_def read_op_def ensure_open_def require_def)

definition scalar_value :: "json \<Rightarrow> bool" where
  "scalar_value v \<longleftrightarrow> (case v of JStr x \<Rightarrow> validate_ref_text x = Inr () | JArr _ \<Rightarrow> False | JObj _ \<Rightarrow> False
     | JFloat _ \<Rightarrow> False | _ \<Rightarrow> True)"

definition well_typed_entry :: "obj \<Rightarrow> bool" where
  "well_typed_entry d \<longleftrightarrow> distinct (map fst d) \<and> list_all (\<lambda>(k, v). k \<noteq> [] \<and> \<not> credential_key k \<and> scalar_value v) d"

lemma entry_well_typed:
  assumes "entry_ok d"
  shows "well_typed_entry d"
proof -
  have "k \<noteq> [] \<and> \<not> credential_key k \<and> scalar_value v" if "validate_entry_item (k, v) = Inr ()" for k v
    using that by (cases v) (auto simp: validate_entry_item_def scalar_value_def)
  with assms show ?thesis by (auto simp: entry_ok_def well_typed_entry_def list_all_iff validate_json_entry_iff)
qed

text \<open>
  C19: the slots of a thread are well typed: in every reachable database each row of slots can be read back;
  the six lists consist of objects without duplicate keys, without empty or credential keys, whose values
  are null, booleans, integers or references that are no absolute or climbing path.
\<close>

theorem owner_slots_well_typed:
  assumes "(control_step lib issued)\<^sup>*\<^sup>* s s'" "db s = empty_db" "b \<in> set (owner_bindings (db s'))"
  shows "\<exists>ob. owner_binding_from_row lib b = Inr ob \<and> ob_row ob = b \<and> length (ob_lists ob) = 6
    \<and> list_all (list_all well_typed_entry) (ob_lists ob)"
proof -
  have "thread_inv lib (db s')" using reachable_store_inv [OF assms(1,2)] by (simp add: store_inv_def)
  with assms(3) have "binding_ok lib b" by (simp add: thread_inv_defs)
  from binding_read [OF this] obtain p ls where
      ls: "owner_binding_from_row lib b = Inr \<lparr>ob_row = b, ob_mutation_provenance = p, ob_lists = ls\<rparr>"
    and holds: "list_all2 (\<lambda>sl es. slot_holds lib (slot_text sl b) es) append_columns ls" .
  have "\<exists>sl. slot_holds lib (slot_text sl b) es" if "es \<in> set ls" for es
    using holds that by (auto simp: list_all2_conv_all_nth in_set_conv_nth)
  then have "list_all (list_all well_typed_entry) ls"
    using entry_well_typed unfolding slot_holds_def list_all_iff by blast
  moreover have "length ls = 6" using list_all2_lengthD [OF holds] by (simp add: append_columns_def)
  ultimately show ?thesis unfolding ls by simp
qed

subsection \<open>Publication\<close>

text \<open>
  C11: the tables of threads fit together in every reachable database (\<open>thread_inv\<close>): keys and children are unique,
  locators and graph bindings are the frozen ones, a visible child belongs to a published record and a
  published record to a visible child with slots and intent, intents have the derived identity.
\<close>

theorem thread_tables_invariant:
  assumes "(control_step lib issued)\<^sup>*\<^sup>* s s'" "db s = empty_db"
  shows "thread_inv lib (db s')"
  using reachable_store_inv [OF assms] by (simp add: store_inv_def)

lemma unique_image:
  assumes "distinct (map k t)" "x \<in> set t" "k x = i"
  shows "filter (\<lambda>y. k y = i) t = [x]"
  using assms
proof (induction t)
  case (Cons y t)
  then show ?case by (cases "k y = i") (auto simp: filter_empty_conv intro: rev_image_eqI)
qed simp

text \<open>
  C4: a thread is visible exactly when it is published, and publication is complete: in every reachable
  database a child row of the catalog and a published record come together; such a child has exactly one
  row of slots, with the locator of the record, and at most one execution intent, exactly one for a task.
\<close>

theorem visible_iff_published:
  assumes "(control_step lib issued)\<^sup>*\<^sup>* s s'" "db s = empty_db"
  shows "((\<exists>t\<in>set (thread_catalog (db s')). t_thread_id t = tid \<and> t_kind t = ''child'')
      \<longleftrightarrow> (\<exists>c\<in>set (creation_records (db s')). c_child_thread_id c = tid \<and> c_state c = ''published''))
    \<and> (\<forall>c\<in>set (creation_records (db s')). c_state c = ''published'' \<and> c_child_thread_id c = tid \<longrightarrow>
      (\<exists>b. filter (\<lambda>b. b_thread_id b = tid) (owner_bindings (db s')) = [b]
         \<and> b_final_relative_locator b = c_final_relative_locator c)
      \<and> length (filter (\<lambda>e. e_thread_id e = tid) (execution_intents (db s'))) \<le> 1
      \<and> (c_purpose c = ''task'' \<longrightarrow> length (filter (\<lambda>e. e_thread_id e = tid) (execution_intents (db s'))) = 1))"
proof (intro conjI ballI impI)
  let ?d = "db s'"
  have inv: "thread_inv lib ?d" using reachable_store_inv [OF assms] by (simp add: store_inv_def)
  have pub: "publication_complete lib ?d c" if "c \<in> set (creation_records ?d)" "c_state c = ''published''" for c
    using inv that by (simp add: thread_inv_defs)
  show "(\<exists>t\<in>set (thread_catalog ?d). t_thread_id t = tid \<and> t_kind t = ''child'')
      \<longleftrightarrow> (\<exists>c\<in>set (creation_records ?d). c_child_thread_id c = tid \<and> c_state c = ''published'')"
  proof
    assume "\<exists>t\<in>set (thread_catalog ?d). t_thread_id t = tid \<and> t_kind t = ''child''"
    then obtain t where "t \<in> set (children ?d)" "t_thread_id t = tid" by (auto simp: children_def)
    with visible_record [OF inv] show "\<exists>c\<in>set (creation_records ?d). c_child_thread_id c = tid \<and> c_state c = ''published''"
      by metis
  next
    assume "\<exists>c\<in>set (creation_records ?d). c_child_thread_id c = tid \<and> c_state c = ''published''"
    then obtain c where c: "c \<in> set (creation_records ?d)" "c_child_thread_id c = tid" "c_state c = ''published''" by blast
    from pub [OF c(1,3)] obtain g where "new_thread_row (c_child_thread_id c) ''child'' (c_child_created_at c) g \<in> set (thread_catalog ?d)"
      by (auto simp: publication_complete_def children_def)
    with c(2) show "\<exists>t\<in>set (thread_catalog ?d). t_thread_id t = tid \<and> t_kind t = ''child''"
      by (intro bexI) (simp_all add: new_thread_row_def)
  qed
  fix c
  assume c: "c \<in> set (creation_records ?d)" "c_state c = ''published'' \<and> c_child_thread_id c = tid"
  from pub [OF c(1)] c(2) obtain b where "b \<in> set (owner_bindings ?d)" "b_thread_id b = tid"
    "b_final_relative_locator b = c_final_relative_locator c" by (auto simp: publication_complete_def)
  with unique_image [of b_thread_id "owner_bindings ?d" b tid] inv
  show "\<exists>b. filter (\<lambda>b. b_thread_id b = tid) (owner_bindings ?d) = [b] \<and> b_final_relative_locator b = c_final_relative_locator c"
    by (auto simp: thread_inv_defs)
  have one: "filter (\<lambda>e. e_thread_id e = tid) (execution_intents ?d) = [e]"
    if "e \<in> set (execution_intents ?d)" "e_thread_id e = tid" for e
    using unique_image [of e_thread_id "execution_intents ?d" e tid] that inv by (simp add: thread_inv_defs)
  then show "length (filter (\<lambda>e. e_thread_id e = tid) (execution_intents ?d)) \<le> 1"
    by (cases "\<exists>e\<in>set (execution_intents ?d). e_thread_id e = tid") (auto simp: filter_empty_conv)
  assume "c_purpose c = ''task''"
  with pub [OF c(1)] c(2) one show "length (filter (\<lambda>e. e_thread_id e = tid) (execution_intents ?d)) = 1"
    by (force simp: publication_complete_def)
qed

lemma locate_child:
  assumes inv: "store_inv lib d" and t: "t \<in> set (thread_catalog d)" "t_kind t = ''child''"
  obtains c date where "c \<in> set (creation_records d)" "c_child_thread_id c = t_thread_id t" "check_thread_id (t_thread_id t) = Inr ()"
    "published_child_thread_locator_of lib (t_thread_id t) d = Inr (c_final_relative_locator c)"
    "c_final_relative_locator c = thread_locator date (t_thread_id t)"
proof -
  have sinv: "db_inv (lib_sha256 lib) d" and tinv: "thread_inv lib d" using inv by (simp_all add: store_inv_def)
  have "t \<in> set (children d)" using t by (simp add: children_def)
  with tinv obtain c where c: "c \<in> set (creation_records d)" "c_state c = ''published''" "c_child_thread_id c = t_thread_id t"
    "c_child_created_at c = t_created_at t" by (rule visible_record)
  have ok: "creation_ok lib c" using tinv c(1) by (simp add: thread_inv_defs)
  then obtain date where date: "c_final_relative_locator c = thread_locator date (t_thread_id t)"
    using c(3) unfolding creation_ok_def by metis
  have row: "select_one (\<lambda>x. t_thread_id x = t_thread_id t) (thread_catalog d) = Some t"
    using select_one_unique [of t_thread_id "thread_catalog d" t] sinv t(1) by (simp add: db_inv_def)
  have rec: "select_one (\<lambda>x. c_child_thread_id x = t_thread_id t) (creation_records d) = Some c"
    using select_one_unique [of c_child_thread_id "creation_records d" c] tinv c by (simp add: thread_inv_defs)
  have "endswith (c_final_relative_locator c) (u ''/'' @ t_thread_id t)"
    by (cases date) (simp add: date thread_locator_def endswith_def startswith_def u_def)
  with row rec ok c t(2) have "published_child_thread_locator_of lib (t_thread_id t) d = Inr (c_final_relative_locator c)"
    by (simp add: published_child_thread_locator_of_def require_def creation_ok_def)
  with c date ok show thesis by (intro that) (simp_all add: creation_ok_def)
qed

text \<open>
  C20: every visible child can be located: for each child row of a well-formed database, on an open store, the
  locator is returned; it is the one its record froze and ends with the identifier of the thread.
\<close>

theorem visible_child_has_locator:
  assumes "store_inv lib (db s)" "\<not> closed s" "t \<in> set (thread_catalog (db s))" "t_kind t = ''child''"
  shows "\<exists>c\<in>set (creation_records (db s)). c_child_thread_id c = t_thread_id t
     \<and> get_published_child_thread_locator lib (t_thread_id t) s = (Inr (c_final_relative_locator c), s)
     \<and> (\<exists>date. c_final_relative_locator c = thread_locator date (t_thread_id t))"
proof -
  obtain c date where c: "c \<in> set (creation_records (db s))" "c_child_thread_id c = t_thread_id t" "check_thread_id (t_thread_id t) = Inr ()"
    "published_child_thread_locator_of lib (t_thread_id t) (db s) = Inr (c_final_relative_locator c)"
    "c_final_relative_locator c = thread_locator date (t_thread_id t)"
    by (rule locate_child [OF assms(1,3,4)])
  with assms(2) have "get_published_child_thread_locator lib (t_thread_id t) s = (Inr (c_final_relative_locator c), s)"
    by (simp add: get_published_child_thread_locator_def checked_def read_op_def ensure_open_def require_def)
  with c show ?thesis by blast
qed

subsection \<open>Histories\<close>

text \<open>
  C5: a creation record keeps what it froze: in every later state the record of the same key has the same child,
  locator, time, preconditions and texts; published and aborted are final, with their reason; a frozen
  manifest and a frozen completion proof stay.
\<close>

theorem creation_record_is_frozen:
  assumes "store_inv lib (db s)" "(control_step lib issued)\<^sup>*\<^sup>* s s'" "c \<in> set (creation_records (db s))"
  shows "\<exists>c'\<in>set (creation_records (db s')). frozen_creation c' = frozen_creation c
     \<and> (c_state c \<noteq> ''preparing'' \<longrightarrow> c_state c' = c_state c \<and> c_abort_reason c' = c_abort_reason c)
     \<and> (c_artifact_manifest_hash c \<noteq> None \<longrightarrow> c_artifact_manifest_hash c' = c_artifact_manifest_hash c
          \<and> c_artifact_manifest c' = c_artifact_manifest c)
     \<and> (c_fork_completion_json c \<noteq> None \<longrightarrow> c_fork_completion_json c' = c_fork_completion_json c)"
  using threads_later [OF assms(2,1)] assms(3) by (auto simp: thread_order_def creation_kept_def)

text \<open>
  C6: an execution intent is bound once: in every later state the intent has the same identity; a claim keeps its
  owner and its generation only grows; a bound intent never changes again.
\<close>

theorem intent_is_bound_once:
  assumes "store_inv lib (db s)" "(control_step lib issued)\<^sup>*\<^sup>* s s'" "e \<in> set (execution_intents (db s))"
  shows "\<exists>e'\<in>set (execution_intents (db s')). frozen_intent e' = frozen_intent e \<and> e_created_at e' = e_created_at e
     \<and> (e_state e = ''bound'' \<longrightarrow> e' = e)
     \<and> (e_claim_owner e \<noteq> None \<longrightarrow> e_claim_owner e' = e_claim_owner e)
     \<and> (\<forall>g. e_claim_generation e = Some g \<longrightarrow> (\<exists>g'. e_claim_generation e' = Some g' \<and> g \<le> g'))"
  using threads_later [OF assms(2,1)] assms(3) by (simp add: thread_order_def intent_kept_def)

lemma publish_needs_fence:
  assumes "fence_shut d"
  shows "\<exists>e. publish_creation_body lib clock new_lease key sid d = Inl e"
proof (cases "publish_creation_body lib clock new_lease key sid d")
  case (Inr r)
  then obtain c' d' where "publish_creation_body lib clock new_lease key sid d = Inr (c', d')" by (cases r) auto
  from publish_outcome(1) [OF this, of "{}"] assms show ?thesis by (auto simp: thread_published_def fence_shut_def)
qed blast

text \<open>
  C7: deletion stops the creation of threads: once the fence is closed, no later state has a new child in the
  catalog or a new creation record, and publishing fails and changes nothing.
\<close>

theorem closed_fence_stops_threads:
  assumes "store_inv lib (db s)" "fence (db s) = Some f" "f_state f = ''deleting''" "(control_step lib issued)\<^sup>*\<^sup>* s s'"
  shows "filter (\<lambda>t. t_kind t = ''child'') (thread_catalog (db s')) = filter (\<lambda>t. t_kind t = ''child'') (thread_catalog (db s))
    \<and> map c_key (creation_records (db s')) = map c_key (creation_records (db s))
    \<and> (\<exists>e. publish_thread_creation_record lib clock new_lease key sid s' = (Inl e, s'))"
proof -
  have "fence_shut (db s)" using assms(2,3) by (simp add: fence_shut_def)
  note later = shut_later [OF assms(4,1) this]
  from publish_needs_fence [OF later(1)] obtain e where "publish_creation_body lib clock new_lease key sid (db s') = Inl e" by blast
  then have "\<exists>e. publish_thread_creation_record lib clock new_lease key sid s' = (Inl e, s')"
    by (auto simp: publish_thread_creation_record_def checked_def write_transaction_def split: sum.splits)
  with later show ?thesis by (simp add: children_def)
qed

subsection \<open>Slots\<close>

lemma binding_later:
  assumes "store_inv lib (db s)" "(control_step lib issued)\<^sup>*\<^sup>* s s'" "b \<in> set (owner_bindings (db s))"
  obtains b' where "b' \<in> set (owner_bindings (db s'))" "binding_kept lib b b'"
  using threads_later [OF assms(2,1)] assms(3) unfolding thread_order_def by blast

lemma slot_nth: "list_all2 P append_columns ls \<Longrightarrow> \<exists>es. (sl, es) \<in> set (zip append_columns ls) \<and> P sl es"
  by (cases sl) (auto simp: append_columns_def list_all2_Cons1)

lemma updated_slot_row:
  assumes "thread_inv lib d" "update_owner_binding_body lib now tid q p d = Inr (b, d')"
    and "dict_update_args q" "check_update_fields lib q = Inr p" "ub_append q sl = Some entry"
  obtains row row' es where "row \<in> set (owner_bindings d)" "b_thread_id row = tid" "row' \<in> set (owner_bindings d')" "b_thread_id row' = tid"
    "slot_holds lib (slot_text sl row) es" "slot_holds lib (slot_text sl row') (es @ [sort_key fst entry])"
proof -
  obtain row slots where row: "fetch_owner_binding tid d = Some row"
    and slots: "appended_slots lib row (requested_appends q) = Inr slots"
    and d': "d' = d\<lparr>owner_bindings := map (\<lambda>x. if b_thread_id x = tid then updated_binding now q p slots x else x) (owner_bindings d)\<rparr>"
    by (rule update_binding_outcome [OF assms(2)])
  note mem = fetch_binding_mem [OF row]
  let ?new = "updated_binding now q p slots row"
  have dis: "distinct (map fst slots)" using appended_slots_iff(1) [OF slots] requested_distinct by metis
  have "map_of (requested_appends q) sl = Some entry" using assms(5) requested_distinct by (simp add: requested_iff)
  with appended_slots_iff(2,3) [OF slots, of sl] obtain x where x: "map_of slots sl = Some x"
    "appended_text lib (slot_text sl row) entry = Inr x" by fastforce
  have new: "slot_text sl ?new = x"
    using x(1) by (simp add: updated_binding_def put_slots_def [symmetric] slot_text_put [OF dis])
  from assms(1) mem have "binding_ok lib row" by (simp add: thread_inv_defs)
  then obtain es where es: "slot_holds lib (slot_text sl row) es" unfolding binding_ok_def by blast
  have "distinct (map fst entry)" using assms(3,5) by (simp add: dict_update_args_def)
  from appended_slot(1) [OF es x(2) this check_update_fields_Inr(2) [OF assms(4,5)]]
  have "slot_holds lib (slot_text sl ?new) (es @ [sort_key fst entry])" by (simp add: new)
  moreover have "?new \<in> set (owner_bindings d')" using mem by (auto simp: d')
  moreover have "b_thread_id ?new = tid" using mem by (simp add: updated_binding_def put_slots_def [symmetric])
  ultimately show thesis using that [of row ?new es] mem es by blast
qed

text \<open>
  C10: what is appended to a slot stays readable: after an update appended an entry, reading the slots in any later
  state of the open store returns for that slot the old entries, then the new one with its keys sorted, then whatever was appended since.
\<close>

theorem appended_entry_is_read_back:
  assumes inv: "store_inv lib (db s)" and args: "dict_update_args q" "ub_append q sl = Some entry"
    and upd: "update_thread_owner_binding lib now tid q s = (Inr b, s1)"
    and steps: "(control_step lib issued)\<^sup>*\<^sup>* s1 s2" and "\<not> closed s2"
  shows "\<exists>b0 b2 es more. fst (get_thread_owner_binding lib tid s) = Inr b0 \<and> get_thread_owner_binding lib tid s2 = (Inr b2, s2)
     \<and> (sl, es) \<in> set (zip append_columns (ob_lists b0))
     \<and> (sl, es @ [sort_key fst entry] @ more) \<in> set (zip append_columns (ob_lists b2))"
proof -
  have step: "control_step lib issued s s1" using upd args(1) t_update_binding [of q lib issued s now tid] by (auto intro: s_thread)
  then have inv1: "store_inv lib (db s1)" using inv threads.inv_step by blast
  with steps have inv2: "store_inv lib (db s2)" using threads.steps_inv by blast
  from upd obtain p where tid: "check_thread_id tid = Inr ()" and chk: "check_update_fields lib q = Inr p"
    and tx: "write_transaction (update_owner_binding_body lib now tid q p) s = (Inr b, s1)"
    by (auto simp: update_thread_owner_binding_def checked_def split: sum.splits)
  then have open0: "\<not> closed s" and body: "update_owner_binding_body lib now tid q p (db s) = Inr (b, db s1)"
    by (auto simp: write_transaction_def begin_immediate_def ensure_open_def split: sum.splits)
  have tinv: "thread_inv lib (db s)" "thread_inv lib (db s1)" "thread_inv lib (db s2)"
    using inv inv1 inv2 by (simp_all add: store_inv_def)
  obtain row row1 es where row: "row \<in> set (owner_bindings (db s))" "b_thread_id row = tid" "row1 \<in> set (owner_bindings (db s1))"
    "b_thread_id row1 = tid" "slot_holds lib (slot_text sl row) es" "slot_holds lib (slot_text sl row1) (es @ [sort_key fst entry])"
    by (rule updated_slot_row [OF tinv(1) body args(1) chk args(2)])
  obtain row2 where row2: "row2 \<in> set (owner_bindings (db s2))" and kept: "binding_kept lib row1 row2"
    by (rule binding_later [OF inv1 steps row(3)])
  from kept row(6) obtain more where more: "slot_holds lib (slot_text sl row2) (es @ [sort_key fst entry] @ more)"
    unfolding binding_kept_def by (metis append.assoc)
  have id2: "b_thread_id row2 = tid" using kept row(4) by (simp add: binding_kept_def)
  have ok: "binding_ok lib row" "binding_ok lib row2" using tinv row(1) row2 by (simp_all add: thread_inv_defs)
  from binding_read [OF ok(1)] obtain p0 ls0 where r0: "owner_binding_from_row lib row = Inr \<lparr>ob_row = row, ob_mutation_provenance = p0, ob_lists = ls0\<rparr>"
    and h0: "list_all2 (\<lambda>sl es. slot_holds lib (slot_text sl row) es) append_columns ls0" .
  from binding_read [OF ok(2)] obtain p2 ls2 where r2: "owner_binding_from_row lib row2 = Inr \<lparr>ob_row = row2, ob_mutation_provenance = p2, ob_lists = ls2\<rparr>"
    and h2: "list_all2 (\<lambda>sl es. slot_holds lib (slot_text sl row2) es) append_columns ls2" .
  have "(sl, es) \<in> set (zip append_columns ls0)" using slot_nth [OF h0] slot_holds_unique [OF row(5)] by blast
  moreover have "(sl, es @ [sort_key fst entry] @ more) \<in> set (zip append_columns ls2)"
    using slot_nth [OF h2] slot_holds_unique [OF more] by blast
  moreover have "get_thread_owner_binding lib tid s = (owner_binding_from_row lib row, s)"
    using get_binding [OF tinv(1) row(1)] tid open0 row(2) by simp
  moreover have "get_thread_owner_binding lib tid s2 = (owner_binding_from_row lib row2, s2)"
    using get_binding [OF tinv(3) row2] tid assms(6) id2 by simp
  ultimately show ?thesis using r0 r2
    by (intro exI [of _ "\<lparr>ob_row = row, ob_mutation_provenance = p0, ob_lists = ls0\<rparr>"]
        exI [of _ "\<lparr>ob_row = row2, ob_mutation_provenance = p2, ob_lists = ls2\<rparr>"] exI [of _ es] exI [of _ more]) simp
qed

subsection \<open>Creating once\<close>

definition request_matches :: "creation_request \<Rightarrow> creation_record \<Rightarrow> bool" where
  "request_matches q c \<longleftrightarrow> c_key c = q_key q \<and> c_preimage_hash c = q_preimage_hash q
     \<and> (q_thread_id q = None \<or> q_thread_id q = Some (c_child_thread_id c)) \<and> c_delegation_id c = q_delegation_id q
     \<and> c_purpose c = q_purpose q \<and> c_request_intent_json c = q_request_intent_json q"

lemma request_matches_later:
  assumes "request_matches q c" "frozen_creation c' = frozen_creation c"
  shows "request_matches q c'"
  using assms(1) by (simp add: request_matches_def frozen_creation_fields [OF assms(2)])

lemma check_existing_plain:
  assumes "q_member q = None"
  shows "check_existing_creation lib q c d = Inr () \<and> c_key c = q_key q \<longleftrightarrow> request_matches q c"
  using assms by (auto simp: check_existing_creation_def request_matches_def)

lemma fetch_creation_unique:
  "thread_inv lib d \<Longrightarrow> c \<in> set (creation_records d) \<Longrightarrow> fetch_creation_record (c_key c) d = Some c"
  using select_one_unique [of c_key "creation_records d" c] by (simp add: fetch_creation_record_def thread_inv_defs)

lemma created_record:
  assumes "create_creation_body lib clock new_thread new_lease q d = Inr (c, d')" "new_lease \<notin> issued"
  shows "c_key c = q_key q" "c \<in> set (creation_records d')" "q_member q = None \<Longrightarrow> request_matches q c"
proof -
  have "c_key c = q_key q \<and> c \<in> set (creation_records d') \<and> (q_member q = None \<longrightarrow> request_matches q c)"
  proof (cases "fetch_creation_record (q_key q) d")
    case None
    with assms(1) have ins: "insert_thread_creation_record lib clock new_thread new_lease q d = Inr (c, d')"
      by (simp add: create_creation_body_def)
    from insert_creation_outcome(1) [OF ins assms(2)] obtain k where k: "creation_admitted lib (clock 0) q d k c" ..
    have "q_thread_id q = None \<or> q_thread_id q = Some (fc_child k)" using k by (simp add: creation_admitted_def)
    with admitted_fields [OF k] have "request_matches q c" by (simp add: request_matches_def)
    with insert_creation_outcome(2) [OF ins assms(2)] show ?thesis by (simp add: request_matches_def)
  next
    case (Some c0)
    with assms(1) have "check_existing_creation lib q c d = Inr ()" "c0 = c" "d' = d" by (auto simp: create_creation_body_def)
    with fetch_creation_mem [OF Some] check_existing_plain show ?thesis by blast
  qed
  then show "c_key c = q_key q" "c \<in> set (creation_records d')" "q_member q = None \<Longrightarrow> request_matches q c" by auto
qed

text \<open>
  C9: a child is created once: after a creation succeeded, repeating the request in any later state on a free connection
  changes nothing, and if it returns, then the same record, with the same child, locator and time, in whatever state it
  then is. A request without delegation does return; a delegated one may be refused, for example once it is aborted.
\<close>

theorem child_is_created_once:
  assumes inv: "store_inv lib (db s)" and fresh: "new_lease \<notin> issued"
    and first: "create_or_get_thread_creation_record lib clock new_thread new_lease q s = (Inr c, s1)"
    and steps: "(control_step lib issued)\<^sup>*\<^sup>* s1 s2" and free: "begin_immediate s2 = Inr ()"
  shows "\<exists>r. create_or_get_thread_creation_record lib clock' new_thread' new_lease' q s2 = (r, s2)
     \<and> (\<forall>c2. r = Inr c2 \<longrightarrow> frozen_creation c2 = frozen_creation c)
     \<and> (q_member q = None \<longrightarrow> (\<exists>c2. r = Inr c2))"
proof -
  have "control_step lib issued s s1" using t_create [OF fresh, of lib s clock new_thread q] first by (auto intro: s_thread)
  then have inv1: "store_inv lib (db s1)" using inv threads.inv_step by blast
  with steps have inv2: "thread_inv lib (db s2)" using threads.steps_inv unfolding store_inv_def by blast
  from first obtain x where valid: "validate_creation_request lib q = Inr x"
    and tx: "write_transaction (create_creation_body lib clock new_thread new_lease q) s = (Inr c, s1)"
    by (auto simp: create_or_get_thread_creation_record_def checked_def split: sum.splits)
  then have "create_creation_body lib clock new_thread new_lease q (db s) = Inr (c, db s1)"
    by (auto simp: write_transaction_def split: sum.splits)
  note made = created_record [OF this fresh]
  from threads_later [OF steps inv1] made(2) obtain c2 where c2: "c2 \<in> set (creation_records (db s2))" "frozen_creation c2 = frozen_creation c"
    unfolding thread_order_def creation_kept_def by blast
  then have key: "c_key c2 = q_key q" using made(1) frozen_creation_fields(1) [OF c2(2)] by simp
  with fetch_creation_unique [OF inv2 c2(1)] have "create_creation_body lib clock' new_thread' new_lease' q (db s2)
      = bind_res (check_existing_creation lib q c2 (db s2)) (\<lambda>_. Inr (c2, db s2))"
    by (simp add: create_creation_body_def)
  with free valid have run: "create_or_get_thread_creation_record lib clock' new_thread' new_lease' q s2
      = (bind_res (check_existing_creation lib q c2 (db s2)) (\<lambda>_. Inr c2), s2)"
    by (cases "check_existing_creation lib q c2 (db s2)")
      (simp_all add: create_or_get_thread_creation_record_def checked_def write_transaction_def)
  have "check_existing_creation lib q c2 (db s2) = Inr ()" if "q_member q = None"
    using request_matches_later [OF made(3) c2(2)] check_existing_plain that by blast
  with run c2(2) show ?thesis by auto
qed

subsection \<open>Publishing succeeds\<close>

text \<open>The conditions under which a prepared task can be published; \<open>publishable\<close> is about the database alone.\<close>

definition publishable :: "py_library \<Rightarrow> ustr \<Rightarrow> (nat \<Rightarrow> ustr) \<Rightarrow> creation_record \<Rightarrow> control_db \<Rightarrow> bool" where
  "publishable lib sid clock c d \<longleftrightarrow> c \<in> set (creation_records d) \<and> c_state c = ''preparing'' \<and> c_purpose c = ''task''
     \<and> c_artifact_manifest_hash c \<noteq> None \<and> c_delegation_id c = None \<and> c_collaboration_revision c = None
     \<and> fence d = Some \<lparr>f_state = ''active'', f_generation = c_owner_generation c\<rparr>
     \<and> c_catalog_revision c \<le> length (thread_catalog d) \<and> \<not> in_catalog (c_child_thread_id c) d
     \<and> (\<forall>g. graph_binding_from_creation_json lib (c_graph_binding c) = Inr g \<longrightarrow> graph_revision g < 2 ^ 63)
     \<and> (\<forall>b\<in>set (owner_bindings d). b_thread_id b \<noteq> c_child_thread_id c)
     \<and> (\<forall>e\<in>set (execution_intents d). \<not> intent_clash
          (new_intent_row lib (clock 4) (c_key c) sid (c_child_thread_id c) (c_initial_state c) (c_key c)) e)"

text \<open>What the library must do with the instant of the record: read it as a time of the day in the locator.\<close>

definition instant_read_back :: "py_library \<Rightarrow> creation_record \<Rightarrow> bool" where
  "instant_read_back lib c \<longleftrightarrow> (\<exists>t date. lib_fromisoformat lib (c_child_created_at c) = Some t \<and> utc_date t = Inr date
     \<and> c_final_relative_locator c = thread_locator date (c_child_thread_id c))"

lemma binding_json_revision: "graph_binding_from_creation_json lib x = Inr g \<Longrightarrow> 1 \<le> graph_revision g"
  by (auto simp: graph_binding_from_creation_json_def graph_binding_of_fields_def make_graph_binding_def
      split: option.splits json.splits if_splits sum.splits)

lemma creation_update_unique:
  assumes "thread_inv lib d" "c \<in> set (creation_records d)" "creation_check (f c)" "c_key (f c) = c_key c"
    and "creation_records d0 = creation_records d"
  shows "creation_update (c_key c) f d0 = Inr (f c, d0\<lparr>creation_records := map (\<lambda>x. if c_key x = c_key c then f x else x) (creation_records d)\<rparr>)"
proof -
  have same: "x = c" if "x \<in> set (creation_records d)" "c_key x = c_key c" for x
    using thread_inv_unique(1) [OF assms(1,2)] that by blast
  let ?t = "map (\<lambda>x. if c_key x = c_key c then f x else x) (creation_records d)"
  have "sql_update creation_check (\<lambda>x. c_key x = c_key c) f (creation_records d) = Inr (length (filter (\<lambda>x. c_key x = c_key c) (creation_records d)), ?t)"
    unfolding sql_update_eq_Inr using same assms(3) by auto
  moreover have "map c_key ?t = map c_key (creation_records d)" using same assms(4) by auto
  then have "distinct (map c_key ?t)" using assms(1) unfolding thread_inv_def records_ok_def by argo
  moreover have "f c \<in> set ?t" using assms(2) by force
  ultimately show ?thesis using select_one_unique [of c_key ?t "f c"] assms(4,5)
    by (simp add: creation_update_def fetch_creation_record_def)
qed

lemma publish_intent:
  assumes "validate_thread_creation_key key = Inr ()" "check_session_id sid = Inr ()" "check_thread_id (c_child_thread_id c) = Inr ()"
    and "c_initial_state c \<in> set INITIAL_STATES" "fetch_creation_record key d = Some c" "c_state c = ''published''"
    and "in_catalog (c_child_thread_id c) d"
    and "\<forall>e\<in>set (execution_intents d). \<not> intent_clash (new_intent_row lib now key sid (c_child_thread_id c) (c_initial_state c) key) e"
  shows "create_intent_transaction lib now key sid (c_child_thread_id c) (c_initial_state c) key d
    = Inr (new_intent_row lib now key sid (c_child_thread_id c) (c_initial_state c) key,
        d\<lparr>execution_intents := execution_intents d @ [new_intent_row lib now key sid (c_child_thread_id c) (c_initial_state c) key]\<rparr>)"
proof -
  let ?e = "new_intent_row lib now key sid (c_child_thread_id c) (c_initial_state c) key"
  have e: "e_admission_key ?e = key" "e_thread_id ?e = c_child_thread_id c" "intent_check ?e"
    using assms(4) by (simp_all add: new_intent_row_def intent_check_def split: prod.split)
  have none: "fetch_execution_intent_row key d = None" "\<not> list_ex (\<lambda>e. e_thread_id e = c_child_thread_id c) (execution_intents d)"
    using assms(8) e by (auto simp: fetch_execution_intent_row_def list_ex_iff intent_clash_def)
  have "sql_insert intent_check intent_clash ?e (execution_intents d) = Inr (execution_intents d @ [?e])"
    using assms(8) e(3) by (simp add: sql_insert_eq_Inr)
  with assms(1-7) none show ?thesis by (simp add: create_intent_transaction_def Let_def require_def)
qed

lemma publish_checks:
  assumes inv: "thread_inv lib d" and p: "publishable lib sid clock c d"
    and iso: "instant_read_back lib c"
  shows "check_frozen_record lib c = Inr ()" "check_preconditions c d = Inr ()" "check_membership lib sid c d = Inr ()"
    "check_fork_completion lib sid c = Inr ()"
proof -
  have ok: "creation_ok lib c" using inv p by (simp add: thread_inv_defs publishable_def)
  from iso obtain t date where "lib_fromisoformat lib (c_child_created_at c) = Some t" "utc_date t = Inr date"
    "c_final_relative_locator c = thread_locator date (c_child_thread_id c)" unfolding instant_read_back_def by blast
  with ok p show "check_frozen_record lib c = Inr ()"
    by (simp add: check_frozen_record_def publishable_def creation_ok_def require_def)
  show "check_preconditions c d = Inr ()" "check_membership lib sid c d = Inr ()" "check_fork_completion lib sid c = Inr ()"
    using p by (simp_all add: publishable_def check_preconditions_def read_fence_row_def fetch_fence_row_def check_membership_def
        check_fork_completion_def require_def)
qed

lemma publish_body_succeeds:
  assumes inv: "thread_inv lib d" and p: "publishable lib sid clock c d" and sid: "check_session_id sid = Inr ()"
    and iso: "instant_read_back lib c"
  shows "\<exists>d'. publish_creation_body lib clock new_lease (c_key c) sid d
    = Inr (c\<lparr>c_state := ''published'', c_record_updated_at := clock 0\<rparr>, d')"
proof -
  let ?c = "c\<lparr>c_state := ''published'', c_record_updated_at := clock 0\<rparr>"
  let ?f = "\<lambda>x. x\<lparr>c_state := ''published'', c_record_updated_at := clock 0\<rparr>"
  let ?t = "map (\<lambda>x. if c_key x = c_key c then ?f x else x) (creation_records d)"
  have mem: "c \<in> set (creation_records d)" and ok: "creation_ok lib c" using inv p by (simp_all add: thread_inv_defs publishable_def)
  obtain g where g: "graph_binding_from_creation_json lib (c_graph_binding c) = Inr g" using ok unfolding creation_ok_def by blast
  let ?row = "new_thread_row (c_child_thread_id c) ''child'' (c_child_created_at c) g"
  let ?b = "new_owner_binding_row (c_child_thread_id c) (c_final_relative_locator c) (clock 1) (clock 2)"
  let ?e = "new_intent_row lib (clock 4) (c_key c) sid (c_child_thread_id c) (c_initial_state c) (c_key c)"
  let ?d1 = "d\<lparr>thread_catalog := thread_catalog d @ [?row]\<rparr>"
  let ?d2 = "?d1\<lparr>creation_records := ?t\<rparr>"
  let ?d3 = "?d2\<lparr>owner_bindings := owner_bindings d @ [?b]\<rparr>"
  have rev: "sql_int (graph_revision g) = Inr ()" using p binding_json_revision [OF g] g by (simp add: publishable_def)
  have cat: "sql_insert thread_row_check thread_row_clash ?row (thread_catalog d) = Inr (thread_catalog d @ [?row])"
    using p binding_json_revision [OF g]
    by (auto simp: sql_insert_eq_Inr thread_row_check_def thread_row_clash_def new_thread_row_def publishable_def in_catalog_def list_ex_iff)
  have chk: "creation_check ?c" using ok by (simp add: creation_ok_def creation_check_def cong: option.case_cong)
  have upd: "creation_update (c_key c) ?f ?d1 = Inr (?c, ?d2)" using creation_update_unique [OF inv mem, of ?f ?d1] chk by simp
  have binding: "owner_binding_check ?b" "b_thread_id ?b = c_child_thread_id c"
    using new_binding_ok unfolding binding_ok_def by (blast, simp add: new_owner_binding_row_def)
  then have bind: "insert_thread_owner_binding_row (c_child_thread_id c) (c_final_relative_locator c) (clock 1) (clock 2) ?d2 = Inr ?d3"
    using p by (auto simp: insert_thread_owner_binding_row_def sql_insert_def owner_binding_clash_def publishable_def list_ex_iff)
  have fetch: "fetch_creation_record (c_key c) d0 = Some ?c" if "creation_records d0 = ?t" for d0
    using creation_update_Inr(3) [OF upd] that by (simp add: fetch_creation_record_def)
  have "create_intent_transaction lib (clock 4) (c_key c) sid (c_child_thread_id ?c) (c_initial_state ?c) (c_key c) ?d3
      = Inr (?e, ?d3\<lparr>execution_intents := execution_intents d @ [?e]\<rparr>)"
    by (subst publish_intent) (use ok p sid fetch in \<open>auto simp: creation_ok_def creation_check_def publishable_def in_catalog_def new_thread_row_def\<close>)
  with publish_checks [OF inv p iso] fetch_creation_unique [OF inv mem] p g rev cat upd bind fetch
  show ?thesis by (simp add: publish_creation_body_def publishable_def publish_member_def del: sql_int_eq_Inr)
qed

text \<open>
  C8: a prepared task without delegation can be published: on a free connection, if its artifacts are frozen, the fence is as
  captured, the graph revision fits a column of SQLite and nothing else has taken its identities, publishing succeeds and the
  child is then visible under its frozen locator. The library must read the printed instant of the record on the day of its
  locator.
\<close>

theorem publishing_succeeds:
  assumes inv: "store_inv lib (db s)" and p: "publishable lib sid clock c (db s)" and sid: "check_session_id sid = Inr ()"
    and free: "begin_immediate s = Inr ()" and fresh: "new_lease \<notin> issued"
    and iso: "instant_read_back lib c"
  shows "\<exists>c' s'. publish_thread_creation_record lib clock new_lease (c_key c) sid s = (Inr c', s')
     \<and> c_state c' = ''published'' \<and> control_step lib issued s s'
     \<and> get_published_child_thread_locator lib (c_child_thread_id c) s' = (Inr (c_final_relative_locator c), s')"
proof -
  let ?c = "c\<lparr>c_state := ''published'', c_record_updated_at := clock 0\<rparr>"
  have tinv: "thread_inv lib (db s)" using inv by (simp add: store_inv_def)
  have mem: "c \<in> set (creation_records (db s))" using p by (simp add: publishable_def)
  obtain d' where body: "publish_creation_body lib clock new_lease (c_key c) sid (db s) = Inr (?c, d')"
    using publish_body_succeeds [OF tinv p sid iso] by blast
  have key: "validate_thread_creation_key (c_key c) = Inr ()" using tinv mem by (simp add: thread_inv_defs creation_ok_def)
  let ?s = "s\<lparr>db := d'\<rparr>"
  have run: "publish_thread_creation_record lib clock new_lease (c_key c) sid s = (Inr ?c, ?s)"
    using body key free by (simp add: publish_thread_creation_record_def checked_def write_transaction_def)
  have step: "control_step lib issued s ?s" using t_publish [OF fresh, of lib s clock "c_key c" sid] run by (auto intro: s_thread)
  with inv have inv': "store_inv lib d'" using threads.inv_step [OF step] by simp
  from publish_outcome(1) [OF body fresh] obtain c0 where "thread_published lib (db s) c0 d'" "c_key c0 = c_key c" by blast
  moreover from this have "c0 = c" using thread_inv_unique(1) [OF tinv mem] by (simp add: thread_published_def)
  ultimately obtain g where "thread_catalog d' = thread_catalog (db s) @ [new_thread_row (c_child_thread_id c) ''child'' (c_child_created_at c) g]"
    unfolding thread_published_def by blast
  then have row: "new_thread_row (c_child_thread_id c) ''child'' (c_child_created_at c) g \<in> set (thread_catalog d')" by simp
  obtain c1 date where c1: "c1 \<in> set (creation_records d')" "c_child_thread_id c1 = c_child_thread_id c" "check_thread_id (c_child_thread_id c) = Inr ()"
    "published_child_thread_locator_of lib (c_child_thread_id c) d' = Inr (c_final_relative_locator c1)"
    by (rule locate_child [OF inv' row]) (simp_all add: new_thread_row_def)
  have "thread_order lib (db s) d'" using threads_later [OF r_into_rtranclp, OF step inv] by simp
  with mem obtain c2 where c2: "c2 \<in> set (creation_records d')" "frozen_creation c2 = frozen_creation c"
    unfolding thread_order_def creation_kept_def by blast
  have "distinct (map c_child_thread_id (creation_records d'))" using inv' by (simp add: store_inv_def thread_inv_defs)
  with c1 c2 frozen_creation_fields(2) [OF c2(2)] have "c1 = c2" by (auto simp: distinct_map inj_on_def)
  with c1 frozen_creation_fields(4) [OF c2(2)] free
  have "get_published_child_thread_locator lib (c_child_thread_id c) ?s = (Inr (c_final_relative_locator c), ?s)"
    by (auto simp: get_published_child_thread_locator_def checked_def read_op_def ensure_open_def require_def begin_immediate_def)
  with run step show ?thesis by fastforce
qed

end
