(* ===== verification/Thread_Sample.thy ===== *)
theory Thread_Sample
  imports Thread_Correct Session_Control_Correct
begin

section \<open>The properties of threads at concrete inputs\<close>

text \<open>
  A database with a prepared task and one with the published child, for a small library of the
  standard functions, and the properties of \<open>Thread_Correct\<close> applied to them.
\<close>

definition sample_time :: py_datetime where
  "sample_time = \<lparr>dt_year = 1970, dt_month = 1, dt_day = 1, dt_hour = 0, dt_minute = 0, dt_second = 0, dt_microsecond = 0,
     dt_utcoffset = Some 0\<rparr>"

definition sample_lib :: py_library where
  "sample_lib = \<lparr>lib_floats = \<lparr>float_value = (\<lambda>_. JNull), float_text = (\<lambda>_. [])\<rparr>,
     lib_runtime = \<lparr>repr_of = (\<lambda>_. []), int_of_str = (\<lambda>_. None)\<rparr>,
     lib_fromisoformat = (\<lambda>x. if x = isoformat sample_time then Some sample_time else None),
     lib_sha256 = (\<lambda>_. demo_hash), lib_digit = (\<lambda>c. if 48 \<le> c \<and> c \<le> 57 then Some (c - 48) else None)\<rparr>"

definition sample_child :: ustr where "sample_child = u ''thr_00000000000070008000000000000001''"
definition sample_locator :: ustr where "sample_locator = u ''threads/1970/01/01/thr_00000000000070008000000000000001''"
definition sample_digest :: ustr where "sample_digest = u ''sha256:'' @ demo_hash"

definition sample_fields :: obj where
  "sample_fields = [(u ''capability_profile_hash'', JStr sample_digest), (u ''graph_id'', JStr (u ''g'')),
     (u ''graph_revision'', JInt 1), (u ''graph_schema_hash'', JStr sample_digest)]"

definition sample_graph :: graph_binding where
  "sample_graph = \<lparr>graph_id = u ''g'', graph_revision = 1, graph_schema_hash = sample_digest, capability_profile_hash = sample_digest\<rparr>"

definition sample_record :: "string \<Rightarrow> creation_record" where
  "sample_record st =
     \<lparr>c_key = u ''task-1'', c_state = st, c_preimage_hash = u ''h'', c_delegation_id = None, c_child_thread_id = sample_child,
      c_final_relative_locator = sample_locator, c_staging_locator = u ''.staging/task-1'', c_artifact_manifest = Some (u ''{}''),
      c_artifact_manifest_hash = Some demo_hash, c_graph_binding = json_text (lib_floats sample_lib) (JObj sample_fields),
      c_capability_profile = u ''{}'', c_task_seed = None, c_task_reference = None, c_owner_generation = 1, c_catalog_revision = 1,
      c_collaboration_revision = None, c_membership_preimage_hash = None, c_initial_state = ''idle'', c_admission_intent = None,
      c_abort_reason = None, c_child_created_at = isoformat sample_time, c_record_created_at = u ''t0'', c_record_updated_at = u ''t0'',
      c_purpose = ''task'', c_request_intent_json = None, c_fork_delivery_request_id = None, c_fork_completion_json = None\<rparr>"

definition sample_intent :: execution_intent where
  "sample_intent = new_intent_row sample_lib (u ''t1'') (u ''task-1'') demo_session sample_child ''idle'' (u ''task-1'')"

definition prepared_db :: control_db where
  "prepared_db = empty_db\<lparr>fence := Some \<lparr>f_state = ''active'', f_generation = 1\<rparr>, thread_catalog := [demo_main],
     creation_records := [sample_record ''preparing'']\<rparr>"

definition published_db :: "string \<Rightarrow> control_db" where
  "published_db fence_st = empty_db\<lparr>fence := Some \<lparr>f_state = fence_st, f_generation = 1\<rparr>,
     thread_catalog := [demo_main, new_thread_row sample_child ''child'' (isoformat sample_time) sample_graph],
     creation_records := [sample_record ''published''], execution_intents := [sample_intent],
     owner_bindings := [new_owner_binding_row sample_child sample_locator (u ''t1'') (u ''t1'')]\<rparr>"

subsection \<open>They are well formed\<close>

lemma sample_date: "utc_date sample_time = Inr (1970, 1, 1)" "uuid7_embedded_utc_date (drop 4 sample_child) = Inr (1970, 1, 1)"
proof -
  have day: "date_of_days 719162 = (1970, 1, 1)" by (simp add: date_of_days_def month_day.simps days_in_month_def Let_def)
  show "utc_date sample_time = Inr (1970, 1, 1)"
    by (simp add: utc_date_def utc_micros_def sample_time_def days_of_date_def days_before_year_def require_def day)
  have "hex_value (take 12 (drop 4 sample_child)) = 0" by code_simp
  then show "uuid7_embedded_utc_date (drop 4 sample_child) = Inr (1970, 1, 1)" by (simp add: uuid7_embedded_utc_date_def day)
qed

lemma sample_thread: "check_thread_id sample_child = Inr ()" "is_sha256_digest sample_digest"
  "sample_locator = thread_locator (1970, 1, 1) sample_child" "sample_child \<noteq> demo_thread"
  by code_simp+

lemma sample_slices:
  "slice 8 12 sample_locator = u ''1970''" "slice 13 15 sample_locator = u ''01''" "slice 16 18 sample_locator = u ''01''"
  "drop 19 sample_locator = sample_child" "length sample_locator = 55" "take 8 sample_locator = u ''threads/''"
  "sample_locator ! 12 = 47 \<and> sample_locator ! 15 = 47 \<and> sample_locator ! 18 = 47" "startswith sample_child (u ''thr_'')"
  "list_all lower_hex (drop 4 sample_child)"
  by code_simp+

lemma sample_match: "match_thread_locator (lib_digit sample_lib) sample_locator = Some (1970, 1, 1, sample_child)"
proof -
  have "digits_value (lib_digit sample_lib) (u ''1970'') = Some 1970" "digits_value (lib_digit sample_lib) (u ''01'') = Some 1"
    by (simp_all add: digits_value_def sample_lib_def u_def)
  then show ?thesis unfolding match_thread_locator_def sample_slices Let_def using sample_slices(7-9) by simp
qed

lemma sample_locator_ok: "validate_thread_relative_locator (lib_digit sample_lib) sample_locator = Inr ()"
  unfolding validate_thread_relative_locator_def sample_match option.case prod.case
  by (simp add: sample_thread(1) sample_date require_def days_in_month_def)

lemma sample_fields_ok: "plain (JObj sample_fields)" "printable (JObj sample_fields)" "sort_key fst sample_fields = sample_fields"
  by code_simp+

lemma sample_binding_read:
  "graph_binding_from_creation_json sample_lib (json_text (lib_floats sample_lib) (JObj sample_fields)) = Inr sample_graph"
proof -
  have "sort_json (JObj sample_fields) = JObj sample_fields" using sample_fields_ok(3) by (simp add: sample_fields_def)
  with json_round_trip [OF sample_fields_ok(1,2), of "lib_floats sample_lib"]
  have "loads sample_lib (json_text (lib_floats sample_lib) (JObj sample_fields)) = Some (JObj sample_fields)"
    by (simp only: loads_def)
  moreover have "strip (u ''g'') \<noteq> []" by (simp add: strip_def lstrip_def rstrip_def is_space_def u_def)
  ultimately show ?thesis
    by (auto simp: graph_binding_from_creation_json_def sample_fields_def jget_def u_def graph_binding_of_fields_def
        make_graph_binding_def require_def sample_thread sample_graph_def)
qed

lemma sample_key: "validate_thread_creation_key (u ''task-1'') = Inr ()"
  by code_simp

lemma sample_record_ok: "st \<in> {''preparing'', ''published''} \<Longrightarrow> creation_ok sample_lib (sample_record st)"
  using sample_thread(3) sample_date(1) sample_binding_read sample_locator_ok sample_key sample_thread(1)
  by (auto simp: creation_ok_def creation_check_def sample_record_def INITIAL_STATES_def)

lemma sample_db_inv:
  "db_inv (lib_sha256 sample_lib) prepared_db" "fence_st \<in> set FENCE_STATES \<Longrightarrow> db_inv (lib_sha256 sample_lib) (published_db fence_st)"
  using sample_thread(4) by (simp_all add: db_inv_def prepared_db_def published_db_def empty_db_def main_rows_def demo_main_def new_thread_row_def FENCE_STATES_def)

lemma sample_intent_ok:
  assumes "sample_record ''published'' \<in> set (creation_records d)"
  shows "intent_ok sample_lib d sample_intent"
  by (rule new_intent_ok [OF _ _ assms, where key = "u ''task-1''" and sid = demo_session and now = "u ''t1''"])
    (simp_all add: sample_record_def sample_intent_def intent_check_def new_intent_row_def INITIAL_STATES_def split: prod.split)

lemma prepared_inv: "store_inv sample_lib prepared_db"
proof -
  have rows: "creation_records prepared_db = [sample_record ''preparing'']" "execution_intents prepared_db = []" "owner_bindings prepared_db = []"
    "main_rows prepared_db = [demo_main]" "children prepared_db = []"
    by (simp_all add: prepared_db_def empty_db_def children_def main_rows_def demo_main_def)
  have "t_thread_id demo_main \<noteq> c_child_thread_id (sample_record ''preparing'')" "c_state (sample_record ''preparing'') = ''preparing''"
    using sample_thread(4) by (simp_all add: demo_main_def sample_record_def)
  with sample_record_ok [of "''preparing''"] sample_db_inv(1) show ?thesis by (simp add: store_inv_def thread_inv_defs rows)
qed

lemma published_inv:
  assumes "fence_st \<in> set FENCE_STATES"
  shows "store_inv sample_lib (published_db fence_st)"
proof -
  let ?d = "published_db fence_st"
  have rows: "creation_records ?d = [sample_record ''published'']" "execution_intents ?d = [sample_intent]"
    "owner_bindings ?d = [new_owner_binding_row sample_child sample_locator (u ''t1'') (u ''t1'')]" "main_rows ?d = [demo_main]"
    "children ?d = [new_thread_row sample_child ''child'' (isoformat sample_time) sample_graph]"
    by (simp_all add: published_db_def children_def main_rows_def demo_main_def new_thread_row_def)
  have rec: "c_child_thread_id (sample_record ''published'') = sample_child" "c_final_relative_locator (sample_record ''published'') = sample_locator"
    "c_child_created_at (sample_record ''published'') = isoformat sample_time" "c_state (sample_record ''published'') = ''published''"
    "c_graph_binding (sample_record ''published'') = json_text (lib_floats sample_lib) (JObj sample_fields)"
    by (simp_all add: sample_record_def)
  have "e_thread_id sample_intent = sample_child" by (simp add: sample_intent_def new_intent_row_def split: prod.split)
  moreover have "b_thread_id (new_owner_binding_row sample_child sample_locator (u ''t1'') (u ''t1'')) = sample_child"
    "b_final_relative_locator (new_owner_binding_row sample_child sample_locator (u ''t1'') (u ''t1'')) = sample_locator"
    by (simp_all add: new_owner_binding_row_def)
  ultimately have "publication_complete sample_lib ?d (sample_record ''published'')"
    unfolding publication_complete_def rows rec by (simp del: json_text.simps add: sample_binding_read)
  moreover have "t_thread_id demo_main \<noteq> sample_child" using sample_thread(4) by (simp add: demo_main_def)
  ultimately have "thread_inv sample_lib ?d"
    using sample_record_ok [of "''published''"] sample_intent_ok [of ?d] new_binding_ok
    by (simp add: thread_inv_defs rows rec new_thread_row_def)
  with sample_db_inv(2) [OF assms] show ?thesis by (simp add: store_inv_def)
qed

subsection \<open>The properties\<close>

theorem thread_tables_invariant_witness:
  "thread_inv sample_lib (db (snd (initialize_fence ''active'' 1 (demo_store empty_db))))"
  by (rule thread_tables_invariant [OF one_step [OF s_initialize_fence]]) simp

theorem visible_iff_published_witness:
  "(\<exists>t\<in>set (thread_catalog (db (snd (initialize_fence ''active'' 1 (demo_store empty_db))))). t_thread_id t = sample_child \<and> t_kind t = ''child'')
   \<longleftrightarrow> (\<exists>c\<in>set (creation_records (db (snd (initialize_fence ''active'' 1 (demo_store empty_db))))).
         c_child_thread_id c = sample_child \<and> c_state c = ''published'')"
  using visible_iff_published [OF one_step [OF s_initialize_fence [of sample_lib "{}" "demo_store empty_db" "''active''" 1]], of sample_child]
  by (simp only: demo_db_of)

definition slots_row :: owner_binding_row where
  "slots_row = new_owner_binding_row sample_child [] (u ''t'') (u ''t'')"

definition slots_store :: control_store where
  "slots_store = demo_store (empty_db\<lparr>owner_bindings := [slots_row]\<rparr>)"

lemma slots_step: "control_step sample_lib {} (demo_store empty_db) slots_store"
proof -
  obtain ob where ob: "owner_binding_from_row sample_lib slots_row = Inr ob"
    unfolding slots_row_def using binding_read [OF new_binding_ok] by metis
  have "insert_thread_owner_binding_row sample_child [] (u ''t'') (u ''t'') empty_db = Inr (empty_db\<lparr>owner_bindings := [slots_row]\<rparr>)"
    using new_binding_ok [of sample_lib sample_child "[]" "u ''t''" "u ''t''"]
    by (simp add: insert_thread_owner_binding_row_def sql_insert_def empty_db_def slots_row_def binding_ok_def)
  moreover have "fetch_owner_binding sample_child (empty_db\<lparr>owner_bindings := [slots_row]\<rparr>) = Some slots_row"
    "fetch_owner_binding sample_child empty_db = None"
    by (simp_all add: fetch_owner_binding_def slots_row_def new_owner_binding_row_def select_one_singleton empty_db_def)
  ultimately have "ensure_owner_binding_body sample_lib (u ''t'') sample_child [] empty_db = Inr (ob, empty_db\<lparr>owner_bindings := [slots_row]\<rparr>)"
    using ob by (simp add: ensure_owner_binding_body_def)
  then have "ensure_thread_owner_binding sample_lib (u ''t'') sample_child [] (demo_store empty_db) = (Inr ob, slots_store)"
    using sample_thread(1) demo_free [of empty_db]
    by (simp add: ensure_thread_owner_binding_def checked_def write_transaction_def slots_store_def) (simp add: demo_store_def)
  then show ?thesis using s_thread [OF t_ensure_binding [of sample_lib "{}" "demo_store empty_db" "u ''t''" sample_child "[]"]] by simp
qed

lemma slots_inv: "store_inv sample_lib (db slots_store)"
  using reachable_store_inv [OF one_step [OF slots_step]] by simp

theorem owner_slots_well_typed_witness:
  "\<exists>ob. owner_binding_from_row sample_lib slots_row = Inr ob \<and> ob_row ob = slots_row \<and> length (ob_lists ob) = 6
    \<and> list_all (list_all well_typed_entry) (ob_lists ob)"
  by (rule owner_slots_well_typed [OF one_step [OF slots_step]]) (simp_all add: slots_store_def)

theorem visible_child_has_locator_witness:
  "\<exists>c\<in>set (creation_records (published_db ''active'')). c_child_thread_id c = sample_child
     \<and> get_published_child_thread_locator sample_lib sample_child (demo_store (published_db ''active''))
       = (Inr (c_final_relative_locator c), demo_store (published_db ''active''))
     \<and> (\<exists>date. c_final_relative_locator c = thread_locator date sample_child)"
  using visible_child_has_locator [of sample_lib "demo_store (published_db ''active'')"
      "new_thread_row sample_child ''child'' (isoformat sample_time) sample_graph"] published_inv [of "''active''"]
  by (simp add: FENCE_STATES_def demo_store_def published_db_def new_thread_row_def)

theorem creation_record_is_frozen_witness:
  "\<exists>c'\<in>set (creation_records (db (snd (abort_thread_creation_record sample_lib (\<lambda>_. u ''t2'') (u ''lease_1'') (u ''task-1'') (u ''r'')
      (demo_store (published_db ''active'')))))). frozen_creation c' = frozen_creation (sample_record ''published'') \<and> c_state c' = ''published''"
proof -
  have c: "sample_record ''published'' \<in> set (creation_records (db (demo_store (published_db ''active''))))" by (simp add: published_db_def)
  have "store_inv sample_lib (db (demo_store (published_db ''active'')))" using published_inv by (simp add: FENCE_STATES_def)
  moreover have "control_step sample_lib {} (demo_store (published_db ''active'')) (snd (abort_thread_creation_record sample_lib (\<lambda>_. u ''t2'')
      (u ''lease_1'') (u ''task-1'') (u ''r'') (demo_store (published_db ''active''))))" by (intro s_thread t_abort) simp
  ultimately show ?thesis using creation_record_is_frozen [OF _ one_step c] by (fastforce simp: sample_record_def)
qed

theorem intent_is_bound_once_witness:
  "\<exists>e'\<in>set (execution_intents (db (snd (claim_initial_execution_intent sample_lib (u ''t2'') (u ''task-1'') (u ''worker'') 1
      (demo_store (published_db ''active'')))))). frozen_intent e' = frozen_intent sample_intent"
proof -
  have e: "sample_intent \<in> set (execution_intents (db (demo_store (published_db ''active''))))" by (simp add: published_db_def)
  have "store_inv sample_lib (db (demo_store (published_db ''active'')))" using published_inv by (simp add: FENCE_STATES_def)
  moreover have "control_step sample_lib {} (demo_store (published_db ''active'')) (snd (claim_initial_execution_intent sample_lib (u ''t2'')
      (u ''task-1'') (u ''worker'') 1 (demo_store (published_db ''active''))))" by (intro s_thread t_claim_intent)
  ultimately show ?thesis using intent_is_bound_once [OF _ one_step e] by blast
qed

theorem closed_fence_stops_threads_witness:
  "\<exists>e. publish_thread_creation_record sample_lib (\<lambda>_. u ''t2'') (u ''lease_1'') (u ''task-1'') demo_session (demo_store (published_db ''deleting''))
     = (Inl e, demo_store (published_db ''deleting''))"
proof -
  have inv: "store_inv sample_lib (db (demo_store (published_db ''deleting'')))" using published_inv by (simp add: FENCE_STATES_def)
  have "fence (db (demo_store (published_db ''deleting''))) = Some \<lparr>f_state = ''deleting'', f_generation = 1\<rparr>" by (simp add: published_db_def)
  from closed_fence_stops_threads [OF inv this _ rtranclp.rtrancl_refl] show ?thesis by simp
qed

definition sample_entry :: obj where
  "sample_entry = [(u ''kind'', JStr (u ''image'')), (u ''size'', JInt 3)]"

definition sample_update :: binding_update where
  "sample_update = \<lparr>ub_expected_revision = Some 1, ub_prefix_epoch = None, ub_prefix_epoch_reason = None, ub_stable_prefix_hash = None,
     ub_stable_prefix_length = None, ub_resource_activation_snapshot_ref = None, ub_assembly_parent_ref = None,
     ub_mutation_provenance = None, ub_append = (\<lambda>sl. if sl = Variant then Some sample_entry else None)\<rparr>"

lemma sample_args: "dict_update_args sample_update" "requested_appends sample_update = [(Variant, sample_entry)]"
  "check_update_fields sample_lib sample_update = Inr None" "printable (JArr [JObj sample_entry])"
proof -
  show req: "requested_appends sample_update = [(Variant, sample_entry)]" by code_simp
  have "map fold_case (u ''kind'') = u ''kind''" "map fold_case (u ''size'') = u ''size''" by (simp_all add: fold_case_def u_def)
  moreover have "\<not> list_ex (\<lambda>w. contains (u w) (u ''kind'') \<or> contains (u w) (u ''size''))
      [''password'', ''secret'', ''token'', ''api_key'', ''credential'']" by code_simp
  ultimately have "\<not> credential_key (u ''kind'')" "\<not> credential_key (u ''size'')" by (simp_all add: credential_key_def)
  moreover have "validate_ref_text (u ''image'') = Inr ()" by code_simp
  ultimately have "validate_json_entry (JObj sample_entry) = Inr sample_entry"
    by (simp add: validate_json_entry_def sample_entry_def validate_entry_item_def require_def u_def)
  with req show "check_update_fields sample_lib sample_update = Inr None"
    by (simp add: check_update_fields_def check_appends_def check_epoch_def check_stable_prefix_def check_ref_def provenance_text_def
        require_def) (simp add: sample_update_def)
  show "dict_update_args sample_update" by (simp add: dict_update_args_def sample_update_def sample_entry_def u_def)
  show "printable (JArr [JObj sample_entry])" by code_simp
qed

lemma sample_update_ok: "\<not> isl (fst (update_thread_owner_binding sample_lib (u ''t1'') sample_child sample_update slots_store))"
proof -
  let ?x = "json_text (lib_floats sample_lib) (JArr [JObj sample_entry])"
  let ?new = "updated_binding (u ''t1'') sample_update None [(Variant, ?x)] slots_row"
  have "slot_text Variant slots_row = u ''[]''" by (simp add: slots_row_def new_owner_binding_row_def)
  then have "appended_text sample_lib (slot_text Variant slots_row) sample_entry = Inr ?x"
    using slot_holds_loads [OF empty_slot, of sample_lib] sample_args(4) by (simp add: appended_text_def dumps_def del: json_text.simps printable.simps)
  then have slots: "appended_slots sample_lib slots_row (requested_appends sample_update) = Inr [(Variant, ?x)]"
    by (simp add: appended_slots_def sample_args(2) del: json_text.simps)
  have row: "b_thread_id slots_row = sample_child" "b_revision slots_row = 1" "binding_ok sample_lib slots_row"
    by (simp_all add: slots_row_def new_binding_ok) (simp_all add: new_owner_binding_row_def)
  have chk: "owner_binding_check ?new"
    by (simp add: owner_binding_check_def updated_binding_def sample_update_def override_def slots_row_def new_owner_binding_row_def
        EPOCH_REASONS_def del: json_text.simps)
  have mv: "binding_move sample_lib slots_row ?new" by (rule updated_binding_move [OF row(3) sample_args(1,3) slots chk])
  then have new: "binding_ok sample_lib ?new" "b_thread_id ?new = sample_child" using row by (simp_all add: binding_move_def)
  obtain ob where ob: "owner_binding_from_row sample_lib ?new = Inr ob" using binding_read [OF new(1)] by metis
  let ?d = "empty_db\<lparr>owner_bindings := [slots_row]\<rparr>"
  have upd: "sql_update owner_binding_check (\<lambda>r. b_thread_id r = sample_child) (updated_binding (u ''t1'') sample_update None [(Variant, ?x)]) [slots_row]
      = Inr (1, [?new])" using chk row(1) by (simp add: sql_update_def del: json_text.simps)
  have fetch: "fetch_owner_binding sample_child (d\<lparr>owner_bindings := [b]\<rparr>) = Some b" if "b_thread_id b = sample_child" for d b
    using that by (simp add: fetch_owner_binding_def select_one_singleton)
  have ints: "ub_expected_revision sample_update = Some 1" "ub_prefix_epoch sample_update = None" "ub_stable_prefix_length sample_update = None"
    by (simp_all add: sample_update_def)
  have "update_owner_binding_body sample_lib (u ''t1'') sample_child sample_update None ?d = Inr (ob, ?d\<lparr>owner_bindings := [?new]\<rparr>)"
    using fetch [OF row(1), of empty_db] fetch [OF new(2), of empty_db] slots upd ob row(2) ints
    by (simp add: update_owner_binding_body_def require_def sql_int_opt_def del: json_text.simps)
  then show ?thesis using sample_thread(1) sample_args(3) demo_free [of ?d]
    by (simp add: update_thread_owner_binding_def checked_def write_transaction_def slots_store_def del: json_text.simps)
qed

theorem appended_entry_is_read_back_witness:
  "\<exists>b0 b2 es more. fst (get_thread_owner_binding sample_lib sample_child slots_store) = Inr b0
     \<and> get_thread_owner_binding sample_lib sample_child (snd (update_thread_owner_binding sample_lib (u ''t1'') sample_child sample_update slots_store))
       = (Inr b2, snd (update_thread_owner_binding sample_lib (u ''t1'') sample_child sample_update slots_store))
     \<and> (Variant, es) \<in> set (zip append_columns (ob_lists b0))
     \<and> (Variant, es @ [sort_key fst sample_entry] @ more) \<in> set (zip append_columns (ob_lists b2))"
proof (rule appended_entry_is_read_back [OF slots_inv sample_args(1) _ succeeds [OF sample_update_ok] rtranclp.rtrancl_refl])
  show "ub_append sample_update Variant = Some sample_entry" by (simp add: sample_update_def)
  show "\<not> closed (snd (update_thread_owner_binding sample_lib (u ''t1'') sample_child sample_update slots_store))"
    by (simp add: update_thread_owner_binding_def checked_def write_transaction_def slots_store_def demo_store_def split: sum.split prod.split)
qed

lemma sample_publishable: "publishable sample_lib demo_session (\<lambda>_. u ''t1'') (sample_record ''preparing'') prepared_db"
  using sample_thread(4)
  by (simp add: publishable_def prepared_db_def empty_db_def sample_record_def in_catalog_def demo_main_def sample_binding_read
      sample_graph_def del: json_text.simps)

theorem publishing_succeeds_witness:
  "\<exists>c' s'. publish_thread_creation_record sample_lib (\<lambda>_. u ''t1'') (u ''lease_1'') (c_key (sample_record ''preparing'')) demo_session
       (demo_store prepared_db) = (Inr c', s')
     \<and> c_state c' = ''published'' \<and> control_step sample_lib {} (demo_store prepared_db) s'
     \<and> get_published_child_thread_locator sample_lib (c_child_thread_id (sample_record ''preparing'')) s'
       = (Inr (c_final_relative_locator (sample_record ''preparing'')), s')"
proof (rule publishing_succeeds)
  show "store_inv sample_lib (db (demo_store prepared_db))" "publishable sample_lib demo_session (\<lambda>_. u ''t1'') (sample_record ''preparing'') (db (demo_store prepared_db))"
    by (simp_all add: prepared_inv sample_publishable)
  show "check_session_id demo_session = Inr ()" "begin_immediate (demo_store prepared_db) = Inr ()" by (rule demo_ids demo_free)+
  have "lib_fromisoformat sample_lib (isoformat sample_time) = Some sample_time" by (simp add: sample_lib_def)
  then show "instant_read_back sample_lib (sample_record ''preparing'')"
    unfolding instant_read_back_def using sample_date(1) sample_thread(3) by (simp add: sample_record_def)
qed simp

definition sample_request :: creation_request where
  "sample_request = \<lparr>q_key = u ''task-1'', q_initial_state = ''idle'', q_preimage_hash = u ''h'',
     q_graph_binding = json_text (lib_floats sample_lib) (JObj sample_fields), q_capability_profile = u ''{}'', q_created_at = None,
     q_thread_id = None, q_delegation_id = None, q_task_seed = None, q_task_reference = None, q_owner_session_id = None,
     q_member = None, q_purpose = ''task'', q_request_intent_json = None, q_fork_delivery_request_id = None\<rparr>"

lemma sample_request_valid: "validate_creation_request sample_lib sample_request = Inr ()"
proof -
  have "u ''{}'' = json_text (lib_floats sample_lib) (JObj [])" by (simp add: u_def)
  then have "loads sample_lib (u ''{}'') = Some (JObj [])" using json_round_trip [of "JObj []" "lib_floats sample_lib"] by (simp only: loads_def) simp
  then have "validate_frozen_json_text sample_lib (u ''{}'') = Inr ()" by (simp add: validate_frozen_json_text_def require_def u_def is_obj_def)
  moreover have "validate_frozen_json_text sample_lib (json_text (lib_floats sample_lib) (JObj sample_fields)) = Inr ()"
    using json_round_trip [OF sample_fields_ok(1,2), of "lib_floats sample_lib"]
    by (simp add: validate_frozen_json_text_def require_def loads_def is_obj_def)
  ultimately show ?thesis
    using sample_key sample_binding_read
    by (simp add: validate_creation_request_def check_frozen_texts_def check_purpose_def check_fixture_def check_member_def sample_request_def
        validate_optional_frozen_json_text_def require_def INITIAL_STATES_def u_def del: json_text.simps)
qed

lemma sample_first:
  "create_or_get_thread_creation_record sample_lib (\<lambda>_. u ''t1'') (u ''thr_x'') (u ''lease_1'') sample_request (demo_store prepared_db)
     = (Inr (sample_record ''preparing''), demo_store prepared_db)"
proof -
  have "fetch_creation_record (q_key sample_request) prepared_db = Some (sample_record ''preparing'')"
    by (simp add: fetch_creation_record_def prepared_db_def sample_request_def sample_record_def select_one_singleton del: json_text.simps)
  moreover have "check_existing_creation sample_lib sample_request (sample_record ''preparing'') prepared_db = Inr ()"
  proof -
    have "q_member sample_request = None" "request_matches sample_request (sample_record ''preparing'')"
      by (simp_all add: request_matches_def sample_request_def sample_record_def del: json_text.simps)
    with check_existing_plain show ?thesis by blast
  qed
  ultimately show ?thesis using sample_request_valid demo_free [of prepared_db]
    by (simp add: create_or_get_thread_creation_record_def checked_def write_transaction_def create_creation_body_def)
qed

theorem child_is_created_once_witness:
  "\<exists>c2. create_or_get_thread_creation_record sample_lib (\<lambda>_. u ''t2'') (u ''thr_y'') (u ''lease_2'') sample_request (demo_store prepared_db)
      = (Inr c2, demo_store prepared_db) \<and> frozen_creation c2 = frozen_creation (sample_record ''preparing'')"
  using child_is_created_once [OF _ _ sample_first rtranclp.rtrancl_refl demo_free, of "{}" "\<lambda>_. u ''t2''" "u ''thr_y''" "u ''lease_2''"]
  by (auto simp: prepared_inv sample_request_def)

end
