(* ===== verification/Spec2Isabelle.thy ===== *)
theory Spec2Isabelle
  imports Text_Mutation_Correct Text_Content Message_Stream_Replay Resource_Uri_Correct Session_Control_Correct
    Thread_Sample
begin

text \<open>
  \<^bold>\<open>BoxTeam agent backend: a verification development of its Python core.\<close>

  The backend under \<^verbatim>\<open>app/\<close> runs agent sessions. A session has a control database (one SQLite file) that
  says who may work on it, which messages it owes to other sessions and which child threads it has; a turn of an agent emits events
  that are folded into a state tree for the user interface; resources are named by \<^verbatim>\<open>boxteam://\<close> URIs;
  and the agent edits the workspace with textual patches that are published file by file. The six parts
  are modelled one after the other. Data classes are records, \<^verbatim>\<open>raise\<close> is the left side of a sum, a method of a stateful object maps
  the state to a result and the new state, and every definition can be executed.

  \<^bold>\<open>Shared theories.\<close> \<open>Py_Prelude\<close>: strings as code point lists with the \<^verbatim>\<open>str\<close> methods the code calls,
  result bind, fact collections. \<open>Py_Json\<close>: JSON values with Python's truth value, equality and
  conversions. \<open>Sqlite_Table\<close>: rows, constraints, \<^verbatim>\<open>INSERT\<close>/\<^verbatim>\<open>UPDATE\<close>/\<^verbatim>\<open>DELETE\<close>, and two locales for
  systems that make steps: \<open>step_invariant\<close> (what a step keeps, a history keeps) and \<open>step_order\<close> (rows
  never disappear and only move along an order). \<open>Edit_Distance\<close>: the recursive edit distance.

  \<^bold>\<open>1. Session control store\<close> (\<^verbatim>\<open>app/core/session_control_*\<close>).
  \<^item> \<open>Session_Control\<close>: connection and transactions (\<^verbatim>\<open>session_control_store/__init__.py\<close>), the lifecycle
    fence and the thread catalog (\<^verbatim>\<open>thread_catalog.py\<close>). The state \<open>control_store\<close> holds the object's
    flags and \<open>control_db\<close>, one table per SQL table.
  \<^item> \<open>Operation_Lease\<close>: leases with fencing tokens (\<^verbatim>\<open>operation_lease.py\<close>, \<^verbatim>\<open>session_lifecycle_gate.py\<close>).
  \<^item> \<open>Communication_Ledger\<close>: the outbox of the sender and the inbox of the receiver
    (\<^verbatim>\<open>outbox_writes.py\<close>, \<^verbatim>\<open>inbox_writes.py\<close>, \<^verbatim>\<open>reads.py\<close>, \<^verbatim>\<open>validation.py\<close>, \<^verbatim>\<open>records.py\<close>).
  \<^item> \<open>Session_Control_Spec\<close>: what may happen to a lease, an outbox row, an inbox row and the whole database,
    without arguments, checks or SQL; the invariant \<open>db_inv\<close>; and \<open>control_step\<close>, one rule per operation
    of the code, interleaved with the moves of other processes on the same file.
  \<^item> \<open>Session_Control_Refinement\<close>: every operation implements the specification.
    \<open>Session_Control_History\<close>: interpretations of \<open>step_order\<close> for leases, fence, outbox and inbox.
  \<^item> \<open>Session_Control_Correct\<close>: a takeover locks out the old holder for ever, terminal leases stay, a fence
    that says \<^verbatim>\<open>deleting\<close> stays, a message is recorded once however often it is sent, claims and bindings
    of the inbox are kept, replies answer messages that were received.

  \<^bold>\<open>2. Child threads\<close> (\<^verbatim>\<open>session_control_store/\<close> and \<^verbatim>\<open>session_control_thread_owner_binding/\<close>), further tables of the
  same control database.
  \<^item> \<open>Py_Json_Text\<close>: \<^verbatim>\<open>json.dumps\<close> in canonical form and \<^verbatim>\<open>json.loads\<close> as a scanner, with the round trip.
  \<^item> \<open>Thread_Owner_Binding\<close>: the slots of a thread, lists of JSON objects (\<^verbatim>\<open>thread_owner_binding.py\<close>).
    \<open>Collaboration\<close>, \<open>Collaboration_Fanout\<close>: members of a team, the ledger, and the fan-out that freezes each change for
    its recipients (\<^verbatim>\<open>collaboration.py\<close>, \<^verbatim>\<open>collaboration_fanout.py\<close>).
    \<open>Execution_Intent\<close>: the right to start the first execution of a child, claimed and bound once
    (\<^verbatim>\<open>execution_intent.py\<close>). \<open>Thread_Creation\<close>: creation records with frozen child, locator, graph binding and artifacts
    (\<^verbatim>\<open>thread_creation_record.py\<close>). \<open>Thread_Publish\<close>: publishing, which makes the child visible and writes all these tables
    in one transaction, and aborting (\<^verbatim>\<open>thread_creation_publish.py\<close>).
  \<^item> \<open>Thread_Step\<close>: one step per writing method. \<open>Thread_Spec\<close>: what may happen to records, intents and slots, and
    the invariant \<open>thread_inv\<close> of the tables. \<open>Thread_Frame\<close>, \<open>Thread_Slots\<close> and \<open>Thread_Effect\<close>: every method does one
    of these changes and keeps to its tables, so that the store of part 1 keeps its properties.
    \<open>Thread_History\<close>: the interpretations of \<open>step_invariant\<close> and \<open>step_order\<close> for the whole store.
  \<^item> \<open>Thread_Correct\<close>: a child is visible exactly when it is published, and then complete; records, intents and slots
    keep what was frozen; a closed fence stops creation; a repeated request returns the same child; a
    prepared task can be published. \<open>Thread_Sample\<close>: a concrete session in which all of this happens.

  \<^bold>\<open>3. Message stream\<close> (\<^verbatim>\<open>app/domain/message_stream/projection.py\<close>). \<open>Message_Stream_Projection\<close> is the fold
  of one event into the turn's state; \<open>_Convergence\<close>: a terminal event leaves no entity open; \<open>_Growth\<close>:
  replaying never drops a run, block, tool or terminal; \<open>_Bounds\<close>: the texts stay within the documented
  limits; \<open>_Replay\<close>: deltas extend their block and lifecycle marks are idempotent and monotone.

  \<^bold>\<open>4. Resource URIs\<close> (\<^verbatim>\<open>app/core/resource_uri.py\<close>, \<^verbatim>\<open>app/core/identifier.py\<close>). \<open>Utf8_Quote\<close> is the strict UTF-8
  codec with percent encoding and its round trip; \<open>Resource_Uri\<close> the grammar and the builders;
  \<open>Resource_Uri_Correct\<close> shows that parsing inverts building, that a display form reparses to itself and
  that a child URI extends its parent.

  \<^bold>\<open>5. Text patches\<close> (\<^verbatim>\<open>app/services/infrastructure/workspace_files/text_patch/\<close>). \<open>Text_Patch_Models\<close>,
  \<open>Text_Patch_Matcher\<close> (\<^verbatim>\<open>matcher.py\<close>: finding a context with growing fuzz) and \<open>Text_Patch_Parser\<close>
  (\<^verbatim>\<open>parser.py\<close>) are the code; \<open>Text_Patch_Apply\<close> shows that chunks replace the lines they name and can be
  undone, \<open>Text_Patch_Termination\<close> when the parser returns, \<open>Text_Patch_Commit\<close> that a commit touches
  declared files only and that added files round-trip.

  \<^bold>\<open>6. Text mutations\<close> (\<^verbatim>\<open>text_publication.py\<close>, \<^verbatim>\<open>text_mutation.py\<close>, \<^verbatim>\<open>text_patch/executor.py\<close>,
  \<^verbatim>\<open>text_owner.py\<close>, \<^verbatim>\<open>text_journal.py\<close> under \<^verbatim>\<open>app/services/infrastructure/workspace_files/\<close>).
  \<^item> \<open>Workspace_File\<close>: a file tree, system calls that other processes may interleave with and that may fail
    with or without effect, and on them the guarded read, publication and deletion of one file.
  \<^item> \<open>Text_Mutation\<close>: snapshots with version checks, preparing a patch, the publishing loop, the observing
    loop with its receipts, the journal, and the whole of \<^verbatim>\<open>execute_text_mutation\<close>.
  \<^item> \<open>Workspace_File_Correct\<close>: on a machine where nobody else writes, a target is left alone or gets the new
    content, whatever calls fail; the locale \<open>tree_relation\<close> carries such facts through the calls
    (interpretations \<open>same\<close>: nothing changes, and \<open>kept\<close>: only these paths change).
  \<^item> \<open>Text_Publication\<close>: what the two loops record and that the receipts are true. \<open>Text_Content\<close>: line
    endings survive a patch, an exact edit replaces one occurrence. \<open>Text_Mutation_Correct\<close>: versions are
    checked, a raise changes nothing, a successful patch is applied, which composes parts 5 and 6.

  \<^bold>\<open>Parameters.\<close> What the sources call and do not contain is an argument: \<open>sha\<close> (SHA-256), the clock, fresh
  identifiers and tokens, \<open>nfc\<close> (Unicode normalisation), \<open>digit_of\<close> (the decimal digits of the Unicode
  database), \<open>py_runtime\<close> (the \<^verbatim>\<open>repr\<close> of floats and containers, \<^verbatim>\<open>int()\<close> of a string), \<open>py_library\<close> (the
  former, SHA-256, the text of floats and \<^verbatim>\<open>datetime.fromisoformat\<close>, for part 2), \<open>machine\<close> (the
  operating system: other writers, faults, clock, inode numbers, temporary names) and \<open>surroundings\<close> (what
  the caller of a text mutation passes in: path owner, authorisation, lock). No property assumes anything
  of them beyond what its statement says, for example \<open>instant_read_back\<close>: the instant printed into a record is
  read back on the day of its locator. Texts are lists of Unicode scalar values: the
  encoding error of a lone surrogate is not modelled.

  \<^bold>\<open>Loops.\<close> The only loops that need not end are the two \<^verbatim>\<open>while\<close> loops of the patch parser; they are
  partial functions in the option monad and \<open>None\<close> is a run that never returns.
  \<open>parse_patch_terminates\<close> shows that they return for every text without a bare \<^verbatim>\<open>***\<close> line and
  \<open>parse_patch_hangs_on_bare_stars\<close> that this exception is real. The JSON scanner has fuel, twice the length of the text plus two; \<open>scan_value_fuel\<close>
  shows that more changes nothing, since every nested value consumes a character.

  \<^bold>\<open>Bounds.\<close> Python's integers are \<open>int\<close>; where the code binds one to an SQL parameter, \<open>sql_int\<close> raises
  \<^verbatim>\<open>OverflowError\<close> outside 64 bits. A temporary file is tried under at most \<open>TMP_MAX\<close> names.

  \<^bold>\<open>Not modelled.\<close> Rolling back a transaction of the caller that an operation joined (the operations here
  commit or roll back their own), journals damaged by other processes, opening the SQLite files, the recovery of the communication ledger from
  remote observations, committing a team's board and reading its events, the call-back that sends a
  committed fan-out, the service that runs the creation of a thread over directories and locks, background
  work, the session catalog; the rollout and job services,
  which orchestrate asynchronous tasks over these stores; model providers, gateway, HTTP interface,
  configuration and debugging adapters, which are glue to systems outside the repository; and the
  TypeScript user interface.
\<close>

end
